(* ===== verification/Prelude.thy ===== *)
theory Prelude
  imports Main "HOL-Library.Word" "HOL-Library.AList"
begin

text \<open>
  Shared vocabulary of the development: the collections of simplification facts, pointers and
  undefined behaviour, loops over the elements of a document, and the facts on association
  lists and on \<open>remove1\<close> that the component theories use.  Nothing here models a line of the
  program by itself.
\<close>

named_theorems reg_simps \<open>rewriting of the connection registry operations\<close>
named_theorems db_simps \<open>rewriting of the operations that talk to the database\<close>
named_theorems read_simps \<open>rewriting of the readers of stored documents\<close>
named_theorems hnd_simps \<open>rewriting of the protocol handlers\<close>

subsection \<open>Pointers and undefined behaviour\<close>

text \<open>
  A C++ pointer is null or the address of an object.  An operation that may dereference a freed
  pointer, or that runs into a failing \<open>CHECK\<close>, returns an option: \<open>None\<close> means that the
  program aborts or has undefined behaviour at this point.
\<close>

datatype ptr = nullptr | Addr nat

subsection \<open>Loops with an early exit\<close>

primrec opt_fold :: "('x \<Rightarrow> 'a \<Rightarrow> 'a option) \<Rightarrow> 'x list \<Rightarrow> 'a \<Rightarrow> 'a option" where
  "opt_fold f [] a = Some a"
| "opt_fold f (x # xs) a = (case f x a of None \<Rightarrow> None | Some a' \<Rightarrow> opt_fold f xs a')"

lemma opt_fold_append:
  "opt_fold f (xs @ ys) a = (case opt_fold f xs a of None \<Rightarrow> None | Some b \<Rightarrow> opt_fold f ys b)"
  by (induction xs arbitrary: a) (auto split: option.splits)

lemma opt_fold_Some_iff_all:
  assumes "\<And>x a. x \<in> set xs \<Longrightarrow> f x a \<noteq> None \<longleftrightarrow> P x"
  shows "opt_fold f xs a \<noteq> None \<longleftrightarrow> (\<forall>x \<in> set xs. P x)"
  using assms
proof (induction xs arbitrary: a)
  case Nil
  then show ?case by simp
next
  case (Cons x xs)
  have hd: "f x a \<noteq> None \<longleftrightarrow> P x" using Cons.prems by simp
  show ?case
  proof (cases "f x a")
    case None
    then show ?thesis using hd by simp
  next
    case (Some a')
    moreover have "opt_fold f xs a' \<noteq> None \<longleftrightarrow> (\<forall>x \<in> set xs. P x)"
      using Cons by auto
    ultimately show ?thesis using hd by simp
  qed
qed

subsection \<open>Numbers as text\<close>

text \<open>The conversions \<open>%u\<close> and \<open>%d\<close> of the formatted output.\<close>

fun decimal :: "nat \<Rightarrow> string" where
  "decimal n = (if n < 10 then [char_of (48 + n)] else decimal (n div 10) @ [char_of (48 + n mod 10)])"

declare decimal.simps [simp del]

definition decimal_int :: "int \<Rightarrow> string" where
  "decimal_int i = (if i < 0 then CHR ''-'' # decimal (nat (- i)) else decimal (nat i))"

abbreviation newline :: char where
  "newline \<equiv> CHR 0x0A"

subsection \<open>Association lists\<close>

text \<open>
  \<open>push_back\<close> is \<open>m[k].push_back(x)\<close> on a map of vectors: a missing key is created with an
  empty vector first.
\<close>

definition push_back :: "'k \<Rightarrow> 'x \<Rightarrow> ('k \<times> 'x list) list \<Rightarrow> ('k \<times> 'x list) list" where
  "push_back k x m = AList.update k ((case map_of m k of None \<Rightarrow> [] | Some xs \<Rightarrow> xs) @ [x]) m"

lemma keys_push_back: "fst ` set (push_back k x m) = insert k (fst ` set m)"
  by (auto simp: push_back_def dom_update)

lemma distinct_push_back:
  "distinct (map fst m) \<Longrightarrow> distinct (map fst (push_back k x m))"
  by (simp add: push_back_def distinct_update)

lemma map_of_push_back:
  "map_of (push_back k x m) k' =
     (if k' = k then Some ((case map_of m k of None \<Rightarrow> [] | Some xs \<Rightarrow> xs) @ [x])
      else map_of m k')"
  by (simp add: push_back_def update_conv')

lemma set_map_of_iff:
  "distinct (map fst m) \<Longrightarrow> (k, v) \<in> set m \<longleftrightarrow> map_of m k = Some v"
  by simp

lemma map_of_delete_iff:
  "map_of (AList.delete k m) k' = (if k' = k then None else map_of m k')"
  by (simp add: delete_conv')

lemma distinct_delete_keys: "distinct (map fst m) \<Longrightarrow> distinct (map fst (AList.delete k m))"
  by (rule distinct_delete)

lemma distinct_update_keys: "distinct (map fst m) \<Longrightarrow> distinct (map fst (AList.update k v m))"
  by (rule distinct_update)

text \<open>All the elements of the vectors of such a map, in iteration order.\<close>

definition all_values :: "('k \<times> 'x list) list \<Rightarrow> 'x list" where
  "all_values m = concat (map snd m)"

lemma set_all_values:
  "distinct (map fst m) \<Longrightarrow> x \<in> set (all_values m) \<longleftrightarrow> (\<exists>k xs. map_of m k = Some xs \<and> x \<in> set xs)"
  by (auto simp: all_values_def) force+

end
