(* ===== verification/Lib_Types.thy ===== *)
theory Lib_Types
  imports Prelude
begin

text \<open>
  What the program sees of the libraries it calls and whose sources are not in the repository
  (libbson, libmongoc, the fastotv protocol library and FastoGT's common library): the values
  those libraries hand to the code, as data, and the library functions, as the fields of
  parameter records.  Every definition of the development that calls such a function takes the
  record as an argument; what the code relies on is stated as a named hypothesis
  (\<open>bson_laws\<close>, \<open>store_laws\<close>) where a theorem needs it.
\<close>

section \<open>Errors\<close>

text \<open>
  \<open>common::Error\<close> and \<open>common::ErrnoError\<close> are optional error objects.  The constructors are
  the calls that build them: \<open>make_error_inval\<close>, \<open>make_error\<close>, \<open>make_error_from_errno\<close>,
  \<open>make_errno_error_inval\<close> and \<open>make_errno_error\<close>, the latter with a text or with the
  description of another error.
\<close>

datatype errno_code = EAGAIN | EINVAL | ENOENT | EINTR

datatype error =
    ErrInval
  | ErrText string
  | ErrFromErrno errno
and errno =
    ErrnoInval
  | ErrnoText string errno_code
  | ErrnoDesc error errno_code

section \<open>BSON documents\<close>

text \<open>
  A document is the ordered list of its elements; an array is stored as a document.  A double
  is its 64 bits: the program only passes doubles on.  An object identifier is its 12 bytes.
\<close>

type_synonym oid = "96 word"
type_synonym double = "64 word"

datatype bval =
    BDouble double
  | BUtf8 string
  | BDoc "(string \<times> bval) list"
  | BArr "(string \<times> bval) list"
  | BOid oid
  | BBool bool
  | BDate int
  | BInt32 int
  | BOther

type_synonym belem = "string \<times> bval"
type_synonym bdoc = "belem list"

text \<open>
  A \<open>bson_iter_t\<close> is the element it stands on, if any, and the elements after it.
  \<open>bson_iter_init\<close> places it before the first element.
\<close>

type_synonym biter = "belem option \<times> belem list"

definition iter_init :: "bdoc \<Rightarrow> biter" where
  "iter_init d = (None, d)"

text \<open>The children of an embedded document or array, as \<open>bson_iter_recurse\<close> opens them.\<close>

fun children :: "bval \<Rightarrow> bdoc option" where
  "children (BDoc d) = Some d"
| "children (BArr d) = Some d"
| "children _ = None"

text \<open>
  The calls whose result depends on more than the shape of the document: the search, which
  moves the iterator, the typed reads that the code makes without a type check before them (the
  text and the identifier are null pointers when the type is another one), and the conversions of
  object identifiers.
\<close>

record bson_lib =
  bl_find :: "string \<Rightarrow> biter \<Rightarrow> bool \<times> biter"
  bl_utf8 :: "bval \<Rightarrow> string option"
  bl_oid :: "bval \<Rightarrow> oid option"
  bl_bool :: "bval \<Rightarrow> bool"
  bl_int32 :: "bval \<Rightarrow> int"
  bl_date_time :: "bval \<Rightarrow> int"
  bl_oid_to_string :: "oid \<Rightarrow> string"
  bl_oid_of_string :: "string \<Rightarrow> oid"
  bl_index :: "nat \<Rightarrow> string"

text \<open>
  The documented behaviour of the search: starting after the current element it stops at the
  first element with the key, or exhausts the iterator.
\<close>

primrec find_after :: "string \<Rightarrow> belem list \<Rightarrow> bool \<times> biter" where
  "find_after k [] = (False, None, [])"
| "find_after k (e # es) = (if fst e = k then (True, Some e, es) else find_after k es)"

definition bson_laws :: "bson_lib \<Rightarrow> bool" where
  "bson_laws B \<longleftrightarrow>
     (\<forall>k it. bl_find B k it = find_after k (snd it)) \<and>
     (\<forall>s. bl_utf8 B (BUtf8 s) = Some s) \<and>
     (\<forall>d. bl_utf8 B (BArr d) = None) \<and>
     (\<forall>v. bl_oid B v = (case v of BOid x \<Rightarrow> Some x | _ \<Rightarrow> None)) \<and>
     (\<forall>b. bl_bool B (BBool b) = b) \<and>
     (\<forall>n. bl_int32 B (BInt32 n) = n) \<and>
     (\<forall>t. bl_date_time B (BDate t) = t)"

lemma bson_lawsD:
  assumes "bson_laws B"
  shows "bl_find B k it = find_after k (snd it)"
    and "bl_utf8 B (BUtf8 s) = Some s"
    and "bl_utf8 B (BArr d) = None"
    and "bl_oid B (BOid x) = Some x"
    and "bl_bool B (BBool b) = b"
    and "bl_int32 B (BInt32 n) = n"
    and "bl_date_time B (BDate t) = t"
    and "bl_oid B v = (case v of BOid x \<Rightarrow> Some x | _ \<Rightarrow> None)"
proof -
  note laws = assms[unfolded bson_laws_def]
  show "bl_find B k it = find_after k (snd it)" using laws by blast
  show oid: "bl_oid B v = (case v of BOid x \<Rightarrow> Some x | _ \<Rightarrow> None)" for v using laws by blast
  show "bl_oid B (BOid x) = Some x" by (simp add: oid)
  show "bl_utf8 B (BUtf8 s) = Some s" "bl_utf8 B (BArr d) = None" "bl_bool B (BBool b) = b"
    "bl_int32 B (BInt32 n) = n" "bl_date_time B (BDate t) = t"
    using laws by blast+
qed

text \<open>\<open>bson_iter_init_find\<close>: the value of the first element with the key.\<close>

definition init_find :: "bson_lib \<Rightarrow> bdoc \<Rightarrow> string \<Rightarrow> bval option" where
  "init_find B d k =
     (case bl_find B k (iter_init d) of
        (True, Some (_, v), _) \<Rightarrow> Some v
      | _ \<Rightarrow> None)"

lemma init_find_map_of: "bson_laws B \<Longrightarrow> init_find B d k = map_of d k"
proof -
  assume B: "bson_laws B"
  have "(case find_after k d of (True, Some (_, v), _) \<Rightarrow> Some v | _ \<Rightarrow> None) = map_of d k"
    by (induction d) auto
  then show ?thesis by (simp add: init_find_def iter_init_def bson_lawsD(1)[OF B])
qed

text \<open>
  \<open>bson_iter_init_find\<close> together with the check \<open>BSON_ITER_HOLDS_...\<close> that the code always
  joins to it, and the typed read behind the check.
\<close>

definition holds_doc :: "bval \<Rightarrow> bdoc option" where
  "holds_doc v = (case v of BDoc d \<Rightarrow> Some d | _ \<Rightarrow> None)"

definition find_int32 :: "bson_lib \<Rightarrow> bdoc \<Rightarrow> string \<Rightarrow> int option" where
  "find_int32 B d k = (case init_find B d k of Some (BInt32 n) \<Rightarrow> Some n | _ \<Rightarrow> None)"

definition find_utf8 :: "bson_lib \<Rightarrow> bdoc \<Rightarrow> string \<Rightarrow> string option" where
  "find_utf8 B d k = (case init_find B d k of Some (BUtf8 s) \<Rightarrow> Some s | _ \<Rightarrow> None)"

definition find_oid :: "bson_lib \<Rightarrow> bdoc \<Rightarrow> string \<Rightarrow> oid option" where
  "find_oid B d k = (case init_find B d k of Some (BOid x) \<Rightarrow> Some x | _ \<Rightarrow> None)"

definition find_date :: "bson_lib \<Rightarrow> bdoc \<Rightarrow> string \<Rightarrow> int option" where
  "find_date B d k = (case init_find B d k of Some (BDate x) \<Rightarrow> Some x | _ \<Rightarrow> None)"

definition find_array :: "bson_lib \<Rightarrow> bdoc \<Rightarrow> string \<Rightarrow> bdoc option" where
  "find_array B d k = (case init_find B d k of Some (BArr a) \<Rightarrow> Some a | _ \<Rightarrow> None)"

lemma holds_doc_iff: "holds_doc v = Some d \<longleftrightarrow> v = BDoc d"
  by (simp add: holds_doc_def split: bval.splits)

lemma find_typed_iff:
  assumes "bson_laws B"
  shows "find_int32 B d k = Some n \<longleftrightarrow> map_of d k = Some (BInt32 n)"
    and "find_utf8 B d k = Some s \<longleftrightarrow> map_of d k = Some (BUtf8 s)"
    and "find_oid B d k = Some x \<longleftrightarrow> map_of d k = Some (BOid x)"
    and "find_date B d k = Some y \<longleftrightarrow> map_of d k = Some (BDate y)"
    and "find_array B d k = Some a \<longleftrightarrow> map_of d k = Some (BArr a)"
  by (simp_all add: find_int32_def find_utf8_def find_oid_def find_date_def find_array_def
      init_find_map_of[OF assms] split: option.splits bval.splits)

section \<open>The document store\<close>

text \<open>
  The five collections, and the calls on them: the first document a query yields
  (\<open>mongoc_collection_find\<close> and one \<open>mongoc_cursor_next\<close>; \<open>None\<close> also when there is no cursor),
  an update and an insertion, each with the error message when it fails, and a fresh object
  identifier (\<open>bson_oid_init\<close>).  Queries and updates are BSON documents, as the code builds them.
\<close>

datatype coll = SUBSCRIBERS | SERVERS | STREAMS | SERIES | REQUESTS

text \<open>The five collections can be enumerated, so that a statement about all of them evaluates.\<close>

instantiation coll :: enum
begin

definition enum_coll :: "coll list" where
  "enum_coll = [SUBSCRIBERS, SERVERS, STREAMS, SERIES, REQUESTS]"

definition enum_all_coll :: "(coll \<Rightarrow> bool) \<Rightarrow> bool" where
  "enum_all_coll P \<longleftrightarrow> list_all P [SUBSCRIBERS, SERVERS, STREAMS, SERIES, REQUESTS]"

definition enum_ex_coll :: "(coll \<Rightarrow> bool) \<Rightarrow> bool" where
  "enum_ex_coll P \<longleftrightarrow> list_ex P [SUBSCRIBERS, SERVERS, STREAMS, SERIES, REQUESTS]"

instance
proof
  have U: "(UNIV :: coll set) = {SUBSCRIBERS, SERVERS, STREAMS, SERIES, REQUESTS}"
    using coll.exhaust by blast
  show "(UNIV :: coll set) = set enum_class.enum" by (simp add: U enum_coll_def)
  show "distinct (enum_class.enum :: coll list)" by (simp add: enum_coll_def)
  show "enum_class.enum_all P \<longleftrightarrow> Ball UNIV P" for P :: "coll \<Rightarrow> bool" by (simp add: U enum_all_coll_def)
  show "enum_class.enum_ex P \<longleftrightarrow> Bex UNIV P" for P :: "coll \<Rightarrow> bool" by (simp add: U enum_ex_coll_def)
qed

end

lemma all_coll: "(\<forall>c. P c) \<longleftrightarrow> P SUBSCRIBERS \<and> P SERVERS \<and> P STREAMS \<and> P SERIES \<and> P REQUESTS"
  unfolding enum_all[symmetric] enum_all_coll_def by simp

record 'db mongo_lib =
  mg_find :: "'db \<Rightarrow> coll \<Rightarrow> bdoc \<Rightarrow> bdoc option"
  mg_update :: "'db \<Rightarrow> coll \<Rightarrow> bdoc \<Rightarrow> bdoc \<Rightarrow> 'db \<times> string option"
  mg_insert :: "'db \<Rightarrow> coll \<Rightarrow> bdoc \<Rightarrow> 'db \<times> string option"
  mg_new_oid :: "'db \<Rightarrow> oid \<times> 'db"

text \<open>
  Arrays in documents, as the updates of the store change them: the elements under a key, the
  elements with an identifier, setting a field of an element, and changing the first element
  with a property (the positional operator \<open>$\<close>).
\<close>

definition array_elems :: "bdoc \<Rightarrow> string \<Rightarrow> bval list" where
  "array_elems doc f = (case map_of doc f of Some (BArr a) \<Rightarrow> map snd a | _ \<Rightarrow> [])"

definition has_sid :: "bval \<Rightarrow> bval \<Rightarrow> bool" where
  "has_sid x v = (case v of BDoc d \<Rightarrow> map_of d ''sid'' = Some x | _ \<Rightarrow> False)"

definition sid_matches :: "string \<Rightarrow> bval \<Rightarrow> bdoc \<Rightarrow> bool" where
  "sid_matches f x doc \<longleftrightarrow> list_ex (has_sid x) (array_elems doc f)"

definition set_elem :: "string \<Rightarrow> bval \<Rightarrow> bval \<Rightarrow> bval" where
  "set_elem g v e = (case e of BDoc d \<Rightarrow> BDoc (AList.update g v d) | _ \<Rightarrow> e)"

fun map_first :: "('x \<Rightarrow> bool) \<Rightarrow> ('x \<Rightarrow> 'x) \<Rightarrow> 'x list \<Rightarrow> 'x list" where
  "map_first P f [] = []"
| "map_first P f (x # xs) = (if P x then f x # xs else x # map_first P f xs)"

section \<open>Values of the fastotv and common libraries\<close>

text \<open>Uris, host addresses and directory paths are opaque texts.\<close>

datatype gurl = GURL string
datatype dirpath = DirPath string
type_synonym host = string

text \<open>
  \<open>fastotv::commands_info::LoginInfo\<close>, \<open>AuthInfo\<close> and \<open>ServerAuthInfo\<close>, each derived from the
  one before, with the fields their getters name.
\<close>

record login_info =
  li_login :: string
  li_password :: string

record auth_info = login_info +
  ai_device :: string

record server_auth_info = auth_info +
  sa_exp_date :: int

text \<open>
  \<open>fastotv::StreamType\<close>, the enumerators the program names.
\<close>

datatype stream_type =
    PROXY | VOD_PROXY | RELAY | ENCODE | VOD_RELAY | VOD_ENCODE | TIMESHIFT_RECORDER
  | TIMESHIFT_PLAYER | CATCHUP | COD_RELAY | COD_ENCODE | TEST_LIFE | CV_DATA

text \<open>
  \<open>EpgInfo\<close>, \<open>MovieInfo\<close>, \<open>MetaUrl\<close> and \<open>OutputUri\<close>: the attributes the program sets and gets.
\<close>

record epg_info =
  ep_tvg_id :: string
  ep_display_name :: string
  ep_icon_url :: gurl
  ep_urls :: "gurl list"
  ep_programs :: "string list"

record movie_info =
  mv_name :: string
  mv_description :: string
  mv_preview_icon :: gurl
  mv_urls :: "gurl list"
  mv_trailer_url :: gurl
  mv_user_score :: double
  mv_prime_date :: int
  mv_country :: string
  mv_duration :: int
  mv_type :: int

record meta_url =
  mu_name :: string
  mu_url :: gurl

record output_uri =
  ou_id :: int
  ou_url :: gurl
  ou_http_root :: "dirpath option"
  ou_hls_type :: "int option"

text \<open>\<open>InputUri\<close>: the user agent is optional.\<close>

record input_uri =
  iu_id :: int
  iu_url :: gurl
  iu_user_agent :: "int option"

text \<open>
  \<open>StreamBaseInfo\<close> and the classes derived from it.  The constructors take the two flags
  \<open>enable audio\<close> and \<open>enable video\<close> as their eighth and ninth argument (after the guide or movie
  data); which of the two comes first is fixed in a header that is not in the repository, so
  the record keeps the arguments by position.
\<close>

record stream_base =
  sb_sid :: string
  sb_groups :: "string list"
  sb_iarc :: int
  sb_favorite :: bool
  sb_recent :: int
  sb_interruption :: int
  sb_flag1 :: bool
  sb_flag2 :: bool
  sb_parts :: "string list"
  sb_view_count :: int
  sb_locked :: bool
  sb_meta :: "meta_url list"

record channel_info = stream_base +
  ci_epg :: epg_info

record vod_info = stream_base +
  vi_movie :: movie_info

record catchup_info = channel_info +
  cu_start :: int
  cu_stop :: int

record serial_info =
  se_sid :: string
  se_name :: string
  se_icon :: gurl
  se_groups :: "string list"
  se_description :: string
  se_season :: "64 word"
  se_episodes :: "string list"
  se_view_count :: "64 word"

record content_request_info =
  cr_id :: string
  cr_text :: string
  cr_type :: int
  cr_status :: int

text \<open>\<open>CreateContentRequestInfo\<close>: a request as the client sends it.\<close>

record create_request =
  cq_text :: string
  cq_type :: int
  cq_status :: int

text \<open>\<open>DeviceInfo\<close>: the identifier and the name of a device.\<close>

type_synonym device_info = "string \<times> string"

text \<open>The predicates, constants and conversions of these libraries that the program calls.\<close>

record fastotv_lib =
  fl_login_valid :: "login_info \<Rightarrow> bool"
  fl_auth_valid :: "auth_info \<Rightarrow> bool"
  fl_server_auth_valid :: "server_auth_info \<Rightarrow> bool"
  fl_favorite_valid :: "string \<Rightarrow> bool \<Rightarrow> bool"
  fl_recent_valid :: "string \<Rightarrow> int \<Rightarrow> bool"
  fl_interrupt_valid :: "string \<Rightarrow> int \<Rightarrow> bool"
  fl_meta_valid :: "meta_url \<Rightarrow> bool"
  fl_host_valid :: "host \<Rightarrow> bool"
  fl_dir_valid :: "dirpath \<Rightarrow> bool"
  fl_dir_path :: "dirpath \<Rightarrow> string"
  fl_dir_exists :: "string \<Rightarrow> bool"
  fl_sub_dir :: "dirpath \<Rightarrow> string \<Rightarrow> dirpath option"
  fl_url_spec :: "gurl \<Rightarrow> string"
  fl_catchup_type :: int
  fl_log_level_info :: int
  fl_audio_first :: bool
  fl_vod_is_serial :: "vod_info \<Rightarrow> bool"
  fl_invalid_stream_id :: string
  fl_default_iarc :: int
  fl_new_movie :: movie_info
  fl_new_epg :: epg_info
  fl_new_meta :: meta_url
  fl_new_url :: gurl
  fl_new_input :: "int \<Rightarrow> gurl \<Rightarrow> input_uri"

definition IsEnableAudio :: "fastotv_lib \<Rightarrow> 'a stream_base_scheme \<Rightarrow> bool" where
  "IsEnableAudio L c = (if fl_audio_first L then sb_flag1 c else sb_flag2 c)"

definition IsEnableVideo :: "fastotv_lib \<Rightarrow> 'a stream_base_scheme \<Rightarrow> bool" where
  "IsEnableVideo L c = (if fl_audio_first L then sb_flag2 c else sb_flag1 c)"

end
