(* ===== verification/Base.thy ===== *)
theory Base
  imports Lib_Types
begin

text \<open>
  The classes of \<open>src/base\<close> and the two client classes: the authenticated identity of a
  subscriber (\<open>ServerDBAuthInfo\<close>), what is reported of it (\<open>FrontSubscriberInfo\<close>), the part
  every connection object carries (\<open>SubscriberInfo\<close>) with its two subclasses
  (\<open>SubscriberClient\<close>, \<open>HttpClient\<close>), the counter of online clients (\<open>IServerHandler\<close>) and the
  base class of the subscribers manager (\<open>ISubscribersManager\<close>).
\<close>

section \<open>Identities\<close>

text \<open>\<open>ServerDBAuthInfo\<close> adds the user's identifier to \<open>ServerAuthInfo\<close>.\<close>

record server_db_auth = server_auth_info +
  db_uid :: string

definition ServerDBAuthInfo_make :: "string \<Rightarrow> server_auth_info \<Rightarrow> server_db_auth" where
  "ServerDBAuthInfo_make uid auth = server_auth_info.extend auth \<lparr>db_uid = uid\<rparr>"

definition ServerDBAuthInfo_IsValid :: "fastotv_lib \<Rightarrow> server_db_auth \<Rightarrow> bool" where
  "ServerDBAuthInfo_IsValid L a \<longleftrightarrow>
     db_uid a \<noteq> [] \<and> fl_server_auth_valid L (server_auth_info.truncate a)"

record front_subscriber_info =
  fs_uid :: string
  fs_login :: string
  fs_device :: string
  fs_exp_date :: int

definition FrontSubscriberInfo_IsValid :: "front_subscriber_info \<Rightarrow> bool" where
  "FrontSubscriberInfo_IsValid f \<longleftrightarrow>
     fs_login f \<noteq> [] \<and> fs_uid f \<noteq> [] \<and> fs_device f \<noteq> [] \<and> fs_exp_date f \<noteq> 0"

section \<open>Connection objects\<close>

text \<open>
  A connection object is a \<open>SubscriberClient\<close> or an \<open>HttpClient\<close>.  \<open>co_info\<close> is the
  \<open>client_info_\<close> of the former, \<open>co_verified\<close> the \<open>is_verified_\<close> of the latter.
\<close>

datatype client_kind = SubscriberClient | HttpClient

record client_obj =
  co_kind :: client_kind
  co_login :: "server_db_auth option"
  co_stream :: string
  co_info :: "string option"
  co_verified :: bool

definition SubscriberInfo_new :: "fastotv_lib \<Rightarrow> client_kind \<Rightarrow> client_obj" where
  "SubscriberInfo_new L k =
     \<lparr>co_kind = k, co_login = None, co_stream = fl_invalid_stream_id L, co_info = None,
      co_verified = False\<rparr>"

definition SetCurrentStreamID :: "string \<Rightarrow> client_obj \<Rightarrow> client_obj" where
  "SetCurrentStreamID sid c = c\<lparr>co_stream := sid\<rparr>"

definition SetLogin :: "server_db_auth option \<Rightarrow> client_obj \<Rightarrow> client_obj" where
  "SetLogin l c = c\<lparr>co_login := l\<rparr>"

definition SetClInfo :: "string option \<Rightarrow> client_obj \<Rightarrow> client_obj" where
  "SetClInfo i c = c\<lparr>co_info := i\<rparr>"

definition MakeFrontSubscriberInfo :: "client_obj \<Rightarrow> front_subscriber_info option" where
  "MakeFrontSubscriberInfo c =
     (case co_login c of
        None \<Rightarrow> None
      | Some a \<Rightarrow> Some \<lparr>fs_uid = db_uid a, fs_login = li_login a, fs_device = ai_device a,
                        fs_exp_date = sa_exp_date a\<rparr>)"

section \<open>Sending to a connection\<close>

text \<open>
  A JSON-RPC request, and the calls on a connection that leave the program: the next request
  identifier, writing a request, and the serialisation of a notification text.
\<close>

record rpc_request =
  rq_id :: "string option"
  rq_method :: string
  rq_params :: "string option"

record 'io client_io =
  ci_next_request_id :: "'io \<Rightarrow> ptr \<Rightarrow> string option \<times> 'io"
  ci_write_request :: "'io \<Rightarrow> ptr \<Rightarrow> rpc_request \<Rightarrow> 'io \<times> errno option"
  ci_notification_json :: "string \<Rightarrow> error + string"

text \<open>
  \<open>fastotv::NotifyRequest\<close> of \<open>src/subscribers/client.cpp\<close>; the result pointer is never null.
\<close>

definition NotifyRequest :: "'io client_io \<Rightarrow> string option \<Rightarrow> string \<Rightarrow> error + rpc_request" where
  "NotifyRequest C i params =
     (case ci_notification_json C params of
        Inl e \<Rightarrow> Inl e
      | Inr js \<Rightarrow> Inr \<lparr>rq_id = i, rq_method = ''send_message'', rq_params = Some js\<rparr>)"

definition SubscriberClient_SendNotification ::
    "'io client_io \<Rightarrow> ptr \<Rightarrow> string \<Rightarrow> 'io \<Rightarrow> 'io \<times> errno option" where
  "SubscriberClient_SendNotification C p notify w =
     (let (i, w1) = ci_next_request_id C w p in
      case NotifyRequest C i notify of
        Inl e \<Rightarrow> (w1, Some (ErrnoDesc e EAGAIN))
      | Inr req \<Rightarrow> ci_write_request C w1 p req)"

definition HttpClient_SendNotification :: "string \<Rightarrow> 'io \<Rightarrow> 'io \<times> errno option" where
  "HttpClient_SendNotification notify w =
     (w, Some (ErrnoText ''Send notification for http not supported'' ENOENT))"

definition SendNotification ::
    "'io client_io \<Rightarrow> ptr \<Rightarrow> client_obj \<Rightarrow> string \<Rightarrow> 'io \<Rightarrow> 'io \<times> errno option" where
  "SendNotification C p c notify w =
     (case co_kind c of
        SubscriberClient \<Rightarrow> SubscriberClient_SendNotification C p notify w
      | HttpClient \<Rightarrow> HttpClient_SendNotification notify w)"

section \<open>The counter of online clients\<close>

text \<open>\<open>IServerHandler::online_clients_\<close> is an atomic \<open>size_t\<close>: 64 bits that wrap around.\<close>

type_synonym online_clients_t = "64 word"

definition IServerHandler_init :: online_clients_t where
  "IServerHandler_init = 0"

definition IServerHandler_Accepted :: "online_clients_t \<Rightarrow> online_clients_t" where
  "IServerHandler_Accepted n = n + 1"

definition IServerHandler_Closed :: "online_clients_t \<Rightarrow> online_clients_t" where
  "IServerHandler_Closed n = n - 1"

definition IServerHandler_Moved :: "online_clients_t \<Rightarrow> online_clients_t" where
  "IServerHandler_Moved n = n - 1"

section \<open>The base class of the subscribers manager\<close>

text \<open>
  The state the manager keeps in memory: the objects behind the pointers (a freed pointer maps
  to nothing), the vectors of connections by user identifier, whether an observer is attached
  and what it has been told, and the outside world of the connections.
\<close>

datatype sub_event =
    SubscriberConnected front_subscriber_info
  | SubscriberDisConnected front_subscriber_info

record 'io registry =
  heap :: "ptr \<Rightarrow> client_obj option"
  connections :: "(string \<times> ptr list) list"
  observer :: bool
  events :: "sub_event list"
  io :: 'io

definition CatchupEndpointInfo_IsValid :: "fastotv_lib \<Rightarrow> host \<times> dirpath \<Rightarrow> bool" where
  "CatchupEndpointInfo_IsValid L e \<longleftrightarrow> fl_host_valid L (fst e) \<and> fl_dir_valid L (snd e)"

definition ISubscribersManager_Register ::
    "ptr \<Rightarrow> ('io, 'a) registry_scheme \<Rightarrow> (('io, 'a) registry_scheme \<times> error option) option" where
  "ISubscribersManager_Register client s =
     (if \<not> observer s \<or> client = nullptr then Some (s, None)
      else case heap s client of
             None \<Rightarrow> None
           | Some c \<Rightarrow>
               (case MakeFrontSubscriberInfo c of
                  None \<Rightarrow> Some (s, None)
                | Some f \<Rightarrow> Some (s\<lparr>events := events s @ [SubscriberConnected f]\<rparr>, None)))"

definition ISubscribersManager_UnRegister ::
    "ptr \<Rightarrow> ('io, 'a) registry_scheme \<Rightarrow> (('io, 'a) registry_scheme \<times> error option) option" where
  "ISubscribersManager_UnRegister client s =
     (if \<not> observer s \<or> client = nullptr then Some (s, None)
      else case heap s client of
             None \<Rightarrow> None
           | Some c \<Rightarrow>
               (case MakeFrontSubscriberInfo c of
                  None \<Rightarrow> Some (s, None)
                | Some f \<Rightarrow> Some (s\<lparr>events := events s @ [SubscriberDisConnected f]\<rparr>, None)))"

end
