(* ===== verification/Samples.thy ===== *)
theory Samples
  imports Base
begin

text \<open>
  Concrete instances of the library parameters, for evaluating the model on concrete inputs.
  They show that the hypotheses on the libraries can hold; no general statement is about them.
\<close>

definition sample_lib :: fastotv_lib where
  "sample_lib =
     \<lparr>fl_login_valid = (\<lambda>l. li_login l \<noteq> [] \<and> li_password l \<noteq> []),
      fl_auth_valid = (\<lambda>a. li_login a \<noteq> [] \<and> li_password a \<noteq> [] \<and> ai_device a \<noteq> []),
      fl_server_auth_valid = (\<lambda>a. li_login a \<noteq> [] \<and> li_password a \<noteq> [] \<and> ai_device a \<noteq> []),
      fl_favorite_valid = (\<lambda>sid b. sid \<noteq> []), fl_recent_valid = (\<lambda>sid t. sid \<noteq> []),
      fl_interrupt_valid = (\<lambda>sid t. sid \<noteq> []),
      fl_meta_valid = (\<lambda>m. mu_name m \<noteq> []),
      fl_host_valid = (\<lambda>h. h \<noteq> []),
      fl_dir_valid = (\<lambda>d. d \<noteq> DirPath []),
      fl_dir_path = (\<lambda>d. case d of DirPath s \<Rightarrow> s),
      fl_dir_exists = (\<lambda>p. p \<noteq> []),
      fl_sub_dir = (\<lambda>d s. case d of DirPath p \<Rightarrow> Some (DirPath (p @ ''/'' @ s))),
      fl_url_spec = (\<lambda>u. case u of GURL s \<Rightarrow> s),
      fl_catchup_type = 8, fl_log_level_info = 6,
      fl_audio_first = True,
      fl_vod_is_serial = (\<lambda>v. mv_type (vi_movie v) = 1),
      fl_invalid_stream_id = [],
      fl_default_iarc = 18,
      fl_new_movie = \<lparr>mv_name = [], mv_description = [], mv_preview_icon = GURL [], mv_urls = [],
        mv_trailer_url = GURL [], mv_user_score = 0, mv_prime_date = 0, mv_country = [],
        mv_duration = 0, mv_type = 0\<rparr>,
      fl_new_epg = \<lparr>ep_tvg_id = [], ep_display_name = [], ep_icon_url = GURL [], ep_urls = [],
        ep_programs = []\<rparr>,
      fl_new_meta = \<lparr>mu_name = [], mu_url = GURL []\<rparr>,
      fl_new_url = GURL [],
      fl_new_input = (\<lambda>i u. \<lparr>iu_id = i, iu_url = u, iu_user_agent = None\<rparr>)\<rparr>"

definition sample_bson :: bson_lib where
  "sample_bson =
     \<lparr>bl_find = (\<lambda>k it. find_after k (snd it)),
      bl_utf8 = (\<lambda>v. case v of BUtf8 s \<Rightarrow> Some s | _ \<Rightarrow> None),
      bl_oid = (\<lambda>v. case v of BOid x \<Rightarrow> Some x | _ \<Rightarrow> None),
      bl_bool = (\<lambda>v. case v of BBool b \<Rightarrow> b | _ \<Rightarrow> False),
      bl_int32 = (\<lambda>v. case v of BInt32 n \<Rightarrow> n | _ \<Rightarrow> 0),
      bl_date_time = (\<lambda>v. case v of BDate t \<Rightarrow> t | _ \<Rightarrow> 0),
      bl_oid_to_string = (\<lambda>x. if x = 1 then ''1'' else if x = 2 then ''2'' else if x = 3 then ''3''
                              else if x = 4 then ''4'' else if x = 5 then ''5'' else ''other''),
      bl_oid_of_string = (\<lambda>s. if s = ''1'' then 1 else if s = ''2'' then 2 else if s = ''3'' then 3
                              else if s = ''4'' then 4 else if s = ''5'' then 5 else 0),
      bl_index = (\<lambda>n. replicate n (CHR ''i''))\<rparr>"

lemma sample_bson_laws: "bson_laws sample_bson"
  by (simp add: bson_laws_def sample_bson_def)

definition sample_auth :: "string \<Rightarrow> string \<Rightarrow> server_db_auth" where
  "sample_auth uid dev =
     \<lparr>li_login = ''user@mail'', li_password = ''hash'', ai_device = dev, sa_exp_date = 100,
      db_uid = uid\<rparr>"

lemma sample_auth_valid:
  "uid \<noteq> [] \<Longrightarrow> dev \<noteq> [] \<Longrightarrow> ServerDBAuthInfo_IsValid sample_lib (sample_auth uid dev)"
  by (simp add: ServerDBAuthInfo_IsValid_def sample_lib_def sample_auth_def
      server_auth_info.truncate_def)

lemma sample_auth_simps [simp]:
  "db_uid (sample_auth uid dev) = uid" "ai_device (sample_auth uid dev) = dev"
  by (simp_all add: sample_auth_def)

definition sample_io :: "string list client_io" where
  "sample_io =
     \<lparr>ci_next_request_id = (\<lambda>w p. (Some ''id'', w)),
      ci_write_request = (\<lambda>w p r. (w @ [rq_method r], None)),
      ci_notification_json = Inr\<rparr>"

text \<open>
  A small document store: the documents with their collections.  It answers a query with the
  first document that has all its elements, and understands the updates that append to an array
  (\<open>$push\<close>), that drop the elements of an array with an identifier (\<open>$pull\<close>), and that set a field
  of the element the query has found (\<open>$set\<close>).
\<close>

type_synonym sample_db = "(coll \<times> bdoc) list"

definition sample_array :: "bval list \<Rightarrow> bval" where
  "sample_array vs = BArr (map (Pair []) vs)"

definition sample_matches :: "bdoc \<Rightarrow> bdoc \<Rightarrow> bool" where
  "sample_matches q doc \<longleftrightarrow>
     list_all (\<lambda>(k, v).
       if k = ''streams.sid'' then sid_matches ''streams'' v doc
       else if k = ''vods.sid'' then sid_matches ''vods'' v doc
       else if k = ''catchups.sid'' then sid_matches ''catchups'' v doc
       else if k = ''streams'' then
         (case v of BDoc [(_, BDoc [(_, x)])] \<Rightarrow> x \<in> set (array_elems doc ''streams'') | _ \<Rightarrow> False)
       else map_of doc k = Some v) q"

text \<open>
  The first element of a query (the identifier, the e-mail, or the stream that a server has to
  have) selects the document; the others have to match too.
\<close>

definition sample_selects :: "bdoc \<Rightarrow> bdoc \<Rightarrow> bool" where
  "sample_selects q doc \<longleftrightarrow> sample_matches (take 1 q) doc"

primrec sample_find :: "sample_db \<Rightarrow> coll \<Rightarrow> bdoc \<Rightarrow> bdoc option" where
  "sample_find [] c q = None"
| "sample_find (e # d) c q =
     (if fst e = c \<and> sample_selects q (snd e) then
        (if sample_matches q (snd e) then Some (snd e) else None)
      else sample_find d c q)"

definition with_array :: "string \<Rightarrow> (bval list \<Rightarrow> bval list) \<Rightarrow> bdoc \<Rightarrow> bdoc" where
  "with_array f g doc = AList.update f (sample_array (g (array_elems doc f))) doc"

definition sample_apply :: "bdoc \<Rightarrow> bdoc \<Rightarrow> bdoc \<Rightarrow> bdoc" where
  "sample_apply q u doc =
     (case u of
        [(op, BDoc [(f, v)])] \<Rightarrow>
          if op = ''$push'' then with_array f (\<lambda>es. es @ [v]) doc
          else if op = ''$pull'' then
            (case v of BDoc [(_, x)] \<Rightarrow> with_array f (filter (\<lambda>e. \<not> has_sid x e)) doc | _ \<Rightarrow> doc)
          else
            (case q of
               [_, (k, x)] \<Rightarrow>
                 let a = takeWhile (\<lambda>c. c \<noteq> CHR ''.'') k; g = drop (length a + 3) f
                 in with_array a (map_first (has_sid x) (set_elem g v)) doc
             | _ \<Rightarrow> doc)
      | _ \<Rightarrow> doc)"

primrec sample_update :: "coll \<Rightarrow> bdoc \<Rightarrow> bdoc \<Rightarrow> sample_db \<Rightarrow> sample_db" where
  "sample_update c q u [] = []"
| "sample_update c q u (e # d) =
     (if fst e = c \<and> sample_selects q (snd e) then
        (c, if sample_matches q (snd e) then sample_apply q u (snd e) else snd e) # d
      else e # sample_update c q u d)"

definition sample_mongo :: "sample_db mongo_lib" where
  "sample_mongo =
     \<lparr>mg_find = sample_find,
      mg_update = (\<lambda>d c q u. (sample_update c q u d, None)),
      mg_insert = (\<lambda>d c doc. (d @ [(c, doc)], None)),
      mg_new_oid = (\<lambda>d. (word_of_nat (2 + length d), d))\<rparr>"

definition sample_user :: bdoc where
  "sample_user =
     [(''_id'', BOid 1), (''email'', BUtf8 ''user@mail''), (''password'', BUtf8 ''hash''),
      (''status'', BInt32 1), (''exp_date'', BDate 100),
      (''devices'', BArr [(''0'', BDoc [(''_id'', BOid 2), (''status'', BInt32 1), (''name'', BUtf8 ''tv'')]),
                          (''1'', BDoc [(''_id'', BOid 3), (''status'', BInt32 0), (''name'', BUtf8 ''box'')])]),
      (''streams'', BArr []), (''vods'', BArr []), (''catchups'', BArr []), (''requests'', BArr [])]"

end
