(* ===== verification/Connections.thy ===== *)
theory Connections
  imports Samples
begin

text \<open>
  The connection registry of \<open>mongo::SubscribersManager\<close>: which connection objects belong to
  which user (\<open>connections_\<close>), and the operations that read and write it under
  \<open>connections_mutex_\<close>.  The map is an association list; the program iterates over an
  \<open>unordered_map\<close>, so no property here depends on the order of the keys.
\<close>

section \<open>Operations\<close>

definition RegisterInnerConnectionByHost ::
    "fastotv_lib \<Rightarrow> ptr \<Rightarrow> server_db_auth \<Rightarrow> ('io, 'a) registry_scheme
     \<Rightarrow> (('io, 'a) registry_scheme \<times> error option) option" where
  "RegisterInnerConnectionByHost L client info s =
     (if \<not> ServerDBAuthInfo_IsValid L info then None
      else if client = nullptr then Some (s, Some ErrInval)
      else case heap s client of
             None \<Rightarrow> None
           | Some c \<Rightarrow>
               let s1 = s\<lparr>heap := (heap s)(client \<mapsto> SetLogin (Some info) c)\<rparr>;
                   s2 = s1\<lparr>connections := push_back (db_uid info) client (connections s1)\<rparr>
               in ISubscribersManager_Register client s2)"

definition erase_connection :: "string \<Rightarrow> ptr \<Rightarrow> (string \<times> ptr list) list \<Rightarrow> (string \<times> ptr list) list" where
  "erase_connection uid client m =
     (case map_of m uid of
        None \<Rightarrow> m
      | Some hs \<Rightarrow>
          let hs' = remove1 client hs in
          if hs' = [] then AList.delete uid m else AList.update uid hs' m)"

definition UnRegisterInnerConnectionByHost ::
    "ptr \<Rightarrow> ('io, 'a) registry_scheme \<Rightarrow> (('io, 'a) registry_scheme \<times> error option) option" where
  "UnRegisterInnerConnectionByHost client s =
     (if client = nullptr then Some (s, Some ErrInval)
      else case heap s client of
             None \<Rightarrow> None
           | Some c \<Rightarrow>
               (case co_login c of
                  None \<Rightarrow> Some (s, Some ErrInval)
                | Some sinf \<Rightarrow>
                    ISubscribersManager_UnRegister client
                      (s\<lparr>connections := erase_connection (db_uid sinf) client (connections s)\<rparr>)))"

text \<open>\<open>ser\<close>, the address of the result, is never null at the call sites: it is the \<open>Inr\<close> value.\<close>

definition CheckIsLoginClient ::
    "ptr \<Rightarrow> ('io, 'a) registry_scheme \<Rightarrow> (error + server_db_auth) option" where
  "CheckIsLoginClient client s =
     (if client = nullptr then Some (Inl ErrInval)
      else case heap s client of
             None \<Rightarrow> None
           | Some c \<Rightarrow>
               (case co_login c of
                  None \<Rightarrow> Some (Inl (ErrText ''User not logged''))
                | Some login \<Rightarrow> Some (Inr login)))"

fun find_device_connection ::
    "(ptr \<Rightarrow> client_obj option) \<Rightarrow> string \<Rightarrow> ptr list \<Rightarrow> ptr option option" where
  "find_device_connection h dev [] = Some None"
| "find_device_connection h dev (p # ps) =
     (case h p of
        None \<Rightarrow> None
      | Some c \<Rightarrow>
          (case co_login c of
             Some login \<Rightarrow>
               if ai_device login = dev then Some (Some p) else find_device_connection h dev ps
           | None \<Rightarrow> find_device_connection h dev ps))"

definition SendSubscriberNotification ::
    "'io client_io \<Rightarrow> string \<Rightarrow> string \<Rightarrow> string \<Rightarrow> ('io, 'a) registry_scheme
     \<Rightarrow> (('io, 'a) registry_scheme \<times> error option) option" where
  "SendSubscriberNotification C uid device notify s =
     (case map_of (connections s) uid of
        None \<Rightarrow> Some (s, Some (ErrText ''Client not found''))
      | Some hs \<Rightarrow>
          (case find_device_connection (heap s) device hs of
             None \<Rightarrow> None
           | Some None \<Rightarrow> Some (s, Some (ErrText ''Device not found''))
           | Some (Some p) \<Rightarrow>
               (case heap s p of
                  None \<Rightarrow> None
                | Some c \<Rightarrow>
                    (case SendNotification C p c notify (io s) of
                       (w, Some errn) \<Rightarrow> Some (s\<lparr>io := w\<rparr>, Some (ErrFromErrno errn))
                     | (w, None) \<Rightarrow> Some (s\<lparr>io := w\<rparr>, None)))))"

fun front_infos ::
    "(ptr \<Rightarrow> client_obj option) \<Rightarrow> ptr list \<Rightarrow> front_subscriber_info list option" where
  "front_infos h [] = Some []"
| "front_infos h (p # ps) =
     (if p = nullptr then front_infos h ps
      else case h p of
             None \<Rightarrow> None
           | Some c \<Rightarrow>
               (case MakeFrontSubscriberInfo c of
                  None \<Rightarrow> front_infos h ps
                | Some f \<Rightarrow> map_option ((#) f) (front_infos h ps)))"

definition GetOnlineSubscribers ::
    "('io, 'a) registry_scheme \<Rightarrow> front_subscriber_info list option" where
  "GetOnlineSubscribers s = front_infos (heap s) (all_values (connections s))"

fun count_watchers :: "(ptr \<Rightarrow> client_obj option) \<Rightarrow> string \<Rightarrow> ptr list \<Rightarrow> nat option" where
  "count_watchers h sid [] = Some 0"
| "count_watchers h sid (p # ps) =
     (if p = nullptr then count_watchers h sid ps
      else case h p of
             None \<Rightarrow> None
           | Some c \<Rightarrow>
               map_option (\<lambda>n. (if co_stream c = sid then 1 else 0) + n) (count_watchers h sid ps))"

definition GetAndUpdateOnlineUserByStreamID ::
    "string \<Rightarrow> ('io, 'a) registry_scheme \<Rightarrow> nat option" where
  "GetAndUpdateOnlineUserByStreamID sid s =
     count_watchers (heap s) sid (all_values (connections s))"

text \<open>\<open>delete client\<close>: the object is gone, the pointers to it stay where they are.\<close>

definition free_client :: "ptr \<Rightarrow> ('io, 'a) registry_scheme \<Rightarrow> ('io, 'a) registry_scheme" where
  "free_client client s = s\<lparr>heap := (heap s)(client := None)\<rparr>"

definition alloc_client ::
    "ptr \<Rightarrow> client_obj \<Rightarrow> ('io, 'a) registry_scheme \<Rightarrow> ('io, 'a) registry_scheme" where
  "alloc_client client c s = s\<lparr>heap := (heap s)(client \<mapsto> c)\<rparr>"

lemmas registry_defs = RegisterInnerConnectionByHost_def UnRegisterInnerConnectionByHost_def
  ISubscribersManager_Register_def ISubscribersManager_UnRegister_def

section \<open>The invariant of the registry\<close>

text \<open>
  Every vector of the map is non-empty and free of duplicates, and every pointer in it is a live
  object that is logged in as the user it is filed under.
\<close>

definition logged_in_as :: "(ptr \<Rightarrow> client_obj option) \<Rightarrow> string \<Rightarrow> ptr \<Rightarrow> bool" where
  "logged_in_as h u p \<longleftrightarrow>
     (case h p of None \<Rightarrow> False
      | Some c \<Rightarrow> (case co_login c of None \<Rightarrow> False | Some a \<Rightarrow> db_uid a = u))"

definition reg_inv :: "('io, 'a) registry_scheme \<Rightarrow> bool" where
  "reg_inv s \<longleftrightarrow>
     distinct (map fst (connections s)) \<and>
     heap s nullptr = None \<and>
     list_all (\<lambda>(u, ps). ps \<noteq> [] \<and> distinct ps \<and> list_all (logged_in_as (heap s) u) ps)
       (connections s)"

text \<open>Conversely, every object that is logged in is filed under its user.\<close>

definition filed :: "(string \<times> ptr list) list \<Rightarrow> string \<Rightarrow> ptr \<Rightarrow> bool" where
  "filed m u p \<longleftrightarrow> (case map_of m u of None \<Rightarrow> False | Some ps \<Rightarrow> p \<in> set ps)"

definition session_inv :: "('io, 'a) registry_scheme \<Rightarrow> bool" where
  "session_inv s \<longleftrightarrow>
     reg_inv s \<and>
     (\<forall>p c a. heap s p = Some c \<longrightarrow> co_login c = Some a \<longrightarrow> filed (connections s) (db_uid a) p)"

lemma logged_in_as_iff:
  "logged_in_as h u p \<longleftrightarrow> (\<exists>c a. h p = Some c \<and> co_login c = Some a \<and> db_uid a = u)"
  by (auto simp: logged_in_as_def split: option.splits)

lemma logged_in_as_unique: "logged_in_as h u p \<Longrightarrow> logged_in_as h v p \<Longrightarrow> u = v"
  by (auto simp: logged_in_as_iff)

lemma reg_inv_iff:
  "reg_inv s \<longleftrightarrow>
     distinct (map fst (connections s)) \<and>
     heap s nullptr = None \<and>
     (\<forall>u ps. map_of (connections s) u = Some ps \<longrightarrow>
        ps \<noteq> [] \<and> distinct ps \<and> (\<forall>p \<in> set ps. logged_in_as (heap s) u p))"
proof (cases "distinct (map fst (connections s))")
  case True
  then have "(\<forall>x \<in> set (connections s). P x) \<longleftrightarrow>
      (\<forall>u ps. map_of (connections s) u = Some ps \<longrightarrow> P (u, ps))" for P
    by auto
  with True show ?thesis
    unfolding reg_inv_def by (simp add: list_all_iff)
next
  case False
  then show ?thesis by (simp add: reg_inv_def)
qed

lemma filed_iff: "filed m u p \<longleftrightarrow> (\<exists>ps. map_of m u = Some ps \<and> p \<in> set ps)"
  by (auto simp: filed_def split: option.splits)

lemma reg_inv_filed:
  "reg_inv s \<Longrightarrow> filed (connections s) u p \<Longrightarrow> logged_in_as (heap s) u p"
  by (auto simp: reg_inv_iff filed_iff)

lemma reg_inv_not_null: "reg_inv s \<Longrightarrow> filed (connections s) u p \<Longrightarrow> p \<noteq> nullptr"
  using reg_inv_filed[of s u p] by (cases "p = nullptr") (auto simp: logged_in_as_iff reg_inv_def)

lemma heap_not_null: "reg_inv s \<Longrightarrow> heap s p = Some c \<Longrightarrow> p \<noteq> nullptr"
  by (auto simp: reg_inv_def)

lemma mem_all_values_filed:
  "reg_inv s \<Longrightarrow> p \<in> set (all_values (connections s)) \<longleftrightarrow> (\<exists>u. filed (connections s) u p)"
  by (auto simp: reg_inv_iff filed_iff set_all_values)

lemma distinct_concat_vectors:
  assumes "distinct (map fst m)"
    and "\<forall>(u, ps) \<in> set m. distinct ps \<and> (\<forall>p \<in> set ps. f p = Some u)"
  shows "distinct (concat (map snd m))"
  using assms
proof (induction m)
  case Nil
  then show ?case by simp
next
  case (Cons e m)
  obtain u ps where e: "e = (u, ps)" by (cases e)
  have "set ps \<inter> set (concat (map snd m)) = {}"
  proof (rule ccontr)
    assume "set ps \<inter> set (concat (map snd m)) \<noteq> {}"
    then obtain p v qs where "p \<in> set ps" and m: "(v, qs) \<in> set m" and "p \<in> set qs" by auto
    then have "f p = Some u" "f p = Some v" using Cons.prems(2) e by fastforce+
    moreover have "v \<noteq> u" using Cons.prems(1) e m by force
    ultimately show False by simp
  qed
  then show ?case using Cons e by auto
qed

lemma reg_inv_distinct_values:
  assumes "reg_inv s" shows "distinct (all_values (connections s))"
  unfolding all_values_def
proof (rule distinct_concat_vectors)
  let ?f = "\<lambda>p. case heap s p of None \<Rightarrow> None | Some c \<Rightarrow> map_option db_uid (co_login c)"
  show "distinct (map fst (connections s))" using assms by (simp add: reg_inv_def)
  show "\<forall>(u, ps) \<in> set (connections s). distinct ps \<and> (\<forall>p \<in> set ps. ?f p = Some u)"
    using assms by (fastforce simp: reg_inv_def list_all_iff logged_in_as_iff)
qed

section \<open>Effect of the operations on the registry\<close>

lemma filed_push_back: "filed (push_back u p m) v q \<longleftrightarrow> (v = u \<and> q = p) \<or> filed m v q"
  by (auto simp: filed_def map_of_push_back split: option.splits)

lemma filed_erase:
  assumes "reg_inv s"
  shows "filed (erase_connection u p (connections s)) v q \<longleftrightarrow>
           filed (connections s) v q \<and> \<not> (v = u \<and> q = p)"
proof (cases "map_of (connections s) u")
  case None
  then show ?thesis by (auto simp: filed_def erase_connection_def)
next
  case (Some ps)
  then have "distinct ps" using assms by (simp add: reg_inv_iff)
  then show ?thesis using Some
    by (auto simp: filed_iff erase_connection_def Let_def map_of_delete_iff update_conv'
        dest!: arg_cong[of _ _ set])
qed

lemma erase_vectors:
  assumes "reg_inv s"
    and "map_of (erase_connection u p (connections s)) v = Some qs"
  shows "qs \<noteq> [] \<and> distinct qs"
  using assms
  by (auto simp: erase_connection_def reg_inv_iff Let_def map_of_delete_iff update_conv'
      split: option.splits if_splits)

lemma erase_distinct_keys:
  "distinct (map fst m) \<Longrightarrow> distinct (map fst (erase_connection u p m))"
  by (auto simp: erase_connection_def Let_def distinct_delete_keys distinct_update_keys
      split: option.splits)

text \<open>The operations in closed form, where they are defined.\<close>

definition front_of :: "server_db_auth \<Rightarrow> front_subscriber_info" where
  "front_of a = \<lparr>fs_uid = db_uid a, fs_login = li_login a, fs_device = ai_device a,
                 fs_exp_date = sa_exp_date a\<rparr>"

lemma MakeFrontSubscriberInfo_eq:
  "MakeFrontSubscriberInfo c = map_option front_of (co_login c)"
  by (simp add: MakeFrontSubscriberInfo_def front_of_def split: option.splits)

lemma SetLogin_simps [simp]:
  "co_login (SetLogin l c) = l" "co_kind (SetLogin l c) = co_kind c"
  "co_stream (SetLogin l c) = co_stream c"
  by (simp_all add: SetLogin_def)

lemma Register_eq [reg_simps]:
  "ServerDBAuthInfo_IsValid L info \<Longrightarrow> p \<noteq> nullptr \<Longrightarrow> heap s p = Some c \<Longrightarrow>
   RegisterInnerConnectionByHost L p info s =
     Some (s\<lparr>heap := (heap s)(p \<mapsto> SetLogin (Some info) c),
             connections := push_back (db_uid info) p (connections s),
             events := events s @ (if observer s then [SubscriberConnected (front_of info)] else [])\<rparr>,
           None)"
  by (simp add: RegisterInnerConnectionByHost_def ISubscribersManager_Register_def
      MakeFrontSubscriberInfo_eq Let_def)

lemma UnRegister_eq [reg_simps]:
  "p \<noteq> nullptr \<Longrightarrow> heap s p = Some c \<Longrightarrow> co_login c = Some a \<Longrightarrow>
   UnRegisterInnerConnectionByHost p s =
     Some (s\<lparr>connections := erase_connection (db_uid a) p (connections s),
             events := events s @ (if observer s then [SubscriberDisConnected (front_of a)] else [])\<rparr>,
           None)"
  by (simp add: UnRegisterInnerConnectionByHost_def ISubscribersManager_UnRegister_def
      MakeFrontSubscriberInfo_eq)

lemma UnRegister_not_logged [reg_simps]:
  "p \<noteq> nullptr \<Longrightarrow> heap s p = Some c \<Longrightarrow> co_login c = None \<Longrightarrow>
   UnRegisterInnerConnectionByHost p s = Some (s, Some ErrInval)"
  by (simp add: UnRegisterInnerConnectionByHost_def)

text \<open>What the rest of the server observes of the registry: which objects live, and as whom they
  are logged in.\<close>

definition view :: "('io, 'a) registry_scheme \<Rightarrow> ptr \<Rightarrow> server_db_auth option option" where
  "view s p = map_option co_login (heap s p)"

lemma logged_in_as_upd:
  "logged_in_as (h(p := x)) u q \<longleftrightarrow>
     (if q = p then (\<exists>c a. x = Some c \<and> co_login c = Some a \<and> db_uid a = u)
      else logged_in_as h u q)"
  by (auto simp: logged_in_as_iff)

lemma register_reg_inv:
  assumes inv: "reg_inv s" and p: "heap s p = Some c" and new: "co_login c = None"
  shows "reg_inv (s\<lparr>heap := (heap s)(p \<mapsto> SetLogin (Some info) c),
                    connections := push_back (db_uid info) p (connections s), events := es\<rparr>)"
    (is "reg_inv ?s'")
proof -
  have null: "p \<noteq> nullptr" by (rule heap_not_null[OF inv p])
  have notin: "\<not> filed (connections s) u p" for u
    using reg_inv_filed[OF inv, of u p] p new by (auto simp: logged_in_as_iff)
  have "ps \<noteq> [] \<and> distinct ps \<and> (\<forall>q \<in> set ps. logged_in_as (heap ?s') u q)"
    if u: "map_of (push_back (db_uid info) p (connections s)) u = Some ps" for u ps
  proof -
    have old: "qs \<noteq> [] \<and> distinct qs \<and> p \<notin> set qs \<and> (\<forall>q \<in> set qs. logged_in_as (heap s) v q)"
      if "map_of (connections s) v = Some qs" for v qs
      using inv that notin[of v] by (auto simp: reg_inv_iff filed_iff)
    show ?thesis
      using u old[of "db_uid info"] old[of u]
      by (auto simp: map_of_push_back logged_in_as_upd split: if_splits option.splits)
  qed
  then show ?thesis using inv null
    by (simp add: reg_inv_iff distinct_push_back)
qed

lemma unregister_reg_inv:
  assumes inv: "reg_inv s"
  shows "reg_inv (s\<lparr>connections := erase_connection u p (connections s), events := es\<rparr>)"
proof -
  have "qs \<noteq> [] \<and> distinct qs \<and> (\<forall>q \<in> set qs. logged_in_as (heap s) v q)"
    if v: "map_of (erase_connection u p (connections s)) v = Some qs" for v qs
  proof -
    have "filed (connections s) v q" if "q \<in> set qs" for q
      using filed_erase[OF inv, of u p v q] v that by (auto simp: filed_iff)
    then show ?thesis using erase_vectors[OF inv v] reg_inv_filed[OF inv] by blast
  qed
  then show ?thesis using inv by (simp add: reg_inv_iff erase_distinct_keys)
qed

lemma free_reg_inv:
  assumes "reg_inv s" and "\<And>u. \<not> filed (connections s) u p"
  shows "reg_inv (free_client p s)"
  using assms by (auto simp: reg_inv_iff free_client_def logged_in_as_upd filed_iff)

lemma alloc_reg_inv:
  assumes "reg_inv s" and "heap s p = None" and "p \<noteq> nullptr"
  shows "reg_inv (alloc_client p c s)"
proof -
  have "\<not> filed (connections s) u p" for u
    using reg_inv_filed[OF assms(1), of u p] assms(2) by (auto simp: logged_in_as_iff)
  then show ?thesis using assms
    by (auto simp: reg_inv_iff alloc_client_def logged_in_as_upd filed_iff)
qed

end
