(* ===== verification/Sessions.thy ===== *)
theory Sessions
  imports Connections "HOL-Library.Multiset"
begin

text \<open>
  The contract of the connection registry towards the servers that drive it: the interface
  \<open>session_registry\<close> with an abstract specification of sessions, its implementation by the
  operations of \<open>Connections\<close>, and what the registry's queries return.
\<close>

section \<open>Sessions\<close>

text \<open>
  The life of a connection as the servers drive it: the object is created when the connection is
  accepted, a login registers it, and closing it unregisters it and deletes the object.
\<close>

datatype 'i session_op = Open client_kind ptr | Login ptr 'i | Drop ptr

definition session_open ::
    "fastotv_lib \<Rightarrow> client_kind \<Rightarrow> ptr \<Rightarrow> ('io, 'a) registry_scheme \<Rightarrow> ('io, 'a) registry_scheme option" where
  "session_open L k p s = Some (alloc_client p (SubscriberInfo_new L k) s)"

definition session_login ::
    "fastotv_lib \<Rightarrow> ptr \<Rightarrow> server_db_auth \<Rightarrow> ('io, 'a) registry_scheme \<Rightarrow> ('io, 'a) registry_scheme option" where
  "session_login L p info s = map_option fst (RegisterInnerConnectionByHost L p info s)"

definition session_drop :: "ptr \<Rightarrow> ('io, 'a) registry_scheme \<Rightarrow> ('io, 'a) registry_scheme option" where
  "session_drop p s = map_option (\<lambda>r. free_client p (fst r)) (UnRegisterInnerConnectionByHost p s)"

fun run_sessions ::
    "(client_kind \<Rightarrow> ptr \<Rightarrow> 's \<Rightarrow> 's option) \<Rightarrow> (ptr \<Rightarrow> 'i \<Rightarrow> 's \<Rightarrow> 's option) \<Rightarrow> (ptr \<Rightarrow> 's \<Rightarrow> 's option)
     \<Rightarrow> 'i session_op list \<Rightarrow> 's \<Rightarrow> 's option" where
  "run_sessions op lg dr [] s = Some s"
| "run_sessions op lg dr (Open k p # xs) s = Option.bind (op k p s) (run_sessions op lg dr xs)"
| "run_sessions op lg dr (Login p i # xs) s = Option.bind (lg p i s) (run_sessions op lg dr xs)"
| "run_sessions op lg dr (Drop p # xs) s = Option.bind (dr p s) (run_sessions op lg dr xs)"

text \<open>
  The abstract specification: a session is absent, open, or open and logged in.  A script is
  accepted when it opens an absent session, logs an open one in once, and drops a present one.
\<close>

fun spec_sessions ::
    "('i \<Rightarrow> bool) \<Rightarrow> 'i session_op list \<Rightarrow> (ptr \<Rightarrow> 'i option option) \<Rightarrow> (ptr \<Rightarrow> 'i option option) option" where
  "spec_sessions valid [] m = Some m"
| "spec_sessions valid (Open k p # xs) m =
     (if p \<noteq> nullptr \<and> m p = None then spec_sessions valid xs (m(p \<mapsto> None)) else None)"
| "spec_sessions valid (Login p i # xs) m =
     (case m p of
        Some None \<Rightarrow> if valid i then spec_sessions valid xs (m(p \<mapsto> Some i)) else None
      | _ \<Rightarrow> None)"
| "spec_sessions valid (Drop p # xs) m =
     (case m p of None \<Rightarrow> None | Some _ \<Rightarrow> spec_sessions valid xs (m(p := None)))"

locale session_registry =
  fixes inv :: "'s \<Rightarrow> bool"
    and sessions :: "'s \<Rightarrow> ptr \<Rightarrow> 'i option option"
    and valid :: "'i \<Rightarrow> bool"
    and open_session :: "client_kind \<Rightarrow> ptr \<Rightarrow> 's \<Rightarrow> 's option"
    and login_session :: "ptr \<Rightarrow> 'i \<Rightarrow> 's \<Rightarrow> 's option"
    and drop_session :: "ptr \<Rightarrow> 's \<Rightarrow> 's option"
  assumes open_ok: "inv s \<Longrightarrow> p \<noteq> nullptr \<Longrightarrow> sessions s p = None \<Longrightarrow>
      \<exists>s'. open_session k p s = Some s' \<and> inv s' \<and> sessions s' = (sessions s)(p \<mapsto> None)"
    and login_ok: "inv s \<Longrightarrow> sessions s p = Some None \<Longrightarrow> valid i \<Longrightarrow>
      \<exists>s'. login_session p i s = Some s' \<and> inv s' \<and> sessions s' = (sessions s)(p \<mapsto> Some i)"
    and drop_ok: "inv s \<Longrightarrow> sessions s p \<noteq> None \<Longrightarrow>
      \<exists>s'. drop_session p s = Some s' \<and> inv s' \<and> sessions s' = (sessions s)(p := None)"
begin

lemma run_refines:
  assumes "inv s" and "spec_sessions valid xs (sessions s) = Some m"
  shows "\<exists>s'. run_sessions open_session login_session drop_session xs s = Some s' \<and>
              inv s' \<and> sessions s' = m"
  using assms
proof (induction xs arbitrary: s)
  case Nil
  then show ?case by simp
next
  case (Cons x xs)
  show ?case
  proof (cases x)
    case (Open k p)
    with Cons.prems have "p \<noteq> nullptr" "sessions s p = None" by (simp_all split: if_splits)
    from open_ok[OF Cons.prems(1) this, of k] show ?thesis
      using Open Cons by (fastforce split: if_splits)
  next
    case (Login p i)
    with Cons.prems have "sessions s p = Some None" "valid i"
      by (simp_all split: option.splits if_splits)
    from login_ok[OF Cons.prems(1) this] show ?thesis
      using Login Cons by (fastforce split: option.splits if_splits)
  next
    case (Drop p)
    with Cons.prems have "sessions s p \<noteq> None" by (simp split: option.splits)
    from drop_ok[OF Cons.prems(1) this] show ?thesis
      using Drop Cons by (fastforce split: option.splits)
  qed
qed

end

subsection \<open>The registry implements the specification\<close>

lemma session_inv_reg: "session_inv s \<Longrightarrow> reg_inv s"
  by (simp add: session_inv_def)

lemma session_inv_filed_iff:
  assumes "session_inv s"
  shows "filed (connections s) u p \<longleftrightarrow> (\<exists>a. view s p = Some (Some a) \<and> db_uid a = u)"
  using assms reg_inv_filed[OF session_inv_reg[OF assms], of u p]
  by (auto simp: session_inv_def view_def logged_in_as_iff)

lemma session_invI:
  assumes "reg_inv s" and "\<And>p a. view s p = Some (Some a) \<Longrightarrow> filed (connections s) (db_uid a) p"
  shows "session_inv s"
  using assms by (auto simp: session_inv_def view_def)

lemma session_open_ok:
  assumes inv: "session_inv s" and "p \<noteq> nullptr" and p: "view s p = None"
  shows "\<exists>s'. session_open L k p s = Some s' \<and> session_inv s' \<and> view s' = (view s)(p \<mapsto> None)"
proof -
  let ?s' = "alloc_client p (SubscriberInfo_new L k) s"
  have v: "view ?s' = (view s)(p \<mapsto> None)"
    by (auto simp: view_def alloc_client_def SubscriberInfo_new_def)
  have "reg_inv ?s'"
    using assms by (intro alloc_reg_inv) (auto simp: session_inv_def view_def)
  moreover have "filed (connections ?s') (db_uid a) q" if "view ?s' q = Some (Some a)" for q a
    using that session_inv_filed_iff[OF inv, of "db_uid a" q] v
    by (auto simp: alloc_client_def split: if_splits)
  ultimately show ?thesis using v by (auto simp: session_open_def intro: session_invI)
qed

lemma session_login_ok:
  assumes inv: "session_inv s" and p: "view s p = Some None"
    and valid: "ServerDBAuthInfo_IsValid L info"
  shows "\<exists>s'. session_login L p info s = Some s' \<and> session_inv s' \<and> view s' = (view s)(p \<mapsto> Some info)"
proof -
  from p obtain c where c: "heap s p = Some c" and new: "co_login c = None"
    by (auto simp: view_def)
  have r: "reg_inv s" using inv by (rule session_inv_reg)
  let ?s' = "s\<lparr>heap := (heap s)(p \<mapsto> SetLogin (Some info) c),
      connections := push_back (db_uid info) p (connections s),
      events := events s @ (if observer s then [SubscriberConnected (front_of info)] else [])\<rparr>"
  have v: "view ?s' = (view s)(p \<mapsto> Some info)" by (auto simp: view_def)
  have "filed (connections ?s') (db_uid a) q" if "view ?s' q = Some (Some a)" for q a
    using that session_inv_filed_iff[OF inv, of "db_uid a" q] v
    by (auto simp: filed_push_back split: if_splits)
  then have "session_inv ?s'"
    using register_reg_inv[OF r c new] by (blast intro: session_invI)
  then show ?thesis using v
    by (simp add: session_login_def Register_eq[OF valid heap_not_null[OF r c] c])
qed

lemma session_drop_ok:
  assumes inv: "session_inv s" and p: "view s p \<noteq> None"
  shows "\<exists>s'. session_drop p s = Some s' \<and> session_inv s' \<and> view s' = (view s)(p := None)"
proof -
  from p obtain c where c: "heap s p = Some c" by (auto simp: view_def)
  have r: "reg_inv s" using inv by (rule session_inv_reg)
  have null: "p \<noteq> nullptr" by (rule heap_not_null[OF r c])
  show ?thesis
  proof (cases "co_login c")
    case None
    have "\<not> filed (connections s) u p" for u
      using session_inv_filed_iff[OF inv, of u p] c None by (simp add: view_def)
    then have "reg_inv (free_client p s)" by (rule free_reg_inv[OF r])
    moreover have "filed (connections (free_client p s)) (db_uid a) q"
      if "view (free_client p s) q = Some (Some a)" for q a
      using that session_inv_filed_iff[OF inv, of "db_uid a" q]
      by (auto simp: free_client_def view_def split: if_splits)
    ultimately have "session_inv (free_client p s)" by (blast intro: session_invI)
    moreover have "view (free_client p s) = (view s)(p := None)"
      by (auto simp: free_client_def view_def)
    ultimately show ?thesis by (simp add: session_drop_def UnRegister_not_logged[OF null c None])
  next
    case (Some a)
    let ?m = "erase_connection (db_uid a) p (connections s)"
    let ?s1 = "s\<lparr>connections := ?m,
        events := events s @ (if observer s then [SubscriberDisConnected (front_of a)] else [])\<rparr>"
    have r1: "reg_inv ?s1" by (rule unregister_reg_inv[OF r])
    have reg: "filed ?m v q \<longleftrightarrow> filed (connections s) v q \<and> \<not> (v = db_uid a \<and> q = p)" for v q
      by (rule filed_erase[OF r])
    have "\<not> filed ?m u p" for u
      using session_inv_filed_iff[OF inv, of u p] c Some by (simp add: reg view_def)
    then have "\<not> filed (connections ?s1) u p" for u by simp
    then have "reg_inv (free_client p ?s1)" by (rule free_reg_inv[OF r1])
    moreover have v: "view (free_client p ?s1) = (view s)(p := None)"
      by (auto simp: free_client_def view_def)
    moreover have "filed (connections (free_client p ?s1)) (db_uid b) q"
      if "view (free_client p ?s1) q = Some (Some b)" for q b
      using that session_inv_filed_iff[OF inv, of "db_uid b" q] v reg[of "db_uid b" q]
      by (auto simp: free_client_def filed_def split: if_splits)
    ultimately have "session_inv (free_client p ?s1)" by (blast intro: session_invI)
    then show ?thesis using v
      by (simp add: session_drop_def UnRegister_eq[OF null c Some])
  qed
qed

interpretation reg: session_registry session_inv view "ServerDBAuthInfo_IsValid L"
    "session_open L" "session_login L" session_drop for L
  by unfold_locales (rule session_open_ok session_login_ok session_drop_ok; assumption)+

section \<open>Queries\<close>

definition online :: "('io, 'a) registry_scheme \<Rightarrow> ptr set" where
  "online s = {p. \<exists>a. view s p = Some (Some a)}"

definition identity_of :: "('io, 'a) registry_scheme \<Rightarrow> ptr \<Rightarrow> server_db_auth" where
  "identity_of s p = the (the (view s p))"

lemma session_inv_values:
  assumes "session_inv s"
  shows "set (all_values (connections s)) = online s"
    and "distinct (all_values (connections s))"
proof -
  have r: "reg_inv s" using assms by (rule session_inv_reg)
  show "distinct (all_values (connections s))" by (rule reg_inv_distinct_values[OF r])
  show "set (all_values (connections s)) = online s"
    using mem_all_values_filed[OF r] session_inv_filed_iff[OF assms]
    by (auto simp: online_def)
qed

lemma finite_online: "session_inv s \<Longrightarrow> finite (online s)"
  using session_inv_values(1)[of s] by (metis List.finite_set)

lemma online_object:
  "session_inv s \<Longrightarrow> p \<in> online s \<Longrightarrow>
     p \<noteq> nullptr \<and> (\<exists>c. heap s p = Some c \<and> co_login c = Some (identity_of s p))"
  by (auto simp: online_def view_def identity_of_def session_inv_def dest: heap_not_null)

lemma front_infos_online:
  assumes "session_inv s" and "set ps \<subseteq> online s"
  shows "front_infos (heap s) ps = Some (map (\<lambda>p. front_of (identity_of s p)) ps)"
  using assms(2)
proof (induction ps)
  case Nil
  then show ?case by simp
next
  case (Cons p ps)
  then show ?case
    using online_object[OF assms(1), of p] by (auto simp: MakeFrontSubscriberInfo_eq)
qed

lemma count_watchers_online:
  assumes "session_inv s" and "set ps \<subseteq> online s" and "distinct ps"
  shows "count_watchers (heap s) sid ps =
           Some (card {p \<in> set ps. map_option co_stream (heap s p) = Some sid})"
  using assms(2,3)
proof (induction ps)
  case Nil
  then show ?case by simp
next
  case (Cons p ps)
  from Cons.prems online_object[OF assms(1), of p] obtain c
    where p: "p \<noteq> nullptr" "heap s p = Some c" by auto
  have "{q \<in> set (p # ps). map_option co_stream (heap s q) = Some sid} =
        (if co_stream c = sid then {p} else {}) \<union>
        {q \<in> set ps. map_option co_stream (heap s q) = Some sid}"
    using p by auto
  moreover have "p \<notin> set ps" using Cons.prems by simp
  ultimately have "card {q \<in> set (p # ps). map_option co_stream (heap s q) = Some sid} =
      (if co_stream c = sid then 1 else 0) +
      card {q \<in> set ps. map_option co_stream (heap s q) = Some sid}"
    by simp
  then show ?case using Cons p by simp
qed

text \<open>
  The device search stops at the first connection of the list with the device, and answers that
  there is none only when no connection of the list has it.
\<close>

lemma find_device_connection_online:
  assumes "session_inv s" and "set ps \<subseteq> online s"
  shows "find_device_connection (heap s) dev ps =
           Some (find (\<lambda>p. ai_device (identity_of s p) = dev) ps)"
  using assms(2)
proof (induction ps)
  case Nil
  then show ?case by simp
next
  case (Cons p ps)
  then show ?case using online_object[OF assms(1), of p] by auto
qed

definition connections_of :: "('io, 'a) registry_scheme \<Rightarrow> string \<Rightarrow> ptr list" where
  "connections_of s u = (case map_of (connections s) u of None \<Rightarrow> [] | Some ps \<Rightarrow> ps)"

lemma set_connections_of:
  assumes "session_inv s"
  shows "set (connections_of s u) = {p \<in> online s. db_uid (identity_of s p) = u}"
proof -
  have "p \<in> set (connections_of s u) \<longleftrightarrow> filed (connections s) u p" for p
    by (auto simp: connections_of_def filed_def split: option.splits)
  then show ?thesis using session_inv_filed_iff[OF assms, of u]
    by (auto simp: online_def identity_of_def)
qed

lemma front_infos_dangling:
  "p \<in> set ps \<Longrightarrow> h p = None \<Longrightarrow> p \<noteq> nullptr \<Longrightarrow> front_infos h ps = None"
  by (induction ps) (auto split: option.splits)

text \<open>
  What somebody knows who keeps count of the connections and disconnections the observer is told of,
  and what there is to be known: the information of each session that is logged in.
\<close>

fun heard :: "sub_event \<Rightarrow> front_subscriber_info multiset \<Rightarrow> front_subscriber_info multiset" where
  "heard (SubscriberConnected f) A = add_mset f A"
| "heard (SubscriberDisConnected f) A = A - {#f#}"

definition audience :: "sub_event list \<Rightarrow> front_subscriber_info multiset" where
  "audience es = fold heard es {#}"

lemma audience_append [simp]:
  "audience [] = {#}" "audience (es @ [e]) = heard e (audience es)"
  by (simp_all add: audience_def)

definition fronts :: "('io, 'a) registry_scheme \<Rightarrow> front_subscriber_info multiset" where
  "fronts s = image_mset (\<lambda>p. front_of (identity_of s p)) (mset_set (online s))"

lemma fronts_login:
  assumes "finite (online s)" and "p \<notin> online s" and "view s' = (view s)(p \<mapsto> Some a)"
  shows "fronts s' = add_mset (front_of a) (fronts s)"
proof -
  have "online s' = insert p (online s)" using assms(3) by (auto simp: online_def)
  moreover have "image_mset (\<lambda>q. front_of (identity_of s' q)) (mset_set (online s)) =
      image_mset (\<lambda>q. front_of (identity_of s q)) (mset_set (online s))"
    using assms by (intro image_mset_cong) (auto simp: identity_of_def)
  ultimately show ?thesis using assms by (simp add: fronts_def identity_of_def)
qed

lemma fronts_drop:
  assumes "finite (online s)" and "view s' = (view s)(p := None)"
  shows "fronts s' = (if p \<in> online s then fronts s - {#front_of (identity_of s p)#} else fronts s)"
proof -
  have on: "online s' = online s - {p}" using assms(2) by (auto simp: online_def)
  have same: "image_mset (\<lambda>q. front_of (identity_of s' q)) (mset_set (online s - {p})) =
      image_mset (\<lambda>q. front_of (identity_of s q)) (mset_set (online s - {p}))"
    using assms by (intro image_mset_cong) (auto simp: identity_of_def)
  show ?thesis
  proof (cases "p \<in> online s")
    case True
    then have "mset_set (online s - {p}) = mset_set (online s) - {#p#}" "{#p#} \<subseteq># mset_set (online s)"
      using assms(1) by (simp_all add: mset_set_Diff)
    then show ?thesis using True same by (simp add: fronts_def on image_mset_Diff)
  next
    case False
    then have "online s - {p} = online s" by blast
    then show ?thesis using False same by (simp add: fronts_def on)
  qed
qed

definition SubscribersManager_registry :: "bool \<Rightarrow> 'io \<Rightarrow> 'io registry" where
  "SubscribersManager_registry obs w =
     \<lparr>heap = Map.empty, connections = [], observer = obs, events = [], io = w\<rparr>"

lemma session_inv_initial: "session_inv (SubscribersManager_registry obs w)"
  by (simp add: session_inv_def reg_inv_def SubscribersManager_registry_def)

lemma view_initial: "view (SubscribersManager_registry obs w) = Map.empty"
  by (simp add: view_def SubscribersManager_registry_def fun_eq_iff)

text \<open>The observer can follow the sessions that are logged in.\<close>

definition observed_inv :: "('io, 'a) registry_scheme \<Rightarrow> bool" where
  "observed_inv s \<longleftrightarrow> session_inv s \<and> observer s \<and> audience (events s) = fronts s"

lemma online_view_eq: "view s' = m \<Longrightarrow> online s' = {p. \<exists>a. m p = Some (Some a)}"
  by (simp add: online_def)

lemma open_observed:
  assumes "observed_inv s" and "p \<noteq> nullptr" and "view s p = None"
  shows "\<exists>s'. session_open L kd p s = Some s' \<and> observed_inv s' \<and> view s' = (view s)(p \<mapsto> None)"
proof -
  from session_open_ok[of s p L kd] assms obtain s' where
    s': "session_open L kd p s = Some s'" "session_inv s'" "view s' = (view s)(p \<mapsto> None)"
    by (auto simp: observed_inv_def)
  then have "events s' = events s" "observer s' = observer s"
    by (auto simp: session_open_def alloc_client_def)
  moreover have "online s' = online s" using online_view_eq[OF s'(3)] assms(3)
    by (auto simp: online_def)
  moreover have "finite (online s)" using assms(1) finite_online[of s] by (simp add: observed_inv_def)
  then have "fronts s' = fronts s"
    unfolding fronts_def calculation(3) using s'(3) assms(3)
    by (intro image_mset_cong) (auto simp: identity_of_def online_def)
  ultimately show ?thesis using s' assms(1) by (simp add: observed_inv_def)
qed

lemma login_observed:
  assumes inv: "observed_inv s" and p: "view s p = Some None"
    and valid: "ServerDBAuthInfo_IsValid L info"
  shows "\<exists>s'. session_login L p info s = Some s' \<and> observed_inv s' \<and> view s' = (view s)(p \<mapsto> Some info)"
proof -
  have si: "session_inv s" using inv by (simp add: observed_inv_def)
  from session_login_ok[OF si p valid] obtain s' where
    s': "session_login L p info s = Some s'" "session_inv s'" "view s' = (view s)(p \<mapsto> Some info)"
    by blast
  from p obtain c where c: "heap s p = Some c" by (auto simp: view_def)
  have "events s' = events s @ [SubscriberConnected (front_of info)]" "observer s'"
    using s'(1) inv
    by (auto simp: session_login_def observed_inv_def
        Register_eq[OF valid heap_not_null[OF session_inv_reg[OF si] c] c])
  moreover have "fronts s' = add_mset (front_of info) (fronts s)"
    by (rule fronts_login[OF finite_online[OF si] _ s'(3)]) (use p in \<open>simp add: online_def\<close>)
  ultimately show ?thesis using s' inv by (simp add: observed_inv_def)
qed

lemma drop_observed:
  assumes inv: "observed_inv s" and p: "view s p \<noteq> None"
  shows "\<exists>s'. session_drop p s = Some s' \<and> observed_inv s' \<and> view s' = (view s)(p := None)"
proof -
  have si: "session_inv s" using inv by (simp add: observed_inv_def)
  from session_drop_ok[OF si p] obtain s' where
    s': "session_drop p s = Some s'" "session_inv s'" "view s' = (view s)(p := None)"
    by blast
  from p obtain c where c: "heap s p = Some c" by (auto simp: view_def)
  note null = heap_not_null[OF session_inv_reg[OF si] c]
  note fronts = fronts_drop[OF finite_online[OF si] s'(3)]
  show ?thesis
  proof (cases "co_login c")
    case None
    then have "p \<notin> online s" using c by (simp add: online_def view_def)
    then show ?thesis using s' inv fronts None
      by (auto simp: session_drop_def UnRegister_not_logged[OF null c] free_client_def observed_inv_def)
  next
    case (Some a)
    then have on_p: "p \<in> online s" using c by (simp add: online_def view_def)
    have "events s' = events s @ [SubscriberDisConnected (front_of a)]" "observer s'"
      using s'(1) inv Some
      by (auto simp: session_drop_def UnRegister_eq[OF null c Some] free_client_def observed_inv_def)
    moreover have "identity_of s p = a" using c Some by (simp add: identity_of_def view_def)
    ultimately show ?thesis using s' inv fronts on_p by (simp add: observed_inv_def)
  qed
qed

interpretation watched: session_registry observed_inv view "ServerDBAuthInfo_IsValid L"
    "session_open L" "session_login L" session_drop for L
  by unfold_locales (rule open_observed login_observed drop_observed; assumption)+

section \<open>Properties of the registry\<close>

text \<open>
  C3: The registry refines its specification.  Whatever script of accepted connections, single
  logins and closings the servers run, started from a state that satisfies the invariant, no
  operation reads a freed object or fails a \<open>CHECK\<close>, the invariant holds at the end (every
  pointer of \<open>connections_\<close> is a live object filed under its own user), and the live sessions
  and their identities are the ones the specification computes.
\<close>

theorem session_scripts_refine:
  assumes "session_inv s"
    and "spec_sessions (ServerDBAuthInfo_IsValid L) xs (view s) = Some m"
  shows "\<exists>s'. run_sessions (session_open L) (session_login L) session_drop xs s = Some s' \<and>
              session_inv s' \<and> view s' = m"
  using assms by (rule reg.run_refines)

theorem session_scripts_refine_witness:
  "\<exists>s'. run_sessions (session_open sample_lib) (session_login sample_lib) session_drop
          [Open SubscriberClient (Addr 1), Login (Addr 1) (sample_auth ''u1'' ''d1''),
           Open HttpClient (Addr 2), Drop (Addr 1)] (SubscribersManager_registry True ()) = Some s' \<and>
        session_inv s' \<and> view s' = [Addr 2 \<mapsto> None]"
proof -
  have "spec_sessions (ServerDBAuthInfo_IsValid sample_lib)
          [Open SubscriberClient (Addr 1), Login (Addr 1) (sample_auth ''u1'' ''d1''),
           Open HttpClient (Addr 2), Drop (Addr 1)]
          (view (SubscribersManager_registry True ())) = Some [Addr 2 \<mapsto> None]"
    by (simp add: view_initial sample_auth_valid fun_eq_iff)
  then show ?thesis by (rule session_scripts_refine[OF session_inv_initial])
qed

text \<open>
  C24: A second login of a connection that is already logged in breaks the registry.  When the
  connection is then closed and its object deleted, \<open>UnRegisterInnerConnectionByHost\<close> removes
  only one entry, found under the current identity: the old entry stays behind as a dangling
  pointer, and the next query over the online subscribers reads freed memory.
\<close>

theorem second_login_leaves_dangling_pointer:
  assumes inv: "session_inv s" and p: "view s p = Some (Some a)"
    and valid: "ServerDBAuthInfo_IsValid L b"
  shows "\<exists>s1 s2. session_login L p b s = Some s1 \<and> session_drop p s1 = Some s2 \<and>
           filed (connections s2) (db_uid a) p \<and> heap s2 p = None \<and>
           GetOnlineSubscribers s2 = None"
proof -
  have r: "reg_inv s" using inv by (rule session_inv_reg)
  from p obtain c where c: "heap s p = Some c" "co_login c = Some a" by (auto simp: view_def)
  note null = heap_not_null[OF r c(1)]
  let ?m1 = "push_back (db_uid b) p (connections s)"
  let ?m2 = "erase_connection (db_uid b) p ?m1"
  let ?es1 = "events s @ (if observer s then [SubscriberConnected (front_of b)] else [])"
  let ?s1 = "s\<lparr>heap := (heap s)(p \<mapsto> SetLogin (Some b) c), connections := ?m1, events := ?es1\<rparr>"
  let ?s2 = "free_client p (?s1\<lparr>connections := ?m2, events := events ?s1 @
      (if observer s then [SubscriberDisConnected (front_of b)] else [])\<rparr>)"
  have login: "session_login L p b s = Some ?s1"
    by (simp add: session_login_def Register_eq[OF valid null c(1)])
  have drop: "session_drop p ?s1 = Some ?s2"
    by (simp add: session_drop_def UnRegister_eq[OF null, where c = "SetLogin (Some b) c" and a = b])
  have "filed (connections s) (db_uid a) p" using session_inv_filed_iff[OF inv] p by blast
  then obtain ps where ps: "map_of (connections s) (db_uid a) = Some ps" "p \<in> set ps"
    by (auto simp: filed_iff)
  then have "filed ?m2 (db_uid a) p"
    by (auto simp: filed_iff erase_connection_def map_of_push_back Let_def map_of_delete_iff
        update_conv' remove1_append split: option.splits)
  then have dangling: "filed (connections ?s2) (db_uid a) p" "heap ?s2 p = None"
    by (simp_all add: free_client_def)
  have d: "distinct (map fst ?m2)"
    using r by (intro erase_distinct_keys distinct_push_back) (simp add: reg_inv_def)
  have "p \<in> set (all_values ?m2)"
    unfolding set_all_values[OF d] using \<open>filed ?m2 (db_uid a) p\<close> unfolding filed_iff by blast
  then have "p \<in> set (all_values (connections ?s2))" by (simp add: free_client_def)
  then have "front_infos (heap ?s2) (all_values (connections ?s2)) = None"
    using dangling(2) null by (rule front_infos_dangling)
  then show ?thesis using login drop dangling unfolding GetOnlineSubscribers_def by blast
qed

theorem second_login_leaves_dangling_pointer_witness:
  "\<exists>s s1 s2. view s (Addr 1) = Some (Some (sample_auth ''u1'' ''d1'')) \<and>
     session_login sample_lib (Addr 1) (sample_auth ''u2'' ''d2'') s = Some s1 \<and>
     session_drop (Addr 1) s1 = Some s2 \<and> GetOnlineSubscribers (s2 :: unit registry) = None"
proof -
  have "spec_sessions (ServerDBAuthInfo_IsValid sample_lib)
          [Open SubscriberClient (Addr 1), Login (Addr 1) (sample_auth ''u1'' ''d1'')]
          (view (SubscribersManager_registry True ())) =
        Some [Addr 1 \<mapsto> Some (sample_auth ''u1'' ''d1'')]"
    by (simp add: view_initial sample_auth_valid fun_eq_iff)
  from reg.run_refines[OF session_inv_initial this] obtain s :: "unit registry" where
    "session_inv s" and v: "view s (Addr 1) = Some (Some (sample_auth ''u1'' ''d1''))" by auto
  from second_login_leaves_dangling_pointer[OF this sample_auth_valid[of "''u2''" "''d2''"]] v
  show ?thesis by auto
qed

subsection \<open>The queries\<close>

text \<open>A registry with two sessions of one user and one that has not logged in.\<close>

definition sample_object :: "server_db_auth option \<Rightarrow> string \<Rightarrow> client_obj" where
  "sample_object a sid =
     \<lparr>co_kind = SubscriberClient, co_login = a, co_stream = sid, co_info = None, co_verified = False\<rparr>"

definition sample_registry :: "string list registry" where
  "sample_registry =
     \<lparr>heap = [Addr 4 \<mapsto> sample_object (Some (sample_auth ''u1'' ''d1'')) ''s1'',
              Addr 2 \<mapsto> sample_object (Some (sample_auth ''u1'' ''d2'')) ''s2'',
              Addr 3 \<mapsto> sample_object None ''s1''],
      connections = [(''u1'', [Addr 4, Addr 2])], observer = True, events = [], io = []\<rparr>"

lemma sample_registry_inv: "session_inv sample_registry"
  by (auto simp: session_inv_def reg_inv_def sample_registry_def sample_object_def logged_in_as_def
      filed_def split: if_splits)

lemma sample_registry_online: "online sample_registry = {Addr 4, Addr 2}"
  by (auto simp: online_def view_def sample_registry_def sample_object_def split: if_splits)

lemma sample_registry_simps:
  "identity_of sample_registry (Addr 4) = sample_auth ''u1'' ''d1''"
  "identity_of sample_registry (Addr 2) = sample_auth ''u1'' ''d2''"
  by (simp_all add: identity_of_def view_def sample_registry_def sample_object_def)

lemma online_subscribers:
  assumes "session_inv s"
  shows "\<exists>fs. GetOnlineSubscribers s = Some fs \<and>
           mset fs = image_mset (\<lambda>p. front_of (identity_of s p)) (mset_set (online s))"
proof -
  note vals = session_inv_values[OF assms]
  have "mset_set (online s) = mset (all_values (connections s))"
    using mset_set_set[OF vals(2)] vals(1) by simp
  then show ?thesis
    using front_infos_online[OF assms, of "all_values (connections s)"] vals(1)
    by (simp add: GetOnlineSubscribers_def)
qed

text \<open>
  C27: The list of online subscribers is exact: it reports every connection that is logged in, with
  the data it logged in with, once for each connection, and nothing else, and it never reads a
  freed object.
\<close>

theorem online_subscribers_exact:
  assumes "session_inv s"
  shows "\<exists>fs. GetOnlineSubscribers s = Some fs \<and>
           mset fs = image_mset (\<lambda>p. front_of (identity_of s p)) (mset_set (online s))"
  using assms by (rule online_subscribers)

theorem online_subscribers_exact_witness:
  "\<exists>fs. GetOnlineSubscribers sample_registry = Some fs \<and>
     mset fs = {#front_of (sample_auth ''u1'' ''d1''), front_of (sample_auth ''u1'' ''d2'')#}"
  using online_subscribers_exact[OF sample_registry_inv]
  by (simp add: sample_registry_online sample_registry_simps)

text \<open>
  The number of watchers of a stream is the number of connections that are logged in and whose
  current stream it is.
\<close>

theorem watchers_exact:
  assumes "session_inv s"
  shows "GetAndUpdateOnlineUserByStreamID sid s =
           Some (card {p \<in> online s. map_option co_stream (heap s p) = Some sid})"
  using count_watchers_online[OF assms _ session_inv_values(2)[OF assms]] session_inv_values(1)[OF assms]
  by (simp add: GetAndUpdateOnlineUserByStreamID_def)

theorem watchers_exact_witness: "GetAndUpdateOnlineUserByStreamID ''s1'' sample_registry = Some 1"
proof -
  have "{p \<in> online sample_registry. map_option co_stream (heap sample_registry p) = Some ''s1''} =
        {Addr 4}"
    unfolding sample_registry_online by (auto simp: sample_registry_def sample_object_def)
  then show ?thesis using watchers_exact[OF sample_registry_inv, of "''s1''"] by simp
qed

lemma notification_target:
  assumes inv: "session_inv s"
  shows "case find (\<lambda>p. ai_device (identity_of s p) = dev) (connections_of s uid) of
           None \<Rightarrow>
             (\<forall>p \<in> online s. db_uid (identity_of s p) = uid \<longrightarrow> ai_device (identity_of s p) \<noteq> dev) \<and>
             SendSubscriberNotification C uid dev txt s =
               Some (s, Some (ErrText (if \<exists>p \<in> online s. db_uid (identity_of s p) = uid
                                       then ''Device not found'' else ''Client not found'')))
         | Some p \<Rightarrow>
             p \<in> online s \<and> db_uid (identity_of s p) = uid \<and> ai_device (identity_of s p) = dev \<and>
             (\<exists>c. heap s p = Some c \<and>
                SendSubscriberNotification C uid dev txt s =
                  (case SendNotification C p c txt (io s) of
                     (w, e) \<Rightarrow> Some (s\<lparr>io := w\<rparr>, map_option ErrFromErrno e)))"
proof (cases "find (\<lambda>p. ai_device (identity_of s p) = dev) (connections_of s uid)")
  case None
  note conns = set_connections_of[OF inv, of uid]
  have sub: "set (connections_of s uid) \<subseteq> online s" using conns by blast
  have no: "\<forall>p \<in> set (connections_of s uid). ai_device (identity_of s p) \<noteq> dev"
    using None by (auto simp: find_None_iff)
  show ?thesis
  proof (cases "map_of (connections s) uid")
    case (Some ps)
    then have "ps \<noteq> []" "connections_of s uid = ps"
      using session_inv_reg[OF inv] by (auto simp: reg_inv_iff connections_of_def)
    then have "\<exists>p \<in> online s. db_uid (identity_of s p) = uid" using conns
      by (cases ps) auto
    then show ?thesis
      using None Some no conns find_device_connection_online[OF inv sub, of dev] \<open>connections_of s uid = ps\<close>
      by (auto simp: SendSubscriberNotification_def)
  next
    case None': None
    then have "connections_of s uid = []" by (simp add: connections_of_def)
    then show ?thesis using None' None conns by (auto simp: SendSubscriberNotification_def)
  qed
next
  case (Some p)
  note conns = set_connections_of[OF inv, of uid]
  have sub: "set (connections_of s uid) \<subseteq> online s" using conns by blast
  from Some have p: "p \<in> set (connections_of s uid)" "ai_device (identity_of s p) = dev"
    by (auto simp: find_Some_iff)
  then obtain ps where ps: "map_of (connections s) uid = Some ps" "connections_of s uid = ps"
    by (cases "map_of (connections s) uid") (simp_all add: connections_of_def)
  from p conns have on: "p \<in> online s" "db_uid (identity_of s p) = uid" by auto
  from online_object[OF inv on(1)] obtain c where "heap s p = Some c" by auto
  then show ?thesis
    using Some p on ps find_device_connection_online[OF inv sub, of dev]
    by (auto simp: SendSubscriberNotification_def split: prod.splits option.splits)
qed

text \<open>
  A notification goes to the first connection of the user that has the device, and to no other
  one; when there is none, nothing is sent and the error tells whether the user has no
  connection at all or only none with the device.
\<close>

theorem notification_routing:
  assumes inv: "session_inv s"
  shows "case find (\<lambda>p. ai_device (identity_of s p) = dev) (connections_of s uid) of
           None \<Rightarrow>
             (\<forall>p \<in> online s. db_uid (identity_of s p) = uid \<longrightarrow> ai_device (identity_of s p) \<noteq> dev) \<and>
             SendSubscriberNotification C uid dev txt s =
               Some (s, Some (ErrText (if \<exists>p \<in> online s. db_uid (identity_of s p) = uid
                                       then ''Device not found'' else ''Client not found'')))
         | Some p \<Rightarrow>
             p \<in> online s \<and> db_uid (identity_of s p) = uid \<and> ai_device (identity_of s p) = dev \<and>
             (\<exists>c. heap s p = Some c \<and>
                SendSubscriberNotification C uid dev txt s =
                  (case SendNotification C p c txt (io s) of
                     (w, e) \<Rightarrow> Some (s\<lparr>io := w\<rparr>, map_option ErrFromErrno e)))"
  using inv by (rule notification_target)

theorem notification_routing_witness:
  "SendSubscriberNotification sample_io ''u1'' ''d2'' ''hello'' sample_registry =
     Some (sample_registry\<lparr>io := [''send_message'']\<rparr>, None)"
proof -
  have "connections_of sample_registry ''u1'' = [Addr 4, Addr 2]"
    by (simp add: connections_of_def sample_registry_def)
  then show ?thesis
    using notification_routing[OF sample_registry_inv, of "''u1''" "''d2''" sample_io "''hello''"]
    by (simp add: sample_registry_simps)
      (simp add: sample_registry_def sample_object_def SendNotification_def
        SubscriberClient_SendNotification_def NotifyRequest_def sample_io_def)
qed

text \<open>
  Whatever script of sessions runs from the start, what the observer has been told gives exactly the
  sessions that are logged in.
\<close>

theorem observer_follows:
  assumes "spec_sessions (ServerDBAuthInfo_IsValid L) xs Map.empty = Some m"
  shows "\<exists>s'. run_sessions (session_open L) (session_login L) session_drop xs
             (SubscribersManager_registry True w) = Some s' \<and>
           audience (events s') = fronts s' \<and> view s' = m"
proof -
  have "observed_inv (SubscribersManager_registry True w)"
    using session_inv_initial by (simp add: observed_inv_def fronts_def online_def view_initial)
      (simp add: SubscribersManager_registry_def)
  from watched.run_refines[OF this] assms show ?thesis unfolding view_initial observed_inv_def by blast
qed

theorem observer_follows_witness:
  "\<exists>s'. run_sessions (session_open sample_lib) (session_login sample_lib) session_drop
          [Open SubscriberClient (Addr 1), Login (Addr 1) (sample_auth ''u1'' ''d1''),
           Open HttpClient (Addr 2)] (SubscribersManager_registry True ()) = Some s' \<and>
        audience (events s') = fronts s'"
proof -
  have "spec_sessions (ServerDBAuthInfo_IsValid sample_lib)
      [Open SubscriberClient (Addr 1), Login (Addr 1) (sample_auth ''u1'' ''d1''), Open HttpClient (Addr 2)]
      Map.empty = Some [Addr 1 \<mapsto> Some (sample_auth ''u1'' ''d1''), Addr 2 \<mapsto> None]"
    by (simp add: sample_auth_valid)
  from observer_follows[OF this, of "()"] show ?thesis by blast
qed

end
