(* ===== verification/Manager.thy ===== *)
theory Manager
  imports Sessions
begin

text \<open>
  The state of \<open>mongo::SubscribersManager\<close>: the connection registry, the handles on the
  collections, the catchup endpoint and the document store behind the handles; connecting to the
  database and disconnecting from it.
\<close>

section \<open>State\<close>

text \<open>
  \<open>collection_open\<close> and \<open>client_open\<close> tell which of the pointers \<open>subscribers_\<close>, \<open>servers_\<close>,
  \<open>streams_\<close>, \<open>series_\<close>, \<open>requests_\<close> and \<open>client_\<close> are not null; \<open>handles\<close> is the list of the
  objects of the database driver that have been created and not destroyed.
\<close>

datatype handle = ClientHandle | CollHandle coll

record ('io, 'db) manager = "'io registry" +
  collection_open :: "coll \<Rightarrow> bool"
  client_open :: bool
  handles :: "handle list"
  catchup_endpoint :: "host \<times> dirpath"
  db :: 'db

definition SubscribersManager_new ::
    "bool \<Rightarrow> 'io \<Rightarrow> host \<times> dirpath \<Rightarrow> 'db \<Rightarrow> ('io, 'db) manager" where
  "SubscribersManager_new obs w no_endpoint store =
     registry.extend (SubscribersManager_registry obs w)
       \<lparr>collection_open = (\<lambda>_. False), client_open = False, handles = [],
        catchup_endpoint = no_endpoint, db = store\<rparr>"

definition SetupCatchupsEndpoint ::
    "host \<times> dirpath \<Rightarrow> ('io, 'db, 'a) manager_scheme \<Rightarrow> ('io, 'db, 'a) manager_scheme" where
  "SetupCatchupsEndpoint info s = s\<lparr>catchup_endpoint := info\<rparr>"

section \<open>Connecting\<close>

text \<open>The driver: whether a uri parses, what the server answers, and which collections it hands out.\<close>

record mongo_driver =
  md_uri_ok :: "string \<Rightarrow> bool"
  md_server_status :: "string \<Rightarrow> string option"
  md_get_collection :: "string \<Rightarrow> coll \<Rightarrow> bool"

definition create :: "handle \<Rightarrow> ('io, 'db, 'a) manager_scheme \<Rightarrow> ('io, 'db, 'a) manager_scheme" where
  "create h s = s\<lparr>handles := h # handles s\<rparr>"

definition destroy :: "handle \<Rightarrow> ('io, 'db, 'a) manager_scheme \<Rightarrow> ('io, 'db, 'a) manager_scheme" where
  "destroy h s = s\<lparr>handles := remove1 h (handles s)\<rparr>"

definition MongoEngine_Connect ::
    "mongo_driver \<Rightarrow> string \<Rightarrow> bool \<Rightarrow> ('io, 'db, 'a) manager_scheme
     \<Rightarrow> ('io, 'db, 'a) manager_scheme \<times> errno option" where
  "MongoEngine_Connect D url lazy s =
     (if url = [] then (s, Some ErrnoInval)
      else if \<not> md_uri_ok D url then (s, Some (ErrnoText ''Invalid uri'' EINVAL))
      else
        let s1 = create ClientHandle s in
        if \<not> lazy then
          (case md_server_status D url of
             Some message \<Rightarrow> (destroy ClientHandle s1, Some (ErrnoText message EAGAIN))
           | None \<Rightarrow> (s1, None))
        else (s1, None))"

definition ConnectToDatabase ::
    "mongo_driver \<Rightarrow> string \<Rightarrow> string \<Rightarrow> bool \<Rightarrow> ('io, 'db, 'a) manager_scheme
     \<Rightarrow> ('io, 'db, 'a) manager_scheme \<times> errno option" where
  "ConnectToDatabase D url db_name lazy s =
     (if db_name = [] then (s, Some ErrnoInval)
      else case MongoEngine_Connect D url lazy s of
        (s1, Some err) \<Rightarrow> (s1, Some err)
      | (s1, None) \<Rightarrow>
          if \<not> md_get_collection D db_name SUBSCRIBERS then
            (destroy ClientHandle s1, Some (ErrnoText ''Can't find subscribers collection.'' EAGAIN))
          else
          let s2 = create (CollHandle SUBSCRIBERS) s1 in
          if \<not> md_get_collection D db_name SERVERS then
            (destroy ClientHandle (destroy (CollHandle SUBSCRIBERS) s2),
             Some (ErrnoText ''Can't find services collection.'' EAGAIN))
          else
          let s3 = create (CollHandle SERVERS) s2 in
          if \<not> md_get_collection D db_name STREAMS then
            (destroy ClientHandle (destroy (CollHandle SUBSCRIBERS) (destroy (CollHandle SERVERS) s3)),
             Some (ErrnoText ''Can't find streams collection.'' EAGAIN))
          else
          let s4 = create (CollHandle STREAMS) s3 in
          if \<not> md_get_collection D db_name SERIES then
            (destroy ClientHandle (destroy (CollHandle SUBSCRIBERS) (destroy (CollHandle SERVERS) s4)),
             Some (ErrnoText ''Can't find series collection.'' EAGAIN))
          else
          let s5 = create (CollHandle SERIES) s4 in
          if \<not> md_get_collection D db_name REQUESTS then
            (destroy ClientHandle (destroy (CollHandle SERIES) (destroy (CollHandle SUBSCRIBERS)
               (destroy (CollHandle SERVERS) s5))),
             Some (ErrnoText ''Can't find requests collection.'' EAGAIN))
          else
          let s6 = create (CollHandle REQUESTS) s5 in
          (s6\<lparr>collection_open := (\<lambda>_. True), client_open := True\<rparr>, None))"

definition close_collection ::
    "coll \<Rightarrow> ('io, 'db, 'a) manager_scheme \<Rightarrow> ('io, 'db, 'a) manager_scheme" where
  "close_collection c s =
     (if collection_open s c then
        (destroy (CollHandle c) s)\<lparr>collection_open := (collection_open s)(c := False)\<rparr>
      else s)"

definition Disconnect ::
    "('io, 'db, 'a) manager_scheme \<Rightarrow> ('io, 'db, 'a) manager_scheme \<times> errno option" where
  "Disconnect s =
     (let s1 = close_collection SERVERS s;
          s2 = close_collection STREAMS s1;
          s3 = close_collection SUBSCRIBERS s2;
          s4 = close_collection SERIES s3;
          s5 = close_collection REQUESTS s4;
          s6 = (if client_open s5 then (destroy ClientHandle s5)\<lparr>client_open := False\<rparr> else s5)
      in (s6, None))"

section \<open>Queries\<close>

text \<open>
  The queries the manager sends, and the first document of the answer.  All of them are
  \<open>mongoc_collection_find\<close> followed by one \<open>mongoc_cursor_next\<close>.
\<close>

definition by_id :: "oid \<Rightarrow> bdoc" where
  "by_id x = [(''_id'', BOid x)]"

definition by_email :: "string \<Rightarrow> bdoc" where
  "by_email login = [(''email'', BUtf8 login)]"

definition find_one ::
    "'db mongo_lib \<Rightarrow> coll \<Rightarrow> bdoc \<Rightarrow> ('io, 'db, 'a) manager_scheme \<Rightarrow> bdoc option" where
  "find_one M c q s = mg_find M (db s) c q"

text \<open>An update whose error message becomes the error of the caller.\<close>

definition update_one ::
    "'db mongo_lib \<Rightarrow> coll \<Rightarrow> bdoc \<Rightarrow> bdoc \<Rightarrow> ('io, 'db, 'a) manager_scheme
     \<Rightarrow> ('io, 'db, 'a) manager_scheme \<times> error option" where
  "update_one M c q u s =
     (case mg_update M (db s) c q u of
        (d, None) \<Rightarrow> (s\<lparr>db := d\<rparr>, None)
      | (d, Some message) \<Rightarrow> (s\<lparr>db := d\<rparr>, Some (ErrText message)))"

definition insert_one ::
    "'db mongo_lib \<Rightarrow> coll \<Rightarrow> bdoc \<Rightarrow> ('io, 'db, 'a) manager_scheme
     \<Rightarrow> ('io, 'db, 'a) manager_scheme \<times> error option" where
  "insert_one M c doc s =
     (case mg_insert M (db s) c doc of
        (d, None) \<Rightarrow> (s\<lparr>db := d\<rparr>, None)
      | (d, Some message) \<Rightarrow> (s\<lparr>db := d\<rparr>, Some (ErrText message)))"

text \<open>These calls touch the store only: the connections and the handles stay as they are.\<close>

definition same_sessions ::
    "('io, 'db, 'a) manager_scheme \<Rightarrow> ('io, 'db, 'a) manager_scheme \<Rightarrow> bool" where
  "same_sessions s s' \<longleftrightarrow>
     heap s' = heap s \<and> connections s' = connections s \<and> observer s' = observer s \<and>
     events s' = events s \<and> io s' = io s \<and> collection_open s' = collection_open s \<and>
     client_open s' = client_open s \<and> handles s' = handles s \<and>
     catchup_endpoint s' = catchup_endpoint s"

lemma same_sessions_refl [simp, intro]: "same_sessions s s"
  by (simp add: same_sessions_def)

lemma same_sessions_trans [trans]: "same_sessions s t \<Longrightarrow> same_sessions t u \<Longrightarrow> same_sessions s u"
  by (simp add: same_sessions_def)

lemma same_sessions_db [simp, intro]: "same_sessions s (s\<lparr>db := d\<rparr>)"
  by (simp add: same_sessions_def)

lemma update_one_same [simp, intro]: "same_sessions s (fst (update_one M c q u s))"
  by (simp add: update_one_def split: prod.splits option.splits)

lemma insert_one_same [simp, intro]: "same_sessions s (fst (insert_one M c d s))"
  by (simp add: insert_one_def split: prod.splits option.splits)

lemma same_sessions_view: "same_sessions s s' \<Longrightarrow> view s' = view s"
  by (simp add: same_sessions_def view_def fun_eq_iff)

lemma same_sessions_inv: "same_sessions s s' \<Longrightarrow> session_inv s \<Longrightarrow> session_inv s'"
  by (simp add: same_sessions_def session_inv_def reg_inv_def)

section \<open>Properties\<close>

lemmas handle_simps = create_def destroy_def close_collection_def

lemma connect_first_missing:
  assumes "db_name \<noteq> []" and "url \<noteq> []" and "md_uri_ok D url"
    and "lazy \<or> md_server_status D url = None"
  shows "ConnectToDatabase D url db_name lazy s =
    (case find (\<lambda>c. \<not> md_get_collection D db_name c) [SUBSCRIBERS, SERVERS, STREAMS, SERIES, REQUESTS] of
       None \<Rightarrow>
         (s\<lparr>handles := [CollHandle REQUESTS, CollHandle SERIES, CollHandle STREAMS, CollHandle SERVERS,
                        CollHandle SUBSCRIBERS, ClientHandle] @ handles s,
            collection_open := (\<lambda>_. True), client_open := True\<rparr>, None)
     | Some c \<Rightarrow>
         (s\<lparr>handles := (if c = SERIES \<or> c = REQUESTS then [CollHandle STREAMS] else []) @ handles s\<rparr>,
          Some (ErrnoText (case c of SUBSCRIBERS \<Rightarrow> ''Can't find subscribers collection.''
                           | SERVERS \<Rightarrow> ''Can't find services collection.''
                           | STREAMS \<Rightarrow> ''Can't find streams collection.''
                           | SERIES \<Rightarrow> ''Can't find series collection.''
                           | REQUESTS \<Rightarrow> ''Can't find requests collection.'') EAGAIN)))"
proof -
  have "MongoEngine_Connect D url lazy s = (create ClientHandle s, None)"
    using assms by (auto simp: MongoEngine_Connect_def Let_def)
  then show ?thesis using assms(1)
    by (simp add: ConnectToDatabase_def Let_def handle_simps)
qed

definition sample_driver :: "coll list \<Rightarrow> mongo_driver" where
  "sample_driver cs =
     \<lparr>md_uri_ok = (\<lambda>u. True), md_server_status = (\<lambda>u. None),
      md_get_collection = (\<lambda>d c. c \<in> set cs)\<rparr>"

abbreviation full_driver :: mongo_driver where
  "full_driver \<equiv> sample_driver [SUBSCRIBERS, SERVERS, STREAMS, SERIES, REQUESTS]"

text \<open>
  What connecting reports: bad arguments first, then a uri that does not parse, then the answer of the
  server when it is asked, and then the first collection that is missing, in this order.
\<close>

fun missing_message :: "coll \<Rightarrow> string" where
  "missing_message SUBSCRIBERS = ''Can't find subscribers collection.''"
| "missing_message SERVERS = ''Can't find services collection.''"
| "missing_message STREAMS = ''Can't find streams collection.''"
| "missing_message SERIES = ''Can't find series collection.''"
| "missing_message REQUESTS = ''Can't find requests collection.''"

definition missing_collection :: "mongo_driver \<Rightarrow> string \<Rightarrow> coll option" where
  "missing_collection D db_name =
     find (\<lambda>c. \<not> md_get_collection D db_name c) [SUBSCRIBERS, SERVERS, STREAMS, SERIES, REQUESTS]"

definition connect_error :: "mongo_driver \<Rightarrow> string \<Rightarrow> string \<Rightarrow> bool \<Rightarrow> errno option" where
  "connect_error D url db_name lazy =
     (if db_name = [] \<or> url = [] then Some ErrnoInval
      else if \<not> md_uri_ok D url then Some (ErrnoText ''Invalid uri'' EINVAL)
      else case (if lazy then None else md_server_status D url) of
        Some message \<Rightarrow> Some (ErrnoText message EAGAIN)
      | None \<Rightarrow> map_option (\<lambda>c. ErrnoText (missing_message c) EAGAIN) (missing_collection D db_name))"

definition connection_made :: "mongo_driver \<Rightarrow> string \<Rightarrow> string \<Rightarrow> bool \<Rightarrow> bool" where
  "connection_made D url db_name lazy \<longleftrightarrow>
     db_name \<noteq> [] \<and> url \<noteq> [] \<and> md_uri_ok D url \<and> (lazy \<or> md_server_status D url = None)"

lemma connect_reports:
  "snd (ConnectToDatabase D url db_name lazy s) = connect_error D url db_name lazy"
  by (simp add: ConnectToDatabase_def MongoEngine_Connect_def connect_error_def missing_collection_def Let_def
      split: option.splits)

lemma connect_keeps:
  assumes "ConnectToDatabase D url db_name lazy s = (s', Some err)"
  shows "client_open s' = client_open s \<and> collection_open s' = collection_open s \<and>
    handles s' = (if connection_made D url db_name lazy \<and> missing_collection D db_name \<in> {Some SERIES, Some REQUESTS}
                  then [CollHandle STREAMS] else []) @ handles s"
  using assms
  by (auto simp: ConnectToDatabase_def MongoEngine_Connect_def handle_simps Let_def connection_made_def
      missing_collection_def split: if_splits option.splits)

lemma connect_opens:
  assumes "ConnectToDatabase D url db_name lazy s = (s', None)"
  shows "client_open s' \<and> collection_open s' = (\<lambda>_. True) \<and>
    handles s' = [CollHandle REQUESTS, CollHandle SERIES, CollHandle STREAMS, CollHandle SERVERS,
                  CollHandle SUBSCRIBERS, ClientHandle] @ handles s"
  using assms
  by (auto simp: ConnectToDatabase_def MongoEngine_Connect_def handle_simps Let_def split: if_splits option.splits)

text \<open>
  C26: What connecting to the database reports and leaves, for every driver, every argument and every
  state.  It reports an empty name or address, then an address that does not parse, then (unless it is
  lazy) the failure of the server, then the first collection that is missing in the order subscribers,
  services, streams, series, requests, each with its own message, and otherwise success.  On success the
  client and all five collections are open and exactly their six handles are new.  After an error all
  pointers are as before, and no handle is left behind except that of the streams collection, which
  leaks exactly when the series or the requests are the collection that is missing.
\<close>

theorem connect_outcome:
  "case ConnectToDatabase D url db_name lazy s of (s', err) \<Rightarrow>
     err = connect_error D url db_name lazy \<and>
     (case err of
        None \<Rightarrow>
          client_open s' \<and> collection_open s' = (\<lambda>_. True) \<and>
          handles s' = [CollHandle REQUESTS, CollHandle SERIES, CollHandle STREAMS, CollHandle SERVERS,
                        CollHandle SUBSCRIBERS, ClientHandle] @ handles s
      | Some _ \<Rightarrow>
          client_open s' = client_open s \<and> collection_open s' = collection_open s \<and>
          handles s' =
            (if connection_made D url db_name lazy \<and> missing_collection D db_name \<in> {Some SERIES, Some REQUESTS}
             then [CollHandle STREAMS] else []) @ handles s)"
  using connect_reports[of D url db_name lazy s] connect_keeps[of D url db_name lazy s]
    connect_opens[of D url db_name lazy s]
  by (cases "ConnectToDatabase D url db_name lazy s") (auto split: option.splits)

theorem connect_outcome_witness:
  "snd (ConnectToDatabase full_driver ''mongodb://localhost'' ''iptv'' True
          (SubscribersManager_new True () (''host'', DirPath ''/root'') ())) = None \<and>
   snd (ConnectToDatabase (sample_driver [SUBSCRIBERS, SERIES]) ''mongodb://localhost'' ''iptv'' False
          (SubscribersManager_new True () (''host'', DirPath ''/root'') ())) =
     Some (ErrnoText ''Can't find services collection.'' EAGAIN)"
  using connect_outcome[of full_driver "''mongodb://localhost''" "''iptv''" True
      "SubscribersManager_new True () (''host'', DirPath ''/root'') ()"]
    connect_outcome[of "sample_driver [SUBSCRIBERS, SERIES]" "''mongodb://localhost''" "''iptv''" False
      "SubscribersManager_new True () (''host'', DirPath ''/root'') ()"]
  by (auto simp: connect_error_def missing_collection_def sample_driver_def split: prod.splits)

text \<open>
  Disconnecting undoes a successful connection: every object of the driver that the
  connection created is destroyed, none twice, and all pointers are null again.
\<close>

theorem disconnect_releases:
  assumes "ConnectToDatabase D url db_name lazy s = (s', None)"
  shows "\<exists>s''. Disconnect s' = (s'', None) \<and> handles s'' = handles s \<and> \<not> client_open s'' \<and>
           collection_open s'' = (\<lambda>_. False)"
proof -
  have pre: "db_name \<noteq> []" "url \<noteq> []" "md_uri_ok D url" "lazy \<or> md_server_status D url = None"
    using assms by (auto simp: ConnectToDatabase_def MongoEngine_Connect_def Let_def
        split: if_splits option.splits)
  have "s' = s\<lparr>handles := [CollHandle REQUESTS, CollHandle SERIES, CollHandle STREAMS, CollHandle SERVERS,
                 CollHandle SUBSCRIBERS, ClientHandle] @ handles s,
               collection_open := (\<lambda>_. True), client_open := True\<rparr>"
    using assms unfolding connect_first_missing[OF pre] by (auto split: option.splits)
  moreover have "f = (\<lambda>_. False) \<longleftrightarrow> \<not> f SUBSCRIBERS \<and> \<not> f SERVERS \<and> \<not> f STREAMS \<and> \<not> f SERIES \<and> \<not> f REQUESTS" for f
    by (simp add: fun_eq_iff all_coll)
  ultimately show ?thesis
    by (simp add: Disconnect_def handle_simps Let_def)
qed

theorem disconnect_releases_witness:
  "\<exists>s' s''. ConnectToDatabase full_driver
              ''mongodb://localhost'' ''iptv'' True
              (SubscribersManager_new True () (''host'', DirPath ''/root'') ()) = (s', None) \<and>
            Disconnect s' = (s'', None) \<and> handles s'' = []"
proof -
  let ?s = "SubscribersManager_new True () (''host'', DirPath ''/root'') ()"
  obtain s' where "ConnectToDatabase full_driver
      ''mongodb://localhost'' ''iptv'' True ?s = (s', None)"
    by (simp add: connect_first_missing sample_driver_def)
  from disconnect_releases[OF this] this show ?thesis
    by (auto simp: SubscribersManager_new_def registry.extend_def)
qed

text \<open>
  A connection that fails at the collection of the series or of the requests leaks the handle
  on the collection of the streams: the clean-up destroys all other handles but not this one.
\<close>

theorem connect_failure_leaks:
  assumes "db_name \<noteq> []" and "url \<noteq> []" and "md_uri_ok D url" and "md_server_status D url = None"
    and "md_get_collection D db_name SUBSCRIBERS" and "md_get_collection D db_name SERVERS"
    and "md_get_collection D db_name STREAMS"
    and "\<not> (md_get_collection D db_name SERIES \<and> md_get_collection D db_name REQUESTS)"
  shows "\<exists>s' e. ConnectToDatabase D url db_name lazy s = (s', Some e) \<and>
           handles s' = CollHandle STREAMS # handles s"
  unfolding connect_first_missing[OF assms(1-3) disjI2[OF assms(4)]]
  using assms(5-8) by auto

theorem connect_failure_leaks_witness:
  "\<exists>s' e. ConnectToDatabase (sample_driver [SUBSCRIBERS, SERVERS, STREAMS]) ''mongodb://localhost''
            ''iptv'' True (SubscribersManager_new True () (''host'', DirPath ''/root'') ()) =
            (s', Some e) \<and> handles s' = [CollHandle STREAMS]"
  using connect_failure_leaks[of "''iptv''" "''mongodb://localhost''"
      "sample_driver [SUBSCRIBERS, SERVERS, STREAMS]" True
      "SubscribersManager_new True () (''host'', DirPath ''/root'') ()"]
  by (simp add: sample_driver_def SubscribersManager_new_def registry.extend_def)

end
