(* ===== verification/Documents.thy ===== *)
theory Documents
  imports Samples
begin

text \<open>
  Reading stored documents (\<open>src/mongo/mongo2info.cpp\<close>): the loop over the elements of a
  document that every \<open>Make...Info\<close> function consists of, the parts these functions share
  (groups, part identifiers, meta urls, output urls), and the interface \<open>doc_reader\<close> with the
  facts that hold of every such loop.
\<close>

section \<open>The loop over a document\<close>

text \<open>
  One pass of the loop leaves it by \<open>return false\<close> (\<open>Skip\<close>), goes on with the changed
  variables (\<open>Got\<close>) or has undefined behaviour (\<open>Undef\<close>).
\<close>

datatype 'a reading = Undef | Skip | Got 'a

primrec read_loop :: "(belem \<Rightarrow> 's \<Rightarrow> 's reading) \<Rightarrow> bdoc \<Rightarrow> 's \<Rightarrow> 's reading" where
  "read_loop elem [] s = Got s"
| "read_loop elem (e # es) s =
     (case elem e s of
        Undef \<Rightarrow> Undef
      | Skip \<Rightarrow> Skip
      | Got s' \<Rightarrow> read_loop elem es s')"

text \<open>
  The body of such a loop compares the key of the element with one name after the other and runs
  the branch of the first one that is equal; an element with another key is skipped.
\<close>

definition dispatch :: "(string \<times> (bval \<Rightarrow> 's \<Rightarrow> 's reading)) list \<Rightarrow> belem \<Rightarrow> 's \<Rightarrow> 's reading" where
  "dispatch acts e s =
     (case map_of acts (fst e) of None \<Rightarrow> Got s | Some f \<Rightarrow> f (snd e) s)"

text \<open>The \<open>BSON_ITER_HOLDS_...\<close> checks with the typed read behind them.\<close>

definition need_oid :: "bval \<Rightarrow> (oid \<Rightarrow> 's) \<Rightarrow> 's reading" where
  "need_oid v f = (case v of BOid x \<Rightarrow> Got (f x) | _ \<Rightarrow> Skip)"

definition need_utf8 :: "bval \<Rightarrow> (string \<Rightarrow> 's) \<Rightarrow> 's reading" where
  "need_utf8 v f = (case v of BUtf8 x \<Rightarrow> Got (f x) | _ \<Rightarrow> Skip)"

definition need_int32 :: "bval \<Rightarrow> (int \<Rightarrow> 's) \<Rightarrow> 's reading" where
  "need_int32 v f = (case v of BInt32 x \<Rightarrow> Got (f x) | _ \<Rightarrow> Skip)"

definition need_bool :: "bval \<Rightarrow> (bool \<Rightarrow> 's) \<Rightarrow> 's reading" where
  "need_bool v f = (case v of BBool x \<Rightarrow> Got (f x) | _ \<Rightarrow> Skip)"

definition need_double :: "bval \<Rightarrow> (double \<Rightarrow> 's) \<Rightarrow> 's reading" where
  "need_double v f = (case v of BDouble x \<Rightarrow> Got (f x) | _ \<Rightarrow> Skip)"

definition need_date :: "bval \<Rightarrow> (int \<Rightarrow> 's) \<Rightarrow> 's reading" where
  "need_date v f = (case v of BDate x \<Rightarrow> Got (f x) | _ \<Rightarrow> Skip)"

definition need_array :: "bval \<Rightarrow> (bdoc \<Rightarrow> 's reading) \<Rightarrow> 's reading" where
  "need_array v f = (case v of BArr x \<Rightarrow> f x | _ \<Rightarrow> Skip)"

section \<open>Parts the readers share\<close>

definition ConvertToString :: "bson_lib \<Rightarrow> oid \<Rightarrow> string" where
  "ConvertToString B x = bl_oid_to_string B x"

definition ConvertFromString :: "bson_lib \<Rightarrow> string \<Rightarrow> oid option" where
  "ConvertFromString B soid = (if soid = [] then None else Some (bl_oid_of_string B soid))"

lemma sample_oid_text [simp]:
  "ConvertToString sample_bson 1 = ''1''" "ConvertToString sample_bson 2 = ''2''"
  "ConvertToString sample_bson 3 = ''3''" "ConvertToString sample_bson 4 = ''4''"
  "ConvertToString sample_bson 5 = ''5''"
  "ConvertFromString sample_bson ''4'' = Some 4" "ConvertFromString sample_bson ''5'' = Some 5"
  "ConvertFromString sample_bson ''1'' = Some 1" "ConvertFromString sample_bson ''2'' = Some 2"
  "ConvertFromString sample_bson ''3'' = Some 3"
  by (simp_all add: ConvertToString_def ConvertFromString_def sample_bson_def)

primrec read_groups :: "bson_lib \<Rightarrow> bdoc \<Rightarrow> string list" where
  "read_groups B [] = []"
| "read_groups B (e # es) =
     (case bl_utf8 B (snd e) of None \<Rightarrow> read_groups B es | Some g \<Rightarrow> g # read_groups B es)"

text \<open>
  \<open>bson_iter_oid\<close> is not guarded by a type check here: \<open>bson_oid_to_string\<close> of the null pointer
  it returns for another type is undefined.
\<close>

primrec read_oids :: "bson_lib \<Rightarrow> bdoc \<Rightarrow> string list option" where
  "read_oids B [] = Some []"
| "read_oids B (e # es) =
     (case bl_oid B (snd e) of
        None \<Rightarrow> None
      | Some x \<Rightarrow> map_option ((#) (ConvertToString B x)) (read_oids B es))"

definition iter_utf8 :: "bson_lib \<Rightarrow> biter \<Rightarrow> string option" where
  "iter_utf8 B it = (case fst it of None \<Rightarrow> None | Some e \<Rightarrow> bl_utf8 B (snd e))"

definition read_meta :: "bson_lib \<Rightarrow> fastotv_lib \<Rightarrow> bdoc \<Rightarrow> meta_url list" where
  "read_meta B L rec =
     (let url = fl_new_meta L;
          (found_name, it1) = bl_find B ''name'' (iter_init rec);
          url1 = (if found_name then
                    (case iter_utf8 B it1 of None \<Rightarrow> url | Some name \<Rightarrow> url\<lparr>mu_name := name\<rparr>)
                  else url);
          (found_url, it2) = bl_find B ''url'' it1;
          url2 = (if found_url then
                    (case iter_utf8 B it2 of None \<Rightarrow> url1 | Some uri \<Rightarrow> url1\<lparr>mu_url := GURL uri\<rparr>)
                  else url1)
      in if fl_meta_valid L url2 then [url2] else [])"

primrec read_metas :: "bson_lib \<Rightarrow> fastotv_lib \<Rightarrow> bdoc \<Rightarrow> meta_url list" where
  "read_metas B L [] = []"
| "read_metas B L (e # es) =
     (case snd e of BDoc rec \<Rightarrow> read_meta B L rec @ read_metas B L es | _ \<Rightarrow> read_metas B L es)"

section \<open>Output urls\<close>

text \<open>One element of the output array: nothing unless it has an integer id and a text uri.\<close>

definition find_in :: "bson_lib \<Rightarrow> bval \<Rightarrow> string \<Rightarrow> bval option" where
  "find_in B v k = (case children v of None \<Rightarrow> None | Some d \<Rightarrow> init_find B d k)"

definition output_url :: "bson_lib \<Rightarrow> bval \<Rightarrow> output_uri option" where
  "output_url B v =
     (case find_in B v ''id'' of
        Some (BInt32 lcid) \<Rightarrow>
          (case find_in B v ''uri'' of
             Some (BUtf8 uri) \<Rightarrow>
               (let out = \<lparr>ou_id = lcid, ou_url = GURL uri, ou_http_root = None, ou_hls_type = None\<rparr>;
                    out1 = (case find_in B v ''http_root'' of
                              Some (BUtf8 root) \<Rightarrow> out\<lparr>ou_http_root := Some (DirPath root)\<rparr>
                            | _ \<Rightarrow> out);
                    out2 = (case find_in B v ''hls_type'' of
                              Some (BInt32 t) \<Rightarrow> out1\<lparr>ou_hls_type := Some t\<rparr>
                            | _ \<Rightarrow> out1)
                in Some out2)
           | _ \<Rightarrow> None)
      | _ \<Rightarrow> None)"

primrec output_urls :: "bson_lib \<Rightarrow> bdoc \<Rightarrow> output_uri list" where
  "output_urls B [] = []"
| "output_urls B (e # es) =
     (case output_url B (snd e) of None \<Rightarrow> output_urls B es | Some u \<Rightarrow> u # output_urls B es)"

definition GetOutputUrlData :: "bson_lib \<Rightarrow> bval \<Rightarrow> output_uri list option" where
  "GetOutputUrlData B v = (case v of BArr d \<Rightarrow> Some (output_urls B d) | _ \<Rightarrow> None)"

definition MakeUrlsFromOutput :: "output_uri list \<Rightarrow> gurl list" where
  "MakeUrlsFromOutput out = map ou_url out"

text \<open>
  \<open>GetUrlFromStream\<close> and \<open>GetHttpRootFromStream\<close> look at the first element named
  \<open>output\<close> only; the loop over the urls stops at the first one with the channel identifier.
\<close>

fun find_output :: "int \<Rightarrow> output_uri list \<Rightarrow> output_uri option" where
  "find_output cid [] = None"
| "find_output cid (u # us) = (if ou_id u = cid then Some u else find_output cid us)"

fun GetUrlFromStream :: "bson_lib \<Rightarrow> bdoc \<Rightarrow> int \<Rightarrow> gurl option" where
  "GetUrlFromStream B [] cid = None"
| "GetUrlFromStream B ((key, v) # es) cid =
     (if key = ''output'' then
        (case GetOutputUrlData B v of
           None \<Rightarrow> None
         | Some urls \<Rightarrow> map_option ou_url (find_output cid urls))
      else GetUrlFromStream B es cid)"

fun GetHttpRootFromStream :: "bson_lib \<Rightarrow> bdoc \<Rightarrow> int \<Rightarrow> dirpath option" where
  "GetHttpRootFromStream B [] cid = None"
| "GetHttpRootFromStream B ((key, v) # es) cid =
     (if key = ''output'' then
        (case GetOutputUrlData B v of
           None \<Rightarrow> None
         | Some urls \<Rightarrow> Option.bind (find_output cid urls) ou_http_root)
      else GetHttpRootFromStream B es cid)"

section \<open>Schemas\<close>

definition keys_of :: "bdoc \<Rightarrow> string list" where
  "keys_of d = map fst d"

text \<open>
  What a class expects of the value under a key, and the value it takes from the document by
  looking the key up, for the specification of the readers.
\<close>

datatype btype = OidT | Utf8T | Int32T | BoolT | DoubleT | DateT | ArrayT | OidsT

primrec holds :: "bson_lib \<Rightarrow> btype \<Rightarrow> bval \<Rightarrow> bool" where
  "holds B OidT v = (case v of BOid _ \<Rightarrow> True | _ \<Rightarrow> False)"
| "holds B Utf8T v = (case v of BUtf8 _ \<Rightarrow> True | _ \<Rightarrow> False)"
| "holds B Int32T v = (case v of BInt32 _ \<Rightarrow> True | _ \<Rightarrow> False)"
| "holds B BoolT v = (case v of BBool _ \<Rightarrow> True | _ \<Rightarrow> False)"
| "holds B DoubleT v = (case v of BDouble _ \<Rightarrow> True | _ \<Rightarrow> False)"
| "holds B DateT v = (case v of BDate _ \<Rightarrow> True | _ \<Rightarrow> False)"
| "holds B ArrayT v = (case v of BArr _ \<Rightarrow> True | _ \<Rightarrow> False)"
| "holds B OidsT v = (case v of BArr d \<Rightarrow> read_oids B d \<noteq> None | _ \<Rightarrow> False)"

declare holds.simps [simp del]

definition well_typed :: "bson_lib \<Rightarrow> (string \<times> btype) list \<Rightarrow> string \<Rightarrow> bval \<Rightarrow> bool" where
  "well_typed B schema k v = (case map_of schema k of None \<Rightarrow> True | Some t \<Rightarrow> holds B t v)"

text \<open>The keys every reader takes but does not count.\<close>

definition optional_keys :: "string list" where
  "optional_keys = [''parts'', ''episodes'', ''meta'', ''visible'']"

definition mandatory :: "(string \<times> btype) list \<Rightarrow> string list" where
  "mandatory schema = filter (\<lambda>k. k \<notin> set optional_keys) (map fst schema)"

definition count_keys :: "string list \<Rightarrow> bdoc \<Rightarrow> nat" where
  "count_keys ks d = length (filter (\<lambda>e. fst e \<in> set ks) d)"

text \<open>
  The documents a class accepts: every value has the type its key asks for, and no mandatory key
  is missing; for a proxy any two of them may be.
\<close>

definition accepts :: "bson_lib \<Rightarrow> (string \<times> btype) list \<Rightarrow> bool \<Rightarrow> bdoc \<Rightarrow> bool" where
  "accepts B schema proxy d \<longleftrightarrow>
     (\<forall>e \<in> set d. well_typed B schema (fst e) (snd e)) \<and>
     (set (mandatory schema) \<subseteq> set (keys_of d) \<or>
      proxy \<and> count_keys (mandatory schema) d + 2 = length (mandatory schema))"

definition look :: "bdoc \<Rightarrow> string \<Rightarrow> (bval \<Rightarrow> 'a) \<Rightarrow> 'a \<Rightarrow> 'a" where
  "look d k f dflt = (case map_of d k of None \<Rightarrow> dflt | Some v \<Rightarrow> f v)"

definition the_oid :: "bson_lib \<Rightarrow> bval \<Rightarrow> string" where
  "the_oid B v = (case v of BOid x \<Rightarrow> ConvertToString B x | _ \<Rightarrow> [])"

definition the_utf8 :: "bval \<Rightarrow> string" where
  "the_utf8 v = (case v of BUtf8 s \<Rightarrow> s | _ \<Rightarrow> [])"

definition the_int32 :: "bval \<Rightarrow> int" where
  "the_int32 v = (case v of BInt32 n \<Rightarrow> n | _ \<Rightarrow> 0)"

definition the_bool :: "bval \<Rightarrow> bool" where
  "the_bool v = (case v of BBool b \<Rightarrow> b | _ \<Rightarrow> False)"

definition the_double :: "bval \<Rightarrow> double" where
  "the_double v = (case v of BDouble x \<Rightarrow> x | _ \<Rightarrow> 0)"

definition the_date :: "bval \<Rightarrow> int" where
  "the_date v = (case v of BDate t \<Rightarrow> t | _ \<Rightarrow> 0)"

definition the_array :: "bval \<Rightarrow> bdoc" where
  "the_array v = (case v of BArr d \<Rightarrow> d | _ \<Rightarrow> [])"

definition the_oids :: "bson_lib \<Rightarrow> bval \<Rightarrow> string list" where
  "the_oids B v = (case read_oids B (the_array v) of None \<Rightarrow> [] | Some xs \<Rightarrow> xs)"

definition the_urls :: "bson_lib \<Rightarrow> bval \<Rightarrow> gurl list" where
  "the_urls B v = map ou_url (output_urls B (the_array v))"

lemmas the_defs = the_oid_def the_utf8_def the_int32_def the_bool_def the_double_def the_date_def
  the_array_def the_oids_def the_urls_def

lemmas need_defs = need_oid_def need_utf8_def need_int32_def need_bool_def need_double_def
  need_date_def need_array_def

lemma need_Got_iff [read_simps]:
  "need_oid v f = Got s \<longleftrightarrow> (\<exists>x. v = BOid x \<and> s = f x)"
  "need_utf8 v g = Got s \<longleftrightarrow> (\<exists>x. v = BUtf8 x \<and> s = g x)"
  "need_int32 v h = Got s \<longleftrightarrow> (\<exists>x. v = BInt32 x \<and> s = h x)"
  "need_bool v i = Got s \<longleftrightarrow> (\<exists>x. v = BBool x \<and> s = i x)"
  "need_double v j = Got s \<longleftrightarrow> (\<exists>x. v = BDouble x \<and> s = j x)"
  "need_date v k = Got s \<longleftrightarrow> (\<exists>x. v = BDate x \<and> s = k x)"
  "need_array v l = Got s \<longleftrightarrow> (\<exists>x. v = BArr x \<and> l x = Got s)"
  by (auto simp: need_defs split: bval.splits)

lemma holds_iff [read_simps]:
  "holds B OidT v \<longleftrightarrow> (\<exists>x. v = BOid x)"
  "holds B Utf8T v \<longleftrightarrow> (\<exists>x. v = BUtf8 x)"
  "holds B Int32T v \<longleftrightarrow> (\<exists>x. v = BInt32 x)"
  "holds B BoolT v \<longleftrightarrow> (\<exists>x. v = BBool x)"
  "holds B DoubleT v \<longleftrightarrow> (\<exists>x. v = BDouble x)"
  "holds B DateT v \<longleftrightarrow> (\<exists>x. v = BDate x)"
  "holds B ArrayT v \<longleftrightarrow> (\<exists>x. v = BArr x)"
  "holds B OidsT v \<longleftrightarrow> (\<exists>x ys. v = BArr x \<and> read_oids B x = Some ys)"
  by (auto simp: holds.simps split: bval.splits)

lemma the_simps [read_simps]:
  "the_oid B (BOid x) = ConvertToString B x" "the_utf8 (BUtf8 s) = s" "the_int32 (BInt32 n) = n"
  "the_bool (BBool b) = b" "the_double (BDouble y) = y" "the_date (BDate t) = t"
  "the_array (BArr d) = d" "the_urls B (BArr d) = MakeUrlsFromOutput (output_urls B d)"
  "read_oids B d = Some xs \<Longrightarrow> the_oids B (BArr d) = xs"
  by (simp_all add: the_defs MakeUrlsFromOutput_def)

lemma GetOutputUrlData_iff [read_simps]:
  "GetOutputUrlData B v = Some us \<longleftrightarrow> (\<exists>d. v = BArr d \<and> us = output_urls B d)"
  "GetOutputUrlData B v = None \<longleftrightarrow> (\<forall>d. v \<noteq> BArr d)"
  by (auto simp: GetOutputUrlData_def split: bval.splits)

lemma urls_Got_iff [read_simps]:
  "(case GetOutputUrlData B v of None \<Rightarrow> Skip | Some urls \<Rightarrow> Got (f urls)) = Got a \<longleftrightarrow>
     (\<exists>d. v = BArr d \<and> a = f (output_urls B d))"
  by (auto simp: GetOutputUrlData_def split: bval.splits)

section \<open>What every loop over a document does\<close>

text \<open>
  A variable that only the elements with one key change has, after the loop, the value that the
  document gives it, wherever the element stands.
\<close>

lemma read_loop_field:
  assumes step: "\<And>e s s'. elem e s = Got s' \<Longrightarrow>
      fld s' = (if fst e = k then upd (snd e) (fld s) else fld s)"
    and "distinct (keys_of d)" and "read_loop elem d s = Got s'"
  shows "fld s' = look d k (\<lambda>v. upd v (fld s)) (fld s)"
  unfolding look_def using assms(2,3)
proof (induction d arbitrary: s)
  case Nil
  then show ?case by simp
next
  case (Cons e d)
  then obtain s1 where s1: "elem e s = Got s1" by (cases "elem e s") auto
  with Cons.prems have loop: "read_loop elem d s1 = Got s'" and d: "distinct (keys_of d)"
    and notin: "fst e \<notin> set (keys_of d)"
    by (auto simp: keys_of_def)
  have "map_of d (fst e) = None" using notin by (simp add: keys_of_def map_of_eq_None_iff)
  then show ?case using Cons.IH[OF d loop] step[OF s1] by (cases e) (auto split: option.splits)
qed

text \<open>
  The contract of one pass: it accepts an element exactly when the class accepts its value under
  its key, and it counts the mandatory keys.  \<open>sum\<close> is the program's \<open>check_sum\<close>.
\<close>

locale doc_reader =
  fixes elem :: "belem \<Rightarrow> 's \<Rightarrow> 's reading"
    and sum :: "'s \<Rightarrow> nat"
    and counted :: "string list"
    and typed :: "string \<Rightarrow> bval \<Rightarrow> bool"
  assumes got_iff: "(\<exists>s'. elem e s = Got s') \<longleftrightarrow> typed (fst e) (snd e)"
    and sum_step: "elem e s = Got s' \<Longrightarrow> sum s' = sum s + (if fst e \<in> set counted then 1 else 0)"
    and counted_distinct: "distinct counted"
begin

lemma loop_got_iff: "(\<exists>s'. read_loop elem d s = Got s') \<longleftrightarrow> (\<forall>e \<in> set d. typed (fst e) (snd e))"
proof (induction d arbitrary: s)
  case Nil
  then show ?case by simp
next
  case (Cons e d)
  show ?case
  proof (cases "elem e s")
    case (Got s')
    then have "typed (fst e) (snd e)" using got_iff[of e s] by blast
    then show ?thesis using Got Cons.IH[of s'] by simp
  qed (use got_iff[of e s] in auto)
qed

lemma loop_got_typed: "read_loop elem d s = Got s' \<Longrightarrow> e \<in> set d \<Longrightarrow> typed (fst e) (snd e)"
  using loop_got_iff[of d s] by blast

lemma loop_sum:
  "read_loop elem d s = Got s' \<Longrightarrow> sum s' = sum s + count_keys counted d"
proof (induction d arbitrary: s)
  case Nil
  then show ?case by (simp add: count_keys_def)
next
  case (Cons e d)
  then obtain s1 where s1: "elem e s = Got s1" by (cases "elem e s") auto
  with Cons.prems have "read_loop elem d s1 = Got s'" by simp
  from Cons.IH[OF this] sum_step[OF s1] show ?case by (simp add: count_keys_def)
qed

text \<open>A document without duplicates is complete when it counts as many keys as are mandatory.\<close>

lemma loop_complete:
  assumes "distinct (keys_of d)"
  shows "count_keys counted d = length counted \<longleftrightarrow> set counted \<subseteq> set (keys_of d)"
proof -
  have len: "count_keys counted d = card (set counted \<inter> set (keys_of d))"
  proof -
    have "count_keys counted d = length (filter (\<lambda>k. k \<in> set counted) (keys_of d))"
      by (simp add: count_keys_def keys_of_def filter_map o_def)
    also have "\<dots> = card (set (filter (\<lambda>k. k \<in> set counted) (keys_of d)))"
      using assms by (simp only: distinct_card distinct_filter)
    finally show ?thesis by (simp add: Int_def conj_commute)
  qed
  have "card (set counted) = length counted" using counted_distinct by (rule distinct_card)
  then show ?thesis unfolding len
    using card_subset_eq[of "set counted" "set counted \<inter> set (keys_of d)"]
    by (auto simp: Int_absorb2)
qed

lemma loop_checked:
  "(\<exists>s'. read_loop elem d s = Got s' \<and> sum s' = sum s + n) \<longleftrightarrow>
     (\<forall>e \<in> set d. typed (fst e) (snd e)) \<and> count_keys counted d = n"
  using loop_got_iff[of d s] loop_sum[of d s] by auto

end

text \<open>What is to be shown of a chain of branches, one branch at a time.\<close>

lemma dispatch_got_iff:
  assumes "list_all2 (\<lambda>(k, f) (k', t). k = k' \<and> (\<forall>v s. (\<exists>s'. f v s = Got s') \<longleftrightarrow> holds B t v)) acts schema"
  shows "(\<exists>s'. dispatch acts e s = Got s') \<longleftrightarrow> well_typed B schema (fst e) (snd e)"
  using assms
proof (induction acts schema rule: list_all2_induct)
  case Nil
  then show ?case by (simp add: dispatch_def well_typed_def)
next
  case (Cons x acts y schema)
  then show ?case by (cases x; cases y) (auto simp: dispatch_def well_typed_def)
qed

lemma dispatch_sum:
  assumes "list_all (\<lambda>(k', f). \<forall>v s s'. f v s = Got s' \<longrightarrow>
      fld s' = fld s + (if k' \<in> set ks then 1 else (0::nat))) acts"
    and "set ks \<subseteq> fst ` set acts"
    and got: "dispatch acts e s = Got s'"
  shows "fld s' = fld s + (if fst e \<in> set ks then 1 else 0)"
proof (cases "map_of acts (fst e)")
  case None
  then have "fst e \<notin> set ks" using assms(2) by (auto simp: map_of_eq_None_iff)
  then show ?thesis using got None by (simp add: dispatch_def)
next
  case (Some f)
  then have "(fst e, f) \<in> set acts" by (rule map_of_SomeD)
  then show ?thesis using assms(1) got Some by (fastforce simp: dispatch_def list_all_iff)
qed

lemma dispatch_field:
  assumes "list_all (\<lambda>(k', f). \<forall>v s s'. f v s = Got s' \<longrightarrow>
      fld s' = (if k' = k then upd v (fld s) else fld s)) acts"
    and "k \<in> fst ` set acts"
    and got: "dispatch acts e s = Got s'"
  shows "fld s' = (if fst e = k then upd (snd e) (fld s) else fld s)"
proof (cases "map_of acts (fst e)")
  case None
  then have "fst e \<noteq> k" using assms(2) by (auto simp: map_of_eq_None_iff)
  then show ?thesis using got None by (simp add: dispatch_def)
next
  case (Some f)
  then have "(fst e, f) \<in> set acts" by (rule map_of_SomeD)
  then show ?thesis using assms(1) got Some by (fastforce simp: dispatch_def list_all_iff)
qed

lemma dispatch_loop_field:
  assumes "distinct (keys_of d)" and "read_loop (dispatch acts) d s = Got s'"
    and "list_all (\<lambda>(k', f). \<forall>v s s'. f v s = Got s' \<longrightarrow>
           fld s' = (if k' = k then upd v (fld s) else fld s)) acts"
    and "k \<in> fst ` set acts"
  shows "fld s' = look d k (\<lambda>v. upd v (fld s)) (fld s)"
  by (rule read_loop_field[OF _ assms(1,2)]) (rule dispatch_field[OF assms(3,4)])

lemma look_same [simp]: "look d k (\<lambda>_. x) x = x"
  by (simp add: look_def split: option.splits)

section \<open>Facts on the parts\<close>

lemma read_groups_utf8:
  "bson_laws B \<Longrightarrow> read_groups B (map (\<lambda>(k, g). (k, BUtf8 g)) xs) = map snd xs"
  by (induction xs) (auto simp: bson_lawsD)

lemma GetUrlFromStream_map_of:
  "GetUrlFromStream B d cid =
     (case map_of d ''output'' of
        Some (BArr a) \<Rightarrow> map_option ou_url (find (\<lambda>u. ou_id u = cid) (output_urls B a))
      | _ \<Rightarrow> None)"
proof -
  have "find_output cid us = find (\<lambda>u. ou_id u = cid) us" for us by (induction us) auto
  then show ?thesis
    by (induction B d cid rule: GetUrlFromStream.induct)
      (auto simp: GetOutputUrlData_def split: bval.splits)
qed

lemma output_urls_map_filter: "output_urls B d = List.map_filter (\<lambda>e. output_url B (snd e)) d"
  by (induction d) (auto simp: List.map_filter_simps split: option.splits)

end
