(* ===== verification/Login.thy ===== *)
theory Login
  imports Manager Documents
begin

text \<open>
  Logging in: \<open>ClientActivate\<close>, the two \<open>ClientLogin\<close> and \<open>ClientLoginImpl\<close> of
  \<open>src/mongo/subscribers_manager.cpp\<close>, what they check, and the limit of one connection for
  each device of a user.
\<close>

section \<open>Operations\<close>

abbreviation (input) USER_NOT_ACTIVE :: int where "USER_NOT_ACTIVE \<equiv> 0"
abbreviation (input) USER_DELETED :: int where "USER_DELETED \<equiv> 2"
abbreviation (input) DEVICE_NOT_ACTIVE :: int where "DEVICE_NOT_ACTIVE \<equiv> 0"
abbreviation (input) DEVICE_ACTIVE :: int where "DEVICE_ACTIVE \<equiv> 1"
abbreviation (input) DEVICE_BANNED :: int where "DEVICE_BANNED \<equiv> 2"

definition activatable_device :: "bson_lib \<Rightarrow> bval \<Rightarrow> device_info option" where
  "activatable_device B v =
     (case holds_doc v of
        Some d \<Rightarrow>
          (case find_oid B d ''_id'' of
             Some x \<Rightarrow>
               (case find_int32 B d ''status'' of
                  Some st \<Rightarrow>
                    if st = DEVICE_NOT_ACTIVE then
                      (case find_utf8 B d ''name'' of
                         Some name \<Rightarrow> Some (ConvertToString B x, name)
                       | None \<Rightarrow> None)
                    else None
                | None \<Rightarrow> None)
           | None \<Rightarrow> None)
      | None \<Rightarrow> None)"

definition ClientActivate ::
    "bson_lib \<Rightarrow> fastotv_lib \<Rightarrow> 'db mongo_lib \<Rightarrow> login_info \<Rightarrow> ('io, 'db, 'a) manager_scheme
     \<Rightarrow> error + device_info list" where
  "ClientActivate B L M uauth s =
     (if \<not> fl_login_valid L uauth then Inl ErrInval
      else if \<not> collection_open s SUBSCRIBERS then Inl (ErrText ''Not conencted to DB'')
      else case find_one M SUBSCRIBERS (by_email (li_login uauth)) s of
        None \<Rightarrow> Inl (ErrText ''User not found'')
      | Some doc \<Rightarrow>
          (case find_int32 B doc ''status'' of
             Some status \<Rightarrow>
               if status = USER_NOT_ACTIVE then Inl (ErrText ''User not active'')
               else if status = USER_DELETED then Inl (ErrText ''User removed'')
               else (case find_utf8 B doc ''password'' of
                       Some password_hash \<Rightarrow>
                         if li_password uauth \<noteq> password_hash then Inl (ErrText ''Invalid password'')
                         else (case find_array B doc ''devices'' of
                                 Some ar \<Rightarrow>
                                   let devices = List.map_filter (activatable_device B \<circ> snd) ar in
                                   if devices = [] then
                                     Inl (ErrText ''Please create device in your profile page'')
                                   else Inr devices
                               | None \<Rightarrow> Inl (ErrText ''Please create device in your profile page''))
                     | None \<Rightarrow> Inl (ErrText ''Not found password field''))
           | None \<Rightarrow> Inl (ErrText ''Not found status field'')))"

text \<open>
  The loop over the devices of the document, with the flag \<open>have_devices\<close>.  The connections of
  the user are scanned under \<open>connections_mutex_\<close>; a failing activation of the device is only
  logged.
\<close>

definition activate_device ::
    "'db mongo_lib \<Rightarrow> string \<Rightarrow> oid \<Rightarrow> ('io, 'db, 'a) manager_scheme \<Rightarrow> ('io, 'db, 'a) manager_scheme" where
  "activate_device M login x s =
     fst (update_one M SUBSCRIBERS [(''email'', BUtf8 login), (''devices._id'', BOid x)]
            [(''$set'', BDoc [(''devices.$.status'', BInt32 DEVICE_ACTIVE)])] s)"

definition device_connection ::
    "string \<Rightarrow> string \<Rightarrow> ('io, 'a) registry_scheme \<Rightarrow> ptr option option" where
  "device_connection uid dev s =
     (case map_of (connections s) uid of
        None \<Rightarrow> Some None
      | Some hs \<Rightarrow> find_device_connection (heap s) dev hs)"

fun login_device ::
    "bson_lib \<Rightarrow> 'db mongo_lib \<Rightarrow> string \<Rightarrow> server_auth_info \<Rightarrow> bdoc \<Rightarrow> bool
     \<Rightarrow> ('io, 'db, 'a) manager_scheme \<Rightarrow> (('io, 'db, 'a) manager_scheme \<times> error option) option" where
  "login_device B M uid uauth [] have_devices s =
     Some (s, Some (ErrText (if have_devices then ''Device not found''
                             else ''Please create device in your profile page'')))"
| "login_device B M uid uauth (e # ar) have_devices s =
     (case holds_doc (snd e) of
        Some d \<Rightarrow>
          (case find_oid B d ''_id'' of
             Some x \<Rightarrow>
               if ConvertToString B x = ai_device uauth then
                 (case find_int32 B d ''status'' of
                    Some device_status \<Rightarrow>
                      if device_status = DEVICE_BANNED then
                        Some (s, Some (ErrText ''Device banned''))
                      else (case device_connection uid (ai_device uauth) s of
                              None \<Rightarrow> None
                            | Some (Some connection) \<Rightarrow>
                                Some (s, Some (ErrText ''Limit connection reject''))
                            | Some None \<Rightarrow>
                                Some (if device_status = DEVICE_NOT_ACTIVE
                                      then activate_device M (li_login uauth) x s else s, None))
                  | None \<Rightarrow> login_device B M uid uauth ar True s)
               else login_device B M uid uauth ar True s
           | None \<Rightarrow> login_device B M uid uauth ar have_devices s)
      | None \<Rightarrow> login_device B M uid uauth ar have_devices s)"

definition ClientLoginImpl ::
    "bson_lib \<Rightarrow> 'db mongo_lib \<Rightarrow> int \<Rightarrow> string \<Rightarrow> server_auth_info \<Rightarrow> bdoc
     \<Rightarrow> ('io, 'db, 'a) manager_scheme \<Rightarrow> (('io, 'db, 'a) manager_scheme \<times> error option) option" where
  "ClientLoginImpl B M current_ts uid uauth doc s =
     (case find_int32 B doc ''status'' of
        Some status \<Rightarrow>
          if status = USER_NOT_ACTIVE then Some (s, Some (ErrText ''User not active''))
          else if status = USER_DELETED then Some (s, Some (ErrText ''User removed''))
          else (case find_utf8 B doc ''password'' of
                  Some password_hash \<Rightarrow>
                    if li_password uauth \<noteq> password_hash then
                      Some (s, Some (ErrText ''Invalid password''))
                    else if current_ts > sa_exp_date uauth then
                      Some (s, Some (ErrText ''Expired account''))
                    else (case find_array B doc ''devices'' of
                            Some ar \<Rightarrow> login_device B M uid uauth ar False s
                          | None \<Rightarrow> Some (s, Some (ErrText ''Please create device in your profile page'')))
                | None \<Rightarrow> Some (s, Some (ErrText ''Not found password field'')))
      | None \<Rightarrow> Some (s, Some (ErrText ''Not found status field'')))"

definition auth_with_exp :: "auth_info \<Rightarrow> int \<Rightarrow> server_auth_info" where
  "auth_with_exp auth exp_date = auth_info.extend auth \<lparr>sa_exp_date = exp_date\<rparr>"

definition finish_login ::
    "string \<Rightarrow> server_auth_info \<Rightarrow> (('io, 'db, 'a) manager_scheme \<times> error option) option
     \<Rightarrow> (('io, 'db, 'a) manager_scheme \<times> (error + server_db_auth)) option" where
  "finish_login uid uauth r =
     (case r of
        None \<Rightarrow> None
      | Some (s, Some err) \<Rightarrow> Some (s, Inl err)
      | Some (s, None) \<Rightarrow> Some (s, Inr (ServerDBAuthInfo_make uid uauth)))"

definition ClientLogin_by_uid ::
    "bson_lib \<Rightarrow> 'db mongo_lib \<Rightarrow> int \<Rightarrow> string \<Rightarrow> string \<Rightarrow> string \<Rightarrow> ('io, 'db, 'a) manager_scheme
     \<Rightarrow> (('io, 'db, 'a) manager_scheme \<times> (error + server_db_auth)) option" where
  "ClientLogin_by_uid B M current_ts uid password dev s =
     (if uid = [] \<or> password = [] \<or> dev = [] then Some (s, Inl ErrInval)
      else if \<not> collection_open s SUBSCRIBERS then Some (s, Inl (ErrText ''Not conencted to DB''))
      else case ConvertFromString B uid of
        None \<Rightarrow> Some (s, Inl (ErrText ''Invalid user id''))
      | Some x \<Rightarrow>
          (case find_one M SUBSCRIBERS (by_id x) s of
             None \<Rightarrow> Some (s, Inl (ErrText ''User not found''))
           | Some doc \<Rightarrow>
               (case find_utf8 B doc ''email'' of
                  Some login \<Rightarrow>
                    (case find_date B doc ''exp_date'' of
                       Some exp_date \<Rightarrow>
                         let log = \<lparr>li_login = login, li_password = password, ai_device = dev\<rparr>;
                             uauth = auth_with_exp log exp_date
                         in finish_login uid uauth (ClientLoginImpl B M current_ts uid uauth doc s)
                     | None \<Rightarrow> Some (s, Inl (ErrText ''Not exp_date field'')))
                | None \<Rightarrow> Some (s, Inl (ErrText ''Not found email field'')))))"

definition ClientLogin ::
    "bson_lib \<Rightarrow> fastotv_lib \<Rightarrow> 'db mongo_lib \<Rightarrow> int \<Rightarrow> auth_info \<Rightarrow> ('io, 'db, 'a) manager_scheme
     \<Rightarrow> (('io, 'db, 'a) manager_scheme \<times> (error + server_db_auth)) option" where
  "ClientLogin B L M current_ts uauth s =
     (if \<not> fl_auth_valid L uauth then Some (s, Inl ErrInval)
      else if \<not> collection_open s SUBSCRIBERS then Some (s, Inl (ErrText ''Not conencted to DB''))
      else case find_one M SUBSCRIBERS (by_email (li_login uauth)) s of
        None \<Rightarrow> Some (s, Inl (ErrText ''User not found''))
      | Some doc \<Rightarrow>
          (case find_oid B doc ''_id'' of
             Some x \<Rightarrow>
               (case find_date B doc ''exp_date'' of
                  Some exp_date \<Rightarrow>
                    let uid_str = ConvertToString B x;
                        suauth = auth_with_exp uauth exp_date
                    in finish_login uid_str suauth (ClientLoginImpl B M current_ts uid_str suauth doc s)
                | None \<Rightarrow> Some (s, Inl (ErrText ''Not exp_date field'')))
           | None \<Rightarrow> Some (s, Inl (ErrText ''Not found _id field''))))"

section \<open>What a login checks\<close>

text \<open>
  The first entry of the devices with the identifier and an integer status decides.
\<close>

definition device_entry :: "bson_lib \<Rightarrow> string \<Rightarrow> bval \<Rightarrow> (oid \<times> int) option" where
  "device_entry B dev v =
     (case holds_doc v of
        Some d \<Rightarrow>
          (case (find_oid B d ''_id'', find_int32 B d ''status'') of
             (Some x, Some st) \<Rightarrow> if ConvertToString B x = dev then Some (x, st) else None
           | _ \<Rightarrow> None)
      | None \<Rightarrow> None)"

definition device_status :: "bson_lib \<Rightarrow> string \<Rightarrow> bdoc \<Rightarrow> (oid \<times> int) option" where
  "device_status B dev ar =
     (case List.map_filter (device_entry B dev \<circ> snd) ar of [] \<Rightarrow> None | x # _ \<Rightarrow> Some x)"

definition device_free :: "('io, 'a) registry_scheme \<Rightarrow> string \<Rightarrow> string \<Rightarrow> bool" where
  "device_free s uid dev \<longleftrightarrow>
     (\<forall>p \<in> online s. \<not> (db_uid (identity_of s p) = uid \<and> ai_device (identity_of s p) = dev))"

definition credentials_ok :: "int \<Rightarrow> bdoc \<Rightarrow> server_auth_info \<Rightarrow> bool" where
  "credentials_ok now doc uauth \<longleftrightarrow>
     (\<exists>st. map_of doc ''status'' = Some (BInt32 st) \<and> st \<noteq> USER_NOT_ACTIVE \<and> st \<noteq> USER_DELETED) \<and>
     map_of doc ''password'' = Some (BUtf8 (li_password uauth)) \<and>
     now \<le> sa_exp_date uauth"

definition admitted ::
    "bson_lib \<Rightarrow> 'db mongo_lib \<Rightarrow> int \<Rightarrow> string \<Rightarrow> server_auth_info \<Rightarrow> bdoc
     \<Rightarrow> ('io, 'db, 'a) manager_scheme \<Rightarrow> ('io, 'db, 'a) manager_scheme \<Rightarrow> bool" where
  "admitted B M now uid uauth doc s s' \<longleftrightarrow>
     credentials_ok now doc uauth \<and>
     (\<exists>ar x st. map_of doc ''devices'' = Some (BArr ar) \<and>
        device_status B (ai_device uauth) ar = Some (x, st) \<and> st \<noteq> DEVICE_BANNED \<and>
        device_free s uid (ai_device uauth) \<and>
        s' = (if st = DEVICE_NOT_ACTIVE then activate_device M (li_login uauth) x s else s))"

lemma activate_device_same [simp, intro]: "same_sessions s (activate_device M login x s)"
  unfolding activate_device_def by (rule update_one_same)

lemma device_connection_online:
  assumes inv: "session_inv s"
  obtains r where "device_connection uid dev s = Some r" and "r = None \<longleftrightarrow> device_free s uid dev"
proof -
  note conns = set_connections_of[OF inv, of uid]
  then have sub: "set (connections_of s uid) \<subseteq> online s" by blast
  have "device_connection uid dev s =
      Some (find (\<lambda>p. ai_device (identity_of s p) = dev) (connections_of s uid))"
    using find_device_connection_online[OF inv sub, of dev]
    by (cases "map_of (connections s) uid") (simp_all add: device_connection_def connections_of_def)
  moreover have "find (\<lambda>p. ai_device (identity_of s p) = dev) (connections_of s uid) = None \<longleftrightarrow>
      device_free s uid dev"
    unfolding find_None_iff device_free_def conns by blast
  ultimately show thesis by (rule that)
qed

definition device_answer ::
    "'db mongo_lib \<Rightarrow> string \<Rightarrow> server_auth_info \<Rightarrow> ('io, 'db, 'a) manager_scheme \<Rightarrow> oid \<times> int
     \<Rightarrow> ('io, 'db, 'a) manager_scheme \<times> error option" where
  "device_answer M uid uauth s e =
     (if snd e = DEVICE_BANNED then (s, Some (ErrText ''Device banned''))
      else if \<not> device_free s uid (ai_device uauth) then
        (s, Some (ErrText ''Limit connection reject''))
      else (if snd e = DEVICE_NOT_ACTIVE then activate_device M (li_login uauth) (fst e) s else s,
            None))"

lemma device_status_Cons:
  "device_status B dev (e # ar) =
     (case device_entry B dev (snd e) of None \<Rightarrow> device_status B dev ar | Some r \<Rightarrow> Some r)"
  by (simp add: device_status_def List.map_filter_simps split: option.splits)

lemma login_device_eq:
  assumes inv: "session_inv s"
  shows "\<exists>msg. login_device B M uid uauth ar h s =
           Some (case device_status B (ai_device uauth) ar of
                   None \<Rightarrow> (s, Some (ErrText msg))
                 | Some e \<Rightarrow> device_answer M uid uauth s e)"
proof (induction ar arbitrary: h)
  case Nil
  then show ?case by (simp add: device_status_def List.map_filter_simps)
next
  case (Cons e ar)
  obtain r where r: "device_connection uid (ai_device uauth) s = Some r"
    "r = None \<longleftrightarrow> device_free s uid (ai_device uauth)"
    by (rule device_connection_online[OF inv])
  show ?case
  proof (cases "device_entry B (ai_device uauth) (snd e)")
    case None
    then have "\<exists>h'. login_device B M uid uauth (e # ar) h s = login_device B M uid uauth ar h' s"
      by (auto simp: device_entry_def split: option.splits if_splits)
    then show ?thesis using Cons.IH None by (auto simp: device_status_Cons)
  next
    case (Some a)
    then obtain d x st where "holds_doc (snd e) = Some d" "find_oid B d ''_id'' = Some x"
        "find_int32 B d ''status'' = Some st" "ConvertToString B x = ai_device uauth" "a = (x, st)"
      by (auto simp: device_entry_def split: option.splits if_splits)
    then show ?thesis using Some r
      by (auto simp: device_status_Cons device_answer_def split: option.splits)
  qed
qed

lemma ClientLoginImpl_admitted:
  assumes B: "bson_laws B" and inv: "session_inv s"
  shows "\<exists>s' e. ClientLoginImpl B M now uid uauth doc s = Some (s', e) \<and> same_sessions s s' \<and>
           (e = None \<longrightarrow> admitted B M now uid uauth doc s s') \<and>
           (e \<noteq> None \<longrightarrow> s' = s \<and> (\<forall>s'. \<not> admitted B M now uid uauth doc s s'))"
proof (cases "credentials_ok now doc uauth \<and> (\<exists>ar. map_of doc ''devices'' = Some (BArr ar))")
  case True
  then obtain ar where ar: "map_of doc ''devices'' = Some (BArr ar)" by blast
  note typed = find_typed_iff[OF B, symmetric]
  have "ClientLoginImpl B M now uid uauth doc s = login_device B M uid uauth ar False s"
    using True ar by (auto simp: ClientLoginImpl_def credentials_ok_def typed)
  moreover obtain msg where "login_device B M uid uauth ar False s =
      Some (case device_status B (ai_device uauth) ar of
              None \<Rightarrow> (s, Some (ErrText msg)) | Some e \<Rightarrow> device_answer M uid uauth s e)"
    using login_device_eq[OF inv] by blast
  ultimately show ?thesis using True ar
    by (auto simp: admitted_def device_answer_def split: option.splits)
next
  case False
  then have "\<exists>err. ClientLoginImpl B M now uid uauth doc s = Some (s, Some err)"
    unfolding credentials_ok_def find_typed_iff[OF B, symmetric]
    by (auto simp: ClientLoginImpl_def split: option.splits)
  then show ?thesis using False by (auto simp: admitted_def)
qed

lemma admitted_unique:
  "admitted B M now uid u doc s s1 \<Longrightarrow> admitted B M now uid u doc s s2 \<Longrightarrow> s1 = s2"
  by (auto simp: admitted_def)

lemma ClientLoginImpl_iff:
  assumes B: "bson_laws B" and inv: "session_inv s"
  shows "ClientLoginImpl B M now uid u doc s = Some (s', None) \<longleftrightarrow> admitted B M now uid u doc s s'"
proof -
  obtain s1 e where r: "ClientLoginImpl B M now uid u doc s = Some (s1, e)"
    and ok: "e = None \<longrightarrow> admitted B M now uid u doc s s1"
    and err: "e \<noteq> None \<longrightarrow> (\<forall>s'. \<not> admitted B M now uid u doc s s')"
    using ClientLoginImpl_admitted[OF B inv, of M now uid u doc] by blast
  show ?thesis
  proof (cases e)
    case None
    then show ?thesis using r ok admitted_unique[of B M now uid u doc s s1 s'] by auto
  qed (use r err in auto)
qed

lemma finish_login_Inr:
  "finish_login uid u r = Some (s', Inr a) \<longleftrightarrow> r = Some (s', None) \<and> a = ServerDBAuthInfo_make uid u"
  by (auto simp: finish_login_def split: option.splits)

lemma ClientLogin_iff:
  assumes B: "bson_laws B" and inv: "session_inv s"
  shows "ClientLogin B L M now uauth s = Some (s', Inr a) \<longleftrightarrow>
    fl_auth_valid L uauth \<and> collection_open s SUBSCRIBERS \<and>
    (\<exists>doc x exp. find_one M SUBSCRIBERS (by_email (li_login uauth)) s = Some doc \<and>
       map_of doc ''_id'' = Some (BOid x) \<and> map_of doc ''exp_date'' = Some (BDate exp) \<and>
       admitted B M now (ConvertToString B x) (auth_with_exp uauth exp) doc s s' \<and>
       a = ServerDBAuthInfo_make (ConvertToString B x) (auth_with_exp uauth exp))"
proof -
  note impl = ClientLoginImpl_iff[OF B inv]
  show ?thesis unfolding find_typed_iff[OF B, symmetric]
    by (auto simp: ClientLogin_def Let_def finish_login_Inr impl split: option.splits)
qed

lemma ClientLogin_by_uid_iff:
  assumes B: "bson_laws B" and inv: "session_inv s"
  shows "ClientLogin_by_uid B M now uid password dev s = Some (s', Inr a) \<longleftrightarrow>
    uid \<noteq> [] \<and> password \<noteq> [] \<and> dev \<noteq> [] \<and> collection_open s SUBSCRIBERS \<and>
    (\<exists>doc login exp. find_one M SUBSCRIBERS (by_id (bl_oid_of_string B uid)) s = Some doc \<and>
       map_of doc ''email'' = Some (BUtf8 login) \<and> map_of doc ''exp_date'' = Some (BDate exp) \<and>
       (let uauth = auth_with_exp \<lparr>li_login = login, li_password = password, ai_device = dev\<rparr> exp
        in admitted B M now uid uauth doc s s' \<and> a = ServerDBAuthInfo_make uid uauth))"
proof -
  note impl = ClientLoginImpl_iff[OF B inv]
  show ?thesis unfolding find_typed_iff[OF B, symmetric]
    by (auto simp: ClientLogin_by_uid_def ConvertFromString_def Let_def finish_login_Inr
        impl split: option.splits)
qed

lemma login_total:
  assumes B: "bson_laws B" and inv: "session_inv s"
  shows "\<exists>s' r. ClientLogin B L M now uauth s = Some (s', r) \<and> same_sessions s s'"
    and "\<exists>s' r. ClientLogin_by_uid B M now uid password dev s = Some (s', r) \<and> same_sessions s s'"
proof -
  have impl: "\<exists>s' r. finish_login uid u (ClientLoginImpl B M now uid u doc s) = Some (s', r) \<and>
      same_sessions s s'" for uid u doc
    using ClientLoginImpl_admitted[OF B inv, of M now uid u doc]
    by (auto simp: finish_login_def split: option.splits)
  show "\<exists>s' r. ClientLogin B L M now uauth s = Some (s', r) \<and> same_sessions s s'"
    using impl by (auto simp: ClientLogin_def Let_def split: option.splits)
  show "\<exists>s' r. ClientLogin_by_uid B M now uid password dev s = Some (s', r) \<and> same_sessions s s'"
    using impl by (auto simp: ClientLogin_by_uid_def Let_def split: option.splits)
qed

lemma make_simps [simp]:
  "db_uid (ServerDBAuthInfo_make uid u) = uid" "ai_device (ServerDBAuthInfo_make uid u) = ai_device u"
  "li_login (ServerDBAuthInfo_make uid u) = li_login u"
  "ai_device (auth_with_exp a e) = ai_device a" "li_login (auth_with_exp a e) = li_login a"
  "li_password (auth_with_exp a e) = li_password a" "sa_exp_date (auth_with_exp a e) = e"
  by (simp_all add: ServerDBAuthInfo_make_def server_auth_info.extend_def auth_with_exp_def
      auth_info.extend_def)

section \<open>One connection for each device\<close>

definition exclusive :: "('io, 'a) registry_scheme \<Rightarrow> bool" where
  "exclusive s \<longleftrightarrow>
     inj_on (\<lambda>p. (db_uid (identity_of s p), ai_device (identity_of s p))) (online s)"

lemma exclusive_insert:
  assumes ex: "exclusive s" and p: "view s p = Some None"
    and free: "device_free s (db_uid a) (ai_device a)" and v: "view s' = (view s)(p \<mapsto> Some a)"
  shows "exclusive s'"
proof -
  have "online s' = insert p (online s)" using online_view_eq[OF v] p by (auto simp: online_def)
  moreover have "identity_of s' q = (if q = p then a else identity_of s q)" for q
    using v by (simp add: identity_of_def)
  moreover have "p \<notin> online s" using p by (simp add: online_def)
  ultimately show ?thesis using ex free
    unfolding exclusive_def device_free_def inj_on_def by auto
qed

text \<open>
  What the handlers of both servers do with the credentials of a connection: the login of the
  manager, then the registration of the connection (\<open>HandleRequestClientLogin\<close> of
  \<open>src/subscribers/handler.cpp\<close>, \<open>ProcessReceived\<close> of \<open>src/http/handler.cpp\<close>).
\<close>

definition enter ::
    "fastotv_lib \<Rightarrow> ('q \<Rightarrow> ('io, 'db, 'a) manager_scheme \<Rightarrow>
        (('io, 'db, 'a) manager_scheme \<times> (error + server_db_auth)) option)
     \<Rightarrow> 'q \<Rightarrow> ptr \<Rightarrow> ('io, 'db, 'a) manager_scheme \<Rightarrow> ('io, 'db, 'a) manager_scheme option" where
  "enter L login q p s =
     (case login q s of
        None \<Rightarrow> None
      | Some (s1, Inl err) \<Rightarrow> Some s1
      | Some (s1, Inr ser) \<Rightarrow> session_login L p ser s1)"

inductive visit ::
    "fastotv_lib \<Rightarrow> ('q \<Rightarrow> ('io, 'db, 'a) manager_scheme \<Rightarrow>
        (('io, 'db, 'a) manager_scheme \<times> (error + server_db_auth)) option)
     \<Rightarrow> ('io, 'db, 'a) manager_scheme \<Rightarrow> ('io, 'db, 'a) manager_scheme \<Rightarrow> bool" for L login where
  arrives: "p \<noteq> nullptr \<Longrightarrow> view s p = None \<Longrightarrow> session_open L k p s = Some s' \<Longrightarrow> visit L login s s'"
| enters: "view s p = Some None \<Longrightarrow> enter L login q p s = Some s' \<Longrightarrow> visit L login s s'"
| leaves: "view s p \<noteq> None \<Longrightarrow> session_drop p s = Some s' \<Longrightarrow> visit L login s s'"

inductive_cases visitE: "visit L login s s'"

text \<open>The contract of a login procedure towards the handlers.\<close>

locale login_gate =
  fixes inv :: "('io, 'db, 'a) manager_scheme \<Rightarrow> bool"
    and login :: "'q \<Rightarrow> ('io, 'db, 'a) manager_scheme \<Rightarrow>
        (('io, 'db, 'a) manager_scheme \<times> (error + server_db_auth)) option"
  assumes inv_sessions: "inv s \<Longrightarrow> session_inv s"
    and inv_only_sessions: "inv s \<Longrightarrow> session_inv s' \<Longrightarrow> inv s'"
    and total: "inv s \<Longrightarrow> \<exists>s' r. login q s = Some (s', r) \<and> same_sessions s s'"
    and fresh: "inv s \<Longrightarrow> login q s = Some (s', Inr a) \<Longrightarrow> device_free s (db_uid a) (ai_device a)"
begin

lemma enter_exclusive:
  assumes inv: "inv s" and ex: "exclusive s" and p: "view s p = Some None"
    and enter: "enter L login q p s = Some s'"
  shows "inv s' \<and> exclusive s'"
proof -
  obtain s1 r where s1: "login q s = Some (s1, r)" "same_sessions s s1" using total[OF inv] by blast
  have inv1: "session_inv s1" using same_sessions_inv[OF s1(2) inv_sessions[OF inv]] .
  have v1: "view s1 = view s" by (rule same_sessions_view[OF s1(2)])
  then have on: "online s1 = online s" "identity_of s1 = identity_of s"
    by (simp_all add: online_def identity_of_def fun_eq_iff)
  show ?thesis
  proof (cases r)
    case (Inl e)
    then have "s' = s1" using enter s1 by (simp add: enter_def)
    then show ?thesis using inv_only_sessions[OF inv inv1] ex by (simp add: exclusive_def on)
  next
    case (Inr a)
    have login: "session_login L p a s1 = Some s'" using enter s1 Inr by (simp add: enter_def)
    then have "ServerDBAuthInfo_IsValid L a"
      by (simp add: session_login_def RegisterInnerConnectionByHost_def split: if_splits)
    from session_login_ok[OF inv1 _ this, of p] p v1 login
    have s': "session_inv s'" "view s' = (view s)(p \<mapsto> Some a)" by auto
    have "device_free s (db_uid a) (ai_device a)" using fresh[OF inv] s1 Inr by blast
    then have "exclusive s'" by (rule exclusive_insert[OF ex p _ s'(2)])
    then show ?thesis using inv_only_sessions[OF inv s'(1)] by simp
  qed
qed

lemma visit_exclusive:
  assumes "visit L login s s'" and inv: "inv s" and ex: "exclusive s"
  shows "inv s' \<and> exclusive s'"
  using assms(1)
proof (cases rule: visit.cases)
  case (arrives p k)
  note p = arrives(2)
  from session_open_ok[OF inv_sessions[OF inv] arrives(1,2), of L k] arrives(3)
  have v: "session_inv s'" "view s' = (view s)(p \<mapsto> None)" by auto
  then have "online s' = online s" "\<forall>q \<in> online s. identity_of s' q = identity_of s q"
    using p by (auto simp: online_def identity_of_def)
  then show ?thesis using ex inv_only_sessions[OF inv v(1)]
    by (simp add: exclusive_def inj_on_def)
next
  case (enters p q)
  then show ?thesis by (rule enter_exclusive[OF inv ex])
next
  case (leaves p)
  from session_drop_ok[OF inv_sessions[OF inv] leaves(1)] leaves(2)
  have v: "session_inv s'" "view s' = (view s)(p := None)" by auto
  then have "online s' \<subseteq> online s" "\<forall>q \<in> online s'. identity_of s' q = identity_of s q"
    by (auto simp: online_def identity_of_def split: if_splits)
  then show ?thesis using ex inv_only_sessions[OF inv v(1)]
    by (auto simp: exclusive_def inj_on_def subset_iff)
qed

lemma visits_exclusive:
  assumes "(visit L login)\<^sup>*\<^sup>* s s'" and "inv s" and "exclusive s"
  shows "inv s' \<and> exclusive s'"
  using assms by (induction rule: rtranclp_induct) (auto dest: visit_exclusive)

end

text \<open>Both logins of the program, by the e-mail of the user and by the user's identifier.\<close>

datatype credentials = ByEmail int auth_info | ByUserId int string string string

fun any_login ::
    "bson_lib \<Rightarrow> fastotv_lib \<Rightarrow> 'db mongo_lib \<Rightarrow> credentials \<Rightarrow> ('io, 'db, 'a) manager_scheme
     \<Rightarrow> (('io, 'db, 'a) manager_scheme \<times> (error + server_db_auth)) option" where
  "any_login B L M (ByEmail now uauth) s = ClientLogin B L M now uauth s"
| "any_login B L M (ByUserId now uid password dev) s = ClientLogin_by_uid B M now uid password dev s"

interpretation gate: login_gate "\<lambda>s. bson_laws B \<and> session_inv s" "any_login B L M" for B L M
proof
  fix s s' :: "('a, 'b, 'c) manager_scheme" and q a
  assume inv: "bson_laws B \<and> session_inv s"
  then show "session_inv s" by simp
  show "\<exists>s' r. any_login B L M q s = Some (s', r) \<and> same_sessions s s'"
    using login_total inv by (cases q) auto
  show "device_free s (db_uid a) (ai_device a)" if "any_login B L M q s = Some (s', Inr a)"
    using that inv
    by (cases q) (auto simp: ClientLogin_iff ClientLogin_by_uid_iff Let_def admitted_def)
  show "bson_laws B \<and> session_inv s'" if "session_inv s'" using that inv by simp
qed

section \<open>Properties\<close>

text \<open>
  A manager that is connected to the small store with one user, and two connections that have not
  logged in yet.
\<close>

definition sample_manager :: "(string list, sample_db) manager" where
  "sample_manager =
     (SubscribersManager_new True [] (''host'', DirPath ''/root'') [(SUBSCRIBERS, sample_user)])
       \<lparr>heap := [Addr 2 \<mapsto> sample_object None ''s1'', Addr 3 \<mapsto> sample_object None ''s1''],
        collection_open := (\<lambda>_. True)\<rparr>"

lemma sample_manager_inv: "session_inv sample_manager" "exclusive sample_manager"
  by (auto simp: session_inv_def reg_inv_def sample_manager_def SubscribersManager_new_def
      registry.extend_def SubscribersManager_registry_def sample_object_def exclusive_def inj_on_def
      online_def view_def split: if_splits)

lemma sample_manager_view:
  "view sample_manager = [Addr 2 \<mapsto> None, Addr 3 \<mapsto> None]"
  by (auto simp: view_def sample_manager_def SubscribersManager_new_def registry.extend_def
      SubscribersManager_registry_def sample_object_def fun_eq_iff)

lemma sample_manager_free: "device_free sample_manager uid dev"
  by (auto simp: device_free_def online_def sample_manager_view split: if_splits)

lemma sample_manager_open: "collection_open sample_manager c"
  by (simp add: sample_manager_def)

lemma sample_manager_db: "db sample_manager = [(SUBSCRIBERS, sample_user)]"
  by (simp add: sample_manager_def SubscribersManager_new_def registry.extend_def)

definition sample_auth_info :: auth_info where
  "sample_auth_info = \<lparr>li_login = ''user@mail'', li_password = ''hash'', ai_device = ''2''\<rparr>"

definition sample_identity :: server_db_auth where
  "sample_identity = ServerDBAuthInfo_make ''1'' (auth_with_exp sample_auth_info 100)"

lemma sample_identity_valid: "ServerDBAuthInfo_IsValid sample_lib sample_identity"
  by (simp add: ServerDBAuthInfo_IsValid_def sample_lib_def sample_identity_def
      ServerDBAuthInfo_make_def auth_with_exp_def sample_auth_info_def server_auth_info.defs auth_info.defs)

lemma sample_user_found:
  "find_one sample_mongo SUBSCRIBERS (by_email (li_login sample_auth_info)) sample_manager = Some sample_user"
  "find_one sample_mongo SUBSCRIBERS (by_id 1) sample_manager = Some sample_user"
  by (simp_all add: find_one_def sample_manager_db sample_mongo_def sample_selects_def by_email_def
      by_id_def sample_matches_def sample_user_def sample_auth_info_def)

lemma sample_admitted_at:
  assumes free: "device_free s ''1'' ''2''"
  shows "admitted sample_bson sample_mongo 50 ''1'' (auth_with_exp sample_auth_info 100) sample_user s s"
proof -
  have "map_of sample_user ''devices'' =
      Some (BArr [(''0'', BDoc [(''_id'', BOid 2), (''status'', BInt32 1), (''name'', BUtf8 ''tv'')]),
                  (''1'', BDoc [(''_id'', BOid 3), (''status'', BInt32 0), (''name'', BUtf8 ''box'')])])"
      (is "_ = Some (BArr ?ar)")
    by (simp add: sample_user_def)
  moreover have "device_status sample_bson ''2'' ?ar = Some (2, 1)"
    by (simp add: device_status_Cons device_entry_def holds_doc_def find_oid_def find_int32_def
        init_find_map_of[OF sample_bson_laws])
  moreover have "credentials_ok 50 sample_user (auth_with_exp sample_auth_info 100)"
    by (simp add: credentials_ok_def sample_user_def) (simp add: sample_auth_info_def)
  moreover have "ai_device (auth_with_exp sample_auth_info 100) = ''2''"
    by (simp add: sample_auth_info_def)
  ultimately show ?thesis unfolding admitted_def using free
    by (intro conjI exI[of _ ?ar] exI[of _ 2] exI[of _ 1]) simp_all
qed

lemmas sample_admitted = sample_admitted_at[OF sample_manager_free]

text \<open>
  C4: A login by e-mail succeeds exactly when the credentials are well formed, the database is
  connected, a user has the e-mail, is active and not removed, has the password and has not
  expired, the device is one of the user's and not banned, and no connection of the user with
  this device is online.  The identity it returns is the user's, and the only change of the state
  is the activation of a device that was not active.
\<close>

theorem login_exact:
  assumes "bson_laws B" and "session_inv s"
  shows "ClientLogin B L M now uauth s = Some (s', Inr a) \<longleftrightarrow>
    fl_auth_valid L uauth \<and> collection_open s SUBSCRIBERS \<and>
    (\<exists>doc x exp. find_one M SUBSCRIBERS (by_email (li_login uauth)) s = Some doc \<and>
       map_of doc ''_id'' = Some (BOid x) \<and> map_of doc ''exp_date'' = Some (BDate exp) \<and>
       admitted B M now (ConvertToString B x) (auth_with_exp uauth exp) doc s s' \<and>
       a = ServerDBAuthInfo_make (ConvertToString B x) (auth_with_exp uauth exp))"
  using assms by (rule ClientLogin_iff)

theorem login_exact_witness:
  "ClientLogin sample_bson sample_lib sample_mongo 50 sample_auth_info sample_manager =
     Some (sample_manager, Inr sample_identity)"
proof -
  have "map_of sample_user ''_id'' = Some (BOid 1)" "map_of sample_user ''exp_date'' = Some (BDate 100)"
    by (simp_all add: sample_user_def)
  moreover have "fl_auth_valid sample_lib sample_auth_info"
    by (simp add: sample_lib_def sample_auth_info_def)
  ultimately show ?thesis
    unfolding login_exact[OF sample_bson_laws sample_manager_inv(1)]
    using sample_user_found(1) sample_admitted by (simp add: sample_manager_open sample_identity_def)
qed

text \<open>
  A login by the user's identifier, as the HTTP server makes it, succeeds under the same
  conditions; the e-mail and the expiry date are the ones of the database.
\<close>

theorem login_by_uid_exact:
  assumes "bson_laws B" and "session_inv s"
  shows "ClientLogin_by_uid B M now uid password dev s = Some (s', Inr a) \<longleftrightarrow>
    uid \<noteq> [] \<and> password \<noteq> [] \<and> dev \<noteq> [] \<and> collection_open s SUBSCRIBERS \<and>
    (\<exists>doc login exp. find_one M SUBSCRIBERS (by_id (bl_oid_of_string B uid)) s = Some doc \<and>
       map_of doc ''email'' = Some (BUtf8 login) \<and> map_of doc ''exp_date'' = Some (BDate exp) \<and>
       (let uauth = auth_with_exp \<lparr>li_login = login, li_password = password, ai_device = dev\<rparr> exp
        in admitted B M now uid uauth doc s s' \<and> a = ServerDBAuthInfo_make uid uauth))"
  using assms by (rule ClientLogin_by_uid_iff)

theorem login_by_uid_exact_witness:
  "ClientLogin_by_uid sample_bson sample_mongo 50 ''1'' ''hash'' ''2'' sample_manager =
     Some (sample_manager, Inr sample_identity)"
proof -
  have "map_of sample_user ''email'' = Some (BUtf8 ''user@mail'')"
      "map_of sample_user ''exp_date'' = Some (BDate 100)" "bl_oid_of_string sample_bson ''1'' = 1"
    by (simp_all add: sample_user_def sample_bson_def)
  then show ?thesis
    unfolding login_by_uid_exact[OF sample_bson_laws sample_manager_inv(1)]
    using sample_user_found(2) sample_admitted
    by (simp add: sample_manager_open sample_identity_def sample_auth_info_def)
qed

text \<open>
  A login always returns: under the invariant of the registry the scan of the connections
  meets no freed object, and apart from the store nothing changes.
\<close>

theorem login_returns:
  assumes "bson_laws B" and "session_inv s"
  shows "\<exists>s' r. any_login B L M q s = Some (s', r) \<and> same_sessions s s'"
  using gate.total[of B s L M q] assms by simp

theorem login_returns_witness:
  "\<exists>s' r. any_login sample_bson sample_lib sample_mongo (ByUserId 50 ''9'' ''x'' ''y'') sample_manager =
     Some (s', r) \<and> same_sessions sample_manager s'"
  by (rule login_returns[OF sample_bson_laws sample_manager_inv(1)])

text \<open>
  One connection for each device.  Whatever connections arrive, log in and leave, as long as
  a login and the registration that follows it are not interrupted, no two connections that are
  online have the same user and the same device.
\<close>

theorem devices_exclusive:
  assumes "bson_laws B" and "session_inv s" and "exclusive s"
    and "(visit L (any_login B L M))\<^sup>*\<^sup>* s s'"
  shows "session_inv s' \<and> exclusive s'"
  using gate.visits_exclusive[of L B L M s s'] assms by simp

theorem devices_exclusive_witness:
  "\<exists>s'. (visit sample_lib (any_login sample_bson sample_lib sample_mongo))\<^sup>*\<^sup>* sample_manager s' \<and>
        Addr 2 \<in> online s' \<and> session_inv s' \<and> exclusive s'"
proof -
  have "any_login sample_bson sample_lib sample_mongo (ByEmail 50 sample_auth_info) sample_manager =
      Some (sample_manager, Inr sample_identity)"
    using ClientLogin_iff[OF sample_bson_laws sample_manager_inv(1)] sample_user_found(1) sample_admitted
    by (auto simp: sample_manager_open sample_identity_def sample_lib_def sample_auth_info_def
        sample_user_def)
  moreover have "view sample_manager (Addr 2) = Some None" by (simp add: sample_manager_view)
  from session_login_ok[OF sample_manager_inv(1) this sample_identity_valid]
  obtain s' where s': "session_login sample_lib (Addr 2) sample_identity sample_manager = Some s'"
    "view s' = (view sample_manager)(Addr 2 \<mapsto> Some sample_identity)" by blast
  ultimately have "enter sample_lib (any_login sample_bson sample_lib sample_mongo)
      (ByEmail 50 sample_auth_info) (Addr 2) sample_manager = Some s'"
    by (simp add: enter_def)
  then have "visit sample_lib (any_login sample_bson sample_lib sample_mongo) sample_manager s'"
    by (rule visit.enters[rotated]) (simp add: sample_manager_view)
  then have v: "(visit sample_lib (any_login sample_bson sample_lib sample_mongo))\<^sup>*\<^sup>* sample_manager s'"
    by (rule r_into_rtranclp)
  moreover have "Addr 2 \<in> online s'" using s'(2) by (simp add: online_def)
  ultimately show ?thesis
    using devices_exclusive[OF sample_bson_laws sample_manager_inv v] by blast
qed

text \<open>
  The login checks the limit in one critical section and the registration enters the connection in
  another: when two logins run before the first registration, both connections are registered.
  \<open>Interleaving\<close> says which logins the threads of the program can overlap.
\<close>

theorem concurrent_logins_share_device:
  assumes inv: "session_inv s" and pq: "view s p = Some None" "view s q = Some None" "p \<noteq> q"
    and login: "ClientLogin B L M now uauth s = Some (s, Inr a)"
    and valid: "ServerDBAuthInfo_IsValid L a"
  shows "\<exists>s1 s2. ClientLogin B L M now uauth s = Some (s, Inr a) \<and>
           session_login L p a s = Some s1 \<and> session_login L q a s1 = Some s2 \<and>
           session_inv s2 \<and> \<not> exclusive s2"
proof -
  from session_login_ok[OF inv pq(1) valid] obtain s1 where
    s1: "session_login L p a s = Some s1" "session_inv s1" "view s1 = (view s)(p \<mapsto> Some a)" by blast
  then have "view s1 q = Some None" using pq by simp
  from session_login_ok[OF s1(2) this valid] obtain s2 where
    s2: "session_login L q a s1 = Some s2" "session_inv s2" "view s2 = (view s1)(q \<mapsto> Some a)" by blast
  have on: "p \<in> online s2" "q \<in> online s2" "identity_of s2 p = a" "identity_of s2 q = a"
    using s1(3) s2(3) pq(3) by (simp_all add: online_def identity_of_def)
  have "p = q" if "exclusive s2"
    using inj_onD[OF that[unfolded exclusive_def], of p q] on by simp
  then have "\<not> exclusive s2" using pq(3) by blast
  then show ?thesis using login s1 s2 by blast
qed

theorem concurrent_logins_share_device_witness:
  "\<exists>s1 s2. session_login sample_lib (Addr 2) sample_identity sample_manager = Some s1 \<and>
     session_login sample_lib (Addr 3) sample_identity s1 = Some s2 \<and> \<not> exclusive s2"
proof -
  have "ClientLogin sample_bson sample_lib sample_mongo 50 sample_auth_info sample_manager =
      Some (sample_manager, Inr sample_identity)"
    using ClientLogin_iff[OF sample_bson_laws sample_manager_inv(1)] sample_user_found(1) sample_admitted
    by (auto simp: sample_manager_open sample_identity_def sample_lib_def sample_auth_info_def
        sample_user_def)
  from concurrent_logins_share_device[OF sample_manager_inv(1) _ _ _ this sample_identity_valid,
      of "Addr 2" "Addr 3"]
  show ?thesis by (auto simp: sample_manager_view)
qed

text \<open>
  An activation returns devices only to a user who is active, not removed, and gives the
  right password, and then exactly the devices of the profile that are not active and have a
  name, at least one.
\<close>

theorem activation_exact:
  assumes B: "bson_laws B" and result: "ClientActivate B L M uauth s = Inr devices"
  shows "\<exists>doc st ar. find_one M SUBSCRIBERS (by_email (li_login uauth)) s = Some doc \<and>
       map_of doc ''status'' = Some (BInt32 st) \<and> st \<noteq> USER_NOT_ACTIVE \<and> st \<noteq> USER_DELETED \<and>
       map_of doc ''password'' = Some (BUtf8 (li_password uauth)) \<and>
       map_of doc ''devices'' = Some (BArr ar) \<and> devices \<noteq> [] \<and>
       (\<forall>i name. (i, name) \<in> set devices \<longleftrightarrow>
          (\<exists>k d x. (k, BDoc d) \<in> set ar \<and> map_of d ''_id'' = Some (BOid x) \<and>
             i = ConvertToString B x \<and> map_of d ''status'' = Some (BInt32 DEVICE_NOT_ACTIVE) \<and>
             map_of d ''name'' = Some (BUtf8 name)))"
proof -
  have entry: "activatable_device B v = Some (i, name) \<longleftrightarrow>
      (\<exists>d x. v = BDoc d \<and> map_of d ''_id'' = Some (BOid x) \<and> i = ConvertToString B x \<and>
         map_of d ''status'' = Some (BInt32 DEVICE_NOT_ACTIVE) \<and> map_of d ''name'' = Some (BUtf8 name))"
    for i name v
    unfolding find_typed_iff[OF B, symmetric] holds_doc_iff[symmetric]
    by (auto simp: activatable_device_def split: option.splits)
  obtain doc st ar where doc: "find_one M SUBSCRIBERS (by_email (li_login uauth)) s = Some doc"
      "find_int32 B doc ''status'' = Some st" "st \<noteq> USER_NOT_ACTIVE" "st \<noteq> USER_DELETED"
      "find_utf8 B doc ''password'' = Some (li_password uauth)" "find_array B doc ''devices'' = Some ar"
    and devices: "devices = List.map_filter (activatable_device B \<circ> snd) ar" "devices \<noteq> []"
    using result by (auto simp: ClientActivate_def Let_def split: option.splits if_splits)
  have "(i, name) \<in> set devices \<longleftrightarrow> (\<exists>k v. (k, v) \<in> set ar \<and> activatable_device B v = Some (i, name))"
    for i name
    unfolding devices(1) by (auto simp: List.map_filter_def image_iff) force+
  then have "(i, name) \<in> set devices \<longleftrightarrow>
      (\<exists>k d x. (k, BDoc d) \<in> set ar \<and> map_of d ''_id'' = Some (BOid x) \<and>
             i = ConvertToString B x \<and> map_of d ''status'' = Some (BInt32 DEVICE_NOT_ACTIVE) \<and>
             map_of d ''name'' = Some (BUtf8 name))" for i name
    unfolding entry by blast
  then show ?thesis using doc devices(2) unfolding find_typed_iff[OF B] by blast
qed

theorem activation_exact_witness:
  "\<exists>devices. ClientActivate sample_bson sample_lib sample_mongo
      \<lparr>li_login = ''user@mail'', li_password = ''hash''\<rparr> sample_manager = Inr devices \<and>
    (''3'', ''box'') \<in> set devices \<and> (''2'', ''tv'') \<notin> set devices"
proof -
  let ?auth = "\<lparr>li_login = ''user@mail'', li_password = ''hash''\<rparr> :: login_info"
  have user: "find_one sample_mongo SUBSCRIBERS (by_email (li_login ?auth)) sample_manager = Some sample_user"
    using sample_user_found(1) by (simp add: sample_auth_info_def)
  have "find_int32 sample_bson sample_user ''status'' = Some 1"
      "find_utf8 sample_bson sample_user ''password'' = Some ''hash''"
      "find_array sample_bson sample_user ''devices'' =
         Some [(''0'', BDoc [(''_id'', BOid 2), (''status'', BInt32 1), (''name'', BUtf8 ''tv'')]),
               (''1'', BDoc [(''_id'', BOid 3), (''status'', BInt32 0), (''name'', BUtf8 ''box'')])]"
    unfolding find_typed_iff[OF sample_bson_laws] by (simp_all add: sample_user_def)
  then have "ClientActivate sample_bson sample_lib sample_mongo ?auth sample_manager = Inr [(''3'', ''box'')]"
    using user by (simp add: ClientActivate_def sample_manager_open activatable_device_def holds_doc_def
        List.map_filter_simps find_oid_def find_int32_def find_utf8_def init_find_map_of[OF sample_bson_laws])
      (simp add: sample_lib_def)
  from activation_exact[OF sample_bson_laws this] this show ?thesis by auto
qed

end
