(* ===== verification/Stream_Info.thy ===== *)
theory Stream_Info
  imports Documents
begin

text \<open>
  The readers of stream documents, \<open>MakeVodInfo\<close>, \<open>MakeCatchupInfo\<close> and
  \<open>MakeChannelInfo\<close> of \<open>src/mongo/mongo2info.cpp\<close>, and their specification: what the
  document says, looked up by key.
\<close>

section \<open>The variables of the loops\<close>

record user_stream_info =
  us_favorite :: bool
  us_recent :: int
  us_interruption :: int
  us_priv :: bool
  us_locked :: bool

definition new_user_stream_info :: user_stream_info where
  "new_user_stream_info =
     \<lparr>us_favorite = False, us_recent = 0, us_interruption = 0, us_priv = False, us_locked = False\<rparr>"

record base_vars =
  a_sum :: nat
  a_sid :: string
  a_groups :: "string list"
  a_iarc :: int
  a_view_count :: int
  a_audio :: bool
  a_video :: bool
  a_parts :: "string list"
  a_meta :: "meta_url list"
  a_visible :: bool

record vod_vars = base_vars +
  a_mov :: movie_info

record channel_vars = base_vars +
  a_epg :: epg_info

text \<open>\<open>start\<close> and \<open>stop\<close> are not initialised: \<open>None\<close> until they are read.\<close>

record catchup_vars = channel_vars +
  a_start :: "int option"
  a_stop :: "int option"

definition base_vars_init :: "fastotv_lib \<Rightarrow> bool \<Rightarrow> base_vars" where
  "base_vars_init L visible =
     \<lparr>a_sum = 0, a_sid = [], a_groups = [], a_iarc = fl_default_iarc L, a_view_count = 0,
      a_audio = True, a_video = True, a_parts = [], a_meta = [], a_visible = visible\<rparr>"

definition vod_vars_init :: "fastotv_lib \<Rightarrow> bool \<Rightarrow> vod_vars" where
  "vod_vars_init L visible = base_vars.extend (base_vars_init L visible) \<lparr>a_mov = fl_new_movie L\<rparr>"

definition channel_vars_init :: "fastotv_lib \<Rightarrow> bool \<Rightarrow> channel_vars" where
  "channel_vars_init L visible = base_vars.extend (base_vars_init L visible) \<lparr>a_epg = fl_new_epg L\<rparr>"

definition catchup_vars_init :: "fastotv_lib \<Rightarrow> bool \<Rightarrow> catchup_vars" where
  "catchup_vars_init L visible =
     channel_vars.extend (channel_vars_init L visible) \<lparr>a_start = None, a_stop = None\<rparr>"

definition tick :: "'a base_vars_scheme \<Rightarrow> 'a base_vars_scheme" where
  "tick a = a\<lparr>a_sum := a_sum a + 1\<rparr>"

definition add_parts :: "bson_lib \<Rightarrow> bdoc \<Rightarrow> 'a base_vars_scheme \<Rightarrow> 'a base_vars_scheme reading" where
  "add_parts B d a =
     (case read_oids B d of None \<Rightarrow> Undef | Some ps \<Rightarrow> Got (a\<lparr>a_parts := a_parts a @ ps\<rparr>))"

section \<open>Vods\<close>

text \<open>
  The body of each loop is a chain of comparisons of the key: a list of keys with what the code
  does with a value under them.
\<close>

definition vod_actions ::
    "bson_lib \<Rightarrow> fastotv_lib \<Rightarrow> (string \<times> (bval \<Rightarrow> vod_vars \<Rightarrow> vod_vars reading)) list" where
  "vod_actions B L =
     [(''_id'', \<lambda>v a. need_oid v (\<lambda>x. tick (a\<lparr>a_sid := ConvertToString B x\<rparr>))),
      (''groups'', \<lambda>v a. need_array v (\<lambda>d. Got (tick (a\<lparr>a_groups := a_groups a @ read_groups B d\<rparr>)))),
      (''iarc'', \<lambda>v a. need_int32 v (\<lambda>n. tick (a\<lparr>a_iarc := n\<rparr>))),
      (''view_count'', \<lambda>v a. need_int32 v (\<lambda>n. tick (a\<lparr>a_view_count := n\<rparr>))),
      (''name'', \<lambda>v a. need_utf8 v (\<lambda>s. tick (a\<lparr>a_mov := (a_mov a)\<lparr>mv_name := s\<rparr>\<rparr>))),
      (''description'', \<lambda>v a. need_utf8 v (\<lambda>s. tick (a\<lparr>a_mov := (a_mov a)\<lparr>mv_description := s\<rparr>\<rparr>))),
      (''tvg_logo'', \<lambda>v a. need_utf8 v (\<lambda>s. tick (a\<lparr>a_mov := (a_mov a)\<lparr>mv_preview_icon := GURL s\<rparr>\<rparr>))),
      (''output'', \<lambda>v a. (case GetOutputUrlData B v of
          None \<Rightarrow> Skip
          | Some urls \<Rightarrow> Got (tick (a\<lparr>a_mov := (a_mov a)\<lparr>mv_urls := MakeUrlsFromOutput urls\<rparr>\<rparr>)))),
      (''have_audio'', \<lambda>v a. need_bool v (\<lambda>b. tick (a\<lparr>a_audio := b\<rparr>))),
      (''parts'', \<lambda>v a. need_array v (\<lambda>d. add_parts B d a)),
      (''meta'', \<lambda>v a. need_array v (\<lambda>d. Got (a\<lparr>a_meta := a_meta a @ read_metas B L d\<rparr>))),
      (''have_video'', \<lambda>v a. need_bool v (\<lambda>b. tick (a\<lparr>a_video := b\<rparr>)))]"

definition vod_movie_actions ::
    "bson_lib \<Rightarrow> fastotv_lib \<Rightarrow> (string \<times> (bval \<Rightarrow> vod_vars \<Rightarrow> vod_vars reading)) list" where
  "vod_movie_actions B L =
     [(''trailer_url'', \<lambda>v a. need_utf8 v (\<lambda>s. tick (a\<lparr>a_mov := (a_mov a)\<lparr>mv_trailer_url := GURL s\<rparr>\<rparr>))),
      (''user_score'', \<lambda>v a. need_double v (\<lambda>x. tick (a\<lparr>a_mov := (a_mov a)\<lparr>mv_user_score := x\<rparr>\<rparr>))),
      (''prime_date'', \<lambda>v a. need_date v (\<lambda>t. tick (a\<lparr>a_mov := (a_mov a)\<lparr>mv_prime_date := t\<rparr>\<rparr>))),
      (''country'', \<lambda>v a. need_utf8 v (\<lambda>s. tick (a\<lparr>a_mov := (a_mov a)\<lparr>mv_country := s\<rparr>\<rparr>))),
      (''duration'', \<lambda>v a. need_int32 v (\<lambda>n. tick (a\<lparr>a_mov := (a_mov a)\<lparr>mv_duration := n\<rparr>\<rparr>))),
      (''vod_type'', \<lambda>v a. need_int32 v (\<lambda>n. tick (a\<lparr>a_mov := (a_mov a)\<lparr>mv_type := n\<rparr>\<rparr>))),
      (''visible'', \<lambda>v a. need_bool v (\<lambda>b. a\<lparr>a_visible := b\<rparr>))]"

abbreviation (input) CHECK_SUM_VOD :: nat where "CHECK_SUM_VOD \<equiv> 16"

text \<open>The result of a reader that succeeds is the object and the flag \<open>*visible\<close>.\<close>

definition vod_result :: "stream_type \<Rightarrow> user_stream_info \<Rightarrow> vod_vars \<Rightarrow> (vod_info \<times> bool) reading" where
  "vod_result st uinfo a =
     (if a_sum a \<noteq> CHECK_SUM_VOD \<and> \<not> (st = VOD_PROXY \<and> a_sum a = CHECK_SUM_VOD - 2) then Skip
      else Got (\<lparr>sb_sid = a_sid a, sb_groups = a_groups a, sb_iarc = a_iarc a,
                 sb_favorite = us_favorite uinfo, sb_recent = us_recent uinfo,
                 sb_interruption = us_interruption uinfo, sb_flag1 = a_video a,
                 sb_flag2 = a_audio a, sb_parts = a_parts a, sb_view_count = a_view_count a,
                 sb_locked = us_locked uinfo, sb_meta = a_meta a, vi_movie = a_mov a\<rparr>,
                a_visible a))"

definition MakeVodInfo ::
    "bson_lib \<Rightarrow> fastotv_lib \<Rightarrow> bdoc \<Rightarrow> stream_type \<Rightarrow> user_stream_info \<Rightarrow> bool
     \<Rightarrow> (vod_info \<times> bool) reading" where
  "MakeVodInfo B L sdoc st uinfo visible =
     (case read_loop (dispatch (vod_actions B L @ vod_movie_actions B L)) sdoc (vod_vars_init L visible) of
        Undef \<Rightarrow> Undef
      | Skip \<Rightarrow> Skip
      | Got a \<Rightarrow> vod_result st uinfo a)"

lemmas MakeVodInfo_defs = MakeVodInfo_def vod_result_def

section \<open>Catchups\<close>

definition catchup_actions ::
    "bson_lib \<Rightarrow> fastotv_lib \<Rightarrow> (string \<times> (bval \<Rightarrow> catchup_vars \<Rightarrow> catchup_vars reading)) list" where
  "catchup_actions B L =
     [(''_id'', \<lambda>v a. need_oid v (\<lambda>x. tick (a\<lparr>a_sid := ConvertToString B x\<rparr>))),
      (''groups'', \<lambda>v a. need_array v (\<lambda>d. Got (tick (a\<lparr>a_groups := a_groups a @ read_groups B d\<rparr>)))),
      (''iarc'', \<lambda>v a. need_int32 v (\<lambda>n. tick (a\<lparr>a_iarc := n\<rparr>))),
      (''view_count'', \<lambda>v a. need_int32 v (\<lambda>n. tick (a\<lparr>a_view_count := n\<rparr>))),
      (''tvg_id'', \<lambda>v a. need_utf8 v (\<lambda>s. tick (a\<lparr>a_epg := (a_epg a)\<lparr>ep_tvg_id := s\<rparr>\<rparr>))),
      (''name'', \<lambda>v a. need_utf8 v (\<lambda>s. tick (a\<lparr>a_epg := (a_epg a)\<lparr>ep_display_name := s\<rparr>\<rparr>))),
      (''have_audio'', \<lambda>v a. need_bool v (\<lambda>b. tick (a\<lparr>a_audio := b\<rparr>))),
      (''parts'', \<lambda>v a. need_array v (\<lambda>d. add_parts B d a)),
      (''meta'', \<lambda>v a. need_array v (\<lambda>d. Got (a\<lparr>a_meta := a_meta a @ read_metas B L d\<rparr>))),
      (''have_video'', \<lambda>v a. need_bool v (\<lambda>b. tick (a\<lparr>a_video := b\<rparr>))),
      (''start'', \<lambda>v a. need_date v (\<lambda>t. tick (a\<lparr>a_start := Some t\<rparr>))),
      (''stop'', \<lambda>v a. need_date v (\<lambda>t. tick (a\<lparr>a_stop := Some t\<rparr>))),
      (''tvg_logo'', \<lambda>v a. need_utf8 v (\<lambda>s. tick (a\<lparr>a_epg := (a_epg a)\<lparr>ep_icon_url := GURL s\<rparr>\<rparr>))),
      (''output'', \<lambda>v a. (case GetOutputUrlData B v of
          None \<Rightarrow> Skip
          | Some urls \<Rightarrow> Got (tick (a\<lparr>a_epg := (a_epg a)\<lparr>ep_urls := MakeUrlsFromOutput urls\<rparr>\<rparr>)))),
      (''visible'', \<lambda>v a. need_bool v (\<lambda>b. a\<lparr>a_visible := b\<rparr>))]"

abbreviation (input) CHECK_SUM_CATCHUP :: nat where "CHECK_SUM_CATCHUP \<equiv> 12"

definition catchup_result :: "user_stream_info \<Rightarrow> catchup_vars \<Rightarrow> (catchup_info \<times> bool) reading" where
  "catchup_result uinfo a =
     (if a_sum a \<noteq> CHECK_SUM_CATCHUP then Skip
      else (case (a_start a, a_stop a) of
              (Some start, Some stop) \<Rightarrow>
                Got (\<lparr>sb_sid = a_sid a, sb_groups = a_groups a, sb_iarc = a_iarc a,
                      sb_favorite = us_favorite uinfo, sb_recent = us_recent uinfo,
                      sb_interruption = us_interruption uinfo, sb_flag1 = a_video a,
                      sb_flag2 = a_audio a, sb_parts = a_parts a,
                      sb_view_count = a_view_count a, sb_locked = us_locked uinfo,
                      sb_meta = a_meta a, ci_epg = a_epg a, cu_start = start, cu_stop = stop\<rparr>,
                     a_visible a)
            | _ \<Rightarrow> Undef))"

definition MakeCatchupInfo ::
    "bson_lib \<Rightarrow> fastotv_lib \<Rightarrow> bdoc \<Rightarrow> stream_type \<Rightarrow> user_stream_info \<Rightarrow> bool
     \<Rightarrow> (catchup_info \<times> bool) reading" where
  "MakeCatchupInfo B L sdoc st uinfo visible =
     (case read_loop (dispatch (catchup_actions B L)) sdoc (catchup_vars_init L visible) of
        Undef \<Rightarrow> Undef
      | Skip \<Rightarrow> Skip
      | Got a \<Rightarrow> catchup_result uinfo a)"

lemmas MakeCatchupInfo_defs = MakeCatchupInfo_def catchup_result_def

section \<open>Channels\<close>

definition channel_actions ::
    "bson_lib \<Rightarrow> fastotv_lib \<Rightarrow> (string \<times> (bval \<Rightarrow> channel_vars \<Rightarrow> channel_vars reading)) list" where
  "channel_actions B L =
     [(''_id'', \<lambda>v a. need_oid v (\<lambda>x. tick (a\<lparr>a_sid := ConvertToString B x\<rparr>))),
      (''groups'', \<lambda>v a. need_array v (\<lambda>d. Got (tick (a\<lparr>a_groups := a_groups a @ read_groups B d\<rparr>)))),
      (''iarc'', \<lambda>v a. need_int32 v (\<lambda>n. tick (a\<lparr>a_iarc := n\<rparr>))),
      (''view_count'', \<lambda>v a. need_int32 v (\<lambda>n. tick (a\<lparr>a_view_count := n\<rparr>))),
      (''tvg_id'', \<lambda>v a. need_utf8 v (\<lambda>s. tick (a\<lparr>a_epg := (a_epg a)\<lparr>ep_tvg_id := s\<rparr>\<rparr>))),
      (''name'', \<lambda>v a. need_utf8 v (\<lambda>s. tick (a\<lparr>a_epg := (a_epg a)\<lparr>ep_display_name := s\<rparr>\<rparr>))),
      (''have_audio'', \<lambda>v a. need_bool v (\<lambda>b. tick (a\<lparr>a_audio := b\<rparr>))),
      (''parts'', \<lambda>v a. need_array v (\<lambda>d. add_parts B d a)),
      (''meta'', \<lambda>v a. need_array v (\<lambda>d. Got (a\<lparr>a_meta := a_meta a @ read_metas B L d\<rparr>))),
      (''have_video'', \<lambda>v a. need_bool v (\<lambda>b. tick (a\<lparr>a_video := b\<rparr>))),
      (''tvg_logo'', \<lambda>v a. need_utf8 v (\<lambda>s. tick (a\<lparr>a_epg := (a_epg a)\<lparr>ep_icon_url := GURL s\<rparr>\<rparr>))),
      (''output'', \<lambda>v a. (case GetOutputUrlData B v of
          None \<Rightarrow> Skip
          | Some urls \<Rightarrow> Got (tick (a\<lparr>a_epg := (a_epg a)\<lparr>ep_urls := MakeUrlsFromOutput urls\<rparr>\<rparr>)))),
      (''visible'', \<lambda>v a. need_bool v (\<lambda>b. a\<lparr>a_visible := b\<rparr>))]"

abbreviation (input) CHECK_SUM_CHANNEL :: nat where "CHECK_SUM_CHANNEL \<equiv> 10"

definition channel_result :: "stream_type \<Rightarrow> user_stream_info \<Rightarrow> channel_vars \<Rightarrow> (channel_info \<times> bool) reading" where
  "channel_result st uinfo a =
     (if a_sum a \<noteq> CHECK_SUM_CHANNEL \<and> \<not> (st = PROXY \<and> a_sum a = CHECK_SUM_CHANNEL - 2)
      then Skip
      else Got (\<lparr>sb_sid = a_sid a, sb_groups = a_groups a, sb_iarc = a_iarc a,
                 sb_favorite = us_favorite uinfo, sb_recent = us_recent uinfo,
                 sb_interruption = us_interruption uinfo, sb_flag1 = a_video a,
                 sb_flag2 = a_audio a, sb_parts = a_parts a, sb_view_count = a_view_count a,
                 sb_locked = us_locked uinfo, sb_meta = a_meta a, ci_epg = a_epg a\<rparr>,
                a_visible a))"

definition MakeChannelInfo ::
    "bson_lib \<Rightarrow> fastotv_lib \<Rightarrow> bdoc \<Rightarrow> stream_type \<Rightarrow> user_stream_info \<Rightarrow> bool
     \<Rightarrow> (channel_info \<times> bool) reading" where
  "MakeChannelInfo B L sdoc st uinfo visible =
     (case read_loop (dispatch (channel_actions B L)) sdoc (channel_vars_init L visible) of
        Undef \<Rightarrow> Undef
      | Skip \<Rightarrow> Skip
      | Got a \<Rightarrow> channel_result st uinfo a)"

lemmas MakeChannelInfo_defs = MakeChannelInfo_def channel_result_def

section \<open>Specification of the readers\<close>

text \<open>
  The schemas list the keys of each class with the type it expects; every key but the optional
  ones is mandatory.
\<close>

definition vod_schema :: "(string \<times> btype) list" where
  "vod_schema =
     [(''_id'', OidT), (''groups'', ArrayT), (''iarc'', Int32T), (''view_count'', Int32T),
      (''name'', Utf8T), (''description'', Utf8T), (''tvg_logo'', Utf8T),
      (''output'', ArrayT), (''have_audio'', BoolT), (''parts'', OidsT),
      (''meta'', ArrayT), (''have_video'', BoolT), (''trailer_url'', Utf8T),
      (''user_score'', DoubleT), (''prime_date'', DateT), (''country'', Utf8T),
      (''duration'', Int32T), (''vod_type'', Int32T), (''visible'', BoolT)]"

definition catchup_schema :: "(string \<times> btype) list" where
  "catchup_schema =
     [(''_id'', OidT), (''groups'', ArrayT), (''iarc'', Int32T), (''view_count'', Int32T),
      (''tvg_id'', Utf8T), (''name'', Utf8T), (''have_audio'', BoolT), (''parts'', OidsT),
      (''meta'', ArrayT), (''have_video'', BoolT), (''start'', DateT), (''stop'', DateT),
      (''tvg_logo'', Utf8T), (''output'', ArrayT), (''visible'', BoolT)]"

definition channel_schema :: "(string \<times> btype) list" where
  "channel_schema =
     [(''_id'', OidT), (''groups'', ArrayT), (''iarc'', Int32T), (''view_count'', Int32T),
      (''tvg_id'', Utf8T), (''name'', Utf8T), (''have_audio'', BoolT), (''parts'', OidsT),
      (''meta'', ArrayT), (''have_video'', BoolT), (''tvg_logo'', Utf8T),
      (''output'', ArrayT), (''visible'', BoolT)]"

lemma vod_counted:
  "mandatory vod_schema =
     [''_id'', ''groups'', ''iarc'', ''view_count'', ''name'', ''description'',
      ''tvg_logo'', ''output'', ''have_audio'', ''have_video'', ''trailer_url'',
      ''user_score'', ''prime_date'', ''country'', ''duration'', ''vod_type'']"
  by (simp add: mandatory_def vod_schema_def optional_keys_def)

lemma catchup_counted:
  "mandatory catchup_schema =
     [''_id'', ''groups'', ''iarc'', ''view_count'', ''tvg_id'', ''name'', ''have_audio'',
      ''have_video'', ''start'', ''stop'', ''tvg_logo'', ''output'']"
  by (simp add: mandatory_def catchup_schema_def optional_keys_def)

lemma channel_counted:
  "mandatory channel_schema =
     [''_id'', ''groups'', ''iarc'', ''view_count'', ''tvg_id'', ''name'', ''have_audio'',
      ''have_video'', ''tvg_logo'', ''output'']"
  by (simp add: mandatory_def channel_schema_def optional_keys_def)

text \<open>
  The object that a document without duplicate keys describes: each attribute is the value under
  its key, and the default when the key is missing.
\<close>

definition the_gurl :: "bval \<Rightarrow> gurl" where
  "the_gurl v = GURL (the_utf8 v)"

definition stream_base_of ::
    "bson_lib \<Rightarrow> fastotv_lib \<Rightarrow> user_stream_info \<Rightarrow> bdoc \<Rightarrow> stream_base" where
  "stream_base_of B L u d =
     \<lparr>sb_sid = look d ''_id'' (the_oid B) [],
      sb_groups = look d ''groups'' (\<lambda>v. read_groups B (the_array v)) [],
      sb_iarc = look d ''iarc'' the_int32 (fl_default_iarc L),
      sb_favorite = us_favorite u, sb_recent = us_recent u, sb_interruption = us_interruption u,
      sb_flag1 = look d ''have_video'' the_bool True,
      sb_flag2 = look d ''have_audio'' the_bool True,
      sb_parts = look d ''parts'' (the_oids B) [],
      sb_view_count = look d ''view_count'' the_int32 0,
      sb_locked = us_locked u,
      sb_meta = look d ''meta'' (\<lambda>v. read_metas B L (the_array v)) []\<rparr>"

definition epg_of :: "bson_lib \<Rightarrow> fastotv_lib \<Rightarrow> bdoc \<Rightarrow> epg_info" where
  "epg_of B L d =
     (fl_new_epg L)
       \<lparr>ep_tvg_id := look d ''tvg_id'' the_utf8 (ep_tvg_id (fl_new_epg L)),
        ep_display_name := look d ''name'' the_utf8 (ep_display_name (fl_new_epg L)),
        ep_icon_url := look d ''tvg_logo'' the_gurl (ep_icon_url (fl_new_epg L)),
        ep_urls := look d ''output'' (the_urls B) (ep_urls (fl_new_epg L))\<rparr>"

definition movie_of :: "bson_lib \<Rightarrow> fastotv_lib \<Rightarrow> bdoc \<Rightarrow> movie_info" where
  "movie_of B L d =
     \<lparr>mv_name = look d ''name'' the_utf8 (mv_name (fl_new_movie L)),
      mv_description = look d ''description'' the_utf8 (mv_description (fl_new_movie L)),
      mv_preview_icon = look d ''tvg_logo'' the_gurl (mv_preview_icon (fl_new_movie L)),
      mv_urls = look d ''output'' (the_urls B) (mv_urls (fl_new_movie L)),
      mv_trailer_url = look d ''trailer_url'' the_gurl (mv_trailer_url (fl_new_movie L)),
      mv_user_score = look d ''user_score'' the_double (mv_user_score (fl_new_movie L)),
      mv_prime_date = look d ''prime_date'' the_date (mv_prime_date (fl_new_movie L)),
      mv_country = look d ''country'' the_utf8 (mv_country (fl_new_movie L)),
      mv_duration = look d ''duration'' the_int32 (mv_duration (fl_new_movie L)),
      mv_type = look d ''vod_type'' the_int32 (mv_type (fl_new_movie L))\<rparr>"

definition vod_of :: "bson_lib \<Rightarrow> fastotv_lib \<Rightarrow> user_stream_info \<Rightarrow> bdoc \<Rightarrow> vod_info" where
  "vod_of B L u d = stream_base.extend (stream_base_of B L u d) \<lparr>vi_movie = movie_of B L d\<rparr>"

definition channel_of :: "bson_lib \<Rightarrow> fastotv_lib \<Rightarrow> user_stream_info \<Rightarrow> bdoc \<Rightarrow> channel_info" where
  "channel_of B L u d = stream_base.extend (stream_base_of B L u d) \<lparr>ci_epg = epg_of B L d\<rparr>"

definition catchup_of :: "bson_lib \<Rightarrow> fastotv_lib \<Rightarrow> user_stream_info \<Rightarrow> bdoc \<Rightarrow> catchup_info" where
  "catchup_of B L u d =
     channel_info.extend (channel_of B L u d)
       \<lparr>cu_start = look d ''start'' the_date 0, cu_stop = look d ''stop'' the_date 0\<rparr>"

section \<open>The readers meet the specification\<close>

lemma add_parts_Got_iff [read_simps]:
  "add_parts B d a = Got a' \<longleftrightarrow>
     (\<exists>ps. read_oids B d = Some ps \<and> a' = a\<lparr>a_parts := a_parts a @ ps\<rparr>)"
  by (auto simp: add_parts_def split: option.splits)

lemma tick_simps [simp]:
  "a_sum (tick a) = a_sum a + 1" "a_sid (tick a) = a_sid a" "a_groups (tick a) = a_groups a"
  "a_iarc (tick a) = a_iarc a" "a_view_count (tick a) = a_view_count a" "a_audio (tick a) = a_audio a"
  "a_video (tick a) = a_video a" "a_parts (tick a) = a_parts a" "a_meta (tick a) = a_meta a"
  "a_visible (tick a) = a_visible a" "a_mov (tick b) = a_mov b" "a_epg (tick c) = a_epg c"
  "a_start (tick u) = a_start u" "a_stop (tick u) = a_stop u"
  by (simp_all add: tick_def)

lemma the_gurl_simp [read_simps]: "the_gurl (BUtf8 s) = GURL s"
  by (simp add: the_gurl_def read_simps)

interpretation vod: doc_reader "dispatch (vod_actions B L @ vod_movie_actions B L)" a_sum
    "mandatory vod_schema" "well_typed B vod_schema" for B L
proof
  show "(\<exists>s'. dispatch (vod_actions B L @ vod_movie_actions B L) e s = Got s') \<longleftrightarrow>
          well_typed B vod_schema (fst e) (snd e)" for e s
    by (rule dispatch_got_iff) (auto simp: vod_actions_def vod_movie_actions_def vod_schema_def read_simps)
  show "a_sum s' = a_sum s + (if fst e \<in> set (mandatory vod_schema) then 1 else 0)"
    if "dispatch (vod_actions B L @ vod_movie_actions B L) e s = Got s'" for e s s'
    unfolding vod_counted
    by (rule dispatch_sum[OF _ _ that]; auto simp: vod_actions_def vod_movie_actions_def read_simps)
  show "distinct (mandatory vod_schema)" by (simp add: vod_counted)
qed

lemma vod_loop_values:
  assumes d: "distinct (keys_of d)"
    and loop: "read_loop (dispatch (vod_actions B L @ vod_movie_actions B L)) d s = Got a"
  shows "a_sid a = look d ''_id'' (the_oid B) (a_sid s)"
    and "a_groups a = look d ''groups'' (\<lambda>v. a_groups s @ read_groups B (the_array v)) (a_groups s)"
    and "a_iarc a = look d ''iarc'' the_int32 (a_iarc s)"
    and "a_view_count a = look d ''view_count'' the_int32 (a_view_count s)"
    and "a_audio a = look d ''have_audio'' the_bool (a_audio s)"
    and "a_video a = look d ''have_video'' the_bool (a_video s)"
    and "a_parts a = look d ''parts'' (\<lambda>v. a_parts s @ the_oids B v) (a_parts s)"
    and "a_meta a = look d ''meta'' (\<lambda>v. a_meta s @ read_metas B L (the_array v)) (a_meta s)"
    and "a_visible a = look d ''visible'' the_bool (a_visible s)"
    and "mv_name (a_mov a) = look d ''name'' the_utf8 (mv_name (a_mov s))"
    and "mv_description (a_mov a) = look d ''description'' the_utf8 (mv_description (a_mov s))"
    and "mv_preview_icon (a_mov a) = look d ''tvg_logo'' the_gurl (mv_preview_icon (a_mov s))"
    and "mv_urls (a_mov a) = look d ''output'' (the_urls B) (mv_urls (a_mov s))"
    and "mv_trailer_url (a_mov a) = look d ''trailer_url'' the_gurl (mv_trailer_url (a_mov s))"
    and "mv_user_score (a_mov a) = look d ''user_score'' the_double (mv_user_score (a_mov s))"
    and "mv_prime_date (a_mov a) = look d ''prime_date'' the_date (mv_prime_date (a_mov s))"
    and "mv_country (a_mov a) = look d ''country'' the_utf8 (mv_country (a_mov s))"
    and "mv_duration (a_mov a) = look d ''duration'' the_int32 (mv_duration (a_mov s))"
    and "mv_type (a_mov a) = look d ''vod_type'' the_int32 (mv_type (a_mov s))"
proof -
  note step = dispatch_loop_field[OF d loop]
  note acts = vod_actions_def vod_movie_actions_def read_simps
  show "a_sid a = look d ''_id'' (the_oid B) (a_sid s)"
    by (rule step[where fld = "a_sid" and upd = "\<lambda>v _. the_oid B v"]; auto simp: acts)
  show "a_groups a = look d ''groups'' (\<lambda>v. a_groups s @ read_groups B (the_array v)) (a_groups s)"
    by (rule step[where fld = "a_groups" and upd = "\<lambda>v xs. xs @ read_groups B (the_array v)"]; auto simp: acts)
  show "a_iarc a = look d ''iarc'' the_int32 (a_iarc s)"
    by (rule step[where fld = "a_iarc" and upd = "\<lambda>v _. the_int32 v"]; auto simp: acts)
  show "a_view_count a = look d ''view_count'' the_int32 (a_view_count s)"
    by (rule step[where fld = "a_view_count" and upd = "\<lambda>v _. the_int32 v"]; auto simp: acts)
  show "a_audio a = look d ''have_audio'' the_bool (a_audio s)"
    by (rule step[where fld = "a_audio" and upd = "\<lambda>v _. the_bool v"]; auto simp: acts)
  show "a_video a = look d ''have_video'' the_bool (a_video s)"
    by (rule step[where fld = "a_video" and upd = "\<lambda>v _. the_bool v"]; auto simp: acts)
  show "a_parts a = look d ''parts'' (\<lambda>v. a_parts s @ the_oids B v) (a_parts s)"
    by (rule step[where fld = "a_parts" and upd = "\<lambda>v xs. xs @ the_oids B v"]; auto simp: acts)
  show "a_meta a = look d ''meta'' (\<lambda>v. a_meta s @ read_metas B L (the_array v)) (a_meta s)"
    by (rule step[where fld = "a_meta" and upd = "\<lambda>v xs. xs @ read_metas B L (the_array v)"]; auto simp: acts)
  show "a_visible a = look d ''visible'' the_bool (a_visible s)"
    by (rule step[where fld = "a_visible" and upd = "\<lambda>v _. the_bool v"]; auto simp: acts)
  show "mv_name (a_mov a) = look d ''name'' the_utf8 (mv_name (a_mov s))"
    by (rule step[where fld = "\<lambda>a. mv_name (a_mov a)" and upd = "\<lambda>v _. the_utf8 v"]; auto simp: acts)
  show "mv_description (a_mov a) = look d ''description'' the_utf8 (mv_description (a_mov s))"
    by (rule step[where fld = "\<lambda>a. mv_description (a_mov a)" and upd = "\<lambda>v _. the_utf8 v"]; auto simp: acts)
  show "mv_preview_icon (a_mov a) = look d ''tvg_logo'' the_gurl (mv_preview_icon (a_mov s))"
    by (rule step[where fld = "\<lambda>a. mv_preview_icon (a_mov a)" and upd = "\<lambda>v _. the_gurl v"]; auto simp: acts)
  show "mv_urls (a_mov a) = look d ''output'' (the_urls B) (mv_urls (a_mov s))"
    by (rule step[where fld = "\<lambda>a. mv_urls (a_mov a)" and upd = "\<lambda>v _. the_urls B v"]; auto simp: acts)
  show "mv_trailer_url (a_mov a) = look d ''trailer_url'' the_gurl (mv_trailer_url (a_mov s))"
    by (rule step[where fld = "\<lambda>a. mv_trailer_url (a_mov a)" and upd = "\<lambda>v _. the_gurl v"]; auto simp: acts)
  show "mv_user_score (a_mov a) = look d ''user_score'' the_double (mv_user_score (a_mov s))"
    by (rule step[where fld = "\<lambda>a. mv_user_score (a_mov a)" and upd = "\<lambda>v _. the_double v"]; auto simp: acts)
  show "mv_prime_date (a_mov a) = look d ''prime_date'' the_date (mv_prime_date (a_mov s))"
    by (rule step[where fld = "\<lambda>a. mv_prime_date (a_mov a)" and upd = "\<lambda>v _. the_date v"]; auto simp: acts)
  show "mv_country (a_mov a) = look d ''country'' the_utf8 (mv_country (a_mov s))"
    by (rule step[where fld = "\<lambda>a. mv_country (a_mov a)" and upd = "\<lambda>v _. the_utf8 v"]; auto simp: acts)
  show "mv_duration (a_mov a) = look d ''duration'' the_int32 (mv_duration (a_mov s))"
    by (rule step[where fld = "\<lambda>a. mv_duration (a_mov a)" and upd = "\<lambda>v _. the_int32 v"]; auto simp: acts)
  show "mv_type (a_mov a) = look d ''vod_type'' the_int32 (mv_type (a_mov s))"
    by (rule step[where fld = "\<lambda>a. mv_type (a_mov a)" and upd = "\<lambda>v _. the_int32 v"]; auto simp: acts)
qed

interpretation catchup: doc_reader "dispatch (catchup_actions B L)" a_sum
    "mandatory catchup_schema" "well_typed B catchup_schema" for B L
proof
  show "(\<exists>s'. dispatch (catchup_actions B L) e s = Got s') \<longleftrightarrow>
          well_typed B catchup_schema (fst e) (snd e)" for e s
    by (rule dispatch_got_iff) (auto simp: catchup_actions_def catchup_schema_def read_simps)
  show "a_sum s' = a_sum s + (if fst e \<in> set (mandatory catchup_schema) then 1 else 0)"
    if "dispatch (catchup_actions B L) e s = Got s'" for e s s'
    unfolding catchup_counted
    by (rule dispatch_sum[OF _ _ that]; auto simp: catchup_actions_def read_simps)
  show "distinct (mandatory catchup_schema)" by (simp add: catchup_counted)
qed

lemma catchup_loop_values:
  assumes d: "distinct (keys_of d)"
    and loop: "read_loop (dispatch (catchup_actions B L)) d s = Got a"
  shows "a_sid a = look d ''_id'' (the_oid B) (a_sid s)"
    and "a_groups a = look d ''groups'' (\<lambda>v. a_groups s @ read_groups B (the_array v)) (a_groups s)"
    and "a_iarc a = look d ''iarc'' the_int32 (a_iarc s)"
    and "a_view_count a = look d ''view_count'' the_int32 (a_view_count s)"
    and "a_audio a = look d ''have_audio'' the_bool (a_audio s)"
    and "a_video a = look d ''have_video'' the_bool (a_video s)"
    and "a_parts a = look d ''parts'' (\<lambda>v. a_parts s @ the_oids B v) (a_parts s)"
    and "a_meta a = look d ''meta'' (\<lambda>v. a_meta s @ read_metas B L (the_array v)) (a_meta s)"
    and "a_visible a = look d ''visible'' the_bool (a_visible s)"
    and "ep_tvg_id (a_epg a) = look d ''tvg_id'' the_utf8 (ep_tvg_id (a_epg s))"
    and "ep_display_name (a_epg a) = look d ''name'' the_utf8 (ep_display_name (a_epg s))"
    and "ep_icon_url (a_epg a) = look d ''tvg_logo'' the_gurl (ep_icon_url (a_epg s))"
    and "ep_urls (a_epg a) = look d ''output'' (the_urls B) (ep_urls (a_epg s))"
    and "ep_programs (a_epg a) = look d ''_id'' (\<lambda>_. ep_programs (a_epg s)) (ep_programs (a_epg s))"
    and "a_start a = look d ''start'' (\<lambda>v. Some (the_date v)) (a_start s)"
    and "a_stop a = look d ''stop'' (\<lambda>v. Some (the_date v)) (a_stop s)"
proof -
  note step = dispatch_loop_field[OF d loop]
  note acts = catchup_actions_def read_simps
  show "a_sid a = look d ''_id'' (the_oid B) (a_sid s)"
    by (rule step[where fld = "a_sid" and upd = "\<lambda>v _. the_oid B v"]; auto simp: acts)
  show "a_groups a = look d ''groups'' (\<lambda>v. a_groups s @ read_groups B (the_array v)) (a_groups s)"
    by (rule step[where fld = "a_groups" and upd = "\<lambda>v xs. xs @ read_groups B (the_array v)"]; auto simp: acts)
  show "a_iarc a = look d ''iarc'' the_int32 (a_iarc s)"
    by (rule step[where fld = "a_iarc" and upd = "\<lambda>v _. the_int32 v"]; auto simp: acts)
  show "a_view_count a = look d ''view_count'' the_int32 (a_view_count s)"
    by (rule step[where fld = "a_view_count" and upd = "\<lambda>v _. the_int32 v"]; auto simp: acts)
  show "a_audio a = look d ''have_audio'' the_bool (a_audio s)"
    by (rule step[where fld = "a_audio" and upd = "\<lambda>v _. the_bool v"]; auto simp: acts)
  show "a_video a = look d ''have_video'' the_bool (a_video s)"
    by (rule step[where fld = "a_video" and upd = "\<lambda>v _. the_bool v"]; auto simp: acts)
  show "a_parts a = look d ''parts'' (\<lambda>v. a_parts s @ the_oids B v) (a_parts s)"
    by (rule step[where fld = "a_parts" and upd = "\<lambda>v xs. xs @ the_oids B v"]; auto simp: acts)
  show "a_meta a = look d ''meta'' (\<lambda>v. a_meta s @ read_metas B L (the_array v)) (a_meta s)"
    by (rule step[where fld = "a_meta" and upd = "\<lambda>v xs. xs @ read_metas B L (the_array v)"]; auto simp: acts)
  show "a_visible a = look d ''visible'' the_bool (a_visible s)"
    by (rule step[where fld = "a_visible" and upd = "\<lambda>v _. the_bool v"]; auto simp: acts)
  show "ep_tvg_id (a_epg a) = look d ''tvg_id'' the_utf8 (ep_tvg_id (a_epg s))"
    by (rule step[where fld = "\<lambda>a. ep_tvg_id (a_epg a)" and upd = "\<lambda>v _. the_utf8 v"]; auto simp: acts)
  show "ep_display_name (a_epg a) = look d ''name'' the_utf8 (ep_display_name (a_epg s))"
    by (rule step[where fld = "\<lambda>a. ep_display_name (a_epg a)" and upd = "\<lambda>v _. the_utf8 v"]; auto simp: acts)
  show "ep_icon_url (a_epg a) = look d ''tvg_logo'' the_gurl (ep_icon_url (a_epg s))"
    by (rule step[where fld = "\<lambda>a. ep_icon_url (a_epg a)" and upd = "\<lambda>v _. the_gurl v"]; auto simp: acts)
  show "ep_urls (a_epg a) = look d ''output'' (the_urls B) (ep_urls (a_epg s))"
    by (rule step[where fld = "\<lambda>a. ep_urls (a_epg a)" and upd = "\<lambda>v _. the_urls B v"]; auto simp: acts)
  show "ep_programs (a_epg a) = look d ''_id'' (\<lambda>_. ep_programs (a_epg s)) (ep_programs (a_epg s))"
    by (rule step[where fld = "\<lambda>a. ep_programs (a_epg a)" and upd = "\<lambda>_ x. x"]; auto simp: acts)
  show "a_start a = look d ''start'' (\<lambda>v. Some (the_date v)) (a_start s)"
    by (rule step[where fld = "a_start" and upd = "\<lambda>v _. Some (the_date v)"]; auto simp: acts)
  show "a_stop a = look d ''stop'' (\<lambda>v. Some (the_date v)) (a_stop s)"
    by (rule step[where fld = "a_stop" and upd = "\<lambda>v _. Some (the_date v)"]; auto simp: acts)
qed

interpretation channel: doc_reader "dispatch (channel_actions B L)" a_sum
    "mandatory channel_schema" "well_typed B channel_schema" for B L
proof
  show "(\<exists>s'. dispatch (channel_actions B L) e s = Got s') \<longleftrightarrow>
          well_typed B channel_schema (fst e) (snd e)" for e s
    by (rule dispatch_got_iff) (auto simp: channel_actions_def channel_schema_def read_simps)
  show "a_sum s' = a_sum s + (if fst e \<in> set (mandatory channel_schema) then 1 else 0)"
    if "dispatch (channel_actions B L) e s = Got s'" for e s s'
    unfolding channel_counted
    by (rule dispatch_sum[OF _ _ that]; auto simp: channel_actions_def read_simps)
  show "distinct (mandatory channel_schema)" by (simp add: channel_counted)
qed

lemma channel_loop_values:
  assumes d: "distinct (keys_of d)"
    and loop: "read_loop (dispatch (channel_actions B L)) d s = Got a"
  shows "a_sid a = look d ''_id'' (the_oid B) (a_sid s)"
    and "a_groups a = look d ''groups'' (\<lambda>v. a_groups s @ read_groups B (the_array v)) (a_groups s)"
    and "a_iarc a = look d ''iarc'' the_int32 (a_iarc s)"
    and "a_view_count a = look d ''view_count'' the_int32 (a_view_count s)"
    and "a_audio a = look d ''have_audio'' the_bool (a_audio s)"
    and "a_video a = look d ''have_video'' the_bool (a_video s)"
    and "a_parts a = look d ''parts'' (\<lambda>v. a_parts s @ the_oids B v) (a_parts s)"
    and "a_meta a = look d ''meta'' (\<lambda>v. a_meta s @ read_metas B L (the_array v)) (a_meta s)"
    and "a_visible a = look d ''visible'' the_bool (a_visible s)"
    and "ep_tvg_id (a_epg a) = look d ''tvg_id'' the_utf8 (ep_tvg_id (a_epg s))"
    and "ep_display_name (a_epg a) = look d ''name'' the_utf8 (ep_display_name (a_epg s))"
    and "ep_icon_url (a_epg a) = look d ''tvg_logo'' the_gurl (ep_icon_url (a_epg s))"
    and "ep_urls (a_epg a) = look d ''output'' (the_urls B) (ep_urls (a_epg s))"
    and "ep_programs (a_epg a) = look d ''_id'' (\<lambda>_. ep_programs (a_epg s)) (ep_programs (a_epg s))"
proof -
  note step = dispatch_loop_field[OF d loop]
  note acts = channel_actions_def read_simps
  show "a_sid a = look d ''_id'' (the_oid B) (a_sid s)"
    by (rule step[where fld = "a_sid" and upd = "\<lambda>v _. the_oid B v"]; auto simp: acts)
  show "a_groups a = look d ''groups'' (\<lambda>v. a_groups s @ read_groups B (the_array v)) (a_groups s)"
    by (rule step[where fld = "a_groups" and upd = "\<lambda>v xs. xs @ read_groups B (the_array v)"]; auto simp: acts)
  show "a_iarc a = look d ''iarc'' the_int32 (a_iarc s)"
    by (rule step[where fld = "a_iarc" and upd = "\<lambda>v _. the_int32 v"]; auto simp: acts)
  show "a_view_count a = look d ''view_count'' the_int32 (a_view_count s)"
    by (rule step[where fld = "a_view_count" and upd = "\<lambda>v _. the_int32 v"]; auto simp: acts)
  show "a_audio a = look d ''have_audio'' the_bool (a_audio s)"
    by (rule step[where fld = "a_audio" and upd = "\<lambda>v _. the_bool v"]; auto simp: acts)
  show "a_video a = look d ''have_video'' the_bool (a_video s)"
    by (rule step[where fld = "a_video" and upd = "\<lambda>v _. the_bool v"]; auto simp: acts)
  show "a_parts a = look d ''parts'' (\<lambda>v. a_parts s @ the_oids B v) (a_parts s)"
    by (rule step[where fld = "a_parts" and upd = "\<lambda>v xs. xs @ the_oids B v"]; auto simp: acts)
  show "a_meta a = look d ''meta'' (\<lambda>v. a_meta s @ read_metas B L (the_array v)) (a_meta s)"
    by (rule step[where fld = "a_meta" and upd = "\<lambda>v xs. xs @ read_metas B L (the_array v)"]; auto simp: acts)
  show "a_visible a = look d ''visible'' the_bool (a_visible s)"
    by (rule step[where fld = "a_visible" and upd = "\<lambda>v _. the_bool v"]; auto simp: acts)
  show "ep_tvg_id (a_epg a) = look d ''tvg_id'' the_utf8 (ep_tvg_id (a_epg s))"
    by (rule step[where fld = "\<lambda>a. ep_tvg_id (a_epg a)" and upd = "\<lambda>v _. the_utf8 v"]; auto simp: acts)
  show "ep_display_name (a_epg a) = look d ''name'' the_utf8 (ep_display_name (a_epg s))"
    by (rule step[where fld = "\<lambda>a. ep_display_name (a_epg a)" and upd = "\<lambda>v _. the_utf8 v"]; auto simp: acts)
  show "ep_icon_url (a_epg a) = look d ''tvg_logo'' the_gurl (ep_icon_url (a_epg s))"
    by (rule step[where fld = "\<lambda>a. ep_icon_url (a_epg a)" and upd = "\<lambda>v _. the_gurl v"]; auto simp: acts)
  show "ep_urls (a_epg a) = look d ''output'' (the_urls B) (ep_urls (a_epg s))"
    by (rule step[where fld = "\<lambda>a. ep_urls (a_epg a)" and upd = "\<lambda>v _. the_urls B v"]; auto simp: acts)
  show "ep_programs (a_epg a) = look d ''_id'' (\<lambda>_. ep_programs (a_epg s)) (ep_programs (a_epg s))"
    by (rule step[where fld = "\<lambda>a. ep_programs (a_epg a)" and upd = "\<lambda>_ x. x"]; auto simp: acts)
qed

lemmas vars_init = vod_vars_init_def channel_vars_init_def catchup_vars_init_def base_vars_init_def
  base_vars.defs channel_vars.defs

lemma schema_lengths:
  "length (mandatory vod_schema) = 16" "length (mandatory catchup_schema) = 12"
  "length (mandatory channel_schema) = 10"
  by (simp_all add: vod_counted catchup_counted channel_counted)

lemma MakeVodInfo_iff:
  assumes d: "distinct (keys_of d)"
  shows "MakeVodInfo B L d st u vis = Got r \<longleftrightarrow>
           accepts B vod_schema (st = VOD_PROXY) d \<and>
           r = (vod_of B L u d, look d ''visible'' the_bool vis)"
proof (cases "read_loop (dispatch (vod_actions B L @ vod_movie_actions B L)) d (vod_vars_init L vis)")
  case (Got a)
  note vals = vod_loop_values[OF d Got]
  have movie: "a_mov a = movie_of B L d"
    by (rule movie_info.equality) (simp_all add: movie_of_def vals vars_init)
  have "\<forall>e \<in> set d. well_typed B vod_schema (fst e) (snd e)"
    using vod.loop_got_typed[OF Got] by blast
  moreover have "a_sum a = count_keys (mandatory vod_schema) d"
    using vod.loop_sum[OF Got] by (simp add: vars_init)
  ultimately have acc: "accepts B vod_schema (st = VOD_PROXY) d \<longleftrightarrow>
      a_sum a = 16 \<or> st = VOD_PROXY \<and> a_sum a = 14"
    using vod.loop_complete[OF d] by (simp add: accepts_def schema_lengths)
  show ?thesis unfolding acc MakeVodInfo_defs Got
    by (auto simp: movie vals vars_init vod_of_def stream_base_of_def stream_base.extend_def)
qed (use vod.loop_got_iff[of B L d "vod_vars_init L vis"] in
    \<open>auto simp: MakeVodInfo_defs accepts_def\<close>)

lemma MakeChannelInfo_iff:
  assumes d: "distinct (keys_of d)"
  shows "MakeChannelInfo B L d st u vis = Got r \<longleftrightarrow>
           accepts B channel_schema (st = PROXY) d \<and>
           r = (channel_of B L u d, look d ''visible'' the_bool vis)"
proof (cases "read_loop (dispatch (channel_actions B L)) d (channel_vars_init L vis)")
  case (Got a)
  note vals = channel_loop_values[OF d Got]
  have epg: "a_epg a = epg_of B L d"
    by (rule epg_info.equality) (simp_all add: epg_of_def vals vars_init)
  have "\<forall>e \<in> set d. well_typed B channel_schema (fst e) (snd e)"
    using channel.loop_got_typed[OF Got] by blast
  moreover have "a_sum a = count_keys (mandatory channel_schema) d"
    using channel.loop_sum[OF Got] by (simp add: vars_init)
  ultimately have acc: "accepts B channel_schema (st = PROXY) d \<longleftrightarrow>
      a_sum a = 10 \<or> st = PROXY \<and> a_sum a = 8"
    using channel.loop_complete[OF d] by (simp add: accepts_def schema_lengths)
  show ?thesis unfolding acc MakeChannelInfo_defs Got
    by (auto simp: epg vals vars_init channel_of_def stream_base_of_def stream_base.extend_def)
qed (use channel.loop_got_iff[of B L d "channel_vars_init L vis"] in
    \<open>auto simp: MakeChannelInfo_defs accepts_def\<close>)

lemma MakeCatchupInfo_iff:
  assumes d: "distinct (keys_of d)"
  shows "MakeCatchupInfo B L d st u vis = Got r \<longleftrightarrow>
           accepts B catchup_schema False d \<and>
           r = (catchup_of B L u d, look d ''visible'' the_bool vis)"
proof (cases "read_loop (dispatch (catchup_actions B L)) d (catchup_vars_init L vis)")
  case (Got a)
  note vals = catchup_loop_values[OF d Got]
  have epg: "a_epg a = epg_of B L d"
    by (rule epg_info.equality) (simp_all add: epg_of_def vals vars_init)
  have "\<forall>e \<in> set d. well_typed B catchup_schema (fst e) (snd e)"
    using catchup.loop_got_typed[OF Got] by blast
  moreover have sum: "a_sum a = count_keys (mandatory catchup_schema) d"
    using catchup.loop_sum[OF Got] by (simp add: vars_init)
  ultimately have acc: "accepts B catchup_schema False d \<longleftrightarrow> a_sum a = 12"
    using catchup.loop_complete[OF d] by (simp add: accepts_def schema_lengths)
  show ?thesis
  proof (cases "a_sum a = 12")
    case True
    then have "set (mandatory catchup_schema) \<subseteq> set (keys_of d)"
      using catchup.loop_complete[OF d] sum by (simp add: schema_lengths)
    then have "map_of d ''start'' \<noteq> None" "map_of d ''stop'' \<noteq> None"
      by (simp_all add: catchup_counted keys_of_def map_of_eq_None_iff)
    then have "a_start a = Some (look d ''start'' the_date 0)"
        "a_stop a = Some (look d ''stop'' the_date 0)"
      by (auto simp: vals look_def)
    then show ?thesis unfolding acc MakeCatchupInfo_defs Got
      by (auto simp: True epg vals(1-9) vars_init catchup_of_def channel_of_def stream_base_of_def
          stream_base.extend_def channel_info.extend_def)
  next
    case False
    then show ?thesis unfolding acc MakeCatchupInfo_defs Got by simp
  qed
qed (use catchup.loop_got_iff[of B L d "catchup_vars_init L vis"] in
    \<open>auto simp: MakeCatchupInfo_defs accepts_def\<close>)

text \<open>Sample documents: a complete channel, and one of each other class.\<close>

definition sample_stream_fields :: bdoc where
  "sample_stream_fields =
     [(''_id'', BOid 1), (''_cls'', BUtf8 ''IStream.ProxyStream''),
      (''groups'', BArr [(''0'', BUtf8 ''News'')]), (''iarc'', BInt32 21),
      (''view_count'', BInt32 7), (''name'', BUtf8 ''One''), (''tvg_logo'', BUtf8 ''http://logo''),
      (''output'', BArr [(''0'', BDoc [(''id'', BInt32 0), (''uri'', BUtf8 ''http://out'')])]),
      (''have_audio'', BBool True)]"

definition sample_channel_doc :: bdoc where
  "sample_channel_doc =
     sample_stream_fields @ [(''have_video'', BBool False), (''tvg_id'', BUtf8 ''tvg'')]"

definition sample_vod_doc :: bdoc where
  "sample_vod_doc =
     sample_stream_fields @
     [(''description'', BUtf8 ''A film''), (''trailer_url'', BUtf8 ''http://trailer''),
      (''user_score'', BDouble 0), (''prime_date'', BDate 5), (''country'', BUtf8 ''BY''),
      (''duration'', BInt32 90)]"

definition sample_catchup_doc :: bdoc where
  "sample_catchup_doc =
     sample_channel_doc @ [(''start'', BDate 100), (''stop'', BDate 200), (''parts'', BArr [(''0'', BOid 2)])]"

section \<open>Properties\<close>

text \<open>
  C25: Reading a vod document is looking its keys up.  A document without duplicate keys is read
  exactly when every known key has a value of its type and all sixteen mandatory keys are there
  (for a proxy also when exactly two of them are missing), wherever the keys stand, and then
  every attribute of the vod is the value under its key.
\<close>

theorem vod_reader_exact:
  assumes "distinct (keys_of d)"
  shows "MakeVodInfo B L d st u vis = Got r \<longleftrightarrow>
           accepts B vod_schema (st = VOD_PROXY) d \<and>
           r = (vod_of B L u d, look d ''visible'' the_bool vis)"
  using assms by (rule MakeVodInfo_iff)

theorem vod_reader_exact_witness:
  "MakeVodInfo sample_bson sample_lib sample_vod_doc VOD_PROXY new_user_stream_info True =
     Got (vod_of sample_bson sample_lib new_user_stream_info sample_vod_doc, True) \<and>
   MakeVodInfo sample_bson sample_lib sample_vod_doc VOD_RELAY new_user_stream_info True \<noteq>
     Got (vod_of sample_bson sample_lib new_user_stream_info sample_vod_doc, True)"
proof -
  have d: "distinct (keys_of sample_vod_doc)"
    by (simp add: sample_vod_doc_def sample_stream_fields_def keys_of_def)
  have "count_keys (mandatory vod_schema) sample_vod_doc = 14"
    by (simp add: count_keys_def vod_counted sample_vod_doc_def sample_stream_fields_def)
  moreover have "\<forall>e \<in> set sample_vod_doc. well_typed sample_bson vod_schema (fst e) (snd e)"
    by (simp add: well_typed_def vod_schema_def sample_vod_doc_def sample_stream_fields_def
        holds.simps)
  moreover have "\<not> set (mandatory vod_schema) \<subseteq> set (keys_of sample_vod_doc)"
    by (simp add: vod_counted keys_of_def sample_vod_doc_def sample_stream_fields_def)
  moreover have "look sample_vod_doc ''visible'' the_bool True"
    by (simp add: look_def sample_vod_doc_def sample_stream_fields_def)
  ultimately show ?thesis unfolding vod_reader_exact[OF d]
    by (simp add: accepts_def schema_lengths)
qed

text \<open>
  Reading a channel document is looking its keys up: it succeeds exactly when every known
  key has a value of its type and the ten mandatory keys are there (for a proxy also when exactly
  two of them are missing), and every attribute is the value under its key.
\<close>

theorem channel_reader_exact:
  assumes "distinct (keys_of d)"
  shows "MakeChannelInfo B L d st u vis = Got r \<longleftrightarrow>
           accepts B channel_schema (st = PROXY) d \<and>
           r = (channel_of B L u d, look d ''visible'' the_bool vis)"
  using assms by (rule MakeChannelInfo_iff)

theorem channel_reader_exact_witness:
  "\<exists>c. MakeChannelInfo sample_bson sample_lib sample_channel_doc ENCODE new_user_stream_info True =
         Got (c, True) \<and> sb_sid c = ''1'' \<and> sb_groups c = [''News''] \<and>
         ep_urls (ci_epg c) = [GURL ''http://out''] \<and> \<not> sb_flag1 c \<and> sb_flag2 c"
proof -
  have d: "distinct (keys_of sample_channel_doc)"
    by (simp add: sample_channel_doc_def sample_stream_fields_def keys_of_def)
  have "\<forall>e \<in> set sample_channel_doc. well_typed sample_bson channel_schema (fst e) (snd e)"
    by (simp add: well_typed_def channel_schema_def sample_channel_doc_def
        sample_stream_fields_def holds.simps)
  moreover have "set (mandatory channel_schema) \<subseteq> set (keys_of sample_channel_doc)"
    by (simp add: channel_counted keys_of_def sample_channel_doc_def sample_stream_fields_def)
  moreover have "look sample_channel_doc ''visible'' the_bool True"
    by (simp add: look_def sample_channel_doc_def sample_stream_fields_def)
  ultimately have "MakeChannelInfo sample_bson sample_lib sample_channel_doc ENCODE new_user_stream_info True =
      Got (channel_of sample_bson sample_lib new_user_stream_info sample_channel_doc, True)"
    unfolding channel_reader_exact[OF d] by (simp add: accepts_def)
  then show ?thesis
    by (simp add: channel_of_def stream_base_of_def stream_base.extend_def epg_of_def)
      (simp add: look_def sample_channel_doc_def sample_stream_fields_def the_defs ConvertToString_def
        output_url_def find_in_def init_find_def iter_init_def sample_bson_def)
qed

text \<open>
  Reading a catchup document is looking its keys up: it succeeds exactly when every known
  key has a value of its type and the twelve mandatory keys are there.  In particular the
  variables \<open>start\<close> and \<open>stop\<close>, which are not initialised, are never read before they are set.
\<close>

theorem catchup_reader_exact:
  assumes "distinct (keys_of d)"
  shows "MakeCatchupInfo B L d st u vis = Got r \<longleftrightarrow>
           accepts B catchup_schema False d \<and>
           r = (catchup_of B L u d, look d ''visible'' the_bool vis)"
  using assms by (rule MakeCatchupInfo_iff)

theorem catchup_reader_exact_witness:
  "\<exists>c. MakeCatchupInfo sample_bson sample_lib sample_catchup_doc CATCHUP new_user_stream_info True =
         Got (c, True) \<and> cu_start c = 100 \<and> cu_stop c = 200 \<and> sb_parts c = [''2'']"
proof -
  have d: "distinct (keys_of sample_catchup_doc)"
    by (simp add: sample_catchup_doc_def sample_channel_doc_def sample_stream_fields_def keys_of_def)
  have "\<forall>e \<in> set sample_catchup_doc. well_typed sample_bson catchup_schema (fst e) (snd e)"
    by (simp add: well_typed_def catchup_schema_def sample_catchup_doc_def sample_channel_doc_def
        sample_stream_fields_def holds.simps sample_bson_def)
  moreover have "set (mandatory catchup_schema) \<subseteq> set (keys_of sample_catchup_doc)"
    by (simp add: catchup_counted keys_of_def sample_catchup_doc_def sample_channel_doc_def
        sample_stream_fields_def)
  moreover have "look sample_catchup_doc ''visible'' the_bool True"
    by (simp add: look_def sample_catchup_doc_def sample_channel_doc_def sample_stream_fields_def)
  ultimately have "MakeCatchupInfo sample_bson sample_lib sample_catchup_doc CATCHUP new_user_stream_info True =
      Got (catchup_of sample_bson sample_lib new_user_stream_info sample_catchup_doc, True)"
    unfolding catchup_reader_exact[OF d] by (simp add: accepts_def)
  then show ?thesis
    by (simp add: catchup_of_def channel_of_def stream_base_of_def stream_base.extend_def
        channel_info.extend_def)
      (simp add: look_def sample_catchup_doc_def sample_channel_doc_def sample_stream_fields_def
        the_defs ConvertToString_def sample_bson_def)
qed

end
