(* ===== verification/User_Streams.thy ===== *)
theory User_Streams
  imports Login Stream_Info
begin

text \<open>
  The streams, vods and catchups of a user (\<open>src/mongo/subscribers_manager.cpp\<close>): adding and
  removing entries, marking one as favorite, as recently watched or as interrupted, reading the
  marks back, and finding one stream.
\<close>

section \<open>Stream types\<close>

definition MongoStreamType2StreamType :: "string \<Rightarrow> stream_type" where
  "MongoStreamType2StreamType s =
     (if s = ''pyfastocloud_models.stream.entry.ProxyStream'' then PROXY
      else if s = ''pyfastocloud_models.stream.entry.ProxyVodStream'' then VOD_PROXY
      else if s = ''pyfastocloud_models.stream.entry.RelayStream'' then RELAY
      else if s = ''pyfastocloud_models.stream.entry.EncodeStream'' then ENCODE
      else if s = ''pyfastocloud_models.stream.entry.VodRelayStream'' then VOD_RELAY
      else if s = ''pyfastocloud_models.stream.entry.VodEncodeStream'' then VOD_ENCODE
      else if s = ''pyfastocloud_models.stream.entry.TimeshiftRecorderStream'' then TIMESHIFT_RECORDER
      else if s = ''pyfastocloud_models.stream.entry.TimeshiftPlayerStream'' then TIMESHIFT_PLAYER
      else if s = ''pyfastocloud_models.stream.entry.CatchupStream'' then CATCHUP
      else if s = ''pyfastocloud_models.stream.entry.CodRelayStream'' then COD_RELAY
      else if s = ''pyfastocloud_models.stream.entry.CodEncodeStream'' then COD_ENCODE
      else if s = ''pyfastocloud_models.stream.entry.TestLifeStream'' then TEST_LIFE
      else if s = ''pyfastocloud_models.stream.entry.CvDataStream'' then CV_DATA
      else PROXY)"

definition IsVod :: "stream_type \<Rightarrow> bool" where
  "IsVod st \<longleftrightarrow> st = VOD_RELAY \<or> st = VOD_ENCODE \<or> st = VOD_PROXY"

section \<open>The marks of an entry\<close>

text \<open>
  The searches share one iterator: each starts behind the element the one before it found, and a
  search that fails leaves the iterator exhausted.
\<close>

definition iter_value :: "biter \<Rightarrow> bval" where
  "iter_value it = (case fst it of None \<Rightarrow> BOther | Some e \<Rightarrow> snd e)"

definition makeUserStreamInfo :: "bson_lib \<Rightarrow> biter \<Rightarrow> user_stream_info" where
  "makeUserStreamInfo B it =
     (let uinf = new_user_stream_info;
          (f1, it1) = bl_find B ''favorite'' it;
          uinf1 = (if f1 then uinf\<lparr>us_favorite := bl_bool B (iter_value it1)\<rparr> else uinf);
          (f2, it2) = bl_find B ''private'' it1;
          uinf2 = (if f2 then uinf1\<lparr>us_priv := bl_bool B (iter_value it2)\<rparr> else uinf1);
          (f3, it3) = bl_find B ''locked'' it2;
          uinf3 = (if f3 then uinf2\<lparr>us_locked := bl_bool B (iter_value it3)\<rparr> else uinf2);
          (f4, it4) = bl_find B ''recent'' it3;
          uinf4 = (if f4 then uinf3\<lparr>us_recent := bl_date_time B (iter_value it4)\<rparr> else uinf3);
          (f5, it5) = bl_find B ''interruption_time'' it4;
          uinf5 = (if f5 then uinf4\<lparr>us_interruption := bl_int32 B (iter_value it5)\<rparr> else uinf4)
      in uinf5)"

section \<open>Adding and removing entries\<close>

definition user_entry :: "oid \<Rightarrow> bdoc" where
  "user_entry stream_oid =
     [(''sid'', BOid stream_oid), (''favorite'', BBool False), (''private'', BBool False),
      (''recent'', BDate 0), (''interruption_time'', BInt32 0)]"

definition push_update :: "string \<Rightarrow> bval \<Rightarrow> bdoc" where
  "push_update field v = [(''$push'', BDoc [(field, v)])]"

definition pull_update :: "string \<Rightarrow> oid \<Rightarrow> bdoc" where
  "pull_update field x = [(''$pull'', BDoc [(field, BDoc [(''sid'', BOid x)])])]"

definition AddStreamToUserStreamsArray ::
    "'db mongo_lib \<Rightarrow> oid \<Rightarrow> oid \<Rightarrow> ('io, 'db, 'a) manager_scheme
     \<Rightarrow> ('io, 'db, 'a) manager_scheme \<times> error option" where
  "AddStreamToUserStreamsArray M user_oid stream_oid s =
     update_one M SUBSCRIBERS (by_id user_oid) (push_update ''streams'' (BDoc (user_entry stream_oid))) s"

definition AddStreamToUserVodsArray ::
    "'db mongo_lib \<Rightarrow> oid \<Rightarrow> oid \<Rightarrow> ('io, 'db, 'a) manager_scheme
     \<Rightarrow> ('io, 'db, 'a) manager_scheme \<times> error option" where
  "AddStreamToUserVodsArray M user_oid stream_oid s =
     update_one M SUBSCRIBERS (by_id user_oid) (push_update ''vods'' (BDoc (user_entry stream_oid))) s"

definition AddStreamToUserCatchupsArray ::
    "'db mongo_lib \<Rightarrow> oid \<Rightarrow> oid \<Rightarrow> ('io, 'db, 'a) manager_scheme
     \<Rightarrow> ('io, 'db, 'a) manager_scheme \<times> error option" where
  "AddStreamToUserCatchupsArray M user_oid stream_oid s =
     update_one M SUBSCRIBERS (by_id user_oid)
       (push_update ''catchups''
          (BDoc (user_entry stream_oid @
                 [(''_cls'', BUtf8 ''pyfastocloud_models.subscriber.entry.UserStream'')]))) s"

definition RemoveStreamFromUserStreamsArray ::
    "'db mongo_lib \<Rightarrow> oid \<Rightarrow> oid \<Rightarrow> ('io, 'db, 'a) manager_scheme
     \<Rightarrow> ('io, 'db, 'a) manager_scheme \<times> error option" where
  "RemoveStreamFromUserStreamsArray M user_oid stream_oid s =
     update_one M SUBSCRIBERS (by_id user_oid) (pull_update ''streams'' stream_oid) s"

definition RemoveStreamFromUserVodsArray ::
    "'db mongo_lib \<Rightarrow> oid \<Rightarrow> oid \<Rightarrow> ('io, 'db, 'a) manager_scheme
     \<Rightarrow> ('io, 'db, 'a) manager_scheme \<times> error option" where
  "RemoveStreamFromUserVodsArray M user_oid stream_oid s =
     update_one M SUBSCRIBERS (by_id user_oid) (pull_update ''vods'' stream_oid) s"

definition RemoveStreamFromUserCatchupsArray ::
    "'db mongo_lib \<Rightarrow> oid \<Rightarrow> oid \<Rightarrow> ('io, 'db, 'a) manager_scheme
     \<Rightarrow> ('io, 'db, 'a) manager_scheme \<times> error option" where
  "RemoveStreamFromUserCatchupsArray M user_oid stream_oid s =
     update_one M SUBSCRIBERS (by_id user_oid) (pull_update ''catchups'' stream_oid) s"

text \<open>The checks the six operations on a user's entries begin with.\<close>

definition with_user_and_stream ::
    "bson_lib \<Rightarrow> fastotv_lib \<Rightarrow> server_db_auth \<Rightarrow> string
     \<Rightarrow> (oid \<Rightarrow> oid \<Rightarrow> ('io, 'db, 'a) manager_scheme \<Rightarrow> ('io, 'db, 'a) manager_scheme \<times> error option)
     \<Rightarrow> ('io, 'db, 'a) manager_scheme \<Rightarrow> ('io, 'db, 'a) manager_scheme \<times> error option" where
  "with_user_and_stream B L auth sid f s =
     (if \<not> ServerDBAuthInfo_IsValid L auth \<or> sid = fl_invalid_stream_id L then (s, Some ErrInval)
      else if \<not> collection_open s SUBSCRIBERS then (s, Some (ErrText ''Not conencted to DB''))
      else case ConvertFromString B (db_uid auth) of
        None \<Rightarrow> (s, Some (ErrText ''Invalid user id''))
      | Some user_oid \<Rightarrow>
          (case ConvertFromString B sid of
             None \<Rightarrow> (s, Some (ErrText ''Invalid stream id''))
           | Some bsid \<Rightarrow> f user_oid bsid s))"

definition RemoveUserStream ::
    "bson_lib \<Rightarrow> fastotv_lib \<Rightarrow> 'db mongo_lib \<Rightarrow> server_db_auth \<Rightarrow> string
     \<Rightarrow> ('io, 'db, 'a) manager_scheme \<Rightarrow> ('io, 'db, 'a) manager_scheme \<times> error option" where
  "RemoveUserStream B L M auth sid =
     with_user_and_stream B L auth sid (\<lambda>x bsid. RemoveStreamFromUserStreamsArray M x bsid)"

text \<open>\<open>AddUserStream\<close> passes the identifier of the user twice, as the code does.\<close>

definition AddUserStream ::
    "bson_lib \<Rightarrow> fastotv_lib \<Rightarrow> 'db mongo_lib \<Rightarrow> server_db_auth \<Rightarrow> string
     \<Rightarrow> ('io, 'db, 'a) manager_scheme \<Rightarrow> ('io, 'db, 'a) manager_scheme \<times> error option" where
  "AddUserStream B L M auth sid =
     with_user_and_stream B L auth sid (\<lambda>x bsid. AddStreamToUserStreamsArray M x x)"

definition RemoveUserVod ::
    "bson_lib \<Rightarrow> fastotv_lib \<Rightarrow> 'db mongo_lib \<Rightarrow> server_db_auth \<Rightarrow> string
     \<Rightarrow> ('io, 'db, 'a) manager_scheme \<Rightarrow> ('io, 'db, 'a) manager_scheme \<times> error option" where
  "RemoveUserVod B L M auth sid =
     with_user_and_stream B L auth sid (\<lambda>x bsid. RemoveStreamFromUserVodsArray M x bsid)"

definition AddUserVod ::
    "bson_lib \<Rightarrow> fastotv_lib \<Rightarrow> 'db mongo_lib \<Rightarrow> server_db_auth \<Rightarrow> string
     \<Rightarrow> ('io, 'db, 'a) manager_scheme \<Rightarrow> ('io, 'db, 'a) manager_scheme \<times> error option" where
  "AddUserVod B L M auth sid =
     with_user_and_stream B L auth sid (\<lambda>x bsid. AddStreamToUserVodsArray M x bsid)"

definition RemoveUserCatchup ::
    "bson_lib \<Rightarrow> fastotv_lib \<Rightarrow> 'db mongo_lib \<Rightarrow> server_db_auth \<Rightarrow> string
     \<Rightarrow> ('io, 'db, 'a) manager_scheme \<Rightarrow> ('io, 'db, 'a) manager_scheme \<times> error option" where
  "RemoveUserCatchup B L M auth sid =
     with_user_and_stream B L auth sid (\<lambda>x bsid. RemoveStreamFromUserCatchupsArray M x bsid)"

definition AddUserCatchup ::
    "bson_lib \<Rightarrow> fastotv_lib \<Rightarrow> 'db mongo_lib \<Rightarrow> server_db_auth \<Rightarrow> string
     \<Rightarrow> ('io, 'db, 'a) manager_scheme \<Rightarrow> ('io, 'db, 'a) manager_scheme \<times> error option" where
  "AddUserCatchup B L M auth sid =
     with_user_and_stream B L auth sid (\<lambda>x bsid. AddStreamToUserCatchupsArray M x bsid)"

section \<open>Setting marks\<close>

text \<open>
  The list the entry of a stream is in depends on the class of the stream.  The query and the
  update name it in dotted keys.
\<close>

definition user_list_of :: "stream_type \<Rightarrow> string" where
  "user_list_of st = (if IsVod st then ''vods'' else if st = CATCHUP then ''catchups'' else ''streams'')"

definition entry_query :: "oid \<Rightarrow> string \<Rightarrow> oid \<Rightarrow> bdoc" where
  "entry_query user_oid list sid = [(''_id'', BOid user_oid), (list @ ''.sid'', BOid sid)]"

definition set_update :: "string \<Rightarrow> string \<Rightarrow> bval \<Rightarrow> bdoc" where
  "set_update list field v = [(''$set'', BDoc [(list @ ''.$.'' @ field, v)])]"

text \<open>The part the three operations share; a failing update is only logged.\<close>

definition set_user_field ::
    "bson_lib \<Rightarrow> 'db mongo_lib \<Rightarrow> server_db_auth \<Rightarrow> string \<Rightarrow> string \<Rightarrow> bval
     \<Rightarrow> ('io, 'db, 'a) manager_scheme \<Rightarrow> ('io, 'db, 'a) manager_scheme \<times> (error + oid)" where
  "set_user_field B M auth channel field v s =
     (if \<not> collection_open s SUBSCRIBERS \<or> \<not> collection_open s STREAMS then
        (s, Inl (ErrText ''Not conencted to DB''))
      else case ConvertFromString B channel of
        None \<Rightarrow> (s, Inl (ErrText ''Invalid stream id''))
      | Some sid \<Rightarrow>
          (case find_one M STREAMS (by_id sid) s of
             None \<Rightarrow> (s, Inl (ErrText ''Stream not found''))
           | Some sdoc \<Rightarrow>
               (case find_utf8 B sdoc ''_cls'' of
                  None \<Rightarrow> (s, Inl (ErrText ''Invalid stream''))
                | Some cls \<Rightarrow>
                    (case ConvertFromString B (db_uid auth) of
                       None \<Rightarrow> (s, Inl (ErrText ''Invalid user id''))
                     | Some user_oid \<Rightarrow>
                         let list = user_list_of (MongoStreamType2StreamType cls) in
                         (fst (update_one M SUBSCRIBERS (entry_query user_oid list sid)
                                 (set_update list field v) s), Inr sid)))))"

definition SetFavorite ::
    "bson_lib \<Rightarrow> fastotv_lib \<Rightarrow> 'db mongo_lib \<Rightarrow> server_db_auth \<Rightarrow> string \<Rightarrow> bool
     \<Rightarrow> ('io, 'db, 'a) manager_scheme \<Rightarrow> ('io, 'db, 'a) manager_scheme \<times> error option" where
  "SetFavorite B L M auth channel fav s =
     (if \<not> fl_favorite_valid L channel fav then (s, Some ErrInval)
      else case set_user_field B M auth channel ''favorite'' (BBool fav) s of
        (s1, Inl err) \<Rightarrow> (s1, Some err)
      | (s1, Inr sid) \<Rightarrow> (s1, None))"

definition SetRecent ::
    "bson_lib \<Rightarrow> fastotv_lib \<Rightarrow> 'db mongo_lib \<Rightarrow> server_db_auth \<Rightarrow> string \<Rightarrow> int
     \<Rightarrow> ('io, 'db, 'a) manager_scheme \<Rightarrow> ('io, 'db, 'a) manager_scheme \<times> error option" where
  "SetRecent B L M auth channel t s =
     (if \<not> fl_recent_valid L channel t then (s, Some ErrInval)
      else case set_user_field B M auth channel ''recent'' (BDate t) s of
        (s1, Inl err) \<Rightarrow> (s1, Some err)
      | (s1, Inr sid) \<Rightarrow>
          (fst (update_one M STREAMS (by_id sid) [(''$inc'', BDoc [(''view_count'', BInt32 1)])] s1),
           None))"

definition SetInterruptTime ::
    "bson_lib \<Rightarrow> fastotv_lib \<Rightarrow> 'db mongo_lib \<Rightarrow> server_db_auth \<Rightarrow> string \<Rightarrow> int
     \<Rightarrow> ('io, 'db, 'a) manager_scheme \<Rightarrow> ('io, 'db, 'a) manager_scheme \<times> error option" where
  "SetInterruptTime B L M auth channel t s =
     (if \<not> fl_interrupt_valid L channel t then (s, Some ErrInval)
      else case set_user_field B M auth channel ''interruption_time'' (BInt32 t) s of
        (s1, Inl err) \<Rightarrow> (s1, Some err)
      | (s1, Inr sid) \<Rightarrow> (s1, None))"

section \<open>Finding one stream\<close>

text \<open>
  The three searches differ in the list they look in, in the classes they accept and in the reader.
  The marks are read from the document of the user, not from its entry for the stream, as in the
  code.  \<open>None\<close> is undefined behaviour of the reader.
\<close>

definition find_user_stream ::
    "bson_lib \<Rightarrow> fastotv_lib \<Rightarrow> 'db mongo_lib \<Rightarrow> string \<Rightarrow> (stream_type \<Rightarrow> bool)
     \<Rightarrow> (bdoc \<Rightarrow> stream_type \<Rightarrow> user_stream_info \<Rightarrow> bool \<Rightarrow> ('c \<times> bool) reading)
     \<Rightarrow> server_db_auth \<Rightarrow> string \<Rightarrow> ('io, 'db, 'a) manager_scheme \<Rightarrow> (error + 'c) option" where
  "find_user_stream B L M list accept rdr auth sid s =
     (if \<not> ServerDBAuthInfo_IsValid L auth \<or> sid = fl_invalid_stream_id L then Some (Inl ErrInval)
      else if \<not> collection_open s SUBSCRIBERS \<or> \<not> collection_open s STREAMS then
        Some (Inl (ErrText ''Not conencted to DB''))
      else case ConvertFromString B (db_uid auth) of
        None \<Rightarrow> Some (Inl (ErrText ''Invalid user id''))
      | Some user_oid \<Rightarrow>
          (case ConvertFromString B sid of
             None \<Rightarrow> Some (Inl (ErrText ''Invalid stream id''))
           | Some bsid \<Rightarrow>
               (case find_one M SUBSCRIBERS (entry_query user_oid list bsid) s of
                  None \<Rightarrow> Some (Inl (ErrText ''Stream not found''))
                | Some udoc \<Rightarrow>
                    let uinf = makeUserStreamInfo B (iter_init udoc) in
                    (case find_one M STREAMS (by_id bsid) s of
                       None \<Rightarrow> Some (Inl (ErrText ''Stream not found''))
                     | Some sdoc \<Rightarrow>
                         (case find_utf8 B sdoc ''_cls'' of
                            None \<Rightarrow> Some (Inl (ErrText ''Invalid stream''))
                          | Some cls \<Rightarrow>
                              let st = MongoStreamType2StreamType cls in
                              if \<not> accept st then Some (Inl (ErrText ''Stream not found''))
                              else (case rdr sdoc st uinf False of
                                      Undef \<Rightarrow> None
                                    | Skip \<Rightarrow> Some (Inl (ErrText ''Stream not found''))
                                    | Got (ch, visible) \<Rightarrow> Some (Inr ch)))))))"

definition FindStream ::
    "bson_lib \<Rightarrow> fastotv_lib \<Rightarrow> 'db mongo_lib \<Rightarrow> server_db_auth \<Rightarrow> string
     \<Rightarrow> ('io, 'db, 'a) manager_scheme \<Rightarrow> (error + channel_info) option" where
  "FindStream B L M =
     find_user_stream B L M ''streams'' (\<lambda>st. \<not> IsVod st) (MakeChannelInfo B L)"

definition FindVod ::
    "bson_lib \<Rightarrow> fastotv_lib \<Rightarrow> 'db mongo_lib \<Rightarrow> server_db_auth \<Rightarrow> string
     \<Rightarrow> ('io, 'db, 'a) manager_scheme \<Rightarrow> (error + vod_info) option" where
  "FindVod B L M = find_user_stream B L M ''vods'' IsVod (MakeVodInfo B L)"

definition FindCatchup ::
    "bson_lib \<Rightarrow> fastotv_lib \<Rightarrow> 'db mongo_lib \<Rightarrow> server_db_auth \<Rightarrow> string
     \<Rightarrow> ('io, 'db, 'a) manager_scheme \<Rightarrow> (error + catchup_info) option" where
  "FindCatchup B L M =
     find_user_stream B L M ''catchups'' (\<lambda>st. \<not> IsVod st) (MakeCatchupInfo B L)"

end
