(* ===== verification/User_Store.thy ===== *)
theory User_Store
  imports User_Streams
begin

text \<open>
  What the operations on a user's entries do to the store: the behaviour of the store that the
  program relies on (\<open>store_laws\<close>), the interface of a list of entries (\<open>user_list\<close>) with its
  three implementations, and the round trips of the marks.
\<close>

section \<open>The store\<close>

definition user_lists :: "string list" where
  "user_lists = [''streams'', ''vods'', ''catchups'']"

text \<open>
  An update of the document of one user changes one array of this document, no other key, no
  other user and no other collection.
\<close>

definition array_step ::
    "'db mongo_lib \<Rightarrow> 'db \<Rightarrow> 'db \<Rightarrow> oid \<Rightarrow> string \<Rightarrow> (bval list \<Rightarrow> bval list) \<Rightarrow> bool" where
  "array_step M d d' u f g \<longleftrightarrow>
     (\<forall>w. case mg_find M d SUBSCRIBERS (by_id w) of
            None \<Rightarrow> mg_find M d' SUBSCRIBERS (by_id w) = None
          | Some doc \<Rightarrow>
              (\<exists>doc'. mg_find M d' SUBSCRIBERS (by_id w) = Some doc' \<and>
                 (\<forall>k. w \<noteq> u \<or> k \<noteq> f \<longrightarrow> map_of doc' k = map_of doc k) \<and>
                 (w = u \<longrightarrow> array_elems doc' f = g (array_elems doc f)))) \<and>
     (\<forall>c q. c \<noteq> SUBSCRIBERS \<longrightarrow> mg_find M d' c q = mg_find M d c q)"

lemma array_stepD:
  assumes "array_step M d d' u f g"
  shows "case mg_find M d SUBSCRIBERS (by_id w) of
      None \<Rightarrow> mg_find M d' SUBSCRIBERS (by_id w) = None
    | Some doc \<Rightarrow>
        (\<exists>doc'. mg_find M d' SUBSCRIBERS (by_id w) = Some doc' \<and>
           (\<forall>k. w \<noteq> u \<or> k \<noteq> f \<longrightarrow> map_of doc' k = map_of doc k) \<and>
           (w = u \<longrightarrow> array_elems doc' f = g (array_elems doc f)))"
  using assms unfolding array_step_def by blast

text \<open>
  The documented behaviour of the updates and of the query by identifier and entry: \<open>$push\<close>
  appends to the array, \<open>$pull\<close> removes every element with the identifier, \<open>$set\<close> with the
  positional operator changes the first element the query matches.
\<close>

definition store_laws :: "'db mongo_lib \<Rightarrow> bool" where
  "store_laws M \<longleftrightarrow>
     (\<forall>d u f v d'. f \<in> set user_lists \<longrightarrow>
        mg_update M d SUBSCRIBERS (by_id u) (push_update f v) = (d', None) \<longrightarrow>
        array_step M d d' u f (\<lambda>es. es @ [v])) \<and>
     (\<forall>d u f x d'. f \<in> set user_lists \<longrightarrow>
        mg_update M d SUBSCRIBERS (by_id u) (pull_update f x) = (d', None) \<longrightarrow>
        array_step M d d' u f (filter (\<lambda>e. \<not> has_sid (BOid x) e))) \<and>
     (\<forall>d u f x g v d'. f \<in> set user_lists \<longrightarrow>
        mg_update M d SUBSCRIBERS (entry_query u f x) (set_update f g v) = (d', None) \<longrightarrow>
        array_step M d d' u f (map_first (has_sid (BOid x)) (set_elem g v))) \<and>
     (\<forall>d u f x. f \<in> set user_lists \<longrightarrow>
        mg_find M d SUBSCRIBERS (entry_query u f x) =
          (case mg_find M d SUBSCRIBERS (by_id u) of
             None \<Rightarrow> None
           | Some doc \<Rightarrow> if sid_matches f (BOid x) doc then Some doc else None)) \<and>
     (\<forall>d c q u c' q'. c' \<noteq> c \<longrightarrow> mg_find M (fst (mg_update M d c q u)) c' q' = mg_find M d c' q')"

text \<open>The store is up when no update fails.\<close>

definition store_up :: "'db mongo_lib \<Rightarrow> bool" where
  "store_up M \<longleftrightarrow> (\<forall>d c q u. snd (mg_update M d c q u) = None)"

lemma store_frame:
  "store_laws M \<Longrightarrow> c' \<noteq> c \<Longrightarrow> mg_find M (fst (mg_update M d c q u)) c' q' = mg_find M d c' q'"
  unfolding store_laws_def by simp

lemma store_lawsD:
  assumes "store_laws M" and "f \<in> set user_lists"
  shows "mg_update M d SUBSCRIBERS (by_id u) (push_update f v) = (d', None) \<Longrightarrow>
           array_step M d d' u f (\<lambda>es. es @ [v])"
    and "mg_update M d SUBSCRIBERS (by_id u) (pull_update f x) = (d', None) \<Longrightarrow>
           array_step M d d' u f (filter (\<lambda>e. \<not> has_sid (BOid x) e))"
    and "mg_update M d SUBSCRIBERS (entry_query u f x) (set_update f g v) = (d', None) \<Longrightarrow>
           array_step M d d' u f (map_first (has_sid (BOid x)) (set_elem g v))"
    and "mg_find M d SUBSCRIBERS (entry_query u f x) =
          (case mg_find M d SUBSCRIBERS (by_id u) of
             None \<Rightarrow> None
           | Some doc \<Rightarrow> if sid_matches f (BOid x) doc then Some doc else None)"
proof -
  note laws = assms(1)[unfolded store_laws_def]
  show "mg_update M d SUBSCRIBERS (by_id u) (push_update f v) = (d', None) \<Longrightarrow>
           array_step M d d' u f (\<lambda>es. es @ [v])" using laws assms(2) by simp
  show "mg_update M d SUBSCRIBERS (by_id u) (pull_update f x) = (d', None) \<Longrightarrow>
           array_step M d d' u f (filter (\<lambda>e. \<not> has_sid (BOid x) e))" using laws assms(2) by simp
  show "mg_update M d SUBSCRIBERS (entry_query u f x) (set_update f g v) = (d', None) \<Longrightarrow>
           array_step M d d' u f (map_first (has_sid (BOid x)) (set_elem g v))" using laws assms(2) by simp
  show "mg_find M d SUBSCRIBERS (entry_query u f x) =
          (case mg_find M d SUBSCRIBERS (by_id u) of
             None \<Rightarrow> None
           | Some doc \<Rightarrow> if sid_matches f (BOid x) doc then Some doc else None)" using laws assms(2) by simp
qed

section \<open>The small store obeys the laws\<close>

lemma sample_selects_by_id [simp]: "sample_selects (by_id w) doc \<longleftrightarrow> map_of doc ''_id'' = Some (BOid w)"
  by (simp add: sample_selects_def sample_matches_def by_id_def)

lemma sample_matches_by_id [simp]: "sample_matches (by_id w) doc \<longleftrightarrow> map_of doc ''_id'' = Some (BOid w)"
  by (simp add: sample_matches_def by_id_def)

lemma sample_selects_entry [simp]:
  "sample_selects (entry_query w f x) doc \<longleftrightarrow> map_of doc ''_id'' = Some (BOid w)"
  by (simp add: sample_selects_def sample_matches_def entry_query_def)

lemma sample_matches_entry [simp]:
  "f \<in> set user_lists \<Longrightarrow> sample_matches (entry_query w f x) doc \<longleftrightarrow>
     map_of doc ''_id'' = Some (BOid w) \<and> sid_matches f (BOid x) doc"
  by (auto simp: sample_matches_def entry_query_def user_lists_def)

lemma array_elems_with_array: "array_elems (with_array f g doc) f = g (array_elems doc f)"
  by (simp add: array_elems_def with_array_def sample_array_def update_conv' o_def)

lemma map_of_with_array: "k \<noteq> f \<Longrightarrow> map_of (with_array f g doc) k = map_of doc k"
  by (simp add: with_array_def update_conv')

lemma sample_update_step:
  assumes sel: "\<And>doc. sample_selects q doc \<longleftrightarrow> map_of doc ''_id'' = Some (BOid x)"
    and app: "\<And>doc. sample_matches q doc \<Longrightarrow> sample_apply q u doc = with_array f g doc"
    and same: "\<And>doc. \<not> sample_matches q doc \<Longrightarrow> map_of doc ''_id'' = Some (BOid x) \<Longrightarrow>
        g (array_elems doc f) = array_elems doc f"
    and f: "f \<noteq> ''_id''"
  shows "array_step sample_mongo d (sample_update SUBSCRIBERS q u d) x f g"
proof -
  let ?new = "\<lambda>doc. if sample_matches q doc then sample_apply q u doc else doc"
  have id: "map_of (?new doc) ''_id'' = map_of doc ''_id''" for doc
    using f by (simp add: app map_of_with_array)
  have subs: "sample_find (sample_update SUBSCRIBERS q u d) SUBSCRIBERS (by_id w) =
      map_option (\<lambda>doc. if w = x then ?new doc else doc) (sample_find d SUBSCRIBERS (by_id w))" for w
    by (induction d) (auto simp: sel id option.map_ident)
  have other: "c \<noteq> SUBSCRIBERS \<Longrightarrow> sample_find (sample_update SUBSCRIBERS q u d) c q' = sample_find d c q'"
    for c q' by (induction d) auto
  have found: "sample_find d SUBSCRIBERS (by_id w) = Some doc \<Longrightarrow> map_of doc ''_id'' = Some (BOid w)"
    for w doc by (induction d) (auto split: if_splits)
  show ?thesis unfolding array_step_def
    using found same
    by (auto simp: sample_mongo_def subs other app array_elems_with_array map_of_with_array
        split: option.splits)
qed

lemma sample_store_laws: "store_laws sample_mongo"
  unfolding store_laws_def
proof (intro conjI allI impI)
  fix d u f v d' assume f: "f \<in> set user_lists"
    and d': "mg_update sample_mongo d SUBSCRIBERS (by_id u) (push_update f v) = (d', None)"
  have "array_step sample_mongo d (sample_update SUBSCRIBERS (by_id u) (push_update f v) d) u f (\<lambda>es. es @ [v])"
    using f by (intro sample_update_step) (auto simp: sample_apply_def push_update_def user_lists_def)
  then show "array_step sample_mongo d d' u f (\<lambda>es. es @ [v])" using d' by (simp add: sample_mongo_def)
next
  fix d u f x d' assume f: "f \<in> set user_lists"
    and d': "mg_update sample_mongo d SUBSCRIBERS (by_id u) (pull_update f x) = (d', None)"
  have "array_step sample_mongo d (sample_update SUBSCRIBERS (by_id u) (pull_update f x) d) u f
      (filter (\<lambda>e. \<not> has_sid (BOid x) e))"
    using f by (intro sample_update_step) (auto simp: sample_apply_def pull_update_def user_lists_def)
  then show "array_step sample_mongo d d' u f (filter (\<lambda>e. \<not> has_sid (BOid x) e))"
    using d' by (simp add: sample_mongo_def)
next
  fix d u f x g v d' assume f: "f \<in> set user_lists"
    and d': "mg_update sample_mongo d SUBSCRIBERS (entry_query u f x) (set_update f g v) = (d', None)"
  have none: "map_first P h xs = xs" if "\<not> list_ex P xs" for P h and xs :: "bval list"
    using that by (induction xs) auto
  have "array_step sample_mongo d (sample_update SUBSCRIBERS (entry_query u f x) (set_update f g v) d) u f
      (map_first (has_sid (BOid x)) (set_elem g v))"
  proof (rule sample_update_step)
    show "sample_apply (entry_query u f x) (set_update f g v) doc =
        with_array f (map_first (has_sid (BOid x)) (set_elem g v)) doc" for doc
      using f by (auto simp: sample_apply_def set_update_def entry_query_def user_lists_def)
  qed (use f in \<open>auto simp: user_lists_def sid_matches_def none\<close>)
  then show "array_step sample_mongo d d' u f (map_first (has_sid (BOid x)) (set_elem g v))"
    using d' by (simp add: sample_mongo_def)
next
  fix d u f x assume f: "f \<in> set user_lists"
  have "sample_find d SUBSCRIBERS (entry_query u f x) =
      (case sample_find d SUBSCRIBERS (by_id u) of
         None \<Rightarrow> None | Some doc \<Rightarrow> if sid_matches f (BOid x) doc then Some doc else None)"
    by (induction d) (auto simp: f)
  then show "mg_find sample_mongo d SUBSCRIBERS (entry_query u f x) =
      (case mg_find sample_mongo d SUBSCRIBERS (by_id u) of
         None \<Rightarrow> None | Some doc \<Rightarrow> if sid_matches f (BOid x) doc then Some doc else None)"
    by (simp add: sample_mongo_def)
next
  fix d c q u c' q' assume "c' \<noteq> (c :: coll)"
  then have "sample_find (sample_update c q u d) c' q' = sample_find d c' q'"
    by (induction d) auto
  then show "mg_find sample_mongo (fst (mg_update sample_mongo d c q u)) c' q' = mg_find sample_mongo d c' q'"
    by (simp add: sample_mongo_def)
qed

lemma sample_store_up: "store_up sample_mongo"
  by (simp add: store_up_def sample_mongo_def)

section \<open>A list of entries\<close>

text \<open>
  What the clients of such a list may rely on: adding appends the identifier to the list of this
  user, removing drops all its occurrences, and no other user is affected.
\<close>

datatype ('u, 'x) entry_op =
  AddEntry (op_user: 'u) (op_entry: 'x)
| RemoveEntry (op_user: 'u) (op_entry: 'x)

fun run_entries ::
    "('u \<Rightarrow> 'x \<Rightarrow> 's \<Rightarrow> 's \<times> error option) \<Rightarrow> ('u \<Rightarrow> 'x \<Rightarrow> 's \<Rightarrow> 's \<times> error option)
     \<Rightarrow> ('u, 'x) entry_op list \<Rightarrow> 's \<Rightarrow> 's \<times> error option" where
  "run_entries add remove [] s = (s, None)"
| "run_entries add remove (AddEntry u x # ops) s =
     (case add u x s of (s', None) \<Rightarrow> run_entries add remove ops s' | (s', Some e) \<Rightarrow> (s', Some e))"
| "run_entries add remove (RemoveEntry u x # ops) s =
     (case remove u x s of (s', None) \<Rightarrow> run_entries add remove ops s' | (s', Some e) \<Rightarrow> (s', Some e))"

fun spec_entries :: "('u, 'x) entry_op list \<Rightarrow> ('u \<Rightarrow> 'x list) \<Rightarrow> 'u \<Rightarrow> 'x list" where
  "spec_entries [] m = m"
| "spec_entries (AddEntry u x # ops) m = spec_entries ops (m(u := m u @ [x]))"
| "spec_entries (RemoveEntry u x # ops) m = spec_entries ops (m(u := removeAll x (m u)))"

locale user_list =
  fixes inv :: "'s \<Rightarrow> bool"
    and known :: "'s \<Rightarrow> 'u \<Rightarrow> bool"
    and sids :: "'s \<Rightarrow> 'u \<Rightarrow> 'x list"
    and add :: "'u \<Rightarrow> 'x \<Rightarrow> 's \<Rightarrow> 's \<times> error option"
    and remove :: "'u \<Rightarrow> 'x \<Rightarrow> 's \<Rightarrow> 's \<times> error option"
  assumes add_ok: "inv s \<Longrightarrow> known s u \<Longrightarrow> add u x s = (s', None) \<Longrightarrow>
      inv s' \<and> known s' = known s \<and> sids s' = (sids s)(u := sids s u @ [x])"
    and remove_ok: "inv s \<Longrightarrow> known s u \<Longrightarrow> remove u x s = (s', None) \<Longrightarrow>
      inv s' \<and> known s' = known s \<and> sids s' = (sids s)(u := removeAll x (sids s u))"
begin

lemma run_refines:
  assumes "inv s" and "\<forall>op \<in> set ops. known s (op_user op)" and "run_entries add remove ops s = (s', None)"
  shows "inv s' \<and> sids s' = spec_entries ops (sids s)"
  using assms
proof (induction ops arbitrary: s)
  case Nil
  then show ?case by simp
next
  case (Cons op ops)
  show ?case
  proof (cases op)
    case (AddEntry u x)
    then obtain s1 where "add u x s = (s1, None)" and run: "run_entries add remove ops s1 = (s', None)"
      using Cons.prems(3) by (auto split: prod.splits option.splits)
    moreover from this add_ok[of s u x s1] Cons.prems AddEntry
    have "inv s1" "known s1 = known s" "sids s1 = (sids s)(u := sids s u @ [x])" by auto
    ultimately show ?thesis using Cons.IH[of s1] Cons.prems AddEntry by (simp add: fun_upd_def)
  next
    case (RemoveEntry u x)
    then obtain s1 where "remove u x s = (s1, None)" and run: "run_entries add remove ops s1 = (s', None)"
      using Cons.prems(3) by (auto split: prod.splits option.splits)
    moreover from this remove_ok[of s u x s1] Cons.prems RemoveEntry
    have "inv s1" "known s1 = known s" "sids s1 = (sids s)(u := removeAll x (sids s u))" by auto
    ultimately show ?thesis using Cons.IH[of s1] Cons.prems RemoveEntry by (simp add: fun_upd_def)
  qed
qed

lemma add_remove_absent:
  assumes "inv s" and "known s u" and "x \<notin> set (sids s u)"
    and "add u x s = (s1, None)" and "remove u x s1 = (s2, None)"
  shows "sids s2 = sids s"
  using add_ok[OF assms(1,2,4)] remove_ok[of s1 u x s2] assms by (auto simp: removeAll_filter_not)

end

text \<open>The identifiers of the streams in one list of a user, in the order of the store.\<close>

definition sid_of :: "bval \<Rightarrow> oid option" where
  "sid_of v =
     (case v of
        BDoc d \<Rightarrow> (case map_of d ''sid'' of Some (BOid x) \<Rightarrow> Some x | _ \<Rightarrow> None)
      | _ \<Rightarrow> None)"

definition user_sids ::
    "'db mongo_lib \<Rightarrow> string \<Rightarrow> ('io, 'db, 'a) manager_scheme \<Rightarrow> oid \<Rightarrow> oid list" where
  "user_sids M f s u =
     (case mg_find M (db s) SUBSCRIBERS (by_id u) of
        None \<Rightarrow> []
      | Some doc \<Rightarrow> List.map_filter sid_of (array_elems doc f))"

definition user_known :: "'db mongo_lib \<Rightarrow> ('io, 'db, 'a) manager_scheme \<Rightarrow> oid \<Rightarrow> bool" where
  "user_known M s u \<longleftrightarrow> mg_find M (db s) SUBSCRIBERS (by_id u) \<noteq> None"

lemma has_sid_iff: "has_sid (BOid x) v \<longleftrightarrow> sid_of v = Some x"
  by (auto simp: has_sid_def sid_of_def split: bval.splits option.splits)

lemma sids_filter:
  "List.map_filter sid_of (filter (\<lambda>e. \<not> has_sid (BOid x) e) es) = removeAll x (List.map_filter sid_of es)"
  by (induction es) (auto simp: List.map_filter_simps has_sid_iff split: option.splits)

lemma sids_append:
  "List.map_filter sid_of (es @ [v]) =
     List.map_filter sid_of es @ (case sid_of v of None \<Rightarrow> [] | Some x \<Rightarrow> [x])"
  by (simp add: List.map_filter_def split: option.splits)

lemma update_one_None:
  "update_one M c q u s = (s', None) \<longleftrightarrow>
     (\<exists>d. mg_update M (db s) c q u = (d, None) \<and> s' = s\<lparr>db := d\<rparr>)"
  by (auto simp: update_one_def split: prod.splits option.splits)

lemma db_update_one: "db (fst (update_one M c q u s)) = fst (mg_update M (db s) c q u)"
  by (simp add: update_one_def split: prod.splits option.splits)

lemma array_step_user:
  assumes "array_step M (db s) d u f g"
    and "\<And>es. List.map_filter sid_of (g es) = h (List.map_filter sid_of es)"
    and "user_known M s u"
  shows "user_known M (s\<lparr>db := d\<rparr>) = user_known M s"
    and "user_sids M f (s\<lparr>db := d\<rparr>) = (user_sids M f s)(u := h (user_sids M f s u))"
proof -
  note step = array_stepD[OF assms(1)]
  show "user_known M (s\<lparr>db := d\<rparr>) = user_known M s"
  proof
    show "user_known M (s\<lparr>db := d\<rparr>) w = user_known M s w" for w
      using step[of w] by (auto simp: user_known_def split: option.splits)
  qed
  show "user_sids M f (s\<lparr>db := d\<rparr>) = (user_sids M f s)(u := h (user_sids M f s u))"
  proof
    show "user_sids M f (s\<lparr>db := d\<rparr>) w = ((user_sids M f s)(u := h (user_sids M f s u))) w" for w
    proof (cases "w = u")
      case True
      from assms(3) obtain doc where doc: "mg_find M (db s) SUBSCRIBERS (by_id u) = Some doc"
        by (auto simp: user_known_def)
      with step[of u] obtain doc' where "mg_find M d SUBSCRIBERS (by_id u) = Some doc'"
        "array_elems doc' f = g (array_elems doc f)" by auto
      then show ?thesis using True doc assms(2) by (simp add: user_sids_def)
    next
      case False
      then show ?thesis using step[of w]
        by (auto simp: user_sids_def array_elems_def split: option.splits)
    qed
  qed
qed

lemma push_entry_sids:
  assumes "store_laws M" and "f \<in> set user_lists" and "user_known M s u" and "sid_of v = Some x"
    and "update_one M SUBSCRIBERS (by_id u) (push_update f v) s = (s', None)"
  shows "user_known M s' = user_known M s \<and> user_sids M f s' = (user_sids M f s)(u := user_sids M f s u @ [x])"
proof -
  obtain d where d: "mg_update M (db s) SUBSCRIBERS (by_id u) (push_update f v) = (d, None)" "s' = s\<lparr>db := d\<rparr>"
    using assms(5) by (auto simp: update_one_None)
  from array_step_user[OF store_lawsD(1)[OF assms(1,2) d(1)] _ assms(3), of "\<lambda>xs. xs @ [x]"] d(2)
  show ?thesis by (simp add: sids_append assms(4))
qed

lemma pull_entry_sids:
  assumes "store_laws M" and "f \<in> set user_lists" and "user_known M s u"
    and "update_one M SUBSCRIBERS (by_id u) (pull_update f x) s = (s', None)"
  shows "user_known M s' = user_known M s \<and>
         user_sids M f s' = (user_sids M f s)(u := removeAll x (user_sids M f s u))"
proof -
  obtain d where d: "mg_update M (db s) SUBSCRIBERS (by_id u) (pull_update f x) = (d, None)" "s' = s\<lparr>db := d\<rparr>"
    using assms(4) by (auto simp: update_one_None)
  from array_step_user[OF store_lawsD(2)[OF assms(1,2) d(1)] _ assms(3), of "removeAll x"] d(2)
  show ?thesis by (simp add: sids_filter)
qed

lemma user_entry_sid: "sid_of (BDoc (user_entry x)) = Some x" "sid_of (BDoc (user_entry x @ e)) = Some x"
  by (simp_all add: sid_of_def user_entry_def)

lemma user_lists_mem [simp]:
  "''streams'' \<in> set user_lists" "''vods'' \<in> set user_lists" "''catchups'' \<in> set user_lists"
  by (simp_all add: user_lists_def)

interpretation streams: user_list "\<lambda>s. store_laws M" "user_known M" "user_sids M ''streams''"
    "AddStreamToUserStreamsArray M" "RemoveStreamFromUserStreamsArray M" for M
  by unfold_locales
    (auto simp: AddStreamToUserStreamsArray_def RemoveStreamFromUserStreamsArray_def user_entry_sid
      dest: push_entry_sids[rotated -1] pull_entry_sids[rotated -1])

interpretation vods: user_list "\<lambda>s. store_laws M" "user_known M" "user_sids M ''vods''"
    "AddStreamToUserVodsArray M" "RemoveStreamFromUserVodsArray M" for M
  by unfold_locales
    (auto simp: AddStreamToUserVodsArray_def RemoveStreamFromUserVodsArray_def user_entry_sid
      dest: push_entry_sids[rotated -1] pull_entry_sids[rotated -1])

interpretation catchups: user_list "\<lambda>s. store_laws M" "user_known M" "user_sids M ''catchups''"
    "AddStreamToUserCatchupsArray M" "RemoveStreamFromUserCatchupsArray M" for M
  by unfold_locales
    (auto simp: AddStreamToUserCatchupsArray_def RemoveStreamFromUserCatchupsArray_def user_entry_sid
      dest: push_entry_sids[rotated -1] pull_entry_sids[rotated -1])

section \<open>Marks\<close>

text \<open>
  The marks of an entry, read as \<open>ClientGetChannels\<close> reads them: with the iterator that has
  found \<open>sid\<close>.
\<close>

definition marks_of_entry :: "bson_lib \<Rightarrow> bdoc \<Rightarrow> user_stream_info" where
  "marks_of_entry B d = makeUserStreamInfo B (snd (bl_find B ''sid'' (iter_init d)))"

text \<open>The entries this program writes, with any values of the marks.\<close>

definition program_entry :: "oid \<Rightarrow> bool \<Rightarrow> bool \<Rightarrow> int \<Rightarrow> int \<Rightarrow> bdoc" where
  "program_entry x fav priv recent itime =
     [(''sid'', BOid x), (''favorite'', BBool fav), (''private'', BBool priv),
      (''recent'', BDate recent), (''interruption_time'', BInt32 itime)]"

lemma user_entry_program: "user_entry x = program_entry x False False 0 0"
  by (simp add: user_entry_def program_entry_def)

definition entry_of ::
    "'db mongo_lib \<Rightarrow> ('io, 'db, 'a) manager_scheme \<Rightarrow> oid \<Rightarrow> string \<Rightarrow> oid \<Rightarrow> bval option" where
  "entry_of M s u f x =
     (case mg_find M (db s) SUBSCRIBERS (by_id u) of
        None \<Rightarrow> None
      | Some doc \<Rightarrow> find (has_sid (BOid x)) (array_elems doc f))"

lemma find_after_exhausted: "k \<notin> set (keys_of d) \<Longrightarrow> find_after k d = (False, None, [])"
  by (induction d) (auto simp: keys_of_def)

lemma find_after_suffix: "set (keys_of (snd (snd (find_after k d)))) \<subseteq> set (keys_of d)"
  by (induction d) (auto simp: keys_of_def)

lemma marks_without_locked:
  assumes B: "bson_laws B" and "''locked'' \<notin> set (keys_of d)"
  shows "us_recent (marks_of_entry B d) = 0 \<and> us_interruption (marks_of_entry B d) = 0 \<and>
         \<not> us_locked (marks_of_entry B d)"
proof -
  obtain f0 c0 r0 where 0: "find_after ''sid'' d = (f0, c0, r0)" by (metis prod_cases3)
  obtain f1 c1 r1 where 1: "find_after ''favorite'' r0 = (f1, c1, r1)" by (metis prod_cases3)
  obtain f2 c2 r2 where 2: "find_after ''private'' r1 = (f2, c2, r2)" by (metis prod_cases3)
  have "set (keys_of r2) \<subseteq> set (keys_of d)"
    using find_after_suffix[of "''sid''" d] find_after_suffix[of "''favorite''" r0]
      find_after_suffix[of "''private''" r1] by (auto simp: 0 1 2)
  then have "find_after ''locked'' r2 = (False, None, [])"
    using assms(2) by (intro find_after_exhausted) blast
  then show ?thesis
    by (simp add: marks_of_entry_def makeUserStreamInfo_def bson_lawsD(1)[OF B] iter_init_def
        new_user_stream_info_def Let_def 0 1 2)
qed

lemma marks_program_entry:
  assumes "bson_laws B"
  shows "marks_of_entry B (program_entry x fav priv recent itime) =
           \<lparr>us_favorite = fav, us_recent = 0, us_interruption = 0, us_priv = priv, us_locked = False\<rparr>"
  by (simp add: marks_of_entry_def makeUserStreamInfo_def program_entry_def iter_init_def iter_value_def
      new_user_stream_info_def bson_lawsD[OF assms])

lemma set_program_entry:
  "set_elem ''favorite'' (BBool b) (BDoc (program_entry x fav priv recent itime)) =
     BDoc (program_entry x b priv recent itime)"
  "set_elem ''recent'' (BDate t) (BDoc (program_entry x fav priv recent itime)) =
     BDoc (program_entry x fav priv t itime)"
  "set_elem ''interruption_time'' (BInt32 n) (BDoc (program_entry x fav priv recent itime)) =
     BDoc (program_entry x fav priv recent n)"
  by (simp_all add: set_elem_def program_entry_def)

lemma find_map_first:
  "(\<And>y. P y \<Longrightarrow> P (h y)) \<Longrightarrow> find P (map_first P h xs) = map_option h (find P xs)"
  by (induction xs) auto

lemma has_sid_set_elem: "g \<noteq> ''sid'' \<Longrightarrow> has_sid x (set_elem g v e) = has_sid x e"
  by (simp add: has_sid_def set_elem_def update_conv' split: bval.splits)

lemma set_update_entry:
  assumes "store_laws M" and "store_up M" and "f \<in> set user_lists" and "g \<noteq> ''sid''"
    and "s' = fst (update_one M SUBSCRIBERS (entry_query u f x) (set_update f g v) s)"
  shows "entry_of M s' u f x = map_option (set_elem g v) (entry_of M s u f x)"
proof -
  obtain d where d: "mg_update M (db s) SUBSCRIBERS (entry_query u f x) (set_update f g v) = (d, None)"
    using assms(2) by (metis prod.collapse store_up_def)
  then have s': "s' = s\<lparr>db := d\<rparr>" using assms(5) by (simp add: update_one_def)
  from array_stepD[OF store_lawsD(3)[OF assms(1,3) d], of u] show ?thesis unfolding s'
    by (auto simp: entry_of_def find_map_first has_sid_set_elem assms(4) split: option.splits)
qed

lemma set_user_field_ok:
  assumes "set_user_field B M auth channel field v s = (s', Inr x)"
  shows "\<exists>u sdoc cls list. ConvertFromString B (db_uid auth) = Some u \<and>
           ConvertFromString B channel = Some x \<and> find_one M STREAMS (by_id x) s = Some sdoc \<and>
           find_utf8 B sdoc ''_cls'' = Some cls \<and>
           list = user_list_of (MongoStreamType2StreamType cls) \<and>
           s' = fst (update_one M SUBSCRIBERS (entry_query u list x) (set_update list field v) s)"
  using assms by (auto simp: set_user_field_def Let_def split: if_splits option.splits)

lemma user_list_of_mem [simp]: "user_list_of st \<in> set user_lists"
  by (simp add: user_list_of_def)

section \<open>Properties\<close>

text \<open>
  The operations of the manager take the credentials of a user and a text; in the store they are
  operations on the identifiers of both.  They are accepted when the credentials are valid and those
  of a user in the store, and the text is an identifier.
\<close>

definition stored_op :: "bson_lib \<Rightarrow> (server_db_auth, string) entry_op \<Rightarrow> (oid, oid) entry_op" where
  "stored_op B =
     map_entry_op (\<lambda>auth. the (ConvertFromString B (db_uid auth))) (\<lambda>sid. the (ConvertFromString B sid))"

definition op_accepted ::
    "bson_lib \<Rightarrow> fastotv_lib \<Rightarrow> (oid \<Rightarrow> bool) \<Rightarrow> (server_db_auth, string) entry_op \<Rightarrow> bool" where
  "op_accepted B L known op \<longleftrightarrow>
     ServerDBAuthInfo_IsValid L (op_user op) \<and> op_entry op \<noteq> fl_invalid_stream_id L \<and>
     ConvertFromString B (op_entry op) \<noteq> None \<and>
     (\<exists>u. ConvertFromString B (db_uid (op_user op)) = Some u \<and> known u)"

lemma user_catchup_steps:
  assumes "collection_open s SUBSCRIBERS"
  shows "op_accepted B L known (AddEntry auth sid) \<Longrightarrow>
      AddUserCatchup B L M auth sid s =
        AddStreamToUserCatchupsArray M (the (ConvertFromString B (db_uid auth))) (the (ConvertFromString B sid)) s"
    and "op_accepted B L known (RemoveEntry auth sid) \<Longrightarrow>
      RemoveUserCatchup B L M auth sid s =
        RemoveStreamFromUserCatchupsArray M (the (ConvertFromString B (db_uid auth))) (the (ConvertFromString B sid)) s"
  using assms by (auto simp: op_accepted_def AddUserCatchup_def RemoveUserCatchup_def with_user_and_stream_def)

lemma catchup_array_up:
  assumes "store_up M"
  shows "\<exists>s'. AddStreamToUserCatchupsArray M u x s = (s', None) \<and> collection_open s' = collection_open s"
    and "\<exists>s'. RemoveStreamFromUserCatchupsArray M u x s = (s', None) \<and> collection_open s' = collection_open s"
  using assms
  by (auto simp: AddStreamToUserCatchupsArray_def RemoveStreamFromUserCatchupsArray_def update_one_def store_up_def
      split: prod.splits option.splits) (metis option.distinct(1) snd_conv)+

lemma user_catchup_runs:
  assumes "store_up M" and "collection_open s SUBSCRIBERS" and "\<forall>op \<in> set ops. op_accepted B L known op"
  shows "\<exists>s'. run_entries (AddUserCatchup B L M) (RemoveUserCatchup B L M) ops s = (s', None) \<and>
    run_entries (AddStreamToUserCatchupsArray M) (RemoveStreamFromUserCatchupsArray M) (map (stored_op B) ops) s = (s', None)"
  using assms(2,3)
proof (induction ops arbitrary: s)
  case (Cons op ops)
  show ?case
  proof (cases op)
    case (AddEntry auth sid)
    obtain t where "AddStreamToUserCatchupsArray M (the (ConvertFromString B (db_uid auth)))
        (the (ConvertFromString B sid)) s = (t, None)" "collection_open t = collection_open s"
      using catchup_array_up(1)[OF assms(1)] by blast
    then show ?thesis using Cons AddEntry user_catchup_steps(1)[OF Cons.prems(1), of B L known auth sid M]
      by (simp add: stored_op_def)
  next
    case (RemoveEntry auth sid)
    obtain t where "RemoveStreamFromUserCatchupsArray M (the (ConvertFromString B (db_uid auth)))
        (the (ConvertFromString B sid)) s = (t, None)" "collection_open t = collection_open s"
      using catchup_array_up(2)[OF assms(1)] by blast
    then show ?thesis using Cons RemoveEntry user_catchup_steps(2)[OF Cons.prems(1), of B L known auth sid M]
      by (simp add: stored_op_def)
  qed
qed simp

text \<open>
  C23: \<open>AddUserCatchup\<close> and \<open>RemoveUserCatchup\<close> keep lists.  On a store that is up, with credentials
  that are valid and belong to users in the store and texts that are identifiers, any sequence of the
  two operations succeeds, and afterwards each user's list of catchups is the one the specification
  computes: an addition has appended the identifier of the stream to the list of this user, a removal
  has dropped all its occurrences there, and no user's operation has changed another user's list.
\<close>

theorem catchup_lists_refine:
  assumes "store_laws M" and "store_up M" and "collection_open s SUBSCRIBERS"
    and "\<forall>op \<in> set ops. op_accepted B L (user_known M s) op"
  shows "\<exists>s'. run_entries (AddUserCatchup B L M) (RemoveUserCatchup B L M) ops s = (s', None) \<and>
    user_sids M ''catchups'' s' = spec_entries (map (stored_op B) ops) (user_sids M ''catchups'' s)"
proof -
  obtain s' where s': "run_entries (AddUserCatchup B L M) (RemoveUserCatchup B L M) ops s = (s', None)"
    "run_entries (AddStreamToUserCatchupsArray M) (RemoveStreamFromUserCatchupsArray M) (map (stored_op B) ops) s = (s', None)"
    using user_catchup_runs[OF assms(2-4)] by blast
  have "\<forall>op \<in> set (map (stored_op B) ops). user_known M s (op_user op)"
  proof
    fix op'
    assume "op' \<in> set (map (stored_op B) ops)"
    then obtain op where op: "op \<in> set ops" "op' = stored_op B op" by auto
    then have "op_accepted B L (user_known M s) op" using assms(4) by blast
    then show "user_known M s (op_user op')" using op(2)
      by (cases op) (auto simp: stored_op_def op_accepted_def)
  qed
  from catchups.run_refines[OF assms(1) this s'(2)] s'(1) show ?thesis by blast
qed

theorem catchup_lists_refine_witness:
  "\<exists>s'. run_entries (AddUserCatchup sample_bson sample_lib sample_mongo) (RemoveUserCatchup sample_bson sample_lib sample_mongo)
           [AddEntry sample_identity ''4'', AddEntry sample_identity ''5'', AddEntry sample_identity ''4'',
            RemoveEntry sample_identity ''5''] sample_manager = (s', None) \<and>
         user_sids sample_mongo ''catchups'' s' 1 = [4, 4]"
proof -
  let ?ops = "[AddEntry sample_identity ''4'', AddEntry sample_identity ''5'', AddEntry sample_identity ''4'',
     RemoveEntry sample_identity ''5''] :: (server_db_auth, string) entry_op list"
  have user: "mg_find sample_mongo (db sample_manager) SUBSCRIBERS (by_id 1) = Some sample_user"
    using sample_user_found(2) by (simp add: find_one_def)
  have uid: "ConvertFromString sample_bson (db_uid sample_identity) = Some 1" by (simp add: sample_identity_def)
  have ids: "ConvertFromString sample_bson ''4'' = Some 4" "ConvertFromString sample_bson ''5'' = Some 5" by simp_all
  have "\<forall>op \<in> set ?ops. op_accepted sample_bson sample_lib (user_known sample_mongo sample_manager) op"
    using user uid ids by (simp add: op_accepted_def user_known_def sample_identity_valid) (simp add: sample_lib_def)
  from catchup_lists_refine[OF sample_store_laws sample_store_up sample_manager_open this] obtain s' where
    s': "run_entries (AddUserCatchup sample_bson sample_lib sample_mongo)
        (RemoveUserCatchup sample_bson sample_lib sample_mongo) ?ops sample_manager = (s', None)"
      "user_sids sample_mongo ''catchups'' s' =
        spec_entries (map (stored_op sample_bson) ?ops) (user_sids sample_mongo ''catchups'' sample_manager)" by blast
  moreover have "user_sids sample_mongo ''catchups'' sample_manager 1 = []"
    by (simp add: user_sids_def user) (simp add: sample_user_def array_elems_def List.map_filter_simps)
  ultimately show ?thesis using uid ids by (intro exI[of _ s']) (simp add: stored_op_def)
qed

text \<open>
  Adding a vod and removing it again gives back the user's list of vods, when the vod was not
  in it before.
\<close>

theorem add_remove_user_vod:
  assumes laws: "store_laws M" and user: "user_known M s u"
    and u: "ConvertFromString B (db_uid auth) = Some u" and x: "ConvertFromString B sid = Some x"
    and new: "x \<notin> set (user_sids M ''vods'' s u)"
    and add: "AddUserVod B L M auth sid s = (s1, None)"
    and remove: "RemoveUserVod B L M auth sid s1 = (s2, None)"
  shows "x \<in> set (user_sids M ''vods'' s1 u) \<and> user_sids M ''vods'' s2 = user_sids M ''vods'' s"
proof -
  have a: "AddStreamToUserVodsArray M u x s = (s1, None)"
    using add u x by (auto simp: AddUserVod_def with_user_and_stream_def split: if_splits)
  have r: "RemoveStreamFromUserVodsArray M u x s1 = (s2, None)"
    using remove u x by (auto simp: RemoveUserVod_def with_user_and_stream_def split: if_splits)
  show ?thesis
    using vods.add_ok[OF laws user a] vods.add_remove_absent[OF laws user new a r] by simp
qed

theorem add_remove_user_vod_witness:
  "\<exists>s1 s2. AddUserVod sample_bson sample_lib sample_mongo sample_identity ''3'' sample_manager = (s1, None) \<and>
     RemoveUserVod sample_bson sample_lib sample_mongo sample_identity ''3'' s1 = (s2, None) \<and>
     3 \<in> set (user_sids sample_mongo ''vods'' s1 1) \<and>
     user_sids sample_mongo ''vods'' s2 1 = []"
proof -
  have user: "mg_find sample_mongo (db sample_manager) SUBSCRIBERS (by_id 1) = Some sample_user"
    using sample_user_found(2) by (simp add: find_one_def)
  have uid: "ConvertFromString sample_bson (db_uid sample_identity) = Some 1"
    by (simp add: sample_identity_def)
  have empty: "user_sids sample_mongo ''vods'' sample_manager 1 = []"
    by (simp add: user_sids_def user) (simp add: sample_user_def array_elems_def List.map_filter_simps)
  have sid: "''3'' \<noteq> fl_invalid_stream_id sample_lib" by (simp add: sample_lib_def)
  have op: "collection_open s SUBSCRIBERS \<Longrightarrow>
      AddUserVod sample_bson sample_lib sample_mongo sample_identity ''3'' s =
        AddStreamToUserVodsArray sample_mongo 1 3 s"
      "collection_open s SUBSCRIBERS \<Longrightarrow>
      RemoveUserVod sample_bson sample_lib sample_mongo sample_identity ''3'' s =
        RemoveStreamFromUserVodsArray sample_mongo 1 3 s" for s :: "(string list, sample_db) manager"
    by (simp_all add: AddUserVod_def RemoveUserVod_def with_user_and_stream_def sample_identity_valid
        sid uid)
  let ?s1 = "fst (AddStreamToUserVodsArray sample_mongo 1 3 sample_manager)"
  have "collection_open ?s1 SUBSCRIBERS"
    by (simp add: AddStreamToUserVodsArray_def update_one_def sample_mongo_def sample_manager_open)
  then have add: "AddUserVod sample_bson sample_lib sample_mongo sample_identity ''3'' sample_manager = (?s1, None)"
    and rem: "\<exists>s2. RemoveUserVod sample_bson sample_lib sample_mongo sample_identity ''3'' ?s1 = (s2, None)"
    using op by (simp_all add: sample_manager_open AddStreamToUserVodsArray_def
        RemoveStreamFromUserVodsArray_def update_one_def sample_mongo_def)
  from rem obtain s2 where
    rem: "RemoveUserVod sample_bson sample_lib sample_mongo sample_identity ''3'' ?s1 = (s2, None)" ..
  from add_remove_user_vod[OF sample_store_laws _ uid _ _ add rem] show ?thesis
    using add rem empty user by (auto simp: user_known_def)
qed

text \<open>
  C39: \<open>AddUserStream\<close> does not add the stream: it appends the identifier of the user to the
  user's own list of streams, whatever stream it is asked for.
\<close>

theorem add_user_stream_adds_user_id:
  assumes laws: "store_laws M" and user: "user_known M s u"
    and u: "ConvertFromString B (db_uid auth) = Some u"
    and add: "AddUserStream B L M auth sid s = (s', None)"
  shows "user_sids M ''streams'' s' u = user_sids M ''streams'' s u @ [u]"
proof -
  have "AddStreamToUserStreamsArray M u u s = (s', None)"
    using add u by (auto simp: AddUserStream_def with_user_and_stream_def split: if_splits option.splits)
  from streams.add_ok[OF laws user this] show ?thesis by simp
qed

theorem add_user_stream_adds_user_id_witness:
  "\<exists>s'. AddUserStream sample_bson sample_lib sample_mongo sample_identity ''3'' sample_manager = (s', None) \<and>
        user_sids sample_mongo ''streams'' s' 1 = [1]"
proof -
  have user: "mg_find sample_mongo (db sample_manager) SUBSCRIBERS (by_id 1) = Some sample_user"
    using sample_user_found(2) by (simp add: find_one_def)
  have uid: "ConvertFromString sample_bson (db_uid sample_identity) = Some 1"
    by (simp add: sample_identity_def)
  have sid: "''3'' \<noteq> fl_invalid_stream_id sample_lib" by (simp add: sample_lib_def)
  have "\<exists>s'. AddUserStream sample_bson sample_lib sample_mongo sample_identity ''3'' sample_manager = (s', None)"
    by (simp add: AddUserStream_def with_user_and_stream_def sample_identity_valid sid uid
        sample_manager_open AddStreamToUserStreamsArray_def update_one_def) (simp add: sample_mongo_def)
  then obtain s' where
    add: "AddUserStream sample_bson sample_lib sample_mongo sample_identity ''3'' sample_manager = (s', None)" ..
  have "user_sids sample_mongo ''streams'' sample_manager 1 = []"
    by (simp add: user_sids_def user) (simp add: sample_user_def array_elems_def List.map_filter_simps)
  with add_user_stream_adds_user_id[OF sample_store_laws _ uid add] add user show ?thesis
    by (auto simp: user_known_def)
qed

text \<open>
  A favorite mark is read back: after \<open>SetFavorite\<close> the first entry of the user for the
  stream, in the list of the stream's class, carries the mark, the other marks of the entry are
  as before, and reading the entry gives the mark.
\<close>

theorem favorite_roundtrip:
  assumes B: "bson_laws B" and laws: "store_laws M" and up: "store_up M"
    and u: "ConvertFromString B (db_uid auth) = Some u" and x: "ConvertFromString B channel = Some x"
    and sdoc: "find_one M STREAMS (by_id x) s = Some sdoc" and cls: "find_utf8 B sdoc ''_cls'' = Some cls"
    and list: "list = user_list_of (MongoStreamType2StreamType cls)"
    and entry: "entry_of M s u list x = Some (BDoc (program_entry x old priv recent itime))"
    and set: "SetFavorite B L M auth channel fav s = (s', None)"
  shows "entry_of M s' u list x = Some (BDoc (program_entry x fav priv recent itime)) \<and>
         us_favorite (marks_of_entry B (program_entry x fav priv recent itime)) = fav"
proof -
  obtain y where "set_user_field B M auth channel ''favorite'' (BBool fav) s = (s', Inr y)"
    using set by (auto simp: SetFavorite_def split: if_splits prod.splits sum.splits)
  from set_user_field_ok[OF this] have
    "s' = fst (update_one M SUBSCRIBERS (entry_query u list x) (set_update list ''favorite'' (BBool fav)) s)"
    using u x sdoc cls list by auto
  from set_update_entry[OF laws up _ _ this] entry list show ?thesis
    by (simp add: set_program_entry marks_program_entry[OF B])
qed

definition sample_stream_doc :: bdoc where
  "sample_stream_doc = [(''_id'', BOid 3), (''_cls'', BUtf8 ''pyfastocloud_models.stream.entry.RelayStream'')]"

definition sample_watcher :: bdoc where
  "sample_watcher =
     [(''_id'', BOid 1), (''streams'', BArr [(''0'', BDoc (program_entry 3 False False 0 0))])]"

definition sample_marks_manager :: "(string list, sample_db) manager" where
  "sample_marks_manager =
     sample_manager\<lparr>db := [(SUBSCRIBERS, sample_watcher), (STREAMS, sample_stream_doc)]\<rparr>"

lemma sample_marks:
  "ConvertFromString sample_bson (db_uid sample_identity) = Some 1"
  "find_one sample_mongo STREAMS (by_id 3) sample_marks_manager = Some sample_stream_doc"
  "find_utf8 sample_bson sample_stream_doc ''_cls'' =
     Some ''pyfastocloud_models.stream.entry.RelayStream''"
  "user_list_of (MongoStreamType2StreamType ''pyfastocloud_models.stream.entry.RelayStream'') = ''streams''"
  "entry_of sample_mongo sample_marks_manager 1 ''streams'' 3 =
     Some (BDoc (program_entry 3 False False 0 0))"
  "collection_open sample_marks_manager c"
proof -
  show "ConvertFromString sample_bson (db_uid sample_identity) = Some 1"
    by (simp add: sample_identity_def)
  show "find_one sample_mongo STREAMS (by_id 3) sample_marks_manager = Some sample_stream_doc"
    by (simp add: find_one_def sample_marks_manager_def sample_mongo_def) (simp add: sample_stream_doc_def)
  show "find_utf8 sample_bson sample_stream_doc ''_cls'' =
     Some ''pyfastocloud_models.stream.entry.RelayStream''"
    unfolding find_typed_iff[OF sample_bson_laws] by (simp add: sample_stream_doc_def)
  show "user_list_of (MongoStreamType2StreamType ''pyfastocloud_models.stream.entry.RelayStream'') = ''streams''"
    by (simp add: user_list_of_def MongoStreamType2StreamType_def IsVod_def)
  show "entry_of sample_mongo sample_marks_manager 1 ''streams'' 3 =
     Some (BDoc (program_entry 3 False False 0 0))"
    by (simp add: entry_of_def sample_marks_manager_def sample_mongo_def)
      (simp add: sample_watcher_def array_elems_def has_sid_def program_entry_def)
  show "collection_open sample_marks_manager c"
    by (simp add: sample_marks_manager_def sample_manager_open)
qed

theorem favorite_roundtrip_witness:
  "\<exists>s'. SetFavorite sample_bson sample_lib sample_mongo sample_identity ''3'' True sample_marks_manager = (s', None) \<and>
        entry_of sample_mongo s' 1 ''streams'' 3 = Some (BDoc (program_entry 3 True False 0 0))"
proof -
  have "fl_favorite_valid sample_lib ''3'' True" by (simp add: sample_lib_def)
  then have "\<exists>s'. SetFavorite sample_bson sample_lib sample_mongo sample_identity ''3'' True sample_marks_manager = (s', None)"
    by (simp add: SetFavorite_def set_user_field_def sample_marks Let_def)
  then obtain s' where
    set: "SetFavorite sample_bson sample_lib sample_mongo sample_identity ''3'' True sample_marks_manager = (s', None)" ..
  have x: "ConvertFromString sample_bson ''3'' = Some 3" by simp
  from favorite_roundtrip[OF sample_bson_laws sample_store_laws sample_store_up sample_marks(1) x
      sample_marks(2,3) refl _ set, unfolded sample_marks(4), OF sample_marks(5)] set
  show ?thesis by blast
qed

text \<open>\<open>SetRecent\<close> sets the time of the user's entry; the count of the stream is in another collection.\<close>

lemma set_recent_entry:
  assumes laws: "store_laws M" and up: "store_up M"
    and u: "ConvertFromString B (db_uid auth) = Some u" and x: "ConvertFromString B channel = Some x"
    and sdoc: "find_one M STREAMS (by_id x) s = Some sdoc" and cls: "find_utf8 B sdoc ''_cls'' = Some cls"
    and list: "list = user_list_of (MongoStreamType2StreamType cls)"
    and set: "SetRecent B L M auth channel t s = (s', None)"
  shows "entry_of M s' u list x = map_option (set_elem ''recent'' (BDate t)) (entry_of M s u list x)"
proof -
  obtain y s1 where s1: "set_user_field B M auth channel ''recent'' (BDate t) s = (s1, Inr y)"
    and s': "s' = fst (update_one M STREAMS (by_id y) [(''$inc'', BDoc [(''view_count'', BInt32 1)])] s1)"
    using set by (auto simp: SetRecent_def split: if_splits prod.splits sum.splits)
  from set_user_field_ok[OF s1] have
    "s1 = fst (update_one M SUBSCRIBERS (entry_query u list x) (set_update list ''recent'' (BDate t)) s)"
    using u x sdoc cls list by auto
  from set_update_entry[OF laws up _ _ this] list
  have "entry_of M s1 u list x = map_option (set_elem ''recent'' (BDate t)) (entry_of M s u list x)" by simp
  moreover have "entry_of M s' u list x = entry_of M s1 u list x"
    unfolding s' entry_of_def db_update_one by (simp add: store_frame[OF laws])
  ultimately show ?thesis by simp
qed

lemma find_user_stream_Inr:
  assumes "find_user_stream B L M list accept rdr auth sid s = Some (Inr ch)"
  shows "\<exists>u x udoc sdoc cls v. ConvertFromString B (db_uid auth) = Some u \<and>
           ConvertFromString B sid = Some x \<and>
           find_one M SUBSCRIBERS (entry_query u list x) s = Some udoc \<and>
           find_one M STREAMS (by_id x) s = Some sdoc \<and> find_utf8 B sdoc ''_cls'' = Some cls \<and>
           accept (MongoStreamType2StreamType cls) \<and>
           rdr sdoc (MongoStreamType2StreamType cls) (makeUserStreamInfo B (iter_init udoc)) False = Got (ch, v)"
  using assms by (auto simp: find_user_stream_def Let_def split: if_splits option.splits reading.splits)

lemma find_user_stream_own:
  assumes laws: "store_laws M" and list: "list \<in> set user_lists"
    and u: "ConvertFromString B (db_uid auth) = Some u" and x: "ConvertFromString B sid = Some x"
    and found: "find_user_stream B L M list accept rdr auth sid s = Some (Inr ch)"
  shows "x \<in> set (user_sids M list s u)"
proof -
  obtain udoc where "find_one M SUBSCRIBERS (entry_query u list x) s = Some udoc"
    using find_user_stream_Inr[OF found] u x by auto
  then obtain doc where "mg_find M (db s) SUBSCRIBERS (by_id u) = Some doc" "sid_matches list (BOid x) doc"
    using store_lawsD(4)[OF laws list, of "db s" u x] by (auto simp: find_one_def split: option.splits if_splits)
  then show ?thesis
    by (force simp: user_sids_def sid_matches_def list_ex_iff has_sid_iff List.map_filter_def)
qed

lemma MakeChannelInfo_marks:
  "MakeChannelInfo B L d st u vis = Got (c, v) \<Longrightarrow>
     sb_favorite c = us_favorite u \<and> sb_recent c = us_recent u \<and>
     sb_interruption c = us_interruption u \<and> sb_locked c = us_locked u"
  by (auto simp: MakeChannelInfo_defs split: reading.splits if_splits)

text \<open>
  A stream is found only in the lists of its user: when the search for a stream, a vod or a
  catchup succeeds, the identifier is in the corresponding list of the user who asks.
\<close>

theorem found_streams_are_own:
  assumes "store_laws M"
    and "ConvertFromString B (db_uid auth) = Some u" and "ConvertFromString B sid = Some x"
  shows "(FindStream B L M auth sid s = Some (Inr ch) \<longrightarrow> x \<in> set (user_sids M ''streams'' s u)) \<and>
         (FindVod B L M auth sid s = Some (Inr vod) \<longrightarrow> x \<in> set (user_sids M ''vods'' s u)) \<and>
         (FindCatchup B L M auth sid s = Some (Inr cat) \<longrightarrow> x \<in> set (user_sids M ''catchups'' s u))"
  unfolding FindStream_def FindVod_def FindCatchup_def
  by (intro conjI impI; erule find_user_stream_own[OF assms(1) _ assms(2,3), rotated]; simp)

theorem found_streams_are_own_witness:
  "(\<forall>ch. FindStream sample_bson sample_lib sample_mongo sample_identity ''2'' sample_marks_manager \<noteq> Some (Inr ch))"
proof -
  have "user_sids sample_mongo ''streams'' sample_marks_manager 1 = [3]"
    by (simp add: user_sids_def sample_marks_manager_def sample_mongo_def)
      (simp add: sample_watcher_def array_elems_def List.map_filter_simps sid_of_def program_entry_def)
  moreover have "ConvertFromString sample_bson ''2'' = Some 2" by simp
  ultimately show ?thesis
    using found_streams_are_own[OF sample_store_laws sample_marks(1), of "''2''" 2 sample_lib
        sample_marks_manager] by auto
qed

text \<open>
  The search loses the marks: it reads them from the document of the user, whose keys they are
  not, instead of from the user's entry, so a stream that is found is never favorite, recent or
  interrupted, whatever its entry says.
\<close>

theorem found_stream_has_no_marks:
  assumes B: "bson_laws B" and laws: "store_laws M"
    and u: "ConvertFromString B (db_uid auth) = Some u"
    and doc: "mg_find M (db s) SUBSCRIBERS (by_id u) = Some doc"
    and keys: "set (keys_of doc) \<inter>
        {''favorite'', ''private'', ''locked'', ''recent'', ''interruption_time''} = {}"
    and found: "FindStream B L M auth sid s = Some (Inr ch)"
  shows "\<not> sb_favorite ch \<and> sb_recent ch = 0 \<and> sb_interruption ch = 0 \<and> \<not> sb_locked ch"
proof -
  obtain x udoc sdoc st v where udoc: "find_one M SUBSCRIBERS (entry_query u ''streams'' x) s = Some udoc"
    and rd: "MakeChannelInfo B L sdoc st (makeUserStreamInfo B (iter_init udoc)) False = Got (ch, v)"
    using find_user_stream_Inr[OF found[unfolded FindStream_def]] u by auto
  have "udoc = doc"
    using udoc doc store_lawsD(4)[OF laws, of "''streams''" "db s" u x]
    by (simp add: find_one_def split: if_splits)
  moreover have "makeUserStreamInfo B (iter_init doc) = new_user_stream_info"
    using keys by (simp add: makeUserStreamInfo_def bson_lawsD(1)[OF B] iter_init_def find_after_exhausted)
  ultimately show ?thesis using MakeChannelInfo_marks[OF rd] by (simp add: new_user_stream_info_def)
qed

theorem found_stream_has_no_marks_witness:
  "\<exists>ch. FindStream sample_bson sample_lib sample_mongo sample_identity ''1''
         (sample_manager\<lparr>db := [(SUBSCRIBERS, [(''_id'', BOid 1),
             (''streams'', BArr [(''0'', BDoc (program_entry 1 True False 5 0))])]),
            (STREAMS, sample_channel_doc)]\<rparr>) = Some (Inr ch) \<and> \<not> sb_favorite ch"
proof -
  let ?udoc = "[(''_id'', BOid 1), (''streams'', BArr [(''0'', BDoc (program_entry 1 True False 5 0))])]"
  let ?s = "sample_manager\<lparr>db := [(SUBSCRIBERS, ?udoc), (STREAMS, sample_channel_doc)]\<rparr>"
  have udoc: "find_one sample_mongo SUBSCRIBERS (entry_query 1 ''streams'' 1) ?s = Some ?udoc"
      "mg_find sample_mongo (db ?s) SUBSCRIBERS (by_id 1) = Some ?udoc"
    by (simp_all add: find_one_def sample_mongo_def sid_matches_def array_elems_def has_sid_def
        program_entry_def)
  have sdoc: "find_one sample_mongo STREAMS (by_id 1) ?s = Some sample_channel_doc"
    by (simp add: find_one_def sample_mongo_def)
      (simp add: sample_channel_doc_def sample_stream_fields_def)
  have cls: "find_utf8 sample_bson sample_channel_doc ''_cls'' = Some ''IStream.ProxyStream''"
    unfolding find_typed_iff[OF sample_bson_laws]
    by (simp add: sample_channel_doc_def sample_stream_fields_def)
  have st: "MongoStreamType2StreamType ''IStream.ProxyStream'' = PROXY"
    by (simp add: MongoStreamType2StreamType_def)
  have d: "distinct (keys_of sample_channel_doc)"
    by (simp add: sample_channel_doc_def sample_stream_fields_def keys_of_def)
  have "accepts sample_bson channel_schema True sample_channel_doc"
    by (simp add: accepts_def channel_counted keys_of_def sample_channel_doc_def
        sample_stream_fields_def)
      (simp add: well_typed_def channel_schema_def holds.simps)
  then have "MakeChannelInfo sample_bson sample_lib sample_channel_doc PROXY u False =
      Got (channel_of sample_bson sample_lib u sample_channel_doc, look sample_channel_doc ''visible'' the_bool False)"
    for u unfolding MakeChannelInfo_iff[OF d] by simp
  then have "\<exists>ch. FindStream sample_bson sample_lib sample_mongo sample_identity ''1'' ?s = Some (Inr ch)"
    using udoc(1) sdoc cls
    by (simp add: FindStream_def find_user_stream_def sample_identity_valid sample_manager_open st
        IsVod_def sample_marks(1)) (simp add: sample_lib_def)
  then obtain ch where ch: "FindStream sample_bson sample_lib sample_mongo sample_identity ''1'' ?s = Some (Inr ch)" ..
  from found_stream_has_no_marks[OF sample_bson_laws sample_store_laws sample_marks(1) udoc(2) _ ch] ch
  show ?thesis by (auto simp: keys_of_def)
qed

end
