(* ===== verification/Serial_Info.thy ===== *)
theory Serial_Info
  imports Documents
begin

text \<open>
  The readers of serials and of content requests, \<open>MakeSerialInfo\<close> and
  \<open>MakeContentRequestInfo\<close> of \<open>src/mongo/mongo2info.cpp\<close>, and the lookup of the output of a
  stream, \<open>GetUrlFromStream\<close> and \<open>GetHttpRootFromStream\<close>.
\<close>

section \<open>Serials\<close>

text \<open>
  \<open>season\<close> is not initialised and is a \<open>size_t\<close>: the 32-bit integer of the document is
  converted to 64 bits, so that a negative number becomes a huge one.
\<close>

record serial_vars =
  r_sum :: nat
  r_sid :: string
  r_groups :: "string list"
  r_episodes :: "string list"
  r_icon :: gurl
  r_name :: string
  r_description :: string
  r_season :: "64 word option"
  r_visible :: bool

definition serial_vars_init :: "fastotv_lib \<Rightarrow> bool \<Rightarrow> serial_vars" where
  "serial_vars_init L visible =
     \<lparr>r_sum = 0, r_sid = [], r_groups = [], r_episodes = [], r_icon = fl_new_url L, r_name = [],
      r_description = [], r_season = None, r_visible = visible\<rparr>"

definition serial_tick :: "serial_vars \<Rightarrow> serial_vars" where
  "serial_tick a = a\<lparr>r_sum := r_sum a + 1\<rparr>"

definition serial_actions ::
    "bson_lib \<Rightarrow> (string \<times> (bval \<Rightarrow> serial_vars \<Rightarrow> serial_vars reading)) list" where
  "serial_actions B =
     [(''_id'', \<lambda>v a. need_oid v (\<lambda>x. serial_tick (a\<lparr>r_sid := ConvertToString B x\<rparr>))),
      (''groups'', \<lambda>v a. need_array v (\<lambda>d.
          Got (serial_tick (a\<lparr>r_groups := r_groups a @ read_groups B d\<rparr>)))),
      (''season'', \<lambda>v a. need_int32 v (\<lambda>n. serial_tick (a\<lparr>r_season := Some (word_of_int n)\<rparr>))),
      (''name'', \<lambda>v a. need_utf8 v (\<lambda>s. serial_tick (a\<lparr>r_name := s\<rparr>))),
      (''icon'', \<lambda>v a. need_utf8 v (\<lambda>s. serial_tick (a\<lparr>r_icon := GURL s\<rparr>))),
      (''description'', \<lambda>v a. need_utf8 v (\<lambda>s. serial_tick (a\<lparr>r_description := s\<rparr>))),
      (''episodes'', \<lambda>v a. need_array v (\<lambda>d.
          case read_oids B d of
            None \<Rightarrow> Undef
          | Some es \<Rightarrow> Got (a\<lparr>r_episodes := r_episodes a @ es\<rparr>))),
      (''visible'', \<lambda>v a. need_bool v (\<lambda>b. a\<lparr>r_visible := b\<rparr>))]"

abbreviation (input) CHECK_SUM_SERIAL :: nat where "CHECK_SUM_SERIAL \<equiv> 6"

definition MakeSerialInfo ::
    "bson_lib \<Rightarrow> fastotv_lib \<Rightarrow> bdoc \<Rightarrow> bool \<Rightarrow> (serial_info \<times> bool) reading" where
  "MakeSerialInfo B L sdoc visible =
     (case read_loop (dispatch (serial_actions B)) sdoc (serial_vars_init L visible) of
        Undef \<Rightarrow> Undef
      | Skip \<Rightarrow> Skip
      | Got a \<Rightarrow>
          if r_sum a \<noteq> CHECK_SUM_SERIAL then Skip
          else (case r_season a of
                  None \<Rightarrow> Undef
                | Some season \<Rightarrow>
                    Got (\<lparr>se_sid = r_sid a, se_name = r_name a, se_icon = r_icon a,
                          se_groups = r_groups a, se_description = r_description a,
                          se_season = season, se_episodes = r_episodes a, se_view_count = 0\<rparr>,
                         r_visible a)))"

section \<open>Content requests\<close>

record request_vars =
  q_sum :: nat
  q_sid :: string
  q_title :: string
  q_type :: "int option"
  q_status :: "int option"

definition request_vars_init :: request_vars where
  "request_vars_init = \<lparr>q_sum = 0, q_sid = [], q_title = [], q_type = None, q_status = None\<rparr>"

definition request_tick :: "request_vars \<Rightarrow> request_vars" where
  "request_tick a = a\<lparr>q_sum := q_sum a + 1\<rparr>"

definition request_actions ::
    "bson_lib \<Rightarrow> (string \<times> (bval \<Rightarrow> request_vars \<Rightarrow> request_vars reading)) list" where
  "request_actions B =
     [(''_id'', \<lambda>v a. need_oid v (\<lambda>x. request_tick (a\<lparr>q_sid := ConvertToString B x\<rparr>))),
      (''title'', \<lambda>v a. need_utf8 v (\<lambda>s. request_tick (a\<lparr>q_title := s\<rparr>))),
      (''type'', \<lambda>v a. need_int32 v (\<lambda>n. request_tick (a\<lparr>q_type := Some n\<rparr>))),
      (''status'', \<lambda>v a. need_int32 v (\<lambda>n. request_tick (a\<lparr>q_status := Some n\<rparr>)))]"

abbreviation (input) CHECK_SUM_REQUEST :: nat where "CHECK_SUM_REQUEST \<equiv> 4"

definition MakeContentRequestInfo :: "bson_lib \<Rightarrow> bdoc \<Rightarrow> content_request_info reading" where
  "MakeContentRequestInfo B sdoc =
     (case read_loop (dispatch (request_actions B)) sdoc request_vars_init of
        Undef \<Rightarrow> Undef
      | Skip \<Rightarrow> Skip
      | Got a \<Rightarrow>
          if q_sum a \<noteq> CHECK_SUM_REQUEST then Skip
          else (case (q_type a, q_status a) of
                  (Some ty, Some status) \<Rightarrow>
                    Got \<lparr>cr_id = q_sid a, cr_text = q_title a, cr_type = ty, cr_status = status\<rparr>
                | _ \<Rightarrow> Undef))"

section \<open>Specification\<close>

definition serial_schema :: "(string \<times> btype) list" where
  "serial_schema =
     [(''_id'', OidT), (''groups'', ArrayT), (''season'', Int32T), (''name'', Utf8T),
      (''icon'', Utf8T), (''description'', Utf8T), (''episodes'', OidsT), (''visible'', BoolT)]"

definition request_schema :: "(string \<times> btype) list" where
  "request_schema = [(''_id'', OidT), (''title'', Utf8T), (''type'', Int32T), (''status'', Int32T)]"

lemma serial_counted:
  "mandatory serial_schema = [''_id'', ''groups'', ''season'', ''name'', ''icon'', ''description'']"
  by (simp add: mandatory_def serial_schema_def optional_keys_def)

lemma request_counted: "mandatory request_schema = [''_id'', ''title'', ''type'', ''status'']"
  by (simp add: mandatory_def request_schema_def optional_keys_def)

lemma serial_lengths:
  "length (mandatory serial_schema) = 6" "length (mandatory request_schema) = 4"
  by (simp_all add: serial_counted request_counted)

definition serial_of :: "bson_lib \<Rightarrow> fastotv_lib \<Rightarrow> bdoc \<Rightarrow> serial_info" where
  "serial_of B L d =
     \<lparr>se_sid = look d ''_id'' (the_oid B) [],
      se_name = look d ''name'' the_utf8 [],
      se_icon = look d ''icon'' (\<lambda>v. GURL (the_utf8 v)) (fl_new_url L),
      se_groups = look d ''groups'' (\<lambda>v. read_groups B (the_array v)) [],
      se_description = look d ''description'' the_utf8 [],
      se_season = look d ''season'' (\<lambda>v. word_of_int (the_int32 v)) 0,
      se_episodes = look d ''episodes'' (the_oids B) [],
      se_view_count = 0\<rparr>"

definition request_of :: "bson_lib \<Rightarrow> bdoc \<Rightarrow> content_request_info" where
  "request_of B d =
     \<lparr>cr_id = look d ''_id'' (the_oid B) [], cr_text = look d ''title'' the_utf8 [],
      cr_type = look d ''type'' the_int32 0, cr_status = look d ''status'' the_int32 0\<rparr>"

lemma serial_tick_simps [simp]:
  "r_sum (serial_tick a) = r_sum a + 1" "r_sid (serial_tick a) = r_sid a"
  "r_groups (serial_tick a) = r_groups a" "r_episodes (serial_tick a) = r_episodes a"
  "r_icon (serial_tick a) = r_icon a" "r_name (serial_tick a) = r_name a"
  "r_description (serial_tick a) = r_description a" "r_season (serial_tick a) = r_season a"
  "r_visible (serial_tick a) = r_visible a"
  by (simp_all add: serial_tick_def)

lemma request_tick_simps [simp]:
  "q_sum (request_tick a) = q_sum a + 1" "q_sid (request_tick a) = q_sid a"
  "q_title (request_tick a) = q_title a" "q_type (request_tick a) = q_type a"
  "q_status (request_tick a) = q_status a"
  by (simp_all add: request_tick_def)

lemma episodes_Got_iff [read_simps]:
  "(case read_oids B d of None \<Rightarrow> Undef | Some es \<Rightarrow> Got (f es)) = Got a \<longleftrightarrow>
     (\<exists>es. read_oids B d = Some es \<and> a = f es)"
  by (auto split: option.splits)

interpretation serial: doc_reader "dispatch (serial_actions B)" r_sum
    "mandatory serial_schema" "well_typed B serial_schema" for B
proof
  show "(\<exists>s'. dispatch (serial_actions B) e s = Got s') \<longleftrightarrow> well_typed B serial_schema (fst e) (snd e)"
    for e s
    by (rule dispatch_got_iff) (auto simp: serial_actions_def serial_schema_def read_simps)
  show "r_sum s' = r_sum s + (if fst e \<in> set (mandatory serial_schema) then 1 else 0)"
    if "dispatch (serial_actions B) e s = Got s'" for e s s'
    unfolding serial_counted
    by (rule dispatch_sum[OF _ _ that]; auto simp: serial_actions_def read_simps)
  show "distinct (mandatory serial_schema)" by (simp add: serial_counted)
qed

interpretation request: doc_reader "dispatch (request_actions B)" q_sum
    "mandatory request_schema" "well_typed B request_schema" for B
proof
  show "(\<exists>s'. dispatch (request_actions B) e s = Got s') \<longleftrightarrow> well_typed B request_schema (fst e) (snd e)"
    for e s
    by (rule dispatch_got_iff) (auto simp: request_actions_def request_schema_def read_simps)
  show "q_sum s' = q_sum s + (if fst e \<in> set (mandatory request_schema) then 1 else 0)"
    if "dispatch (request_actions B) e s = Got s'" for e s s'
    unfolding request_counted
    by (rule dispatch_sum[OF _ _ that]; auto simp: request_actions_def read_simps)
  show "distinct (mandatory request_schema)" by (simp add: request_counted)
qed

lemma serial_loop_values:
  assumes d: "distinct (keys_of d)"
    and loop: "read_loop (dispatch (serial_actions B)) d s = Got a"
  shows "r_sid a = look d ''_id'' (the_oid B) (r_sid s)"
    and "r_groups a = look d ''groups'' (\<lambda>v. r_groups s @ read_groups B (the_array v)) (r_groups s)"
    and "r_season a = look d ''season'' (\<lambda>v. Some (word_of_int (the_int32 v))) (r_season s)"
    and "r_name a = look d ''name'' the_utf8 (r_name s)"
    and "r_icon a = look d ''icon'' (\<lambda>v. GURL (the_utf8 v)) (r_icon s)"
    and "r_description a = look d ''description'' the_utf8 (r_description s)"
    and "r_episodes a = look d ''episodes'' (\<lambda>v. r_episodes s @ the_oids B v) (r_episodes s)"
    and "r_visible a = look d ''visible'' the_bool (r_visible s)"
proof -
  note step = dispatch_loop_field[OF d loop]
  note acts = serial_actions_def read_simps
  show "r_sid a = look d ''_id'' (the_oid B) (r_sid s)"
    by (rule step[where fld = r_sid and upd = "\<lambda>v _. the_oid B v"]; auto simp: acts)
  show "r_groups a = look d ''groups'' (\<lambda>v. r_groups s @ read_groups B (the_array v)) (r_groups s)"
    by (rule step[where fld = r_groups and upd = "\<lambda>v xs. xs @ read_groups B (the_array v)"]; auto simp: acts)
  show "r_season a = look d ''season'' (\<lambda>v. Some (word_of_int (the_int32 v))) (r_season s)"
    by (rule step[where fld = r_season and upd = "\<lambda>v _. Some (word_of_int (the_int32 v))"]; auto simp: acts)
  show "r_name a = look d ''name'' the_utf8 (r_name s)"
    by (rule step[where fld = r_name and upd = "\<lambda>v _. the_utf8 v"]; auto simp: acts)
  show "r_icon a = look d ''icon'' (\<lambda>v. GURL (the_utf8 v)) (r_icon s)"
    by (rule step[where fld = r_icon and upd = "\<lambda>v _. GURL (the_utf8 v)"]; auto simp: acts)
  show "r_description a = look d ''description'' the_utf8 (r_description s)"
    by (rule step[where fld = r_description and upd = "\<lambda>v _. the_utf8 v"]; auto simp: acts)
  show "r_episodes a = look d ''episodes'' (\<lambda>v. r_episodes s @ the_oids B v) (r_episodes s)"
    by (rule step[where fld = r_episodes and upd = "\<lambda>v xs. xs @ the_oids B v"]; auto simp: acts)
  show "r_visible a = look d ''visible'' the_bool (r_visible s)"
    by (rule step[where fld = r_visible and upd = "\<lambda>v _. the_bool v"]; auto simp: acts)
qed

lemma request_loop_values:
  assumes d: "distinct (keys_of d)"
    and loop: "read_loop (dispatch (request_actions B)) d s = Got a"
  shows "q_sid a = look d ''_id'' (the_oid B) (q_sid s)"
    and "q_title a = look d ''title'' the_utf8 (q_title s)"
    and "q_type a = look d ''type'' (\<lambda>v. Some (the_int32 v)) (q_type s)"
    and "q_status a = look d ''status'' (\<lambda>v. Some (the_int32 v)) (q_status s)"
proof -
  note step = dispatch_loop_field[OF d loop]
  note acts = request_actions_def read_simps
  show "q_sid a = look d ''_id'' (the_oid B) (q_sid s)"
    by (rule step[where fld = q_sid and upd = "\<lambda>v _. the_oid B v"]; auto simp: acts)
  show "q_title a = look d ''title'' the_utf8 (q_title s)"
    by (rule step[where fld = q_title and upd = "\<lambda>v _. the_utf8 v"]; auto simp: acts)
  show "q_type a = look d ''type'' (\<lambda>v. Some (the_int32 v)) (q_type s)"
    by (rule step[where fld = q_type and upd = "\<lambda>v _. Some (the_int32 v)"]; auto simp: acts)
  show "q_status a = look d ''status'' (\<lambda>v. Some (the_int32 v)) (q_status s)"
    by (rule step[where fld = q_status and upd = "\<lambda>v _. Some (the_int32 v)"]; auto simp: acts)
qed

lemma look_Some: "map_of d k \<noteq> None \<Longrightarrow> look d k (\<lambda>v. Some (f v)) None = Some (look d k f x)"
  by (auto simp: look_def)

lemma MakeSerialInfo_iff:
  assumes d: "distinct (keys_of d)"
  shows "MakeSerialInfo B L d vis = Got r \<longleftrightarrow>
           accepts B serial_schema False d \<and>
           r = (serial_of B L d, look d ''visible'' the_bool vis)"
proof (cases "read_loop (dispatch (serial_actions B)) d (serial_vars_init L vis)")
  case (Got a)
  note vals = serial_loop_values[OF d Got]
  have "\<forall>e \<in> set d. well_typed B serial_schema (fst e) (snd e)"
    using serial.loop_got_typed[OF Got] by blast
  moreover have sum: "r_sum a = count_keys (mandatory serial_schema) d"
    using serial.loop_sum[OF Got] by (simp add: serial_vars_init_def)
  ultimately have acc: "accepts B serial_schema False d \<longleftrightarrow> r_sum a = 6"
    using serial.loop_complete[OF d] by (auto simp: accepts_def serial_lengths)
  show ?thesis
  proof (cases "r_sum a = 6")
    case True
    then have "set (mandatory serial_schema) \<subseteq> set (keys_of d)"
      using acc by (simp add: accepts_def)
    then have "map_of d ''season'' \<noteq> None"
      by (simp add: serial_counted keys_of_def map_of_eq_None_iff)
    then show ?thesis unfolding acc MakeSerialInfo_def Got
      by (auto simp: True vals serial_vars_init_def serial_of_def look_Some[where x = 0])
  next
    case False
    then show ?thesis unfolding acc MakeSerialInfo_def Got by simp
  qed
qed (use serial.loop_got_iff[of B d "serial_vars_init L vis"] in
    \<open>auto simp: MakeSerialInfo_def accepts_def\<close>)

lemma MakeContentRequestInfo_iff:
  assumes d: "distinct (keys_of d)"
  shows "MakeContentRequestInfo B d = Got r \<longleftrightarrow>
           accepts B request_schema False d \<and> r = request_of B d"
proof (cases "read_loop (dispatch (request_actions B)) d request_vars_init")
  case (Got a)
  note vals = request_loop_values[OF d Got]
  have "\<forall>e \<in> set d. well_typed B request_schema (fst e) (snd e)"
    using request.loop_got_typed[OF Got] by blast
  moreover have sum: "q_sum a = count_keys (mandatory request_schema) d"
    using request.loop_sum[OF Got] by (simp add: request_vars_init_def)
  ultimately have acc: "accepts B request_schema False d \<longleftrightarrow> q_sum a = 4"
    using request.loop_complete[OF d] by (auto simp: accepts_def serial_lengths)
  show ?thesis
  proof (cases "q_sum a = 4")
    case True
    then have "set (mandatory request_schema) \<subseteq> set (keys_of d)"
      using acc by (simp add: accepts_def)
    then have "map_of d ''type'' \<noteq> None" "map_of d ''status'' \<noteq> None"
      by (simp_all add: request_counted keys_of_def map_of_eq_None_iff)
    then show ?thesis unfolding acc MakeContentRequestInfo_def Got
      by (auto simp: True vals request_vars_init_def request_of_def look_Some[where x = 0])
  next
    case False
    then show ?thesis unfolding acc MakeContentRequestInfo_def Got by simp
  qed
qed (use request.loop_got_iff[of B d request_vars_init] in
    \<open>auto simp: MakeContentRequestInfo_def accepts_def\<close>)

section \<open>Properties\<close>

definition sample_serial_doc :: bdoc where
  "sample_serial_doc =
     [(''_id'', BOid 3), (''name'', BUtf8 ''Serial''), (''icon'', BUtf8 ''http://icon''),
      (''groups'', BArr []), (''description'', BUtf8 ''About''), (''season'', BInt32 (- 1)),
      (''episodes'', BArr [(''0'', BOid 1), (''1'', BOid 2)]), (''visible'', BBool False)]"

definition sample_request_doc :: bdoc where
  "sample_request_doc =
     [(''_id'', BOid 2), (''_cls'', BUtf8 ''ContentRequest''), (''title'', BUtf8 ''More''),
      (''type'', BInt32 1), (''status'', BInt32 0)]"

text \<open>
  Reading a serial document is looking its keys up, and it succeeds exactly when the known
  keys have values of their types and the six mandatory ones are there; \<open>season\<close> is never read
  before it is set.
\<close>

theorem serial_reader_exact:
  assumes "distinct (keys_of d)"
  shows "MakeSerialInfo B L d vis = Got r \<longleftrightarrow>
           accepts B serial_schema False d \<and>
           r = (serial_of B L d, look d ''visible'' the_bool vis)"
  using assms by (rule MakeSerialInfo_iff)

theorem serial_reader_exact_witness:
  "\<exists>c. MakeSerialInfo sample_bson sample_lib sample_serial_doc True = Got (c, False) \<and>
       se_season c = 18446744073709551615 \<and> se_episodes c = [''1'', ''2'']"
proof -
  have d: "distinct (keys_of sample_serial_doc)"
    by (simp add: sample_serial_doc_def keys_of_def)
  have "accepts sample_bson serial_schema False sample_serial_doc"
    by (simp add: accepts_def serial_counted keys_of_def sample_serial_doc_def)
      (simp add: well_typed_def serial_schema_def holds.simps sample_bson_def)
  moreover have "\<not> look sample_serial_doc ''visible'' the_bool True"
    by (simp add: look_def sample_serial_doc_def the_defs)
  ultimately have "MakeSerialInfo sample_bson sample_lib sample_serial_doc True =
      Got (serial_of sample_bson sample_lib sample_serial_doc, False)"
    unfolding serial_reader_exact[OF d] by simp
  moreover have "se_season (serial_of sample_bson sample_lib sample_serial_doc) = 18446744073709551615"
      "se_episodes (serial_of sample_bson sample_lib sample_serial_doc) = [''1'', ''2'']"
    by (simp_all add: serial_of_def look_def sample_serial_doc_def the_defs ConvertToString_def
        sample_bson_def)
  ultimately show ?thesis by blast
qed

text \<open>
  Reading a content request is looking its keys up, and it succeeds exactly when its four
  keys are there with values of their types; \<open>type\<close> and \<open>status\<close> are never read before they are
  set.
\<close>

theorem request_reader_exact:
  assumes "distinct (keys_of d)"
  shows "MakeContentRequestInfo B d = Got r \<longleftrightarrow>
           accepts B request_schema False d \<and> r = request_of B d"
  using assms by (rule MakeContentRequestInfo_iff)

theorem request_reader_exact_witness:
  "MakeContentRequestInfo sample_bson sample_request_doc =
     Got \<lparr>cr_id = ''2'', cr_text = ''More'', cr_type = 1, cr_status = 0\<rparr>"
proof -
  have d: "distinct (keys_of sample_request_doc)"
    by (simp add: sample_request_doc_def keys_of_def)
  have "accepts sample_bson request_schema False sample_request_doc"
    by (simp add: accepts_def request_counted keys_of_def sample_request_doc_def)
      (simp add: well_typed_def request_schema_def holds.simps)
  moreover have "request_of sample_bson sample_request_doc =
      \<lparr>cr_id = ''2'', cr_text = ''More'', cr_type = 1, cr_status = 0\<rparr>"
    by (simp add: request_of_def look_def sample_request_doc_def the_defs ConvertToString_def
        sample_bson_def)
  ultimately show ?thesis unfolding request_reader_exact[OF d] by simp
qed

text \<open>
  The url of an output is found by key and channel identifier: it is the uri of the first
  output of the stream that has the identifier, among those with an integer identifier and a text
  uri, and there is none when the document has no output array or no such output.
\<close>

theorem output_url_lookup:
  "GetUrlFromStream B d cid =
     (case map_of d ''output'' of
        Some (BArr a) \<Rightarrow>
          map_option ou_url
            (find (\<lambda>u. ou_id u = cid) (List.map_filter (\<lambda>e. output_url B (snd e)) a))
      | _ \<Rightarrow> None)"
  by (simp only: GetUrlFromStream_map_of output_urls_map_filter)

end
