(* ===== verification/Channels.thy ===== *)
theory Channels
  imports User_Store Serial_Info
begin

text \<open>
  What a user may watch: \<open>ClientGetChannels\<close> and \<open>ClientFindHttpDirectoryOrUrlForChannel\<close> of
  \<open>src/mongo/subscribers_manager.cpp\<close>, which go through the lists of the user's document.
\<close>

section \<open>Entries\<close>

text \<open>
  An entry of a list: its identifier, and the iterator that stands on it.  The identifier is read
  without a type check, and a null pointer is followed.
\<close>

definition open_entry :: "bson_lib \<Rightarrow> bval \<Rightarrow> (oid \<times> biter) reading" where
  "open_entry B v =
     (case holds_doc v of
        None \<Rightarrow> Skip
      | Some rec \<Rightarrow>
          (case bl_find B ''sid'' (iter_init rec) of
             (found, iter) \<Rightarrow>
               if found then
                 (case bl_oid B (iter_value iter) of None \<Rightarrow> Undef | Some x \<Rightarrow> Got (x, iter))
               else Skip))"

definition entry_stream ::
    "bson_lib \<Rightarrow> 'db mongo_lib \<Rightarrow> (bdoc \<Rightarrow> stream_type \<Rightarrow> user_stream_info \<Rightarrow> bool \<Rightarrow> ('c \<times> bool) reading)
     \<Rightarrow> ('io, 'db, 'a) manager_scheme \<Rightarrow> bval \<Rightarrow> (user_stream_info \<times> 'c \<times> bool) reading" where
  "entry_stream B M rdr s v =
     (case open_entry B v of
        Undef \<Rightarrow> Undef
      | Skip \<Rightarrow> Skip
      | Got (oid, iter) \<Rightarrow>
          (case find_one M STREAMS (by_id oid) s of
             None \<Rightarrow> Skip
           | Some sdoc \<Rightarrow>
               (case find_utf8 B sdoc ''_cls'' of
                  None \<Rightarrow> Skip
                | Some cls \<Rightarrow>
                    let uinf = makeUserStreamInfo B iter; st = MongoStreamType2StreamType cls in
                    (case rdr sdoc st uinf False of
                       Undef \<Rightarrow> Undef | Skip \<Rightarrow> Skip | Got (ch, visible) \<Rightarrow> Got (uinf, ch, visible)))))"

section \<open>The channels of a user\<close>

definition add_channel ::
    "bson_lib \<Rightarrow> fastotv_lib \<Rightarrow> 'db mongo_lib \<Rightarrow> ('io, 'db, 'a) manager_scheme \<Rightarrow> belem
     \<Rightarrow> channel_info list \<times> channel_info list \<Rightarrow> (channel_info list \<times> channel_info list) option" where
  "add_channel B L M s e acc =
     (case acc of (lchans, lpchans) \<Rightarrow>
        (case entry_stream B M (MakeChannelInfo B L) s (snd e) of
           Undef \<Rightarrow> None
         | Skip \<Rightarrow> Some (lchans, lpchans)
         | Got (uinf, ch, visible) \<Rightarrow>
             if visible then
               (if us_priv uinf then Some (lchans, lpchans @ [ch]) else Some (lchans @ [ch], lpchans))
             else Some (lchans, lpchans)))"

definition user_channels ::
    "bson_lib \<Rightarrow> fastotv_lib \<Rightarrow> 'db mongo_lib \<Rightarrow> bdoc \<Rightarrow> ('io, 'db, 'a) manager_scheme
     \<Rightarrow> (channel_info list \<times> channel_info list) option" where
  "user_channels B L M doc s =
     (case find_array B doc ''streams'' of
        None \<Rightarrow> Some ([], [])
      | Some ar \<Rightarrow> opt_fold (add_channel B L M s) ar ([], []))"

text \<open>The attribute \<open>visible\<close> of a vod and of a catchup is read and not looked at.\<close>

definition add_vod ::
    "bson_lib \<Rightarrow> fastotv_lib \<Rightarrow> 'db mongo_lib \<Rightarrow> ('io, 'db, 'a) manager_scheme \<Rightarrow> belem
     \<Rightarrow> vod_info list \<times> vod_info list \<Rightarrow> (vod_info list \<times> vod_info list) option" where
  "add_vod B L M s e acc =
     (case acc of (lvods, lpvods) \<Rightarrow>
        (case entry_stream B M (MakeVodInfo B L) s (snd e) of
           Undef \<Rightarrow> None
         | Skip \<Rightarrow> Some (lvods, lpvods)
         | Got (uinf, ch, visible) \<Rightarrow>
             (if us_priv uinf then Some (lvods, lpvods @ [ch]) else Some (lvods @ [ch], lpvods))))"

definition user_vods ::
    "bson_lib \<Rightarrow> fastotv_lib \<Rightarrow> 'db mongo_lib \<Rightarrow> bdoc \<Rightarrow> ('io, 'db, 'a) manager_scheme
     \<Rightarrow> (vod_info list \<times> vod_info list) option" where
  "user_vods B L M doc s =
     (case find_array B doc ''vods'' of
        None \<Rightarrow> Some ([], [])
      | Some ar \<Rightarrow> opt_fold (add_vod B L M s) ar ([], []))"

definition add_catchup ::
    "bson_lib \<Rightarrow> fastotv_lib \<Rightarrow> 'db mongo_lib \<Rightarrow> ('io, 'db, 'a) manager_scheme \<Rightarrow> belem
     \<Rightarrow> catchup_info list \<Rightarrow> catchup_info list option" where
  "add_catchup B L M s e lcatchups =
     (case entry_stream B M (MakeCatchupInfo B L) s (snd e) of
        Undef \<Rightarrow> None
      | Skip \<Rightarrow> Some lcatchups
      | Got (uinf, ch, visible) \<Rightarrow> Some (lcatchups @ [ch]))"

definition user_catchups ::
    "bson_lib \<Rightarrow> fastotv_lib \<Rightarrow> 'db mongo_lib \<Rightarrow> bdoc \<Rightarrow> ('io, 'db, 'a) manager_scheme
     \<Rightarrow> catchup_info list option" where
  "user_catchups B L M doc s =
     (case find_array B doc ''catchups'' of
        None \<Rightarrow> Some []
      | Some ar \<Rightarrow> opt_fold (add_catchup B L M s) ar [])"

text \<open>
  The views of a serial are the views of its episodes: for each episode the first vod of the
  user's public list that is part of a serial and has the identifier.  The sum is a \<open>size_t\<close>.
\<close>

definition episode_views :: "fastotv_lib \<Rightarrow> vod_info list \<Rightarrow> string \<Rightarrow> 64 word" where
  "episode_views L vods_array episode =
     (case find (\<lambda>serial. fl_vod_is_serial L serial \<and> sb_sid serial = episode) vods_array of
        None \<Rightarrow> 0
      | Some serial \<Rightarrow> word_of_int (sb_view_count serial))"

definition stable_views :: "fastotv_lib \<Rightarrow> vod_info list \<Rightarrow> string list \<Rightarrow> 64 word" where
  "stable_views L vods_array episodes =
     fold (\<lambda>episode view_counts. view_counts + episode_views L vods_array episode) episodes 0"

definition add_serial ::
    "bson_lib \<Rightarrow> fastotv_lib \<Rightarrow> 'db mongo_lib \<Rightarrow> vod_info list \<Rightarrow> ('io, 'db, 'a) manager_scheme \<Rightarrow> belem
     \<Rightarrow> serial_info list \<Rightarrow> serial_info list option" where
  "add_serial B L M lvods s e lseries =
     (case bl_oid B (snd e) of
        None \<Rightarrow> None
      | Some sid \<Rightarrow>
          (case find_one M SERIES (by_id sid) s of
             None \<Rightarrow> Some lseries
           | Some sdoc \<Rightarrow>
               (case MakeSerialInfo B L sdoc False of
                  Undef \<Rightarrow> None
                | Skip \<Rightarrow> Some lseries
                | Got (ser, visible) \<Rightarrow>
                    Some (lseries @ [ser\<lparr>se_view_count := stable_views L lvods (se_episodes ser)\<rparr>]))))"

definition user_series ::
    "bson_lib \<Rightarrow> fastotv_lib \<Rightarrow> 'db mongo_lib \<Rightarrow> vod_info list \<Rightarrow> bdoc \<Rightarrow> ('io, 'db, 'a) manager_scheme
     \<Rightarrow> serial_info list option" where
  "user_series B L M lvods doc s =
     (case find_array B doc ''series'' of
        None \<Rightarrow> Some []
      | Some ar \<Rightarrow> opt_fold (add_serial B L M lvods s) ar [])"

definition add_request ::
    "bson_lib \<Rightarrow> 'db mongo_lib \<Rightarrow> ('io, 'db, 'a) manager_scheme \<Rightarrow> belem
     \<Rightarrow> content_request_info list \<Rightarrow> content_request_info list option" where
  "add_request B M s e lcreq =
     (case bl_oid B (snd e) of
        None \<Rightarrow> None
      | Some sid \<Rightarrow>
          (case find_one M REQUESTS (by_id sid) s of
             None \<Rightarrow> Some lcreq
           | Some sdoc \<Rightarrow>
               (case MakeContentRequestInfo B sdoc of
                  Undef \<Rightarrow> None | Skip \<Rightarrow> Some lcreq | Got cont \<Rightarrow> Some (lcreq @ [cont]))))"

definition user_requests ::
    "bson_lib \<Rightarrow> 'db mongo_lib \<Rightarrow> bdoc \<Rightarrow> ('io, 'db, 'a) manager_scheme
     \<Rightarrow> content_request_info list option" where
  "user_requests B M doc s =
     (case find_array B doc ''requests'' of
        None \<Rightarrow> Some []
      | Some ar \<Rightarrow> opt_fold (add_request B M s) ar [])"

text \<open>The seven lists that are returned.\<close>

record channels_answer =
  an_vods :: "vod_info list"
  an_chans :: "channel_info list"
  an_pchans :: "channel_info list"
  an_pvods :: "vod_info list"
  an_catchups :: "catchup_info list"
  an_series :: "serial_info list"
  an_requests :: "content_request_info list"

definition user_answer ::
    "bson_lib \<Rightarrow> fastotv_lib \<Rightarrow> 'db mongo_lib \<Rightarrow> bdoc \<Rightarrow> ('io, 'db, 'a) manager_scheme
     \<Rightarrow> channels_answer option" where
  "user_answer B L M doc s =
     (case user_channels B L M doc s of
        None \<Rightarrow> None
      | Some (lchans, lpchans) \<Rightarrow>
     (case user_vods B L M doc s of
        None \<Rightarrow> None
      | Some (lvods, lpvods) \<Rightarrow>
     (case user_catchups B L M doc s of
        None \<Rightarrow> None
      | Some lcatchups \<Rightarrow>
     (case user_series B L M lvods doc s of
        None \<Rightarrow> None
      | Some lseries \<Rightarrow>
     (case user_requests B M doc s of
        None \<Rightarrow> None
      | Some lcreq \<Rightarrow>
          Some \<lparr>an_vods = lvods, an_chans = lchans, an_pchans = lpchans, an_pvods = lpvods,
                an_catchups = lcatchups, an_series = lseries, an_requests = lcreq\<rparr>)))))"

definition ClientGetChannels ::
    "bson_lib \<Rightarrow> fastotv_lib \<Rightarrow> 'db mongo_lib \<Rightarrow> auth_info \<Rightarrow> ('io, 'db, 'a) manager_scheme
     \<Rightarrow> (error + channels_answer) option" where
  "ClientGetChannels B L M auth s =
     (if \<not> fl_auth_valid L auth then Some (Inl ErrInval)
      else if \<not> collection_open s SUBSCRIBERS \<or> \<not> collection_open s STREAMS \<or>
              \<not> collection_open s SERIES \<or> \<not> collection_open s REQUESTS
      then Some (Inl (ErrText ''Not conencted to DB''))
      else case find_one M SUBSCRIBERS (by_email (li_login auth)) s of
        None \<Rightarrow> Some (Inl (ErrText ''User not found''))
      | Some doc \<Rightarrow>
          (case user_answer B L M doc s of None \<Rightarrow> None | Some ans \<Rightarrow> Some (Inr ans)))"

section \<open>The directory or the url of a channel\<close>

datatype http_target = HttpDirectory dirpath | HttpUrl gurl

definition url_target :: "bson_lib \<Rightarrow> int \<Rightarrow> bdoc \<Rightarrow> error + http_target" where
  "url_target B cid sdoc =
     (case GetUrlFromStream B sdoc cid of
        Some lurl \<Rightarrow> Inr (HttpUrl lurl)
      | None \<Rightarrow> Inl (ErrText ''Cant parse stream urls''))"

definition stream_target ::
    "bson_lib \<Rightarrow> fastotv_lib \<Rightarrow> int \<Rightarrow> bool \<Rightarrow> bdoc \<Rightarrow> error + http_target" where
  "stream_target B L cid is_proxy sdoc =
     (if is_proxy then url_target B cid sdoc
      else case GetHttpRootFromStream B sdoc cid of
        Some ldir \<Rightarrow>
          if fl_dir_exists L (fl_dir_path L ldir) then Inr (HttpDirectory ldir)
          else url_target B cid sdoc
      | None \<Rightarrow> Inl (ErrText ''Cant parse stream urls''))"

definition channel_target ::
    "bson_lib \<Rightarrow> fastotv_lib \<Rightarrow> int \<Rightarrow> bdoc \<Rightarrow> stream_type \<Rightarrow> error + http_target" where
  "channel_target B L cid sdoc st = stream_target B L cid (st = PROXY) sdoc"

definition vod_target ::
    "bson_lib \<Rightarrow> fastotv_lib \<Rightarrow> int \<Rightarrow> bdoc \<Rightarrow> stream_type \<Rightarrow> error + http_target" where
  "vod_target B L cid sdoc st = stream_target B L cid (st = VOD_PROXY) sdoc"

text \<open>
  A catchup falls back to the url also when it has no http root, or is produced on request.
\<close>

definition catchup_target ::
    "bson_lib \<Rightarrow> fastotv_lib \<Rightarrow> int \<Rightarrow> bdoc \<Rightarrow> stream_type \<Rightarrow> error + http_target" where
  "catchup_target B L cid sdoc st =
     (let is_proxy = st = PROXY \<or> st = VOD_PROXY in
      if is_proxy then url_target B cid sdoc
      else
        let is_requst_streams = st = COD_RELAY \<or> st = COD_ENCODE \<or> st = VOD_ENCODE \<or> st = VOD_RELAY in
        if \<not> is_requst_streams then
          (case GetHttpRootFromStream B sdoc cid of
             Some ldir \<Rightarrow>
               if fl_dir_exists L (fl_dir_path L ldir) then Inr (HttpDirectory ldir)
               else url_target B cid sdoc
           | None \<Rightarrow> url_target B cid sdoc)
        else url_target B cid sdoc)"

text \<open>
  The search through one list: the first entry with the identifier decides, with an error when its
  stream is missing; \<open>Skip\<close> when no entry has it.
\<close>

definition entry_target ::
    "bson_lib \<Rightarrow> 'db mongo_lib \<Rightarrow> (bdoc \<Rightarrow> stream_type \<Rightarrow> error + http_target)
     \<Rightarrow> ('io, 'db, 'a) manager_scheme \<Rightarrow> oid \<Rightarrow> error + http_target" where
  "entry_target B M target s oid =
     (case find_one M STREAMS (by_id oid) s of
        None \<Rightarrow> Inl (ErrText ''Stream type not supported'')
      | Some sdoc \<Rightarrow>
          (case find_utf8 B sdoc ''_cls'' of
             None \<Rightarrow> Inl (ErrText ''Invalid stream'')
           | Some cls \<Rightarrow> target sdoc (MongoStreamType2StreamType cls)))"

fun search_list ::
    "bson_lib \<Rightarrow> 'db mongo_lib \<Rightarrow> (bdoc \<Rightarrow> stream_type \<Rightarrow> error + http_target) \<Rightarrow> string \<Rightarrow> bdoc
     \<Rightarrow> ('io, 'db, 'a) manager_scheme \<Rightarrow> (error + http_target) reading" where
  "search_list B M target sid [] s = Skip"
| "search_list B M target sid (e # ar) s =
     (case open_entry B (snd e) of
        Undef \<Rightarrow> Undef
      | Skip \<Rightarrow> search_list B M target sid ar s
      | Got (oid, iter) \<Rightarrow>
          if ConvertToString B oid = sid then Got (entry_target B M target s oid)
          else search_list B M target sid ar s)"

definition search_user_list ::
    "bson_lib \<Rightarrow> 'db mongo_lib \<Rightarrow> (bdoc \<Rightarrow> stream_type \<Rightarrow> error + http_target) \<Rightarrow> string \<Rightarrow> bdoc
     \<Rightarrow> string \<Rightarrow> ('io, 'db, 'a) manager_scheme \<Rightarrow> (error + http_target) reading" where
  "search_user_list B M target field doc sid s =
     (case find_array B doc field of
        None \<Rightarrow> Skip
      | Some ar \<Rightarrow> search_list B M target sid ar s)"

definition search_streams ::
    "bson_lib \<Rightarrow> fastotv_lib \<Rightarrow> 'db mongo_lib \<Rightarrow> int \<Rightarrow> bdoc \<Rightarrow> string \<Rightarrow> ('io, 'db, 'a) manager_scheme
     \<Rightarrow> (error + http_target) reading" where
  "search_streams B L M cid = search_user_list B M (channel_target B L cid) ''streams''"

definition search_vods ::
    "bson_lib \<Rightarrow> fastotv_lib \<Rightarrow> 'db mongo_lib \<Rightarrow> int \<Rightarrow> bdoc \<Rightarrow> string \<Rightarrow> ('io, 'db, 'a) manager_scheme
     \<Rightarrow> (error + http_target) reading" where
  "search_vods B L M cid = search_user_list B M (vod_target B L cid) ''vods''"

definition search_catchups ::
    "bson_lib \<Rightarrow> fastotv_lib \<Rightarrow> 'db mongo_lib \<Rightarrow> int \<Rightarrow> bdoc \<Rightarrow> string \<Rightarrow> ('io, 'db, 'a) manager_scheme
     \<Rightarrow> (error + http_target) reading" where
  "search_catchups B L M cid = search_user_list B M (catchup_target B L cid) ''catchups''"

definition ClientFindHttpDirectoryOrUrlForChannel ::
    "bson_lib \<Rightarrow> fastotv_lib \<Rightarrow> 'db mongo_lib \<Rightarrow> auth_info \<Rightarrow> string \<Rightarrow> int \<Rightarrow> ('io, 'db, 'a) manager_scheme
     \<Rightarrow> (error + http_target) option" where
  "ClientFindHttpDirectoryOrUrlForChannel B L M auth sid cid s =
     (if \<not> fl_auth_valid L auth \<or> sid = fl_invalid_stream_id L then Some (Inl ErrInval)
      else if \<not> collection_open s SUBSCRIBERS \<or> \<not> collection_open s STREAMS then
        Some (Inl (ErrText ''Not conencted to DB''))
      else case find_one M SUBSCRIBERS (by_email (li_login auth)) s of
        None \<Rightarrow> Some (Inl (ErrText ''User not found''))
      | Some doc \<Rightarrow>
          (case search_streams B L M cid doc sid s of
             Undef \<Rightarrow> None
           | Got r \<Rightarrow> Some r
           | Skip \<Rightarrow>
          (case search_vods B L M cid doc sid s of
             Undef \<Rightarrow> None
           | Got r \<Rightarrow> Some r
           | Skip \<Rightarrow>
          (case search_catchups B L M cid doc sid s of
             Undef \<Rightarrow> None
           | Got r \<Rightarrow> Some r
           | Skip \<Rightarrow> Some (Inl (ErrText ''Stream not found''))))))"

lemmas ClientFindHttpDirectoryOrUrlForChannel_defs =
  ClientFindHttpDirectoryOrUrlForChannel_def search_streams_def search_vods_def search_catchups_def

end
