(* ===== verification/Catchups.thy ===== *)
theory Catchups
  imports User_Store "HOL-Library.Signed_Division"
begin

text \<open>
  Recording a past programme: \<open>CreateCatchup\<close>, \<open>CreateOrFindCatchup\<close> and
  \<open>CreateRequestContent\<close> of \<open>src/mongo/subscribers_manager.cpp\<close> with the functions that build
  the stored document; reading such a document back, and finding it again on the next request.
\<close>

section \<open>Building documents\<close>

text \<open>An array is a document whose keys are the decimal indices.\<close>

definition bson_array :: "bson_lib \<Rightarrow> bval list \<Rightarrow> bval" where
  "bson_array B vs = BArr (map (\<lambda>(i, v). (bl_index B i, v)) (List.enumerate 0 vs))"

definition optional_field :: "string \<Rightarrow> ('x \<Rightarrow> bval) \<Rightarrow> 'x option \<Rightarrow> bdoc" where
  "optional_field k f x = (case x of None \<Rightarrow> [] | Some y \<Rightarrow> [(k, f y)])"

definition input_entry :: "fastotv_lib \<Rightarrow> input_uri \<Rightarrow> bval" where
  "input_entry L iurl = BDoc
     ([(''_cls'', BUtf8 ''pyfastocloud_models.common_entries.InputUrl''),
       (''id'', BInt32 (iu_id iurl)), (''uri'', BUtf8 (fl_url_spec L (iu_url iurl)))]
      @ optional_field ''user_agent'' BInt32 (iu_user_agent iurl))"

definition CreateInputUrl :: "bson_lib \<Rightarrow> fastotv_lib \<Rightarrow> input_uri list \<Rightarrow> bdoc \<Rightarrow> bdoc" where
  "CreateInputUrl B L urls result =
     result @ [(''input'', bson_array B (map (input_entry L) urls))]"

definition output_entry :: "fastotv_lib \<Rightarrow> output_uri \<Rightarrow> bval" where
  "output_entry L out = BDoc
     ([(''_cls'', BUtf8 ''pyfastocloud_models.common_entries.OutputUrl''),
       (''id'', BInt32 (ou_id out)), (''uri'', BUtf8 (fl_url_spec L (ou_url out)))]
      @ optional_field ''http_root'' (\<lambda>root. BUtf8 (fl_dir_path L root)) (ou_http_root out)
      @ optional_field ''hls_type'' BInt32 (ou_hls_type out))"

definition CreateOutputUrl :: "bson_lib \<Rightarrow> fastotv_lib \<Rightarrow> output_uri list \<Rightarrow> bdoc \<Rightarrow> bdoc" where
  "CreateOutputUrl B L urls result =
     result @ [(''output'', bson_array B (map (output_entry L) urls))]"

text \<open>
  The formats \<open>%d/%s/%u\<close> and \<open>http://%s/%s/master.m3u8\<close>; the identifier is printed as an
  unsigned 32-bit number.
\<close>

definition catchup_postfix :: "fastotv_lib \<Rightarrow> string \<Rightarrow> int \<Rightarrow> string" where
  "catchup_postfix L sid i =
     decimal_int (fl_catchup_type L) @ ''/'' @ sid @ ''/'' @ decimal (unat (word_of_int i :: 32 word))"

definition catchup_url :: "host \<Rightarrow> string \<Rightarrow> string" where
  "catchup_url catchup_host postfix_dir =
     ''http://'' @ catchup_host @ ''/'' @ postfix_dir @ ''/master.m3u8''"

definition catchup_output :: "fastotv_lib \<Rightarrow> string \<Rightarrow> host \<Rightarrow> dirpath \<Rightarrow> output_uri \<Rightarrow> output_uri" where
  "catchup_output L sid catchup_host catchups_http_root out =
     (let postfix_dir = catchup_postfix L sid (ou_id out);
          out1 = out\<lparr>ou_url := GURL (catchup_url catchup_host postfix_dir)\<rparr>
      in case fl_sub_dir L catchups_http_root postfix_dir of
           None \<Rightarrow> out1
         | Some cat_dir \<Rightarrow> out1\<lparr>ou_http_root := Some cat_dir\<rparr>)"

definition CreateCatchupOutputUrl ::
    "bson_lib \<Rightarrow> fastotv_lib \<Rightarrow> output_uri list \<Rightarrow> string \<Rightarrow> host \<Rightarrow> dirpath \<Rightarrow> bdoc
     \<Rightarrow> bdoc \<times> output_uri list" where
  "CreateCatchupOutputUrl B L urls sid catchup_host catchups_http_root result =
     (let patched = map (catchup_output L sid catchup_host catchups_http_root) urls
      in (CreateOutputUrl B L patched result, patched))"

definition AddStreamToServer ::
    "'db mongo_lib \<Rightarrow> oid \<Rightarrow> oid \<Rightarrow> ('io, 'db, 'a) manager_scheme
     \<Rightarrow> ('io, 'db, 'a) manager_scheme \<times> error option" where
  "AddStreamToServer M server_oid stream_oid s =
     update_one M SERVERS (by_id server_oid) (push_update ''streams'' (BOid stream_oid)) s"

definition AddContentRequestToUserArray ::
    "'db mongo_lib \<Rightarrow> oid \<Rightarrow> oid \<Rightarrow> ('io, 'db, 'a) manager_scheme
     \<Rightarrow> ('io, 'db, 'a) manager_scheme \<times> error option" where
  "AddContentRequestToUserArray M user_oid request_oid s =
     update_one M SUBSCRIBERS (by_id user_oid) (push_update ''requests'' (BOid request_oid)) s"

section \<open>Catchups\<close>

text \<open>
  The guide data of the catchup and the object that is returned for a new one; the two flags are
  passed with the audio flag first here.
\<close>

definition catchup_epg :: "channel_info \<Rightarrow> string \<Rightarrow> epg_info" where
  "catchup_epg based_on title = (ci_epg based_on)\<lparr>ep_programs := [], ep_display_name := title\<rparr>"

definition catchup_copy :: "fastotv_lib \<Rightarrow> channel_info \<Rightarrow> string \<Rightarrow> int \<Rightarrow> int \<Rightarrow> catchup_info" where
  "catchup_copy L based_on title start stop =
     \<lparr>sb_sid = sb_sid based_on, sb_groups = sb_groups based_on, sb_iarc = sb_iarc based_on,
      sb_favorite = sb_favorite based_on, sb_recent = sb_recent based_on,
      sb_interruption = sb_interruption based_on, sb_flag1 = IsEnableAudio L based_on,
      sb_flag2 = IsEnableVideo L based_on, sb_parts = sb_parts based_on, sb_view_count = 0,
      sb_locked = False, sb_meta = sb_meta based_on, ci_epg = catchup_epg based_on title,
      cu_start = start, cu_stop = stop\<rparr>"

text \<open>
  The search through the parts of the channel: a part is the wanted catchup when its document has
  the title and the times and can be read; otherwise the loop goes on (\<open>Skip\<close>).
\<close>

definition cached_part ::
    "bson_lib \<Rightarrow> fastotv_lib \<Rightarrow> 'db mongo_lib \<Rightarrow> string \<Rightarrow> int \<Rightarrow> int
     \<Rightarrow> ('io, 'db, 'a) manager_scheme \<Rightarrow> string \<Rightarrow> catchup_info reading" where
  "cached_part B L M title start stop s chan =
     (case ConvertFromString B chan of
        None \<Rightarrow> Skip
      | Some sid \<Rightarrow>
          (case find_one M STREAMS (by_id sid) s of
             None \<Rightarrow> Skip
           | Some sdoc \<Rightarrow>
               (case (find_utf8 B sdoc ''name'', find_date B sdoc ''start'', find_date B sdoc ''stop'') of
                  (Some stream_name, Some stream_start, Some stream_stop) \<Rightarrow>
                    if stream_name = title \<and> stream_start = start \<and> stop = stream_stop then
                      (case MakeCatchupInfo B L sdoc CATCHUP new_user_stream_info False of
                         Undef \<Rightarrow> Undef | Skip \<Rightarrow> Skip | Got (orig, visible) \<Rightarrow> Got orig)
                    else Skip
                | _ \<Rightarrow> Skip)))"

fun find_cached ::
    "bson_lib \<Rightarrow> fastotv_lib \<Rightarrow> 'db mongo_lib \<Rightarrow> string \<Rightarrow> int \<Rightarrow> int
     \<Rightarrow> ('io, 'db, 'a) manager_scheme \<Rightarrow> string list \<Rightarrow> catchup_info reading" where
  "find_cached B L M title start stop s [] = Skip"
| "find_cached B L M title start stop s (chan # parts) =
     (case cached_part B L M title start stop s chan of
        Skip \<Rightarrow> find_cached B L M title start stop s parts
      | r \<Rightarrow> r)"

text \<open>
  The stream a catchup is recorded from: its identifier, the server it runs on, and its outputs.
\<close>

definition server_of_stream :: "oid \<Rightarrow> bdoc" where
  "server_of_stream x = [(''streams'', BDoc [(''$elemMatch'', BDoc [(''$eq'', BOid x)])])]"

definition recording_source ::
    "bson_lib \<Rightarrow> fastotv_lib \<Rightarrow> 'db mongo_lib \<Rightarrow> string \<Rightarrow> ('io, 'db, 'a) manager_scheme
     \<Rightarrow> error + oid \<times> oid \<times> output_uri list" where
  "recording_source B L M sid s =
     (if \<not> CatchupEndpointInfo_IsValid L (catchup_endpoint s) then
        Inl (ErrText ''Service not prepared for catchups, skiping request'')
      else case ConvertFromString B sid of
        None \<Rightarrow> Inl (ErrText ''Invalid stream id'')
      | Some bsid \<Rightarrow>
          (case find_one M STREAMS (by_id bsid) s of
             None \<Rightarrow> Inl (ErrText ''Stream not found'')
           | Some sdoc \<Rightarrow>
               (case find_one M SERVERS (server_of_stream bsid) s of
                  None \<Rightarrow> Inl (ErrText ''Server not found'')
                | Some server_sdoc \<Rightarrow>
                    (case find_oid B server_sdoc ''_id'' of
                       None \<Rightarrow> Inl (ErrText ''Invalid stream'')
                     | Some server_oid \<Rightarrow>
                         (case find_utf8 B sdoc ''_cls'' of
                            None \<Rightarrow> Inl (ErrText ''Invalid stream'')
                          | Some cls \<Rightarrow>
                              (case find_array B sdoc ''output'' of
                                 None \<Rightarrow> Inl (ErrText ''Invalid stream'')
                               | Some outs \<Rightarrow>
                                   (case GetOutputUrlData B (BArr outs) of
                                      None \<Rightarrow> Inl (ErrText ''Invalid stream'')
                                    | Some ourls \<Rightarrow> Inr (bsid, server_oid, ourls))))))))"

text \<open>
  The document of a new catchup.  \<open>(stop - start) / 1000\<close> is a 64-bit division that truncates,
  converted to 32 bits.  The groups are stored as an array with one element, \<open>languages\<close>, which
  is the array of the groups.
\<close>

definition auto_exit_time :: "int \<Rightarrow> int \<Rightarrow> int" where
  "auto_exit_time start stop = sint (word_of_int ((stop - start) sdiv 1000) :: 32 word)"

definition catchup_document ::
    "bson_lib \<Rightarrow> fastotv_lib \<Rightarrow> oid \<Rightarrow> int \<Rightarrow> host \<times> dirpath \<Rightarrow> channel_info \<Rightarrow> string \<Rightarrow> int \<Rightarrow> int
     \<Rightarrow> output_uri list \<Rightarrow> bdoc \<times> output_uri list" where
  "catchup_document B L catchupid now endpoint based_on title start stop ourls =
     (let epg = catchup_epg based_on title;
          doc1 =
            [(''_id'', BOid catchupid),
             (''_cls'', BUtf8 ''pyfastocloud_models.stream.entry.CatchupStream''),
             (''created_date'', BDate now),
             (''name'', BUtf8 title),
             (''groups'', BArr [(''languages'', bson_array B (map BUtf8 (sb_groups based_on)))]),
             (''tvg_id'', BUtf8 (ep_tvg_id epg)),
             (''tvg_name'', BUtf8 []),
             (''tvg_logo'', BUtf8 (fl_url_spec L (ep_icon_url epg))),
             (''price'', BDouble 0),
             (''visible'', BBool True),
             (''iarc'', BInt32 (sb_iarc based_on)),
             (''view_count'', BInt32 0),
             (''parts'', BArr [])];
          (doc2, caturls) =
            CreateCatchupOutputUrl B L ourls (ConvertToString B catchupid) (fst endpoint)
              (snd endpoint) doc1;
          doc3 = doc2 @ [(''log_level'', BInt32 (fl_log_level_info L))];
          doc4 = CreateInputUrl B L (map (\<lambda>ourl. fl_new_input L (ou_id ourl) (ou_url ourl)) ourls) doc3;
          doc5 = doc4 @
            [(''have_video'', BBool (IsEnableVideo L based_on)),
             (''have_audio'', BBool (IsEnableAudio L based_on)),
             (''loop'', BBool False),
             (''restart_attempts'', BInt32 10),
             (''auto_exit_time'', BInt32 (auto_exit_time start stop)),
             (''extra_config'', BUtf8 ''{}''),
             (''video_parser'', BUtf8 ''h264parse''),
             (''audio_parser'', BUtf8 ''aacparse''),
             (''timeshift_chunk_duration'', BInt32 12),
             (''timeshift_chunk_life_time'', BInt32 43200),
             (''start'', BDate start),
             (''stop'', BDate stop)]
      in (doc5, caturls))"

text \<open>
  The difference of two 64-bit times overflows outside the range of their type, which is undefined.
\<close>

definition fits64 :: "int \<Rightarrow> bool" where
  "fits64 n \<longleftrightarrow> - (2 ^ 63) \<le> n \<and> n < 2 ^ 63"

definition create_catchup ::
    "bson_lib \<Rightarrow> fastotv_lib \<Rightarrow> 'db mongo_lib \<Rightarrow> int \<Rightarrow> channel_info \<Rightarrow> string \<Rightarrow> int \<Rightarrow> int
     \<Rightarrow> oid \<times> oid \<times> output_uri list \<Rightarrow> ('io, 'db, 'a) manager_scheme
     \<Rightarrow> ('io, 'db, 'a) manager_scheme \<times> (error + string option \<times> catchup_info \<times> bool)" where
  "create_catchup B L M now based_on title start stop src s =
     (let (bsid, server_oid, ourls) = src;
          (catchupid, d1) = mg_new_oid M (db s);
          s1 = s\<lparr>db := d1\<rparr>;
          cid_str = ConvertToString B catchupid;
          (doc, caturls) =
            catchup_document B L catchupid now (catchup_endpoint s) based_on title start stop ourls
      in case insert_one M STREAMS doc s1 of
           (s2, Some err) \<Rightarrow> (s2, Inl err)
         | (s2, None) \<Rightarrow>
             (case update_one M STREAMS (by_id bsid) (push_update ''parts'' (BOid catchupid)) s2 of
                (s3, Some err) \<Rightarrow> (s3, Inl err)
              | (s3, None) \<Rightarrow>
                  (case AddStreamToServer M server_oid catchupid s3 of
                     (s4, Some err) \<Rightarrow> (s4, Inl err)
                   | (s4, None) \<Rightarrow>
                       let epg = (catchup_epg based_on title)\<lparr>ep_urls := MakeUrlsFromOutput caturls\<rparr>;
                           copy = (catchup_copy L based_on title start stop)
                                    \<lparr>ci_epg := epg, sb_sid := cid_str\<rparr>
                       in (s4, Inr (Some (ConvertToString B server_oid), copy, True)))))"

text \<open>
  The result: the server identifier (left alone when the catchup is cached), the catchup and
  \<open>is_created\<close>.
\<close>

definition CreateOrFindCatchup ::
    "bson_lib \<Rightarrow> fastotv_lib \<Rightarrow> 'db mongo_lib \<Rightarrow> int \<Rightarrow> channel_info \<Rightarrow> string \<Rightarrow> int \<Rightarrow> int
     \<Rightarrow> ('io, 'db, 'a) manager_scheme
     \<Rightarrow> (('io, 'db, 'a) manager_scheme \<times> (error + string option \<times> catchup_info \<times> bool)) option" where
  "CreateOrFindCatchup B L M now based_on title start stop s =
     (case find_cached B L M title start stop s (sb_parts based_on) of
        Undef \<Rightarrow> None
      | Got orig \<Rightarrow> Some (s, Inr (None, orig, False))
      | Skip \<Rightarrow>
          (case recording_source B L M (sb_sid based_on) s of
             Inl err \<Rightarrow> Some (s, Inl err)
           | Inr src \<Rightarrow>
               if \<not> fits64 (stop - start) then None
               else Some (create_catchup B L M now based_on title start stop src s)))"

definition CreateCatchup ::
    "bson_lib \<Rightarrow> fastotv_lib \<Rightarrow> 'db mongo_lib \<Rightarrow> int \<Rightarrow> server_db_auth \<Rightarrow> string \<Rightarrow> string \<Rightarrow> int \<Rightarrow> int
     \<Rightarrow> ('io, 'db, 'a) manager_scheme
     \<Rightarrow> (('io, 'db, 'a) manager_scheme \<times> (error + string option \<times> catchup_info \<times> bool)) option" where
  "CreateCatchup B L M now auth sid title start stop s =
     (if \<not> ServerDBAuthInfo_IsValid L auth \<or> sid = fl_invalid_stream_id L then Some (s, Inl ErrInval)
      else if \<not> collection_open s SUBSCRIBERS \<or> \<not> collection_open s STREAMS \<or> \<not> collection_open s SERVERS
      then Some (s, Inl (ErrText ''Not conencted to DB''))
      else case FindStream B L M auth sid s of
        None \<Rightarrow> None
      | Some (Inl err) \<Rightarrow> Some (s, Inl err)
      | Some (Inr ch) \<Rightarrow> CreateOrFindCatchup B L M now ch title start stop s)"

section \<open>Content requests\<close>

text \<open>
  The pointers \<open>requests_\<close> and \<open>subscribers_\<close> are not checked here; a call on a null collection
  is undefined.
\<close>

definition request_document :: "oid \<Rightarrow> create_request \<Rightarrow> bdoc" where
  "request_document requestid request =
     [(''_id'', BOid requestid), (''title'', BUtf8 (cq_text request)),
      (''_cls'', BUtf8 ''pyfastocloud_models.content_request.entry.ContentRequest''),
      (''status'', BInt32 (cq_status request)), (''type'', BInt32 (cq_type request))]"

definition CreateRequestContent ::
    "bson_lib \<Rightarrow> fastotv_lib \<Rightarrow> 'db mongo_lib \<Rightarrow> server_db_auth \<Rightarrow> create_request
     \<Rightarrow> ('io, 'db, 'a) manager_scheme
     \<Rightarrow> (('io, 'db, 'a) manager_scheme \<times> (error + content_request_info)) option" where
  "CreateRequestContent B L M auth request s =
     (if \<not> ServerDBAuthInfo_IsValid L auth then Some (s, Inl ErrInval)
      else case ConvertFromString B (db_uid auth) of
        None \<Rightarrow> Some (s, Inl (ErrText ''Invalid user id''))
      | Some oid \<Rightarrow>
          if \<not> collection_open s REQUESTS then None
          else
          let (requestid, d1) = mg_new_oid M (db s);
              s1 = s\<lparr>db := d1\<rparr>;
              cid_str = ConvertToString B requestid
          in (case insert_one M REQUESTS (request_document requestid request) s1 of
                (s2, Some err) \<Rightarrow> Some (s2, Inl err)
              | (s2, None) \<Rightarrow>
                  if \<not> collection_open s SUBSCRIBERS then None
                  else (case AddContentRequestToUserArray M oid requestid s2 of
                          (s3, Some err) \<Rightarrow> Some (s3, Inl err)
                        | (s3, None) \<Rightarrow>
                            Some (s3, Inr \<lparr>cr_id = cid_str, cr_text = cq_text request,
                                           cr_type = cq_type request, cr_status = cq_status request\<rparr>))))"

end
