(* ===== verification/Subscribers_Handler.thy ===== *)
theory Subscribers_Handler
  imports Channels Catchups
begin

text \<open>
  The server of the subscribers (\<open>src/subscribers/handler.cpp\<close>): what it does when a connection is
  accepted, moved or closed, when the ping timer fires, and for each request and response of a
  client.  The state is the one of the subscribers manager, extended by the members of the handler.
\<close>

section \<open>State and surroundings\<close>

text \<open>
  \<open>notices\<close> is what \<open>observer_\<close> has been told, \<open>attached\<close> tells whether there is one;
  \<open>ping_timer\<close> is \<open>ping_client_id_timer_\<close>.
\<close>

datatype notice =
    CatchupCreated "string option" catchup_info
  | ContentRequestCreated content_request_info

record ('io, 'db) sub_handler = "('io, 'db) manager" +
  online_clients :: online_clients_t
  ping_timer :: int
  attached :: bool
  notices :: "notice list"

text \<open>
  The methods of \<open>fastotv::server::Client\<close> that answer a client, as the answers they send.
\<close>

datatype reply =
    ActivateDeviceFail error
  | ActivateDeviceSuccess "device_info list"
  | LoginFail error
  | LoginSuccess server_db_auth
  | CheckLoginFail error
  | Pong
  | GetServerInfoSuccess gurl string
  | GetChannelsFail error
  | GetChannelsSuccess channels_answer
  | GetRuntimeChannelInfoSuccess string nat
  | GetFavoriteInfoSuccess
  | GetRecentInfoSuccess
  | GetInterruptStreamTimeInfoSuccess
  | CatchupGenerateFail error
  | CatchupGenerateSuccess catchup_info
  | CatchupUndoFail error
  | CatchupUndoSuccess
  | ContentRequestFail error
  | ContentRequestSuccess

text \<open>
  The network calls on a client: sending an answer, \<open>Ping\<close>, \<open>GetClientInfo\<close>, closing the socket,
  \<open>ReadCommand\<close>, \<open>PopRequestByID\<close> (the method of the request and whether it has a callback) and
  the callback; and the timers of the loop.
\<close>

record rpc_response =
  rs_id :: "string option"
  rs_result :: "string option"

record 'io server_io =
  sv_reply :: "'io \<Rightarrow> ptr \<Rightarrow> string option \<Rightarrow> reply \<Rightarrow> 'io \<times> errno option"
  sv_ping :: "'io \<Rightarrow> ptr \<Rightarrow> 'io \<times> errno option"
  sv_get_client_info :: "'io \<Rightarrow> ptr \<Rightarrow> 'io \<times> errno option"
  sv_close :: "'io \<Rightarrow> ptr \<Rightarrow> 'io"
  sv_read_command :: "'io \<Rightarrow> ptr \<Rightarrow> 'io \<times> (errno + string)"
  sv_pop_request :: "'io \<Rightarrow> ptr \<Rightarrow> string option \<Rightarrow> 'io \<times> (string \<times> bool) option"
  sv_callback :: "'io \<Rightarrow> ptr \<Rightarrow> rpc_response \<Rightarrow> 'io"
  sv_create_timer :: "'io \<Rightarrow> nat \<Rightarrow> bool \<Rightarrow> int \<times> 'io"
  sv_remove_timer :: "'io \<Rightarrow> int \<Rightarrow> 'io"

text \<open>
  The protocol library: the parser of commands, \<open>IsRequest\<close>, the names of the methods, the
  invalid timer and the deserialisation of the parameters, which fails when the text is not JSON
  or when the object is not the wanted one.
\<close>

datatype client_method =
    CLIENT_ACTIVATE_DEVICE | CLIENT_LOGIN | CLIENT_PING | CLIENT_GET_SERVER_INFO | CLIENT_GET_CHANNELS
  | CLIENT_GET_RUNTIME_CHANNEL_INFO | CLIENT_SET_FAVORITE | CLIENT_SET_RECENT
  | CLIENT_INTERRUPT_STREAM_TIME | CLIENT_REQUEST_CATCHUP | CLIENT_REQUEST_UNDO_CATCHUP
  | CLIENT_REQUEST_CONTENT

datatype server_method = SERVER_PING | SERVER_GET_CLIENT_INFO | SERVER_TEXT_NOTIFICATION

datatype 'a parsed = NoJson | BadInfo error | Parsed 'a

record rpc_lib =
  rl_parse :: "string \<Rightarrow> error + rpc_request option \<times> rpc_response option"
  rl_is_request :: "rpc_request \<Rightarrow> bool"
  rl_client_method :: "string \<Rightarrow> client_method option"
  rl_server_method :: "string \<Rightarrow> server_method option"
  rl_invalid_timer :: int
  rl_login_info :: "string \<Rightarrow> login_info parsed"
  rl_auth_info :: "string \<Rightarrow> auth_info parsed"
  rl_ping_info :: "string \<Rightarrow> unit parsed"
  rl_runtime_info :: "string \<Rightarrow> string parsed"
  rl_favorite_info :: "string \<Rightarrow> (string \<times> bool) parsed"
  rl_recent_info :: "string \<Rightarrow> (string \<times> int) parsed"
  rl_interrupt_info :: "string \<Rightarrow> (string \<times> int) parsed"
  rl_catchup_info :: "string \<Rightarrow> (string \<times> string \<times> int \<times> int) parsed"
  rl_undo_info :: "string \<Rightarrow> string parsed"
  rl_content_info :: "string \<Rightarrow> create_request parsed"
  rl_client_info :: "string \<Rightarrow> string parsed"

text \<open>The surroundings of a handler: the libraries, and the two members that never change.\<close>

record ('io, 'db) env =
  env_bson :: bson_lib
  env_lib :: fastotv_lib
  env_mongo :: "'db mongo_lib"
  env_rpc :: rpc_lib
  env_io :: "'io server_io"
  env_epg_url :: gurl
  env_locked_text :: string

type_synonym ('io, 'db, 'a) handled = "(('io, 'db, 'a) sub_handler_scheme \<times> errno option) option"

section \<open>The loop\<close>

definition SubscribersHandler_new :: "rpc_lib \<Rightarrow> bool \<Rightarrow> ('io, 'db) manager \<Rightarrow> ('io, 'db) sub_handler" where
  "SubscribersHandler_new R observed m =
     manager.extend m
       \<lparr>online_clients = IServerHandler_init, ping_timer = rl_invalid_timer R, attached = observed,
        notices = []\<rparr>"

definition PreLooped ::
    "('io, 'db) env \<Rightarrow> ('io, 'db, 'a) sub_handler_scheme \<Rightarrow> ('io, 'db, 'a) sub_handler_scheme" where
  "PreLooped E s =
     (let (t, w) = sv_create_timer (env_io E) (io s) 60 True in s\<lparr>ping_timer := t, io := w\<rparr>)"

definition Accepted :: "('io, 'db, 'a) sub_handler_scheme \<Rightarrow> ('io, 'db, 'a) sub_handler_scheme" where
  "Accepted s = s\<lparr>online_clients := IServerHandler_Accepted (online_clients s)\<rparr>"

definition Moved :: "('io, 'db, 'a) sub_handler_scheme \<Rightarrow> ('io, 'db, 'a) sub_handler_scheme" where
  "Moved s = s\<lparr>online_clients := IServerHandler_Moved (online_clients s)\<rparr>"

text \<open>An error of the unregistration changes nothing: both branches call the base class.\<close>

definition Closed ::
    "ptr \<Rightarrow> ('io, 'db, 'a) sub_handler_scheme \<Rightarrow> ('io, 'db, 'a) sub_handler_scheme option" where
  "Closed client s =
     (case UnRegisterInnerConnectionByHost client s of
        None \<Rightarrow> None
      | Some (s1, Some unreg_err) \<Rightarrow> Some (s1\<lparr>online_clients := IServerHandler_Closed (online_clients s1)\<rparr>)
      | Some (s1, None) \<Rightarrow> Some (s1\<lparr>online_clients := IServerHandler_Closed (online_clients s1)\<rparr>))"

text \<open>
  \<open>ignore_result(client->Close()); delete client;\<close>.  Closing a client takes it out of the loop,
  which calls \<open>Closed\<close>, and closes the socket.
\<close>

definition drop_client ::
    "('io, 'db) env \<Rightarrow> ptr \<Rightarrow> ('io, 'db, 'a) sub_handler_scheme \<Rightarrow> ('io, 'db, 'a) sub_handler_scheme option" where
  "drop_client E client s =
     (case Closed client s of
        None \<Rightarrow> None
      | Some s1 \<Rightarrow> Some (free_client client (s1\<lparr>io := sv_close (env_io E) (io s1) client\<rparr>)))"

definition send ::
    "('io, 'db) env \<Rightarrow> ptr \<Rightarrow> rpc_request \<Rightarrow> reply \<Rightarrow> ('io, 'db, 'a) sub_handler_scheme
     \<Rightarrow> ('io, 'db, 'a) sub_handler_scheme \<times> errno option" where
  "send E client req r s =
     (let (w, e) = sv_reply (env_io E) (io s) client (rq_id req) r in (s\<lparr>io := w\<rparr>, e))"

definition ping_client ::
    "('io, 'db) env \<Rightarrow> ptr \<Rightarrow> ('io, 'db, 'a) sub_handler_scheme \<Rightarrow> ('io, 'db, 'a) sub_handler_scheme option" where
  "ping_client E client s =
     (if client = nullptr then Some s
      else case heap s client of
        None \<Rightarrow> None
      | Some iclient \<Rightarrow>
          (case sv_ping (env_io E) (io s) client of
             (w, Some err) \<Rightarrow> drop_client E client (s\<lparr>io := w\<rparr>)
           | (w, None) \<Rightarrow>
               (case co_login iclient of
                  Some user_auth \<Rightarrow>
                    (case co_info iclient of
                       None \<Rightarrow> Some (s\<lparr>io := fst (sv_get_client_info (env_io E) w client)\<rparr>)
                     | Some client_info \<Rightarrow> Some (s\<lparr>io := w\<rparr>))
                | None \<Rightarrow> Some (s\<lparr>io := w\<rparr>))))"

definition TimerEmited ::
    "('io, 'db) env \<Rightarrow> ptr list \<Rightarrow> int \<Rightarrow> ('io, 'db, 'a) sub_handler_scheme
     \<Rightarrow> ('io, 'db, 'a) sub_handler_scheme option" where
  "TimerEmited E clients tid s =
     (if ping_timer s = tid then opt_fold (ping_client E) clients s else Some s)"

definition PostLooped ::
    "('io, 'db) env \<Rightarrow> ('io, 'db, 'a) sub_handler_scheme \<Rightarrow> ('io, 'db, 'a) sub_handler_scheme" where
  "PostLooped E s =
     (if ping_timer s \<noteq> rl_invalid_timer (env_rpc E) then
        s\<lparr>io := sv_remove_timer (env_io E) (io s) (ping_timer s),
          ping_timer := rl_invalid_timer (env_rpc E)\<rparr>
      else s)"

section \<open>Requests\<close>

text \<open>The check that most requests begin with.\<close>

definition logged_in ::
    "('io, 'db) env \<Rightarrow> ptr \<Rightarrow> rpc_request
     \<Rightarrow> (server_db_auth \<Rightarrow> ('io, 'db, 'a) sub_handler_scheme \<Rightarrow> ('io, 'db, 'a) handled)
     \<Rightarrow> ('io, 'db, 'a) sub_handler_scheme \<Rightarrow> ('io, 'db, 'a) handled" where
  "logged_in E client req k s =
     (case CheckIsLoginClient client s of
        None \<Rightarrow> None
      | Some (Inl err) \<Rightarrow>
          (case drop_client E client (fst (send E client req (CheckLoginFail err) s)) of
             None \<Rightarrow> None
           | Some s1 \<Rightarrow> Some (s1, Some (ErrnoDesc err EINVAL)))
      | Some (Inr auth) \<Rightarrow> k auth s)"

text \<open>The parameters of a request; \<open>bad\<close> is the branch for an object that is not the wanted one.\<close>

definition with_params ::
    "('io, 'db) env \<Rightarrow> (string \<Rightarrow> 'p parsed) \<Rightarrow> rpc_request
     \<Rightarrow> (error \<Rightarrow> ('io, 'db, 'a) sub_handler_scheme \<Rightarrow> ('io, 'db, 'a) handled)
     \<Rightarrow> ('p \<Rightarrow> ('io, 'db, 'a) sub_handler_scheme \<Rightarrow> ('io, 'db, 'a) handled)
     \<Rightarrow> ('io, 'db, 'a) sub_handler_scheme \<Rightarrow> ('io, 'db, 'a) handled" where
  "with_params E prs req bad k s =
     (if \<not> rl_is_request (env_rpc E) req then Some (s, Some ErrnoInval)
      else case rq_params req of
        None \<Rightarrow> Some (s, Some ErrnoInval)
      | Some params \<Rightarrow>
          (case prs params of
             NoJson \<Rightarrow> Some (s, Some ErrnoInval)
           | BadInfo err \<Rightarrow> bad err s
           | Parsed x \<Rightarrow> k x s))"

definition bad_params :: "error \<Rightarrow> ('io, 'db, 'a) sub_handler_scheme \<Rightarrow> ('io, 'db, 'a) handled" where
  "bad_params err s = Some (s, Some (ErrnoDesc err EAGAIN))"

definition HandleRequestClientActivate ::
    "('io, 'db) env \<Rightarrow> ptr \<Rightarrow> rpc_request \<Rightarrow> ('io, 'db, 'a) sub_handler_scheme \<Rightarrow> ('io, 'db, 'a) handled" where
  "HandleRequestClientActivate E client req =
     with_params E (rl_login_info (env_rpc E)) req
       (\<lambda>err s. Some (fst (send E client req (ActivateDeviceFail err) s), Some (ErrnoDesc err EINVAL)))
       (\<lambda>uauth s.
          case ClientActivate (env_bson E) (env_lib E) (env_mongo E) uauth s of
            Inl err \<Rightarrow>
              Some (fst (send E client req (ActivateDeviceFail err) s), Some (ErrnoDesc err EINVAL))
          | Inr devices \<Rightarrow> Some (fst (send E client req (ActivateDeviceSuccess devices) s), None))"

definition HandleRequestClientLogin ::
    "('io, 'db) env \<Rightarrow> int \<Rightarrow> ptr \<Rightarrow> rpc_request \<Rightarrow> ('io, 'db, 'a) sub_handler_scheme \<Rightarrow> ('io, 'db, 'a) handled" where
  "HandleRequestClientLogin E now client req =
     with_params E (rl_auth_info (env_rpc E)) req
       (\<lambda>err s. Some (fst (send E client req (LoginFail err) s), Some (ErrnoDesc err EINVAL)))
       (\<lambda>uauth s.
          case ClientLogin (env_bson E) (env_lib E) (env_mongo E) now uauth s of
            None \<Rightarrow> None
          | Some (s1, Inl err) \<Rightarrow>
              Some (fst (send E client req (LoginFail err) s1), Some (ErrnoDesc err EINVAL))
          | Some (s1, Inr ser) \<Rightarrow>
              (case send E client req (LoginSuccess ser) s1 of
                 (s2, Some errn) \<Rightarrow> Some (s2, Some errn)
               | (s2, None) \<Rightarrow>
                   (case RegisterInnerConnectionByHost (env_lib E) client ser s2 of
                      None \<Rightarrow> None
                    | Some (s3, err) \<Rightarrow> Some (s3, None))))"

definition HandleRequestClientPing ::
    "('io, 'db) env \<Rightarrow> ptr \<Rightarrow> rpc_request \<Rightarrow> ('io, 'db, 'a) sub_handler_scheme \<Rightarrow> ('io, 'db, 'a) handled" where
  "HandleRequestClientPing E client req =
     logged_in E client req (\<lambda>user.
       with_params E (rl_ping_info (env_rpc E)) req bad_params
         (\<lambda>ping_info s. Some (send E client req Pong s)))"

definition HandleRequestClientGetServerInfo ::
    "('io, 'db) env \<Rightarrow> ptr \<Rightarrow> rpc_request \<Rightarrow> ('io, 'db, 'a) sub_handler_scheme \<Rightarrow> ('io, 'db, 'a) handled" where
  "HandleRequestClientGetServerInfo E client req =
     logged_in E client req (\<lambda>user s.
       Some (send E client req (GetServerInfoSuccess (env_epg_url E) (env_locked_text E)) s))"

definition HandleRequestClientGetChannels ::
    "('io, 'db) env \<Rightarrow> ptr \<Rightarrow> rpc_request \<Rightarrow> ('io, 'db, 'a) sub_handler_scheme \<Rightarrow> ('io, 'db, 'a) handled" where
  "HandleRequestClientGetChannels E client req =
     logged_in E client req (\<lambda>auth s.
       case ClientGetChannels (env_bson E) (env_lib E) (env_mongo E) (auth_info.truncate auth) s of
         None \<Rightarrow> None
       | Some (Inl err) \<Rightarrow>
           Some (fst (send E client req (GetChannelsFail err) s), Some (ErrnoDesc err EINVAL))
       | Some (Inr ans) \<Rightarrow> Some (send E client req (GetChannelsSuccess ans) s))"

definition HandleRequestClientGetRuntimeChannelInfo ::
    "('io, 'db) env \<Rightarrow> ptr \<Rightarrow> rpc_request \<Rightarrow> ('io, 'db, 'a) sub_handler_scheme \<Rightarrow> ('io, 'db, 'a) handled" where
  "HandleRequestClientGetRuntimeChannelInfo E client req =
     logged_in E client req (\<lambda>auth.
       with_params E (rl_runtime_info (env_rpc E)) req bad_params
         (\<lambda>sid s.
            case GetAndUpdateOnlineUserByStreamID sid s of
              None \<Rightarrow> None
            | Some watchers \<Rightarrow>
                (case heap s client of
                   None \<Rightarrow> None
                 | Some c \<Rightarrow>
                     let s1 = s\<lparr>heap := (heap s)(client \<mapsto> SetCurrentStreamID sid c)\<rparr>
                     in Some (send E client req (GetRuntimeChannelInfoSuccess sid watchers) s1))))"

text \<open>
  The marks are set for the login of the connection, \<open>*client->GetLogin()\<close>; the error of the
  manager is ignored.
\<close>

definition with_login ::
    "ptr \<Rightarrow> (server_db_auth \<Rightarrow> ('io, 'db, 'a) sub_handler_scheme \<Rightarrow> ('io, 'db, 'a) handled)
     \<Rightarrow> ('io, 'db, 'a) sub_handler_scheme \<Rightarrow> ('io, 'db, 'a) handled" where
  "with_login client k s =
     (case heap s client of
        None \<Rightarrow> None
      | Some c \<Rightarrow> (case co_login c of None \<Rightarrow> None | Some login \<Rightarrow> k login s))"

definition HandleRequestClientSetFavorite ::
    "('io, 'db) env \<Rightarrow> ptr \<Rightarrow> rpc_request \<Rightarrow> ('io, 'db, 'a) sub_handler_scheme \<Rightarrow> ('io, 'db, 'a) handled" where
  "HandleRequestClientSetFavorite E client req =
     logged_in E client req (\<lambda>auth.
       with_params E (rl_favorite_info (env_rpc E)) req bad_params
         (\<lambda>(channel, favorite). with_login client (\<lambda>login s.
            let s1 = fst (SetFavorite (env_bson E) (env_lib E) (env_mongo E) login channel favorite s)
            in Some (send E client req GetFavoriteInfoSuccess s1))))"

definition HandleRequestClientSetRecent ::
    "('io, 'db) env \<Rightarrow> ptr \<Rightarrow> rpc_request \<Rightarrow> ('io, 'db, 'a) sub_handler_scheme \<Rightarrow> ('io, 'db, 'a) handled" where
  "HandleRequestClientSetRecent E client req =
     logged_in E client req (\<lambda>auth.
       with_params E (rl_recent_info (env_rpc E)) req bad_params
         (\<lambda>(channel, timestamp). with_login client (\<lambda>login s.
            let s1 = fst (SetRecent (env_bson E) (env_lib E) (env_mongo E) login channel timestamp s)
            in Some (send E client req GetRecentInfoSuccess s1))))"

definition HandleRequestInterruptStreamTime ::
    "('io, 'db) env \<Rightarrow> ptr \<Rightarrow> rpc_request \<Rightarrow> ('io, 'db, 'a) sub_handler_scheme \<Rightarrow> ('io, 'db, 'a) handled" where
  "HandleRequestInterruptStreamTime E client req =
     logged_in E client req (\<lambda>auth.
       with_params E (rl_interrupt_info (env_rpc E)) req bad_params
         (\<lambda>(channel, time). with_login client (\<lambda>login s.
            let s1 = fst (SetInterruptTime (env_bson E) (env_lib E) (env_mongo E) login channel time s)
            in Some (send E client req GetInterruptStreamTimeInfoSuccess s1))))"

text \<open>
  The server identifier is empty when the catchup exists already; then the observer is not told.
\<close>

definition tell ::
    "notice \<Rightarrow> ('io, 'db, 'a) sub_handler_scheme \<Rightarrow> ('io, 'db, 'a) sub_handler_scheme" where
  "tell n s = (if attached s then s\<lparr>notices := notices s @ [n]\<rparr> else s)"

definition HandleRequestGenerateCatchup ::
    "('io, 'db) env \<Rightarrow> int \<Rightarrow> ptr \<Rightarrow> rpc_request \<Rightarrow> ('io, 'db, 'a) sub_handler_scheme \<Rightarrow> ('io, 'db, 'a) handled" where
  "HandleRequestGenerateCatchup E now client req =
     logged_in E client req (\<lambda>auth.
       with_params E (rl_catchup_info (env_rpc E)) req bad_params
         (\<lambda>(sid, title, start, stop) s.
            case CreateCatchup (env_bson E) (env_lib E) (env_mongo E) now auth sid title start stop s of
              None \<Rightarrow> None
            | Some (s1, Inl err) \<Rightarrow>
                Some (fst (send E client req (CatchupGenerateFail err) s1), Some (ErrnoDesc err EAGAIN))
            | Some (s1, Inr (serverid, chan, is_created)) \<Rightarrow>
                (case AddUserCatchup (env_bson E) (env_lib E) (env_mongo E) auth (sb_sid chan) s1 of
                   (s2, Some err) \<Rightarrow>
                     Some (fst (send E client req (CatchupGenerateFail err) s2), Some (ErrnoDesc err EAGAIN))
                 | (s2, None) \<Rightarrow>
                     let s3 = (if is_created then tell (CatchupCreated serverid chan) s2 else s2)
                     in Some (send E client req (CatchupGenerateSuccess chan) s3))))"

definition HandleRequestUndoCatchup ::
    "('io, 'db) env \<Rightarrow> ptr \<Rightarrow> rpc_request \<Rightarrow> ('io, 'db, 'a) sub_handler_scheme \<Rightarrow> ('io, 'db, 'a) handled" where
  "HandleRequestUndoCatchup E client req =
     logged_in E client req (\<lambda>auth.
       with_params E (rl_undo_info (env_rpc E)) req bad_params
         (\<lambda>sid s.
            case RemoveUserCatchup (env_bson E) (env_lib E) (env_mongo E) auth sid s of
              (s1, Some err) \<Rightarrow>
                Some (fst (send E client req (CatchupUndoFail err) s1), Some (ErrnoDesc err EAGAIN))
            | (s1, None) \<Rightarrow> Some (send E client req CatchupUndoSuccess s1)))"

definition HandleRequestContent ::
    "('io, 'db) env \<Rightarrow> ptr \<Rightarrow> rpc_request \<Rightarrow> ('io, 'db, 'a) sub_handler_scheme \<Rightarrow> ('io, 'db, 'a) handled" where
  "HandleRequestContent E client req =
     logged_in E client req (\<lambda>auth.
       with_params E (rl_content_info (env_rpc E)) req bad_params
         (\<lambda>request s.
            case CreateRequestContent (env_bson E) (env_lib E) (env_mongo E) auth request s of
              None \<Rightarrow> None
            | Some (s1, Inl err) \<Rightarrow>
                Some (fst (send E client req (ContentRequestFail err) s1), Some (ErrnoDesc err EAGAIN))
            | Some (s1, Inr cont) \<Rightarrow>
                Some (send E client req ContentRequestSuccess (tell (ContentRequestCreated cont) s1))))"

text \<open>The chain of comparisons of the method; an unknown command is only logged.\<close>

definition HandleRequestCommand ::
    "('io, 'db) env \<Rightarrow> int \<Rightarrow> ptr \<Rightarrow> rpc_request \<Rightarrow> ('io, 'db, 'a) sub_handler_scheme \<Rightarrow> ('io, 'db, 'a) handled" where
  "HandleRequestCommand E now client req s =
     (case rl_client_method (env_rpc E) (rq_method req) of
        None \<Rightarrow> Some (s, None)
      | Some m \<Rightarrow>
          (case m of
             CLIENT_ACTIVATE_DEVICE \<Rightarrow> HandleRequestClientActivate E client req s
           | CLIENT_LOGIN \<Rightarrow> HandleRequestClientLogin E now client req s
           | CLIENT_PING \<Rightarrow> HandleRequestClientPing E client req s
           | CLIENT_GET_SERVER_INFO \<Rightarrow> HandleRequestClientGetServerInfo E client req s
           | CLIENT_GET_CHANNELS \<Rightarrow> HandleRequestClientGetChannels E client req s
           | CLIENT_GET_RUNTIME_CHANNEL_INFO \<Rightarrow> HandleRequestClientGetRuntimeChannelInfo E client req s
           | CLIENT_SET_FAVORITE \<Rightarrow> HandleRequestClientSetFavorite E client req s
           | CLIENT_SET_RECENT \<Rightarrow> HandleRequestClientSetRecent E client req s
           | CLIENT_INTERRUPT_STREAM_TIME \<Rightarrow> HandleRequestInterruptStreamTime E client req s
           | CLIENT_REQUEST_CATCHUP \<Rightarrow> HandleRequestGenerateCatchup E now client req s
           | CLIENT_REQUEST_UNDO_CATCHUP \<Rightarrow> HandleRequestUndoCatchup E client req s
           | CLIENT_REQUEST_CONTENT \<Rightarrow> HandleRequestContent E client req s))"

section \<open>Responses\<close>

definition HandleResponceServerPing ::
    "('io, 'db) env \<Rightarrow> rpc_response \<Rightarrow> ('io, 'db, 'a) sub_handler_scheme \<Rightarrow> ('io, 'db, 'a) handled" where
  "HandleResponceServerPing E resp s =
     (case rs_result resp of
        None \<Rightarrow> Some (s, None)
      | Some params \<Rightarrow>
          (case rl_ping_info (env_rpc E) params of
             NoJson \<Rightarrow> Some (s, Some ErrnoInval)
           | BadInfo err_des \<Rightarrow> bad_params err_des s
           | Parsed client_ping_info \<Rightarrow> Some (s, None)))"

definition HandleResponceServerGetClientInfo ::
    "('io, 'db) env \<Rightarrow> ptr \<Rightarrow> rpc_response \<Rightarrow> ('io, 'db, 'a) sub_handler_scheme \<Rightarrow> ('io, 'db, 'a) handled" where
  "HandleResponceServerGetClientInfo E client resp s =
     (case rs_result resp of
        None \<Rightarrow> Some (s, None)
      | Some params \<Rightarrow>
          (case rl_client_info (env_rpc E) params of
             NoJson \<Rightarrow> Some (s, Some ErrnoInval)
           | BadInfo err_des \<Rightarrow> bad_params err_des s
           | Parsed cinf \<Rightarrow>
               (case heap s client of
                  None \<Rightarrow> None
                | Some c \<Rightarrow> Some (s\<lparr>heap := (heap s)(client \<mapsto> SetClInfo (Some cinf) c)\<rparr>, None))))"

definition HandleResponceServerTextNotification ::
    "rpc_response \<Rightarrow> ('io, 'db, 'a) sub_handler_scheme \<Rightarrow> ('io, 'db, 'a) handled" where
  "HandleResponceServerTextNotification resp s =
     (case rs_result resp of Some r \<Rightarrow> Some (s, None) | None \<Rightarrow> Some (s, None))"

text \<open>
  The two warnings print \<open>*sid\<close>; for a response without an identifier this reads an empty optional.
\<close>

definition warn_id :: "rpc_response \<Rightarrow> ('io, 'db, 'a) sub_handler_scheme \<Rightarrow> ('io, 'db, 'a) handled" where
  "warn_id resp s = (case rs_id resp of None \<Rightarrow> None | Some sid \<Rightarrow> Some (s, None))"

definition HandleResponceCommand ::
    "('io, 'db) env \<Rightarrow> ptr \<Rightarrow> rpc_response \<Rightarrow> ('io, 'db, 'a) sub_handler_scheme \<Rightarrow> ('io, 'db, 'a) handled" where
  "HandleResponceCommand E client resp s =
     (case sv_pop_request (env_io E) (io s) client (rs_id resp) of
        (w, Some (meth, cb)) \<Rightarrow>
          let s1 = s\<lparr>io := (if cb then sv_callback (env_io E) w client resp else w)\<rparr> in
          (case rl_server_method (env_rpc E) meth of
             Some SERVER_PING \<Rightarrow> HandleResponceServerPing E resp s1
           | Some SERVER_GET_CLIENT_INFO \<Rightarrow> HandleResponceServerGetClientInfo E client resp s1
           | Some SERVER_TEXT_NOTIFICATION \<Rightarrow> HandleResponceServerTextNotification resp s1
           | None \<Rightarrow> warn_id resp s1)
      | (w, None) \<Rightarrow> warn_id resp (s\<lparr>io := w\<rparr>))"

section \<open>Data\<close>

text \<open>An error of a handler is only logged.  \<open>DNOTREACHED\<close> is the branch of a debug build.\<close>

definition HandleInnerDataReceived ::
    "('io, 'db) env \<Rightarrow> int \<Rightarrow> ptr \<Rightarrow> string \<Rightarrow> ('io, 'db, 'a) sub_handler_scheme \<Rightarrow> ('io, 'db, 'a) handled" where
  "HandleInnerDataReceived E now client input_command s =
     (case rl_parse (env_rpc E) input_command of
        Inl err_parse \<Rightarrow> Some (s, Some (ErrnoDesc err_parse EAGAIN))
      | Inr (Some req, resp) \<Rightarrow>
          (case HandleRequestCommand E now client req s of
             None \<Rightarrow> None
           | Some (s1, err) \<Rightarrow> Some (s1, None))
      | Inr (None, Some resp) \<Rightarrow>
          (case HandleResponceCommand E client resp s of
             None \<Rightarrow> None
           | Some (s1, err) \<Rightarrow> Some (s1, None))
      | Inr (None, None) \<Rightarrow> Some (s, Some (ErrnoText ''Invalid command type'' EINVAL)))"

definition DataReceived ::
    "('io, 'db) env \<Rightarrow> int \<Rightarrow> ptr \<Rightarrow> ('io, 'db, 'a) sub_handler_scheme
     \<Rightarrow> ('io, 'db, 'a) sub_handler_scheme option" where
  "DataReceived E now client s =
     (case sv_read_command (env_io E) (io s) client of
        (w, Inl err) \<Rightarrow> drop_client E client (s\<lparr>io := w\<rparr>)
      | (w, Inr buff) \<Rightarrow>
          (case HandleInnerDataReceived E now client buff (s\<lparr>io := w\<rparr>) of
             None \<Rightarrow> None
           | Some (s1, err) \<Rightarrow> Some s1))"

end
