(* ===== verification/Serving.thy ===== *)
theory Serving
  imports Subscribers_Handler Login "HOL-Library.Sublist"
begin

text \<open>
  The server of the subscribers at work: what a request may change, the gate before every request
  but the login and the activation, and the invariant of the whole server over all runs of
  accepted connections, received data, timers and closings.
\<close>

section \<open>Operations that touch the store only\<close>

definition store_only :: "('io, 'db, 'a) manager_scheme \<Rightarrow> ('io, 'db, 'a) manager_scheme \<Rightarrow> bool" where
  "store_only s s' \<longleftrightarrow> (\<exists>d. s' = s\<lparr>db := d\<rparr>)"

named_theorems store_rules \<open>operations that change nothing but the store\<close>

lemma store_only_db [store_rules]: "store_only s (s\<lparr>db := d\<rparr>)"
  unfolding store_only_def by blast

lemma store_only_refl [store_rules]: "store_only s s"
  using store_only_db[of s "db s"] by simp

lemma store_only_trans: "store_only s t \<Longrightarrow> store_only t u \<Longrightarrow> store_only s u"
  unfolding store_only_def by (elim exE, hypsubst, rule exI) simp

lemma store_only_pair: "r = (s', e) \<Longrightarrow> store_only s (fst r) \<Longrightarrow> store_only s s'"
  by simp

lemma update_one_store [store_rules]: "store_only s (fst (update_one M c q u s))"
  by (simp add: update_one_def store_rules split: prod.splits option.splits)

lemma insert_one_store [store_rules]: "store_only s (fst (insert_one M c d s))"
  by (simp add: insert_one_def store_rules split: prod.splits option.splits)

lemma with_user_and_stream_store:
  assumes "\<And>u x. store_only s (fst (f u x s))"
  shows "store_only s (fst (with_user_and_stream B L auth sid f s))"
  using assms by (simp add: with_user_and_stream_def store_rules split: option.splits)

lemma AddUserCatchup_store [store_rules]: "store_only s (fst (AddUserCatchup B L M auth sid s))"
  unfolding AddUserCatchup_def
  by (rule with_user_and_stream_store) (simp add: AddStreamToUserCatchupsArray_def store_rules)

lemma RemoveUserCatchup_store [store_rules]: "store_only s (fst (RemoveUserCatchup B L M auth sid s))"
  unfolding RemoveUserCatchup_def
  by (rule with_user_and_stream_store) (simp add: RemoveStreamFromUserCatchupsArray_def store_rules)

lemma set_user_field_store [store_rules]:
  "store_only s (fst (set_user_field B M auth channel field v s))"
  by (simp add: set_user_field_def store_rules Let_def split: option.splits)

lemmas set_user_field_pair = store_only_pair[OF _ set_user_field_store]

lemma SetFavorite_store [store_rules]: "store_only s (fst (SetFavorite B L M auth channel fav s))"
  by (auto simp: SetFavorite_def store_rules split: prod.splits sum.splits intro: set_user_field_pair)

lemma SetInterruptTime_store [store_rules]:
  "store_only s (fst (SetInterruptTime B L M auth channel t s))"
  by (auto simp: SetInterruptTime_def store_rules split: prod.splits sum.splits
      intro: set_user_field_pair)

lemma SetRecent_store [store_rules]: "store_only s (fst (SetRecent B L M auth channel t s))"
  by (auto simp: SetRecent_def store_rules split: prod.splits sum.splits
      intro: set_user_field_pair store_only_trans[OF _ update_one_store])

lemma create_catchup_store [store_rules]:
  "store_only s (fst (create_catchup B L M now ch title start stop src s))"
proof -
  obtain bsid server_oid ourls where src: "src = (bsid, server_oid, ourls)" by (cases src)
  obtain x d1 where x: "mg_new_oid M (db s) = (x, d1)" by fastforce
  obtain doc us where doc:
    "catchup_document B L x now (catchup_endpoint s) ch title start stop ourls = (doc, us)" by fastforce
  obtain s2 e2 where s2: "insert_one M STREAMS doc (s\<lparr>db := d1\<rparr>) = (s2, e2)" by fastforce
  obtain s3 e3 where s3: "update_one M STREAMS (by_id bsid) (push_update ''parts'' (BOid x)) s2 = (s3, e3)"
    by fastforce
  obtain s4 e4 where s4: "AddStreamToServer M server_oid x s3 = (s4, e4)" by fastforce
  have "store_only s s2"
    using store_only_trans[OF store_only_db insert_one_store] s2 store_only_pair by metis
  moreover have "store_only s2 s3" by (rule store_only_pair[OF s3 update_one_store])
  moreover have "store_only s3 s4"
    by (rule store_only_pair[OF s4]) (simp add: AddStreamToServer_def store_rules)
  ultimately have "store_only s s2" "store_only s s3" "store_only s s4"
    by (blast intro: store_only_trans)+
  then show ?thesis
    by (simp add: create_catchup_def src x doc s2 s3 s4 Let_def split: option.splits)
qed

lemma CreateOrFindCatchup_store:
  "CreateOrFindCatchup B L M now ch title start stop s = Some (s', r) \<Longrightarrow> store_only s s'"
  by (auto simp: CreateOrFindCatchup_def store_rules split: if_splits sum.splits reading.splits
      intro: store_only_pair[OF _ create_catchup_store])

lemma CreateCatchup_store:
  "CreateCatchup B L M now auth sid title start stop s = Some (s', r) \<Longrightarrow> store_only s s'"
  by (auto simp: CreateCatchup_def store_rules split: if_splits option.splits sum.splits
      dest: CreateOrFindCatchup_store)

lemma CreateRequestContent_store:
  assumes "CreateRequestContent B L M auth request s = Some (s', r)"
  shows "store_only s s'"
proof -
  obtain x d1 where x: "mg_new_oid M (db s) = (x, d1)" by fastforce
  obtain s2 e2 where s2: "insert_one M REQUESTS (request_document x request) (s\<lparr>db := d1\<rparr>) = (s2, e2)"
    by fastforce
  have "store_only s s2"
    using store_only_trans[OF store_only_db insert_one_store] s2 store_only_pair by metis
  moreover have "store_only s2 s3" if "AddContentRequestToUserArray M u x s2 = (s3, e)" for u s3 e
    by (rule store_only_pair[OF that]) (simp add: AddContentRequestToUserArray_def store_rules)
  ultimately show ?thesis using assms
    by (auto simp: CreateRequestContent_def x s2 Let_def store_rules
        split: if_splits option.splits prod.splits intro: store_only_trans)
qed

lemma login_device_store:
  "login_device B M uid uauth ar h s = Some (s', r) \<Longrightarrow> store_only s s'"
proof (induction B M uid uauth ar h s rule: login_device.induct)
  case (2 B M uid uauth e ar h s)
  then show ?case
    by (auto simp: activate_device_def store_rules split: option.splits if_splits)
qed (auto simp: store_rules)

lemma ClientLogin_store:
  "ClientLogin B L M now uauth s = Some (s', r) \<Longrightarrow> store_only s s'"
  by (auto simp: ClientLogin_def ClientLoginImpl_def finish_login_def Let_def store_rules
      split: option.splits if_splits prod.splits dest: login_device_store)

lemma ClientLogin_by_uid_store:
  "ClientLogin_by_uid B M now uid password dev s = Some (s', r) \<Longrightarrow> store_only s s'"
  by (auto simp: ClientLogin_by_uid_def ClientLoginImpl_def finish_login_def Let_def store_rules
      split: option.splits if_splits prod.splits dest: login_device_store)

section \<open>Requests that leave the sessions alone\<close>

text \<open>
  Both servers of the program keep their connections in one registry; \<open>clients\<close> are those of one
  of them.  A quiet step leaves the sessions, what the observer was told and the counter as before;
  only the store, the network, the current streams and the client infos may have changed, and
  notices may have been added.
\<close>

definition kind_of :: "('io, 'a) registry_scheme \<Rightarrow> ptr \<Rightarrow> client_kind option" where
  "kind_of s p = map_option co_kind (heap s p)"

definition clients :: "client_kind \<Rightarrow> ('io, 'a) registry_scheme \<Rightarrow> ptr set" where
  "clients k s = {p. kind_of s p = Some k}"

definition quiet :: "('io, 'db, 'a) sub_handler_scheme \<Rightarrow> ('io, 'db, 'a) sub_handler_scheme \<Rightarrow> bool" where
  "quiet s s' \<longleftrightarrow>
     view s' = view s \<and> kind_of s' = kind_of s \<and> connections s' = connections s \<and>
     observer s' = observer s \<and> events s' = events s \<and> online_clients s' = online_clients s \<and>
     collection_open s' = collection_open s \<and> prefix (notices s) (notices s') \<and>
     sub_handler.more s' = sub_handler.more s"

text \<open>
  What the server leaves alone: the connections of the other server, the pointers to the
  collections, and the rest of the state.
\<close>

definition foreign :: "('io, 'db, 'a) sub_handler_scheme \<Rightarrow> ptr set \<times> (coll \<Rightarrow> bool) \<times> 'a" where
  "foreign s = (clients HttpClient s, collection_open s, sub_handler.more s)"

definition keeps :: "(('io, 'db, 'a) sub_handler_scheme \<Rightarrow> ('io, 'db, 'a) handled) \<Rightarrow> bool" where
  "keeps k \<longleftrightarrow> (\<forall>s s' e. k s = Some (s', e) \<longrightarrow> quiet s s')"

text \<open>A settled step is a quiet one, perhaps followed by dropping the client.\<close>

definition settled ::
    "('io, 'db) env \<Rightarrow> ptr \<Rightarrow> ('io, 'db, 'a) sub_handler_scheme \<Rightarrow> ('io, 'db, 'a) sub_handler_scheme \<Rightarrow> bool" where
  "settled E client s s' \<longleftrightarrow> quiet s s' \<or> (\<exists>t. quiet s t \<and> drop_client E client t = Some s')"

definition settles ::
    "('io, 'db) env \<Rightarrow> ptr \<Rightarrow> (('io, 'db, 'a) sub_handler_scheme \<Rightarrow> ('io, 'db, 'a) handled) \<Rightarrow> bool" where
  "settles E client k \<longleftrightarrow> (\<forall>s s' e. k s = Some (s', e) \<longrightarrow> settled E client s s')"

named_theorems keeps_rules \<open>handlers that leave the sessions alone\<close>

lemma quiet_refl [simp, intro]: "quiet s s"
  by (simp add: quiet_def)

lemma quiet_trans: "quiet s t \<Longrightarrow> quiet t u \<Longrightarrow> quiet s u"
  by (auto simp: quiet_def intro: prefix_order.trans)

lemma view_updates [simp]:
  "view (s\<lparr>db := d\<rparr>) = view s" "view (t\<lparr>io := w\<rparr>) = view t"
  "view (u\<lparr>online_clients := n\<rparr>) = view u" "view (u\<lparr>notices := ns\<rparr>) = view u"
  "view (u\<lparr>ping_timer := i\<rparr>) = view u"
  by (simp_all add: view_def fun_eq_iff)

lemma kind_updates [simp]:
  "kind_of (s\<lparr>db := d\<rparr>) = kind_of s" "kind_of (t\<lparr>io := w\<rparr>) = kind_of t"
  "kind_of (u\<lparr>online_clients := n\<rparr>) = kind_of u" "kind_of (u\<lparr>notices := ns\<rparr>) = kind_of u"
  "kind_of (u\<lparr>ping_timer := i\<rparr>) = kind_of u"
  by (simp_all add: kind_of_def fun_eq_iff)

lemma quiet_io [simp, intro]: "quiet s (s\<lparr>io := w\<rparr>)"
  by (simp add: quiet_def)

lemma quiet_store: "store_only s s' \<Longrightarrow> quiet s s'"
  by (auto simp: quiet_def store_only_def)

lemma quiet_send [simp, intro]: "quiet s (fst (send E client req r s))"
  by (simp add: send_def split: prod.splits)

lemma quiet_send_pair: "send E client req r s = (s', e) \<Longrightarrow> quiet s s'"
  using quiet_send[of s E client req r] by simp

lemma quiet_after_send: "send E client req r t = (s', e) \<Longrightarrow> quiet s t \<Longrightarrow> quiet s s'"
  by (blast intro: quiet_trans quiet_send_pair)

lemma quiet_tell [simp, intro]: "quiet s (tell n s)"
  by (simp add: tell_def quiet_def)

lemma quiet_object:
  "heap s p = Some c \<Longrightarrow> co_login c' = co_login c \<Longrightarrow> co_kind c' = co_kind c \<Longrightarrow>
     quiet s (s\<lparr>heap := (heap s)(p \<mapsto> c')\<rparr>)"
  by (auto simp: quiet_def view_def kind_of_def fun_eq_iff)

lemma keepsI: "(\<And>s s' e. k s = Some (s', e) \<Longrightarrow> quiet s s') \<Longrightarrow> keeps k"
  by (simp add: keeps_def)

lemma keepsD: "keeps k \<Longrightarrow> k s = Some (s', e) \<Longrightarrow> quiet s s'"
  by (simp add: keeps_def)

lemma bad_params_keeps [keeps_rules]: "keeps (bad_params err)"
  by (auto simp: keeps_def bad_params_def)

lemma with_params_keeps [keeps_rules]:
  assumes "\<And>err. keeps (bad err)" and "\<And>x. keeps (k x)"
  shows "keeps (with_params E prs req bad k)"
  using assms
  by (auto simp: with_params_def keeps_def split: if_splits option.splits parsed.splits)

lemma with_login_keeps [keeps_rules]: "(\<And>l. keeps (k l)) \<Longrightarrow> keeps (with_login client k)"
  by (auto simp: with_login_def keeps_def split: option.splits)

lemma logged_in_settles:
  assumes "\<And>a. keeps (k a)"
  shows "settles E client (logged_in E client req k)"
proof -
  have "settled E client s s'" if "logged_in E client req k s = Some (s', e)" for s s' e
  proof (cases "CheckIsLoginClient client s")
    case None
    then show ?thesis using that by (simp add: logged_in_def)
  next
    case (Some r)
    show ?thesis
    proof (cases r)
      case (Inl err)
      then show ?thesis
        using that Some by (auto simp: logged_in_def settled_def split: option.splits)
    next
      case (Inr a)
      then have "k a s = Some (s', e)" using that Some by (simp add: logged_in_def)
      then show ?thesis using keepsD[OF assms] by (auto simp: settled_def)
    qed
  qed
  then show ?thesis by (simp add: settles_def)
qed

lemma keeps_settles: "keeps k \<Longrightarrow> settles E client k"
  by (auto simp: keeps_def settles_def settled_def)

lemma keeps_prod [keeps_rules]: "(\<And>a b. keeps (k a b)) \<Longrightarrow> keeps (case x of (a, b) \<Rightarrow> k a b)"
  by (cases x) simp

lemma reply_keeps [keeps_rules]:
  "(\<And>s. quiet s (f s)) \<Longrightarrow> keeps (\<lambda>s. Some (send E client req (r s) (f s)))"
  by (auto simp: keeps_def elim: quiet_after_send)

subsection \<open>The requests, one by one\<close>

lemma Activate_keeps: "keeps (HandleRequestClientActivate E client req)"
  unfolding HandleRequestClientActivate_def
  by (intro keeps_rules) (auto simp: keeps_def split: sum.splits)

lemma Ping_settles: "settles E client (HandleRequestClientPing E client req)"
  unfolding HandleRequestClientPing_def
  by (intro logged_in_settles keeps_rules quiet_refl)

lemma GetServerInfo_settles: "settles E client (HandleRequestClientGetServerInfo E client req)"
  unfolding HandleRequestClientGetServerInfo_def
  by (intro logged_in_settles keeps_rules quiet_refl)

lemma GetChannels_settles: "settles E client (HandleRequestClientGetChannels E client req)"
  unfolding HandleRequestClientGetChannels_def
  by (intro logged_in_settles keeps_rules)
     (auto simp: keeps_def split: option.splits sum.splits intro: quiet_send_pair)

lemma GetRuntimeChannelInfo_settles:
  "settles E client (HandleRequestClientGetRuntimeChannelInfo E client req)"
proof -
  have "quiet s s'"
    if c: "heap s client = Some c" and
      send: "send E client req r (s\<lparr>heap := (heap s)(client \<mapsto> SetCurrentStreamID sid c)\<rparr>) = (s', e)"
    for s s' :: "('a, 'b, 'c) sub_handler_scheme" and c r sid e
    by (rule quiet_after_send[OF send quiet_object[OF c]]) (simp_all add: SetCurrentStreamID_def)
  then show ?thesis
    unfolding HandleRequestClientGetRuntimeChannelInfo_def
    by (intro logged_in_settles keeps_rules) (auto simp: keeps_def Let_def split: option.splits)
qed

lemma mark_keeps [keeps_rules]:
  "(\<And>s. store_only s (f s)) \<Longrightarrow> keeps (\<lambda>s. let s1 = f s in Some (send E client req r s1))"
  unfolding Let_def by (intro reply_keeps quiet_store)

lemma SetFavorite_settles: "settles E client (HandleRequestClientSetFavorite E client req)"
  unfolding HandleRequestClientSetFavorite_def
  by (intro logged_in_settles keeps_rules SetFavorite_store)

lemma SetRecent_settles: "settles E client (HandleRequestClientSetRecent E client req)"
  unfolding HandleRequestClientSetRecent_def
  by (intro logged_in_settles keeps_rules SetRecent_store)

lemma Interrupt_settles: "settles E client (HandleRequestInterruptStreamTime E client req)"
  unfolding HandleRequestInterruptStreamTime_def
  by (intro logged_in_settles keeps_rules SetInterruptTime_store)

lemma quiet_store_send:
  assumes "store_only s t" shows "quiet s (fst (send E client req r t))"
  using quiet_trans[OF quiet_store[OF assms] quiet_send] .

lemma GenerateCatchup_settles: "settles E client (HandleRequestGenerateCatchup E now client req)"
proof -
  have add: "quiet s s2"
    if "AddUserCatchup B L M auth sid s1 = (s2, e)" "store_only s s1"
    for s s1 s2 :: "('a, 'b, 'c) sub_handler_scheme" and B L M auth sid e
    using store_only_trans[OF that(2)] store_only_pair[OF that(1) AddUserCatchup_store]
    by (blast intro: quiet_store)
  show ?thesis
    unfolding HandleRequestGenerateCatchup_def
    by (intro logged_in_settles keeps_rules)
       (auto simp: keeps_def Let_def split: option.splits sum.splits prod.splits
         dest!: CreateCatchup_store dest: add elim!: quiet_after_send
         intro: quiet_store_send quiet_trans[OF add] quiet_trans[OF add quiet_tell])
qed

lemma UndoCatchup_settles: "settles E client (HandleRequestUndoCatchup E client req)"
proof -
  note rem = quiet_store[OF store_only_pair[OF _ RemoveUserCatchup_store]]
  show ?thesis
    unfolding HandleRequestUndoCatchup_def
    by (intro logged_in_settles keeps_rules)
       (auto simp: keeps_def split: option.splits prod.splits
         elim!: quiet_after_send intro: rem quiet_trans[OF rem])
qed

lemma Content_settles: "settles E client (HandleRequestContent E client req)"
  unfolding HandleRequestContent_def
  by (intro logged_in_settles keeps_rules)
     (auto simp: keeps_def split: option.splits sum.splits
       dest!: CreateRequestContent_store elim!: quiet_after_send
       intro: quiet_store_send quiet_trans[OF quiet_store quiet_tell])

lemmas single_settles = Activate_keeps[THEN keeps_settles] Ping_settles GetServerInfo_settles
  GetChannels_settles GetRuntimeChannelInfo_settles SetFavorite_settles SetRecent_settles
  Interrupt_settles GenerateCatchup_settles UndoCatchup_settles Content_settles

text \<open>Every request but the login settles.\<close>

lemma request_settles:
  assumes "rl_client_method (env_rpc E) (rq_method req) \<noteq> Some CLIENT_LOGIN"
  shows "settles E client (HandleRequestCommand E now client req)"
proof (cases "rl_client_method (env_rpc E) (rq_method req)")
  case None
  then show ?thesis by (simp add: HandleRequestCommand_def settles_def settled_def)
next
  case (Some m)
  then show ?thesis using assms single_settles unfolding settles_def
    by (cases m) (simp_all add: HandleRequestCommand_def)
qed

lemma keeps_after_io: "keeps k \<Longrightarrow> k (s\<lparr>io := w\<rparr>) = Some (s', e) \<Longrightarrow> quiet s s'"
  by (rule quiet_trans[OF quiet_io keepsD])

lemma response_keeps: "keeps (HandleResponceCommand E client resp)"
proof -
  have info: "keeps (HandleResponceServerGetClientInfo E client resp)"
    by (auto simp: keeps_def HandleResponceServerGetClientInfo_def bad_params_def SetClInfo_def
        split: option.splits parsed.splits intro: quiet_object)
  have ping: "keeps (HandleResponceServerPing E resp)"
    by (auto simp: keeps_def HandleResponceServerPing_def bad_params_def
        split: option.splits parsed.splits)
  have tell: "keeps (HandleResponceServerTextNotification resp)"
    by (auto simp: keeps_def HandleResponceServerTextNotification_def split: option.splits)
  have warn: "keeps (warn_id resp)"
    by (auto simp: keeps_def warn_id_def split: option.splits)
  have "quiet s s'" if "HandleResponceCommand E client resp s = Some (s', e)"
    for s s' :: "('a, 'b, 'c) sub_handler_scheme" and e
    using that
    by (auto simp: HandleResponceCommand_def Let_def
        split: prod.splits option.splits server_method.splits
        dest: keeps_after_io[OF info] keeps_after_io[OF ping] keeps_after_io[OF tell]
          keeps_after_io[OF warn])
  then show ?thesis by (rule keepsI)
qed

section \<open>The invariant of the server\<close>

text \<open>
  The invariant of the registry, one connection for each device, what the observer knows, and
  the counter of the server, which is the number of its connections modulo \<open>2 ^ 64\<close>.
\<close>

definition books_inv :: "('io, 'a) registry_scheme \<Rightarrow> bool" where
  "books_inv s \<longleftrightarrow> observed_inv s \<and> exclusive s \<and> finite (dom (view s))"

definition server_inv :: "('io, 'db, 'a) sub_handler_scheme \<Rightarrow> bool" where
  "server_inv s \<longleftrightarrow>
     books_inv s \<and> online_clients s = of_nat (card (clients SubscriberClient s))"

lemma logged_in_as_view: "logged_in_as (heap s) u p \<longleftrightarrow> (\<exists>a. view s p = Some (Some a) \<and> db_uid a = u)"
  by (auto simp: logged_in_as_iff view_def)

lemma session_inv_iff_view:
  "session_inv s \<longleftrightarrow>
     distinct (map fst (connections s)) \<and> view s nullptr = None \<and>
     list_all (\<lambda>(u, ps). ps \<noteq> [] \<and> distinct ps \<and>
       list_all (\<lambda>p. \<exists>a. view s p = Some (Some a) \<and> db_uid a = u) ps) (connections s) \<and>
     (\<forall>p a. view s p = Some (Some a) \<longrightarrow> filed (connections s) (db_uid a) p)"
proof -
  have "heap s nullptr = None \<longleftrightarrow> view s nullptr = None" by (simp add: view_def)
  moreover have "(\<forall>p c a. heap s p = Some c \<longrightarrow> co_login c = Some a \<longrightarrow> filed (connections s) (db_uid a) p) \<longleftrightarrow>
      (\<forall>p a. view s p = Some (Some a) \<longrightarrow> filed (connections s) (db_uid a) p)"
    by (auto simp: view_def)
  ultimately show ?thesis
    unfolding session_inv_def reg_inv_def logged_in_as_view[abs_def] by simp
qed

lemma session_inv_view:
  "view s' = view s \<Longrightarrow> connections s' = connections s \<Longrightarrow> session_inv s' \<longleftrightarrow> session_inv s"
  by (simp add: session_inv_iff_view)

lemma online_view: "view s' = view s \<Longrightarrow> online s' = online s"
  by (simp add: online_def)

lemma exclusive_view: "view s' = view s \<Longrightarrow> exclusive s' = exclusive s"
  by (simp add: exclusive_def online_def identity_of_def)

lemma books_inv_view:
  assumes "view s' = view s" and "connections s' = connections s" and "observer s' = observer s"
    and "events s' = events s" and "books_inv s"
  shows "books_inv s'"
  using assms by (simp add: books_inv_def observed_inv_def fronts_def identity_of_def session_inv_view[OF assms(1,2)]
      online_view[OF assms(1)] exclusive_view[OF assms(1)])

lemma quiet_server_inv: "quiet s s' \<Longrightarrow> server_inv s \<Longrightarrow> server_inv s'"
  by (auto simp: quiet_def server_inv_def clients_def intro: books_inv_view)

lemma quiet_foreign: "quiet s s' \<Longrightarrow> foreign s' = foreign s"
  by (simp add: quiet_def foreign_def clients_def)

lemma kind_live: "kind_of s p \<noteq> None \<longleftrightarrow> view s p \<noteq> None"
  by (simp add: kind_of_def view_def)

lemma client_live: "p \<in> clients k s \<Longrightarrow> view s p \<noteq> None"
  using kind_live[of s p] by (simp add: clients_def)

lemma finite_clients: "books_inv s \<Longrightarrow> finite (clients k s)"
  by (rule finite_subset[of _ "dom (view s)"]) (auto simp: books_inv_def dest: client_live)

lemma books_inv_session: "books_inv s \<Longrightarrow> session_inv s"
  by (simp add: books_inv_def observed_inv_def)

text \<open>Sessions that open and close keep the books.\<close>

lemma books_inv_open:
  assumes inv: "books_inv s" and p: "p \<noteq> nullptr" "view s p = None"
  shows "books_inv (alloc_client p (SubscriberInfo_new L k) s)" (is "books_inv ?t")
proof -
  from open_observed[of s p L k] inv p have t: "observed_inv ?t" "view ?t = (view s)(p \<mapsto> None)"
    by (auto simp: session_open_def books_inv_def)
  have "online ?t = online s" "\<forall>q \<in> online s. identity_of ?t q = identity_of s q"
    using t(2) p(2) by (auto simp: online_def identity_of_def)
  then have "exclusive ?t" using inv by (simp add: books_inv_def exclusive_def inj_on_def)
  then show ?thesis using t inv by (simp add: books_inv_def)
qed

lemma books_inv_drop:
  assumes inv: "books_inv s" and p: "view s p \<noteq> None"
  shows "\<exists>t. session_drop p s = Some t \<and> books_inv t \<and> view t = (view s)(p := None)"
proof -
  from drop_observed[OF _ p] inv obtain t where
    t: "session_drop p s = Some t" "observed_inv t" "view t = (view s)(p := None)"
    by (auto simp: books_inv_def)
  have "online t \<subseteq> online s" "\<forall>q \<in> online t. identity_of t q = identity_of s q"
    using t(3) by (auto simp: online_def identity_of_def split: if_splits)
  then have "exclusive t" using inv by (auto simp: books_inv_def exclusive_def inj_on_def subset_iff)
  moreover have "dom (view t) = dom (view s) - {p}" using t(3) by (auto split: if_splits)
  ultimately show ?thesis using t inv by (auto simp: books_inv_def)
qed

lemma books_inv_login:
  assumes inv: "books_inv s" and p: "view s p = Some None"
    and free: "device_free s (db_uid a) (ai_device a)" and login: "session_login L p a s = Some s'"
  shows "books_inv s' \<and> view s' = (view s)(p \<mapsto> Some a)"
proof -
  have "ServerDBAuthInfo_IsValid L a"
    using login by (simp add: session_login_def RegisterInnerConnectionByHost_def split: if_splits)
  from login_observed[of s p, OF _ p this] inv login
  have s': "observed_inv s'" "view s' = (view s)(p \<mapsto> Some a)" by (auto simp: books_inv_def)
  moreover have "exclusive s'" using exclusive_insert[OF _ p free s'(2)] inv by (simp add: books_inv_def)
  moreover have "dom (view s') = dom (view s)" using s'(2) p by auto
  ultimately show ?thesis using inv by (simp add: books_inv_def)
qed

lemma session_drop_kinds: "session_drop p s = Some t \<Longrightarrow> kind_of t = (kind_of s)(p := None)"
  by (auto simp: session_drop_def UnRegisterInnerConnectionByHost_def ISubscribersManager_UnRegister_def
      free_client_def kind_of_def fun_eq_iff split: if_splits option.splits)

lemma session_drop_more:
  "session_drop p s = Some t \<Longrightarrow>
     sub_handler.more t = sub_handler.more s \<and> collection_open t = collection_open s \<and> notices t = notices s"
  by (auto simp: session_drop_def UnRegisterInnerConnectionByHost_def ISubscribersManager_UnRegister_def
      free_client_def split: if_splits option.splits)

lemma session_login_frame:
  "session_login L p a s = Some s' \<Longrightarrow> kind_of s' = kind_of s"
  by (auto simp: session_login_def RegisterInnerConnectionByHost_def ISubscribersManager_Register_def
      Let_def kind_of_def fun_eq_iff split: if_splits option.splits)

text \<open>Dropping a client closes its session and counts it out.\<close>

lemma Closed_eq:
  "Closed client s = map_option (\<lambda>r. (fst r)\<lparr>online_clients := online_clients (fst r) - 1\<rparr>)
     (UnRegisterInnerConnectionByHost client s)"
  by (auto simp: Closed_def IServerHandler_Closed_def split: option.splits prod.splits)

lemma UnRegister_frame:
  "UnRegisterInnerConnectionByHost client s = Some (s', e) \<Longrightarrow>
     online_clients s' = online_clients s \<and> io s' = io s"
  by (auto simp: UnRegisterInnerConnectionByHost_def ISubscribersManager_UnRegister_def
      split: if_splits option.splits)

lemma drop_client_eq:
  "drop_client E client s =
     map_option (\<lambda>t. t\<lparr>online_clients := online_clients s - 1, io := sv_close (env_io E) (io s) client\<rparr>)
       (session_drop client s)"
  using UnRegister_frame[of client s]
  by (cases "UnRegisterInnerConnectionByHost client s")
     (auto simp: drop_client_def Closed_eq session_drop_def free_client_def)

lemma drop_client_ok:
  assumes inv: "server_inv s" and p: "p \<in> clients SubscriberClient s"
  shows "\<exists>s'. drop_client E p s = Some s' \<and> server_inv s' \<and> view s' = (view s)(p := None) \<and>
    kind_of s' = (kind_of s)(p := None) \<and> foreign s' = foreign s"
proof -
  have b: "books_inv s" using inv by (simp add: server_inv_def)
  obtain t where t: "session_drop p s = Some t" "books_inv t" "view t = (view s)(p := None)"
    using books_inv_drop[OF b client_live[OF p]] by blast
  note k = session_drop_kinds[OF t(1)]
  let ?s' = "t\<lparr>online_clients := online_clients s - 1, io := sv_close (env_io E) (io s) p\<rparr>"
  have "books_inv ?s'" by (rule books_inv_view[OF _ _ _ _ t(2)]) simp_all
  moreover have "clients SubscriberClient ?s' = clients SubscriberClient s - {p}"
    using k by (auto simp: clients_def)
  moreover have "card (clients SubscriberClient s) = Suc (card (clients SubscriberClient s - {p}))"
    using card_Suc_Diff1[OF finite_clients[OF b] p] by simp
  ultimately have "server_inv ?s'" using inv by (simp add: server_inv_def)
  moreover have "foreign ?s' = foreign s"
    using k p session_drop_more[OF t(1)] by (auto simp: foreign_def clients_def)
  ultimately show ?thesis using t k by (simp add: drop_client_eq)
qed

lemma settled_server_inv:
  assumes "settled E p s s'" and inv: "server_inv s" and p: "p \<in> clients SubscriberClient s"
  shows "server_inv s' \<and> foreign s' = foreign s \<and>
    (view s' = view s \<and> kind_of s' = kind_of s \<or>
     view s' = (view s)(p := None) \<and> kind_of s' = (kind_of s)(p := None))"
proof -
  from assms(1) consider "quiet s s'" | t where "quiet s t" "drop_client E p t = Some s'"
    by (auto simp: settled_def)
  then show ?thesis
  proof cases
    case 1
    then show ?thesis using quiet_server_inv[OF _ inv] quiet_foreign by (auto simp: quiet_def)
  next
    case 2
    then have "server_inv t" "view t = view s" "kind_of t = kind_of s" "foreign t = foreign s"
      using quiet_server_inv[OF _ inv] quiet_foreign by (auto simp: quiet_def)
    then show ?thesis using drop_client_ok[of t p E] p 2(2) by (auto simp: clients_def)
  qed
qed

subsection \<open>Logging in\<close>

text \<open>
  The servers run each login of a request to its registration, also when the connection is logged in
  already.  A step registers again when it enters such a connection in the registry once more;
  \<open>single_logins\<close> are the steps that do not.
\<close>

definition registers_again :: "('io, 'a) registry_scheme \<Rightarrow> ('io, 'b) registry_scheme \<Rightarrow> bool" where
  "registers_again s s' \<longleftrightarrow> (\<exists>p \<in> online s. \<exists>u. connections s' = push_back u p (connections s))"

definition single_logins ::
    "(('io, 'a) registry_scheme \<Rightarrow> ('io, 'a) registry_scheme \<Rightarrow> bool)
     \<Rightarrow> ('io, 'a) registry_scheme \<Rightarrow> ('io, 'a) registry_scheme \<Rightarrow> bool" where
  "single_logins step s s' \<longleftrightarrow> step s s' \<and> \<not> registers_again s s'"

lemma single_loginsD: "single_logins step s s' \<Longrightarrow> step s s' \<and> \<not> registers_again s s'"
  by (simp add: single_logins_def)

lemma single_logins_run: "(single_logins step)\<^sup>*\<^sup>* s s' \<Longrightarrow> step\<^sup>*\<^sup>* s s'"
  by (rule rtranclp_mono[THEN predicate2D]) (auto simp: single_logins_def)

lemma registers_again_cong:
  "view t = view s \<Longrightarrow> connections t = connections s \<Longrightarrow> connections t' = connections s' \<Longrightarrow>
     registers_again t t' \<longleftrightarrow> registers_again s s'"
  by (simp add: registers_again_def online_def)

lemma registers_more: "registers_again s s' \<Longrightarrow> connections s' \<noteq> connections s"
proof
  assume "registers_again s s'" "connections s' = connections s"
  then obtain p u where m: "connections s = push_back u p (connections s)" by (auto simp: registers_again_def)
  have "map_of (push_back u p (connections s)) u \<noteq> map_of (connections s) u"
    by (simp add: map_of_push_back split: option.splits)
  then show False using m by simp
qed

lemma login_registers:
  "session_login L p a s = Some s' \<Longrightarrow> p \<noteq> nullptr \<Longrightarrow> connections s' = push_back (db_uid a) p (connections s)"
  by (auto simp: session_login_def RegisterInnerConnectionByHost_def ISubscribersManager_Register_def
      Let_def split: if_splits option.splits)

lemma login_registers_again:
  "session_login L p a s = Some s' \<Longrightarrow> session_inv s \<Longrightarrow> p \<in> online s \<Longrightarrow> registers_again s s'"
  unfolding registers_again_def using login_registers online_object by blast

lemma with_params_cases:
  assumes "with_params E prs req bad k s = Some (s', e)"
  obtains "s' = s" | err where "bad err s = Some (s', e)" | x where "k x s = Some (s', e)"
  using assms by (auto simp: with_params_def split: if_splits option.splits parsed.splits)

lemma session_login_counter:
  "session_login L p a s = Some s' \<Longrightarrow>
     online_clients s' = online_clients s \<and> sub_handler.more s' = sub_handler.more s \<and>
     collection_open s' = collection_open s \<and> notices s' = notices s"
  by (auto simp: session_login_def RegisterInnerConnectionByHost_def ISubscribersManager_Register_def
      Let_def split: if_splits option.splits)

text \<open>A login leaves the sessions alone, or enters the connection for the identity it was granted.\<close>

lemma login_moves:
  assumes "HandleRequestClientLogin E now p req s = Some (s', e)"
  shows "quiet s s' \<or>
    (\<exists>uauth s1 a t. ClientLogin (env_bson E) (env_lib E) (env_mongo E) now uauth s = Some (s1, Inr a) \<and>
       quiet s t \<and> session_login (env_lib E) p a t = Some s')"
  using assms unfolding HandleRequestClientLogin_def
proof (cases rule: with_params_cases)
  case (2 err)
  then show ?thesis using quiet_send by auto
next
  case (3 uauth)
  obtain s1 r where s1: "ClientLogin (env_bson E) (env_lib E) (env_mongo E) now uauth s = Some (s1, r)"
    using 3 by (cases "ClientLogin (env_bson E) (env_lib E) (env_mongo E) now uauth s") auto
  have q1: "quiet s s1" by (rule quiet_store[OF ClientLogin_store[OF s1]])
  show ?thesis
  proof (cases r)
    case (Inl err)
    then show ?thesis using 3 s1 quiet_trans[OF q1 quiet_send] by auto
  next
    case (Inr a)
    obtain s2 e2 where s2: "send E p req (LoginSuccess a) s1 = (s2, e2)" by fastforce
    have q2: "quiet s s2" by (rule quiet_after_send[OF s2 q1])
    show ?thesis
    proof (cases e2)
      case (Some errn)
      then show ?thesis using 3 s1 s2 Inr q2 by auto
    next
      case None
      then have "session_login (env_lib E) p a s2 = Some s'"
        using 3 s1 s2 Inr by (auto simp: session_login_def split: option.splits)
      then show ?thesis using s1 Inr q2 by blast
    qed
  qed
qed simp

lemma login_server_inv:
  assumes B: "bson_laws (env_bson E)" and inv: "server_inv s" and p: "view s p \<noteq> None"
    and once: "\<not> registers_again s s'"
    and h: "HandleRequestClientLogin E now p req s = Some (s', e)"
  shows "server_inv s' \<and> foreign s' = foreign s"
proof -
  from login_moves[OF h] consider "quiet s s'"
    | uauth s1 a t where "ClientLogin (env_bson E) (env_lib E) (env_mongo E) now uauth s = Some (s1, Inr a)"
      "quiet s t" "session_login (env_lib E) p a t = Some s'" by blast
  then show ?thesis
  proof cases
    case 1
    then show ?thesis using quiet_server_inv[OF _ inv] quiet_foreign by simp
  next
    case 2
    have si: "session_inv s" using inv by (auto simp: server_inv_def intro: books_inv_session)
    have inv2: "server_inv t" by (rule quiet_server_inv[OF 2(2) inv])
    have v2: "view t = view s" "connections t = connections s" using 2(2) by (simp_all add: quiet_def)
    have "p \<notin> online t"
      using login_registers_again[OF 2(3)] once registers_again_cong[OF v2, of s' s'] si
        session_inv_view[of t s] v2 by blast
    then have p: "view t p = Some None" using p v2 by (auto simp: online_def)
    have "device_free s (db_uid a) (ai_device a)"
      using gate.fresh[of "env_bson E" s "env_lib E" "env_mongo E" "ByEmail now uauth" s1 a] B si 2(1) by simp
    then have "device_free t (db_uid a) (ai_device a)"
      by (simp add: device_free_def online_def identity_of_def v2)
    then have "books_inv s'" using books_inv_login[OF _ p _ 2(3)] inv2 by (simp add: server_inv_def)
    then show ?thesis
      using session_login_frame[OF 2(3)] session_login_counter[OF 2(3)] inv2 quiet_foreign[OF 2(2)]
      by (simp add: server_inv_def clients_def foreign_def)
  qed
qed

subsection \<open>The events of the loop\<close>

lemma ping_client_settled:
  "ping_client E p s = Some s' \<Longrightarrow> settled E p s s'"
  by (auto simp: ping_client_def settled_def split: if_splits option.splits prod.splits)

lemma ping_client_total:
  assumes inv: "server_inv s" and p: "p \<in> clients SubscriberClient s"
  shows "\<exists>s'. ping_client E p s = Some s'"
proof -
  obtain c where c: "heap s p = Some c" using client_live[OF p] by (auto simp: view_def)
  obtain w e where w: "sv_ping (env_io E) (io s) p = (w, e)" by fastforce
  have "\<exists>s'. drop_client E p (s\<lparr>io := w\<rparr>) = Some s'"
    using drop_client_ok[of "s\<lparr>io := w\<rparr>" p E] quiet_server_inv[OF quiet_io inv] p
    by (auto simp: clients_def)
  then show ?thesis using c w
    by (auto simp: ping_client_def split: option.splits)
qed

lemma ping_clients_ok:
  assumes "server_inv s" and "distinct ps" and "set ps \<subseteq> clients SubscriberClient s"
  shows "\<exists>s'. opt_fold (ping_client E) ps s = Some s' \<and> server_inv s' \<and> foreign s' = foreign s"
  using assms
proof (induction ps arbitrary: s)
  case Nil
  then show ?case by simp
next
  case (Cons p ps)
  then have p: "p \<in> clients SubscriberClient s" by simp
  obtain t where t: "ping_client E p s = Some t" using ping_client_total[OF Cons.prems(1) p] by blast
  from settled_server_inv[OF ping_client_settled[OF t] Cons.prems(1) p]
  have "server_inv t" and f: "foreign t = foreign s"
    and k: "kind_of t = kind_of s \<or> kind_of t = (kind_of s)(p := None)" by auto
  moreover have "set ps \<subseteq> clients SubscriberClient t" using Cons.prems k by (auto simp: clients_def)
  ultimately show ?case using Cons.IH[of t] Cons.prems(2) t f by auto
qed

lemma timer_ok:
  assumes "server_inv s" and "distinct ps" and "set ps \<subseteq> clients SubscriberClient s"
  shows "\<exists>s'. TimerEmited E ps tid s = Some s' \<and> server_inv s' \<and> foreign s' = foreign s"
  using ping_clients_ok[OF assms, of E] assms(1) by (auto simp: TimerEmited_def)

lemma received_moves:
  assumes d: "DataReceived E now p s = Some s'"
  shows "settled E p s s' \<or>
    (\<exists>w req e. HandleRequestClientLogin E now p req (s\<lparr>io := w\<rparr>) = Some (s', e))"
proof -
  obtain w r where r: "sv_read_command (env_io E) (io s) p = (w, r)" by fastforce
  let ?s = "s\<lparr>io := w\<rparr>"
  have settled_io: "settled E p s t" if "settled E p ?s t" for t
    using that quiet_trans[OF quiet_io[of s w]] by (auto simp: settled_def)
  show ?thesis
  proof (cases r)
    case (Inl err)
    then show ?thesis using d r by (auto simp: DataReceived_def settled_def)
  next
    case (Inr buff)
    show ?thesis
    proof (cases "rl_parse (env_rpc E) buff")
      case (Inl err)
      then show ?thesis using d r Inr by (auto simp: DataReceived_def HandleInnerDataReceived_def settled_def)
    next
      case parsed: (Inr rr)
      obtain req resp where rr: "rr = (req, resp)" by (cases rr)
      show ?thesis
      proof (cases req)
        case None
        then have "quiet ?s s'" using d r Inr parsed rr keepsD[OF response_keeps]
          by (auto simp: DataReceived_def HandleInnerDataReceived_def split: option.splits)
        then show ?thesis using settled_io by (auto simp: settled_def)
      next
        case (Some q)
        then obtain e where q: "HandleRequestCommand E now p q ?s = Some (s', e)"
          using d r Inr parsed rr
          by (auto simp: DataReceived_def HandleInnerDataReceived_def split: option.splits)
        show ?thesis
        proof (cases "rl_client_method (env_rpc E) (rq_method q) = Some CLIENT_LOGIN")
          case True
          then have "HandleRequestClientLogin E now p q ?s = Some (s', e)"
            using q by (simp add: HandleRequestCommand_def)
          then show ?thesis by blast
        next
          case False
          then show ?thesis using request_settles[OF False] q settled_io unfolding settles_def by blast
        qed
      qed
    qed
  qed
qed

lemma received_server_inv:
  assumes B: "bson_laws (env_bson E)" and inv: "server_inv s" and p: "p \<in> clients SubscriberClient s"
    and once: "\<not> registers_again s s'" and d: "DataReceived E now p s = Some s'"
  shows "server_inv s' \<and> foreign s' = foreign s"
proof -
  have io: "server_inv (s\<lparr>io := w\<rparr>)" "foreign (s\<lparr>io := w\<rparr>) = foreign s" for w
    using quiet_server_inv[OF quiet_io inv] quiet_foreign[OF quiet_io] by auto
  have once': "\<not> registers_again (s\<lparr>io := w\<rparr>) s'" for w
    using once registers_again_cong[of "s\<lparr>io := w\<rparr>" s s' s'] by simp
  show ?thesis
    using received_moves[OF d]
  proof
    assume "\<exists>w req e. HandleRequestClientLogin E now p req (s\<lparr>io := w\<rparr>) = Some (s', e)"
    then obtain w req e where "HandleRequestClientLogin E now p req (s\<lparr>io := w\<rparr>) = Some (s', e)" by blast
    from login_server_inv[OF B io(1) _ once' this] show ?thesis using client_live[OF p] io(2) by simp
  qed (use settled_server_inv[OF _ inv p] in blast)
qed

section \<open>Runs of the server\<close>

text \<open>The loop makes the object of a connection it accepts; the compression it is given is the library's.\<close>

definition SubscribersServer_CreateClient ::
    "fastotv_lib \<Rightarrow> ptr \<Rightarrow> ('io, 'a) registry_scheme \<Rightarrow> ('io, 'a) registry_scheme" where
  [simp]: "SubscribersServer_CreateClient L client s =
     alloc_client client (SubscriberInfo_new L SubscriberClient) s"

text \<open>
  One event of the loop: a connection is accepted, data has arrived from one, the timer has fired
  (the loop hands over all its clients), a connection is closed, the loop starts or ends.
\<close>

inductive serve ::
    "('io, 'db) env \<Rightarrow> ('io, 'db, 'a) sub_handler_scheme \<Rightarrow> ('io, 'db, 'a) sub_handler_scheme \<Rightarrow> bool" for E where
  accepts: "client \<noteq> nullptr \<Longrightarrow> view s client = None \<Longrightarrow>
    serve E s (Accepted (SubscribersServer_CreateClient (env_lib E) client s))"
| receives: "client \<in> clients SubscriberClient s \<Longrightarrow>
    DataReceived E now client s = Some s' \<Longrightarrow> serve E s s'"
| fires: "distinct ps \<Longrightarrow> set ps = clients SubscriberClient s \<Longrightarrow>
    TimerEmited E ps tid s = Some s' \<Longrightarrow> serve E s s'"
| closes: "client \<in> clients SubscriberClient s \<Longrightarrow> drop_client E client s = Some s' \<Longrightarrow> serve E s s'"
| starts: "serve E s (PreLooped E s)"
| ends: "serve E s (PostLooped E s)"

lemma accept_server_inv:
  assumes inv: "server_inv s" and p: "p \<noteq> nullptr" "view s p = None"
  shows "server_inv (Accepted (alloc_client p (SubscriberInfo_new L SubscriberClient) s)) \<and>
    foreign (Accepted (alloc_client p (SubscriberInfo_new L SubscriberClient) s)) = foreign s"
    (is "server_inv (Accepted ?t) \<and> _")
proof -
  have b: "books_inv s" using inv by (simp add: server_inv_def)
  have "books_inv (Accepted ?t)"
    by (rule books_inv_view[OF _ _ _ _ books_inv_open[OF b p]]) (simp_all add: Accepted_def)
  moreover have "clients SubscriberClient (Accepted ?t) = insert p (clients SubscriberClient s)"
    by (auto simp: clients_def kind_of_def Accepted_def alloc_client_def SubscriberInfo_new_def)
  moreover have "p \<notin> clients SubscriberClient s" using client_live p(2) by blast
  moreover have "online_clients (Accepted ?t) = online_clients s + 1"
    by (simp add: Accepted_def IServerHandler_Accepted_def alloc_client_def)
  moreover have "clients HttpClient (Accepted ?t) = clients HttpClient s"
    "collection_open (Accepted ?t) = collection_open s" "sub_handler.more (Accepted ?t) = sub_handler.more s"
    using p(2) by (auto simp: clients_def kind_of_def view_def Accepted_def alloc_client_def SubscriberInfo_new_def)
  ultimately show ?thesis using inv finite_clients[OF b] by (simp add: server_inv_def foreign_def)
qed

lemma loop_quiet: "quiet s (PreLooped E s)" "quiet s (PostLooped E s)"
  by (auto simp: quiet_def PreLooped_def PostLooped_def split: prod.splits)

lemma serve_server_inv:
  assumes B: "bson_laws (env_bson E)" and step: "serve E s s'" and once: "\<not> registers_again s s'"
    and inv: "server_inv s"
  shows "server_inv s' \<and> foreign s' = foreign s"
  using step
proof (cases rule: serve.cases)
  case (accepts client)
  then show ?thesis using accept_server_inv[OF inv] by simp
next
  case (receives client now)
  then show ?thesis using received_server_inv[OF B inv _ once] by blast
next
  case (fires ps tid)
  then show ?thesis using timer_ok[OF inv, of ps E tid] by auto
next
  case (closes client)
  then show ?thesis using drop_client_ok[OF inv, of client E] by auto
qed (use loop_quiet quiet_server_inv quiet_foreign inv in blast)+

lemma serves_server_inv:
  assumes "bson_laws (env_bson E)" and "(single_logins (serve E))\<^sup>*\<^sup>* s s'" and "server_inv s"
  shows "server_inv s' \<and> foreign s' = foreign s"
  using assms(2,3)
  by (induction rule: rtranclp_induct) (auto dest!: single_loginsD dest: serve_server_inv[OF assms(1)])

end
