(* ===== verification/Http_Handler.thy ===== *)
theory Http_Handler
  imports Subscribers_Handler Login
begin

text \<open>
  The http server (\<open>src/http/handler.cpp\<close>): it shares the subscribers manager with the server of
  the subscribers.  A request names the user, the password, the device, the stream, the channel
  and a file; the first request of a connection logs it in.
\<close>

section \<open>State and surroundings\<close>

text \<open>
  The state of the service: both servers over one manager.  \<open>http_clients\<close> is the counter of the
  http server, \<open>open_files\<close> the file descriptors it has open.
\<close>

record ('io, 'db) service = "('io, 'db) sub_handler" +
  http_clients :: online_clients_t
  open_files :: "int list"

datatype http_method = HM_GET | HM_HEAD | HM_OTHER string

datatype http_status =
    HS_OK | HS_PERMANENT_REDIRECT | HS_BAD_REQUEST | HS_FORBIDDEN | HS_NOT_FOUND | HS_OTHER nat

type_synonym http_headers = "(string \<times> string) list"

record http_request =
  hq_method :: http_method
  hq_protocol :: string
  hq_url :: gurl

text \<open>
  What is written to a client; the text of an error is a literal or the description of an error.
  The fixed server name in every answer is left out.
\<close>

datatype http_answer =
    SendError string http_status http_headers error bool
  | SendHeaders string http_status http_headers "string option" "int option" "int option" bool
  | SendFile string int int

record file_stat =
  st_size :: int
  st_mtime :: int
  st_dir :: bool

text \<open>
  The http library and the helpers of the common library: the parser (an error comes with a
  status), the search for a header, the comparison of texts, the parts of a url, \<open>Tokenize\<close>, the
  conversion of a channel identifier and \<open>MakeFileStringPath\<close>.
\<close>

record http_lib =
  hl_parse :: "string \<Rightarrow> (http_status \<times> error) + http_request"
  hl_header :: "http_request \<Rightarrow> string \<Rightarrow> bool \<Rightarrow> string option"
  hl_equals :: "string \<Rightarrow> string \<Rightarrow> bool \<Rightarrow> bool"
  hl_url_valid :: "gurl \<Rightarrow> bool"
  hl_path :: "gurl \<Rightarrow> string"
  hl_tokenize :: "string \<Rightarrow> string \<Rightarrow> string list"
  hl_channel_id :: "string \<Rightarrow> int option"
  hl_file_path :: "dirpath \<Rightarrow> string \<Rightarrow> string option"
  hl_file_name :: "gurl \<Rightarrow> string"
  hl_mime :: "string \<Rightarrow> string"

record 'io http_io =
  hi_single_read :: "'io \<Rightarrow> ptr \<Rightarrow> nat \<Rightarrow> 'io \<times> (errno + string)"
  hi_send :: "'io \<Rightarrow> ptr \<Rightarrow> http_answer \<Rightarrow> 'io \<times> errno option"
  hi_close :: "'io \<Rightarrow> ptr \<Rightarrow> 'io"
  hi_stat :: "'io \<Rightarrow> string \<Rightarrow> file_stat option"
  hi_open :: "'io \<Rightarrow> string \<Rightarrow> 'io \<times> int"
  hi_close_fd :: "'io \<Rightarrow> int \<Rightarrow> 'io"

record ('io, 'db) http_env =
  he_bson :: bson_lib
  he_lib :: fastotv_lib
  he_mongo :: "'db mongo_lib"
  he_http :: http_lib
  he_io :: "'io http_io"

section \<open>The loop\<close>

text \<open>The constructor of the http handler only stores the manager.\<close>

definition HttpHandler_new :: "('io, 'db) sub_handler \<Rightarrow> ('io, 'db) service" where
  "HttpHandler_new s = sub_handler.extend s \<lparr>http_clients = IServerHandler_init, open_files = []\<rparr>"

definition HttpHandler_Accepted :: "('io, 'db, 'a) service_scheme \<Rightarrow> ('io, 'db, 'a) service_scheme" where
  "HttpHandler_Accepted s = s\<lparr>http_clients := IServerHandler_Accepted (http_clients s)\<rparr>"

definition HttpHandler_Moved :: "('io, 'db, 'a) service_scheme \<Rightarrow> ('io, 'db, 'a) service_scheme" where
  "HttpHandler_Moved s = s\<lparr>http_clients := IServerHandler_Moved (http_clients s)\<rparr>"

definition HttpHandler_Closed ::
    "ptr \<Rightarrow> ('io, 'db, 'a) service_scheme \<Rightarrow> ('io, 'db, 'a) service_scheme option" where
  "HttpHandler_Closed client s =
     (case UnRegisterInnerConnectionByHost client s of
        None \<Rightarrow> None
      | Some (s1, Some unreg_err) \<Rightarrow> Some (s1\<lparr>http_clients := IServerHandler_Closed (http_clients s1)\<rparr>)
      | Some (s1, None) \<Rightarrow> Some (s1\<lparr>http_clients := IServerHandler_Closed (http_clients s1)\<rparr>))"

text \<open>\<open>ignore_result(hclient->Close()); delete hclient;\<close>\<close>

definition drop_http ::
    "('io, 'db) http_env \<Rightarrow> ptr \<Rightarrow> ('io, 'db, 'a) service_scheme \<Rightarrow> ('io, 'db, 'a) service_scheme option" where
  "drop_http H client s =
     (case HttpHandler_Closed client s of
        None \<Rightarrow> None
      | Some s1 \<Rightarrow> Some (free_client client (s1\<lparr>io := hi_close (he_io H) (io s1) client\<rparr>)))"

section \<open>Answers\<close>

definition http_send ::
    "('io, 'db) http_env \<Rightarrow> ptr \<Rightarrow> http_answer \<Rightarrow> ('io, 'db, 'a) service_scheme
     \<Rightarrow> ('io, 'db, 'a) service_scheme \<times> errno option" where
  "http_send H client a s = (let (w, e) = hi_send (he_io H) (io s) client a in (s\<lparr>io := w\<rparr>, e))"

definition extra_headers :: http_headers where
  "extra_headers = [(''Access-Control-Allow-Origin'', ''*'')]"

definition http_error ::
    "('io, 'db) http_env \<Rightarrow> ptr \<Rightarrow> http_request \<Rightarrow> bool \<Rightarrow> http_status \<Rightarrow> error
     \<Rightarrow> ('io, 'db, 'a) service_scheme \<Rightarrow> ('io, 'db, 'a) service_scheme option" where
  "http_error H client hrequest is_keep_alive st err s =
     Some (fst (http_send H client (SendError (hq_protocol hrequest) st extra_headers err is_keep_alive) s))"

text \<open>\<open>hclient->SetCurrentStreamID(sid)\<close>\<close>

definition watch ::
    "ptr \<Rightarrow> string \<Rightarrow> ('io, 'db, 'a) service_scheme \<Rightarrow> ('io, 'db, 'a) service_scheme option" where
  "watch client sid s =
     (case heap s client of
        None \<Rightarrow> None
      | Some c \<Rightarrow> Some (s\<lparr>heap := (heap s)(client \<mapsto> SetCurrentStreamID sid c)\<rparr>))"

definition send_redirect ::
    "('io, 'db) http_env \<Rightarrow> ptr \<Rightarrow> http_request \<Rightarrow> bool \<Rightarrow> string \<Rightarrow> gurl
     \<Rightarrow> ('io, 'db, 'a) service_scheme \<Rightarrow> ('io, 'db, 'a) service_scheme option" where
  "send_redirect H client hrequest is_keep_alive sid url_for_channel s =
     (case http_send H client
             (SendHeaders (hq_protocol hrequest) HS_PERMANENT_REDIRECT
                (extra_headers @ [(''Location'', fl_url_spec (he_lib H) url_for_channel)])
                None None None is_keep_alive) s of
        (s1, Some err) \<Rightarrow> Some s1
      | (s1, None) \<Rightarrow> watch client sid s1)"

definition close_file ::
    "('io, 'db) http_env \<Rightarrow> int \<Rightarrow> ('io, 'db, 'a) service_scheme \<Rightarrow> ('io, 'db, 'a) service_scheme" where
  "close_file H file s =
     s\<lparr>io := hi_close_fd (he_io H) (io s) file, open_files := remove1 file (open_files s)\<rparr>"

text \<open>The body of an open file: the headers, for a GET the contents, and the close.\<close>

definition send_body ::
    "('io, 'db) http_env \<Rightarrow> ptr \<Rightarrow> http_request \<Rightarrow> string \<Rightarrow> int \<Rightarrow> file_stat
     \<Rightarrow> ('io, 'db, 'a) service_scheme \<Rightarrow> ('io, 'db, 'a) service_scheme option" where
  "send_body H client hrequest sid file sb s =
     (if hq_method hrequest = HM_GET then
        (case http_send H client (SendFile (hq_protocol hrequest) file (st_size sb)) s of
           (s1, Some err) \<Rightarrow> Some s1
         | (s1, None) \<Rightarrow> watch client sid s1)
      else Some s)"

definition send_open_file ::
    "('io, 'db) http_env \<Rightarrow> ptr \<Rightarrow> http_request \<Rightarrow> bool \<Rightarrow> string \<Rightarrow> int \<Rightarrow> file_stat
     \<Rightarrow> ('io, 'db, 'a) service_scheme \<Rightarrow> ('io, 'db, 'a) service_scheme option" where
  "send_open_file H client hrequest is_keep_alive sid file sb s =
     (let mime = hl_mime (he_http H) (hl_file_name (he_http H) (hq_url hrequest)) in
      case http_send H client
             (SendHeaders (hq_protocol hrequest) HS_OK extra_headers (Some mime) (Some (st_size sb))
                (Some (st_mtime sb)) is_keep_alive) s of
        (s1, Some err) \<Rightarrow> Some (close_file H file s1)
      | (s1, None) \<Rightarrow>
          (case send_body H client hrequest sid file sb s1 of
             None \<Rightarrow> None
           | Some s2 \<Rightarrow> Some (close_file H file s2)))"

text \<open>\<open>INVALID_DESCRIPTOR\<close> is \<open>-1\<close>.\<close>

definition send_file ::
    "('io, 'db) http_env \<Rightarrow> ptr \<Rightarrow> http_request \<Rightarrow> bool \<Rightarrow> string \<Rightarrow> dirpath \<Rightarrow> string
     \<Rightarrow> ('io, 'db, 'a) service_scheme \<Rightarrow> ('io, 'db, 'a) service_scheme option" where
  "send_file H client hrequest is_keep_alive sid directory file_name s =
     (case hl_file_path (he_http H) directory file_name of
        None \<Rightarrow> http_error H client hrequest is_keep_alive HS_NOT_FOUND (ErrText ''File not found.'') s
      | Some file_path \<Rightarrow>
          (case hi_stat (he_io H) (io s) file_path of
             None \<Rightarrow> http_error H client hrequest is_keep_alive HS_NOT_FOUND (ErrText ''File not found.'') s
           | Some sb \<Rightarrow>
               if st_dir sb then
                 http_error H client hrequest is_keep_alive HS_BAD_REQUEST (ErrText ''Bad filename.'') s
               else
                 (case hi_open (he_io H) (io s) file_path of
                    (w, file) \<Rightarrow>
                      if file = - 1 then
                        http_error H client hrequest is_keep_alive HS_FORBIDDEN
                          (ErrText ''File is protected.'') (s\<lparr>io := w\<rparr>)
                      else
                        send_open_file H client hrequest is_keep_alive sid file sb
                          (s\<lparr>io := w, open_files := file # open_files s\<rparr>))))"

section \<open>Requests\<close>

text \<open>
  The tokens of a path: user, password, device, stream, channel, file.  A directory that is not
  valid leads to a redirect to the url, which then is the empty one.
\<close>

definition serve_stream ::
    "('io, 'db) http_env \<Rightarrow> ptr \<Rightarrow> http_request \<Rightarrow> bool \<Rightarrow> string list \<Rightarrow> server_db_auth
     \<Rightarrow> ('io, 'db, 'a) service_scheme \<Rightarrow> ('io, 'db, 'a) service_scheme option" where
  "serve_stream H client hrequest is_keep_alive tokens maybe_auth s =
     (let sid = tokens ! 3; file_name = tokens ! 5 in
      case hl_channel_id (he_http H) (tokens ! 4) of
        None \<Rightarrow> http_error H client hrequest is_keep_alive HS_NOT_FOUND (ErrText ''Invalid channel id.'') s
      | Some cid \<Rightarrow>
          (case ClientFindHttpDirectoryOrUrlForChannel (he_bson H) (he_lib H) (he_mongo H)
                  (auth_info.truncate maybe_auth) sid cid s of
             None \<Rightarrow> None
           | Some (Inl cerr) \<Rightarrow> http_error H client hrequest is_keep_alive HS_NOT_FOUND cerr s
           | Some (Inr (HttpUrl u)) \<Rightarrow> send_redirect H client hrequest is_keep_alive sid u s
           | Some (Inr (HttpDirectory directory)) \<Rightarrow>
               if \<not> fl_dir_valid (he_lib H) directory then
                 send_redirect H client hrequest is_keep_alive sid (fl_new_url (he_lib H)) s
               else send_file H client hrequest is_keep_alive sid directory file_name s))"

text \<open>A connection that is not logged in is logged in with the credentials in the path.\<close>

definition serve_path ::
    "('io, 'db) http_env \<Rightarrow> int \<Rightarrow> ptr \<Rightarrow> http_request \<Rightarrow> bool \<Rightarrow> string list
     \<Rightarrow> ('io, 'db, 'a) service_scheme \<Rightarrow> ('io, 'db, 'a) service_scheme option" where
  "serve_path H now client hrequest is_keep_alive tokens s =
     (case CheckIsLoginClient client s of
        None \<Rightarrow> None
      | Some (Inr maybe_auth) \<Rightarrow> serve_stream H client hrequest is_keep_alive tokens maybe_auth s
      | Some (Inl cerr) \<Rightarrow>
          (case ClientLogin_by_uid (he_bson H) (he_mongo H) now (tokens ! 0) (tokens ! 1) (tokens ! 2) s of
             None \<Rightarrow> None
           | Some (s1, Inl cerr) \<Rightarrow> http_error H client hrequest is_keep_alive HS_NOT_FOUND cerr s1
           | Some (s1, Inr maybe_auth) \<Rightarrow>
               (case RegisterInnerConnectionByHost (he_lib H) client maybe_auth s1 of
                  None \<Rightarrow> None
                | Some (s2, cerr) \<Rightarrow> serve_stream H client hrequest is_keep_alive tokens maybe_auth s2)))"

definition serve_url ::
    "('io, 'db) http_env \<Rightarrow> int \<Rightarrow> ptr \<Rightarrow> http_request \<Rightarrow> bool
     \<Rightarrow> ('io, 'db, 'a) service_scheme \<Rightarrow> ('io, 'db, 'a) service_scheme option" where
  "serve_url H now client hrequest is_keep_alive s =
     (let url_request = hq_url hrequest in
      if \<not> hl_url_valid (he_http H) url_request then
        http_error H client hrequest is_keep_alive HS_NOT_FOUND (ErrText ''Invalid request.'') s
      else
        let tokens = hl_tokenize (he_http H) (hl_path (he_http H) url_request) ''/'' in
        if length tokens < 6 then
          http_error H client hrequest is_keep_alive HS_NOT_FOUND (ErrText ''Invalid request.'') s
        else serve_path H now client hrequest is_keep_alive tokens s)"

definition keep_alive :: "http_lib \<Rightarrow> http_request \<Rightarrow> bool" where
  "keep_alive T hrequest =
     (case hl_header T hrequest ''Connection'' False of
        None \<Rightarrow> False
      | Some connection_field \<Rightarrow> hl_equals T connection_field ''Keep-Alive'' False)"

text \<open>Other methods are not answered; at the end the connection is closed unless it is kept alive.\<close>

definition ProcessReceived ::
    "('io, 'db) http_env \<Rightarrow> int \<Rightarrow> ptr \<Rightarrow> string
     \<Rightarrow> ('io, 'db, 'a) service_scheme \<Rightarrow> ('io, 'db, 'a) service_scheme option" where
  "ProcessReceived H now hclient request s =
     (case hl_parse (he_http H) request of
        Inl (st, err) \<Rightarrow>
          drop_http H hclient
            (fst (http_send H hclient (SendError ''1.1'' st extra_headers err False) s))
      | Inr hrequest \<Rightarrow>
          let is_keep_alive = keep_alive (he_http H) hrequest in
          (case (if hq_method hrequest = HM_GET \<or> hq_method hrequest = HM_HEAD then
                   serve_url H now hclient hrequest is_keep_alive s
                 else Some s) of
             None \<Rightarrow> None
           | Some s1 \<Rightarrow> if \<not> is_keep_alive then drop_http H hclient s1 else Some s1))"

text \<open>\<open>BUF_SIZE\<close> is 4096, and one byte of the buffer stays free.\<close>

definition HttpHandler_DataReceived ::
    "('io, 'db) http_env \<Rightarrow> int \<Rightarrow> ptr
     \<Rightarrow> ('io, 'db, 'a) service_scheme \<Rightarrow> ('io, 'db, 'a) service_scheme option" where
  "HttpHandler_DataReceived H now client s =
     (case hi_single_read (he_io H) (io s) client 4095 of
        (w, Inl errn) \<Rightarrow> drop_http H client (s\<lparr>io := w\<rparr>)
      | (w, Inr buff) \<Rightarrow>
          if buff = [] then drop_http H client (s\<lparr>io := w\<rparr>)
          else ProcessReceived H now client buff (s\<lparr>io := w\<rparr>))"

end
