(* ===== verification/Service.thy ===== *)
theory Service
  imports Serving Http_Handler
begin

text \<open>
  The two servers together: what a request of the http server may change, the balance of its file
  descriptors, and the invariant of the whole service, in which the server of the subscribers and
  the http server take turns on one registry and one store.
\<close>

section \<open>Requests of the http server\<close>

text \<open>
  An http request that does not log in leaves the sessions of both servers and their counters
  alone; only the store, the network, the current streams and the files may change.
\<close>

definition hquiet :: "('io, 'db, 'a) service_scheme \<Rightarrow> ('io, 'db, 'a) service_scheme \<Rightarrow> bool" where
  "hquiet s s' \<longleftrightarrow>
     view s' = view s \<and> kind_of s' = kind_of s \<and> connections s' = connections s \<and>
     observer s' = observer s \<and> events s' = events s \<and> online_clients s' = online_clients s \<and>
     collection_open s' = collection_open s \<and> notices s' = notices s \<and>
     http_clients s' = http_clients s \<and> service.more s' = service.more s"

definition hkeeps :: "(('io, 'db, 'a) service_scheme \<Rightarrow> ('io, 'db, 'a) service_scheme option) \<Rightarrow> bool" where
  "hkeeps k \<longleftrightarrow> (\<forall>s s'. k s = Some s' \<longrightarrow> hquiet s s' \<and> open_files s' = open_files s)"

lemma hquiet_refl [simp, intro]: "hquiet s s"
  by (simp add: hquiet_def)

lemma hquiet_trans: "hquiet s t \<Longrightarrow> hquiet t u \<Longrightarrow> hquiet s u"
  by (simp add: hquiet_def)

lemma service_updates [simp]:
  "view (s\<lparr>http_clients := n\<rparr>) = view s" "view (s\<lparr>open_files := fs\<rparr>) = view s"
  "kind_of (s\<lparr>http_clients := n\<rparr>) = kind_of s" "kind_of (s\<lparr>open_files := fs\<rparr>) = kind_of s"
  by (simp_all add: view_def kind_of_def fun_eq_iff)

lemma hquiet_io [simp, intro]: "hquiet s (s\<lparr>io := w\<rparr>)" "hquiet s (s\<lparr>io := w, open_files := fs\<rparr>)"
  by (simp_all add: hquiet_def)

lemma hkeepsI:
  "(\<And>s s'. k s = Some s' \<Longrightarrow> hquiet s s') \<Longrightarrow> (\<And>s s'. k s = Some s' \<Longrightarrow> open_files s' = open_files s) \<Longrightarrow>
     hkeeps k"
  by (simp add: hkeeps_def)

lemma hkeepsD: "hkeeps k \<Longrightarrow> k s = Some s' \<Longrightarrow> hquiet s s' \<and> open_files s' = open_files s"
  by (simp add: hkeeps_def)

lemma http_send_eq: "http_send H client a s = (t, e) \<Longrightarrow> \<exists>w. t = s\<lparr>io := w\<rparr>"
  by (auto simp: http_send_def split: prod.splits)

lemma http_error_keeps: "hkeeps (http_error H client r k st err)"
  by (auto simp: hkeeps_def http_error_def http_send_def split: prod.splits)

lemma watch_keeps: "hkeeps (watch client sid)"
  by (auto simp: hkeeps_def watch_def hquiet_def view_def kind_of_def SetCurrentStreamID_def fun_eq_iff
      split: option.splits)

lemma hkeeps_io:
  "hkeeps k \<Longrightarrow> k (s\<lparr>io := w\<rparr>) = Some s' \<Longrightarrow> hquiet s s' \<and> open_files s' = open_files s"
  using hkeepsD[of k "s\<lparr>io := w\<rparr>" s'] hquiet_trans[OF hquiet_io(1)[of s w], of s'] by simp

lemma hkeeps_after_send:
  assumes "http_send H client a s = (t, e)" and "hkeeps k" and "k t = Some s'"
  shows "hquiet s s' \<and> open_files s' = open_files s"
proof -
  obtain w where "t = s\<lparr>io := w\<rparr>" using http_send_eq[OF assms(1)] by blast
  then show ?thesis using hkeeps_io[OF assms(2), where s = s and s' = s' and w = w] assms(3) by simp
qed

lemma hquiet_after_send:
  "http_send H client a s = (t, e) \<Longrightarrow> hquiet s t \<and> open_files t = open_files s"
  using http_send_eq[of H client a s t e] by auto

lemma send_redirect_keeps: "hkeeps (send_redirect H client r k sid u)"
  by (auto simp: hkeeps_def send_redirect_def split: prod.splits option.splits
      dest: hquiet_after_send hkeeps_after_send[OF _ watch_keeps])

lemma send_body_keeps: "hkeeps (send_body H client r sid file sb)"
  by (auto simp: hkeeps_def send_body_def split: if_splits prod.splits option.splits
      dest: hquiet_after_send hkeeps_after_send[OF _ watch_keeps])

text \<open>A file is closed on every path once it is open.\<close>

lemma send_open_file_closes:
  assumes "send_open_file H client r k sid file sb s = Some s'"
  shows "hquiet s s' \<and> open_files s' = remove1 file (open_files s)"
proof -
  have close: "hquiet t (close_file H file t)" "open_files (close_file H file t) = remove1 file (open_files t)"
    for t :: "('a, 'b, 'c) service_scheme" by (simp_all add: close_file_def)
  obtain mime where mime: "mime = hl_mime (he_http H) (hl_file_name (he_http H) (hq_url r))" by simp
  obtain t e where t: "http_send H client (SendHeaders (hq_protocol r) HS_OK extra_headers (Some mime)
      (Some (st_size sb)) (Some (st_mtime sb)) k) s = (t, e)" by fastforce
  note sent = hquiet_after_send[OF t]
  show ?thesis
  proof (cases e)
    case (Some err)
    then have "s' = close_file H file t" using assms t mime by (simp add: send_open_file_def Let_def)
    then show ?thesis using close[of t] sent hquiet_trans by metis
  next
    case None
    then obtain u where u: "send_body H client r sid file sb t = Some u" "s' = close_file H file u"
      using assms t mime by (auto simp: send_open_file_def Let_def split: option.splits)
    then show ?thesis using close[of u] sent hkeepsD[OF send_body_keeps u(1)] hquiet_trans by metis
  qed
qed

lemma send_file_keeps: "hkeeps (send_file H client r k sid d f)"
proof (rule hkeepsI)
  fix s s' :: "('a, 'b, 'c) service_scheme"
  assume s': "send_file H client r k sid d f s = Some s'"
  have err: "http_error H client r k st e t = Some s' \<Longrightarrow> hquiet t s' \<and> open_files s' = open_files t" for st e t
    using hkeepsD[OF http_error_keeps] by blast
  have "hquiet s s' \<and> open_files s' = open_files s"
  proof (cases "hl_file_path (he_http H) d f")
    case None
    then show ?thesis using s' err by (simp add: send_file_def)
  next
    case path: (Some path)
    show ?thesis
    proof (cases "hi_stat (he_io H) (io s) path")
      case None
      then show ?thesis using s' err path by (simp add: send_file_def)
    next
      case (Some sb)
      obtain w fd where w: "hi_open (he_io H) (io s) path = (w, fd)" by fastforce
      show ?thesis
      proof (cases "st_dir sb \<or> fd = - 1")
        case True
        then show ?thesis using s' path Some w
          by (auto simp: send_file_def split: if_splits dest: err hkeeps_io[OF http_error_keeps])
      next
        case False
        then have "send_open_file H client r k sid fd sb (s\<lparr>io := w, open_files := fd # open_files s\<rparr>) = Some s'"
          using s' path Some w by (simp add: send_file_def)
        from send_open_file_closes[OF this] show ?thesis
          using hquiet_trans[OF hquiet_io(2)] by auto
      qed
    qed
  qed
  then show "hquiet s s'" "open_files s' = open_files s" by simp_all
qed

lemma serve_stream_keeps: "hkeeps (serve_stream H client r k tokens a)"
proof -
  note parts = hkeepsD[OF http_error_keeps] hkeepsD[OF send_redirect_keeps] hkeepsD[OF send_file_keeps]
  have "hquiet s s' \<and> open_files s' = open_files s"
    if "serve_stream H client r k tokens a s = Some s'" for s s' :: "('a, 'b, 'c) service_scheme"
    using that unfolding serve_stream_def Let_def
    by (auto split: option.splits sum.splits http_target.splits if_splits dest: parts)
  then show ?thesis by (simp add: hkeeps_def)
qed

section \<open>The invariant of the service\<close>

definition service_inv :: "('io, 'db, 'a) service_scheme \<Rightarrow> bool" where
  "service_inv s \<longleftrightarrow>
     books_inv s \<and>
     online_clients s = of_nat (card (clients SubscriberClient s)) \<and>
     http_clients s = of_nat (card (clients HttpClient s))"

lemma hquiet_service_inv: "hquiet s s' \<Longrightarrow> service_inv s \<Longrightarrow> service_inv s'"
  by (auto simp: hquiet_def service_inv_def clients_def intro: books_inv_view)

lemma drop_http_eq:
  "drop_http H client s =
     map_option (\<lambda>t. t\<lparr>http_clients := http_clients s - 1, io := hi_close (he_io H) (io s) client\<rparr>)
       (session_drop client s)"
proof (cases "UnRegisterInnerConnectionByHost client s")
  case (Some r)
  obtain t e where r: "r = (t, e)" by (cases r)
  have "http_clients t = http_clients s" "io t = io s"
    using Some r by (auto simp: UnRegisterInnerConnectionByHost_def ISubscribersManager_UnRegister_def
        split: if_splits option.splits)
  then show ?thesis using Some r
    by (cases e) (simp_all add: drop_http_def HttpHandler_Closed_def session_drop_def free_client_def
        IServerHandler_Closed_def)
qed (simp add: drop_http_def HttpHandler_Closed_def session_drop_def)

lemma session_frames:
  "session_drop p s = Some t \<Longrightarrow>
     http_clients t = http_clients s \<and> open_files t = open_files s \<and> service.more t = service.more s"
  "session_login L p a s = Some t \<Longrightarrow>
     http_clients t = http_clients s \<and> open_files t = open_files s \<and> service.more t = service.more s"
  by (auto simp: session_drop_def UnRegisterInnerConnectionByHost_def ISubscribersManager_UnRegister_def
      session_login_def RegisterInnerConnectionByHost_def ISubscribersManager_Register_def
      free_client_def Let_def split: if_splits option.splits)

lemma session_counter: "session_drop p s = Some t \<Longrightarrow> online_clients t = online_clients s"
  by (auto simp: session_drop_def UnRegisterInnerConnectionByHost_def ISubscribersManager_UnRegister_def
      free_client_def split: if_splits option.splits)

lemma drop_http_ok:
  assumes inv: "service_inv s" and p: "p \<in> clients HttpClient s"
  shows "\<exists>s'. drop_http H p s = Some s' \<and> service_inv s' \<and> open_files s' = open_files s \<and>
    service.more s' = service.more s \<and> view s' = (view s)(p := None)"
proof -
  have b: "books_inv s" using inv by (simp add: service_inv_def)
  obtain t where t: "session_drop p s = Some t" "books_inv t" "view t = (view s)(p := None)"
    using books_inv_drop[OF b client_live[OF p]] by blast
  note k = session_drop_kinds[OF t(1)]
  let ?s' = "t\<lparr>http_clients := http_clients s - 1, io := hi_close (he_io H) (io s) p\<rparr>"
  have "books_inv ?s'" by (rule books_inv_view[OF _ _ _ _ t(2)]) simp_all
  moreover have "clients HttpClient ?s' = clients HttpClient s - {p}"
    "clients SubscriberClient ?s' = clients SubscriberClient s"
    using k p by (auto simp: clients_def)
  moreover have "card (clients HttpClient s) = Suc (card (clients HttpClient s - {p}))"
    using card_Suc_Diff1[OF finite_clients[OF b] p] by simp
  ultimately have "service_inv ?s'" using inv session_counter[OF t(1)] by (simp add: service_inv_def)
  then show ?thesis using t session_frames(1)[OF t(1)] by (simp add: drop_http_eq)
qed

lemma serve_path_ok:
  assumes B: "bson_laws (he_bson H)" and inv: "service_inv s" and p: "p \<in> clients HttpClient s"
    and ok: "serve_path H now p r k tokens s = Some s'"
  shows "service_inv s' \<and> open_files s' = open_files s \<and> service.more s' = service.more s \<and> kind_of s' = kind_of s"
proof -
  have b: "books_inv s" using inv by (simp add: service_inv_def)
  note si = books_inv_session[OF b]
  have hq: "service_inv u \<and> open_files u = open_files t \<and> service.more u = service.more t \<and> kind_of u = kind_of t"
    if "hquiet t u \<and> open_files u = open_files t" "service_inv t" for t u :: "('a, 'b, 'c) service_scheme"
    using that hquiet_service_inv by (auto simp: hquiet_def)
  obtain c where c: "heap s p = Some c" using client_live[OF p] by (auto simp: view_def)
  have null: "p \<noteq> nullptr" by (rule heap_not_null[OF session_inv_reg[OF si] c])
  show ?thesis
  proof (cases "co_login c")
    case (Some a)
    then have "serve_stream H p r k tokens a s = Some s'"
      using ok c null by (simp add: serve_path_def CheckIsLoginClient_def)
    from hq[OF hkeepsD[OF serve_stream_keeps this] inv] show ?thesis .
  next
    case None
    then have v: "view s p = Some None" using c by (simp add: view_def)
    obtain s1 res where s1: "ClientLogin_by_uid (he_bson H) (he_mongo H) now (tokens ! 0) (tokens ! 1) (tokens ! 2) s =
        Some (s1, res)" using login_total(2)[OF B si] by blast
    have "store_only s s1" by (rule ClientLogin_by_uid_store[OF s1])
    then have hq1: "hquiet s s1 \<and> open_files s1 = open_files s"
      by (auto simp: store_only_def hquiet_def)
    note inv1 = hq[OF hq1 inv]
    show ?thesis
    proof (cases res)
      case (Inl err)
      then have "http_error H p r k HS_NOT_FOUND err s1 = Some s'"
        using ok c null None s1 by (simp add: serve_path_def CheckIsLoginClient_def)
      from hq[OF hkeepsD[OF http_error_keeps this]] inv1 show ?thesis by simp
    next
      case (Inr a)
      then obtain s2 where s2: "session_login (he_lib H) p a s1 = Some s2"
        and rest: "serve_stream H p r k tokens a s2 = Some s'"
        using ok c null None s1
        by (auto simp: serve_path_def CheckIsLoginClient_def session_login_def split: option.splits)
      have v1: "view s1 = view s" using hq1 by (simp add: hquiet_def)
      have "device_free s (db_uid a) (ai_device a)"
        using gate.fresh[of "he_bson H" s undefined "he_mongo H"
            "ByUserId now (tokens ! 0) (tokens ! 1) (tokens ! 2)" s1 a] B si s1 Inr by simp
      then have "device_free s1 (db_uid a) (ai_device a)"
        by (simp add: device_free_def online_def identity_of_def v1)
      then have b2: "books_inv s2" using books_inv_login[OF _ _ _ s2] inv1 v v1 by (simp add: service_inv_def)
      have "service_inv s2"
        using b2 inv1 session_login_frame[OF s2] session_login_counter[OF s2] session_frames(2)[OF s2]
        by (simp add: service_inv_def clients_def)
      from hq[OF hkeepsD[OF serve_stream_keeps rest] this] show ?thesis
        using inv1 session_frames(2)[OF s2] session_login_frame[OF s2] by simp
    qed
  qed
qed

lemma serve_url_ok:
  assumes "bson_laws (he_bson H)" and "service_inv s" and "p \<in> clients HttpClient s"
    and "serve_url H now p r k s = Some s'"
  shows "service_inv s' \<and> open_files s' = open_files s \<and> service.more s' = service.more s \<and> kind_of s' = kind_of s"
proof -
  have "service_inv s' \<and> open_files s' = open_files s \<and> service.more s' = service.more s \<and> kind_of s' = kind_of s"
    if "http_error H p r k st err s = Some s'" for st err
    using hkeepsD[OF http_error_keeps that] hquiet_service_inv[OF _ assms(2)] by (auto simp: hquiet_def)
  then show ?thesis using assms(4) serve_path_ok[OF assms(1-3)]
    by (auto simp: serve_url_def Let_def split: if_splits)
qed

lemma process_ok:
  assumes B: "bson_laws (he_bson H)" and inv: "service_inv s" and p: "p \<in> clients HttpClient s"
    and ok: "ProcessReceived H now p request s = Some s'"
  shows "service_inv s' \<and> open_files s' = open_files s \<and> service.more s' = service.more s"
proof -
  have dropped: "service_inv s' \<and> open_files s' = open_files s \<and> service.more s' = service.more s"
    if "drop_http H p t = Some s'" "service_inv t" "open_files t = open_files s"
      "service.more t = service.more s" "kind_of t = kind_of s" for t
    using drop_http_ok[of t p H] that p by (auto simp: clients_def)
  show ?thesis
  proof (cases "hl_parse (he_http H) request")
    case (Inl e)
    obtain st err where e: "e = (st, err)" by (cases e)
    obtain t e2 where t: "http_send H p (SendError ''1.1'' st extra_headers err False) s = (t, e2)" by fastforce
    then have "drop_http H p t = Some s'" using ok Inl e by (simp add: ProcessReceived_def)
    then show ?thesis
      using dropped hquiet_after_send[OF t] hquiet_service_inv[OF _ inv] by (auto simp: hquiet_def)
  next
    case (Inr r)
    let ?k = "keep_alive (he_http H) r"
    obtain t where t: "(if hq_method r = HM_GET \<or> hq_method r = HM_HEAD then serve_url H now p r ?k s else Some s) = Some t"
      and s': "(if \<not> ?k then drop_http H p t else Some t) = Some s'"
      using ok Inr by (auto simp: ProcessReceived_def Let_def split: option.splits)
    have "service_inv t \<and> open_files t = open_files s \<and> service.more t = service.more s \<and> kind_of t = kind_of s"
      using t serve_url_ok[OF B inv p, of now r ?k t] inv by (auto split: if_splits)
    then show ?thesis using s' dropped by (auto split: if_splits)
  qed
qed

lemma http_received_ok:
  assumes B: "bson_laws (he_bson H)" and inv: "service_inv s" and p: "p \<in> clients HttpClient s"
    and ok: "HttpHandler_DataReceived H now p s = Some s'"
  shows "service_inv s' \<and> open_files s' = open_files s \<and> service.more s' = service.more s"
proof -
  obtain w r where r: "hi_single_read (he_io H) (io s) p 4095 = (w, r)" by fastforce
  let ?s = "s\<lparr>io := w\<rparr>"
  have inv1: "service_inv ?s" by (rule hquiet_service_inv[OF hquiet_io(1) inv])
  have p1: "p \<in> clients HttpClient ?s" using p by (simp add: clients_def)
  have "drop_http H p ?s = Some s' \<or> (\<exists>buff. ProcessReceived H now p buff ?s = Some s')"
    using ok r by (auto simp: HttpHandler_DataReceived_def split: sum.splits if_splits)
  then show ?thesis using drop_http_ok[OF inv1 p1, of H] process_ok[OF B inv1 p1] by auto
qed

lemma http_accept_ok:
  assumes inv: "service_inv s" and p: "p \<noteq> nullptr" "view s p = None"
  shows "service_inv (HttpHandler_Accepted (alloc_client p (SubscriberInfo_new L HttpClient) s))"
    (is "service_inv (HttpHandler_Accepted ?t)")
proof -
  have b: "books_inv s" using inv by (simp add: service_inv_def)
  have "books_inv (HttpHandler_Accepted ?t)"
    by (rule books_inv_view[OF _ _ _ _ books_inv_open[OF b p]]) (simp_all add: HttpHandler_Accepted_def)
  moreover have "clients HttpClient (HttpHandler_Accepted ?t) = insert p (clients HttpClient s)"
    by (auto simp: clients_def kind_of_def HttpHandler_Accepted_def alloc_client_def SubscriberInfo_new_def)
  moreover have "clients SubscriberClient (HttpHandler_Accepted ?t) = clients SubscriberClient s"
    using p(2) by (auto simp: clients_def kind_of_def view_def HttpHandler_Accepted_def alloc_client_def
        SubscriberInfo_new_def)
  moreover have "p \<notin> clients HttpClient s" using client_live p(2) by blast
  moreover have "http_clients (HttpHandler_Accepted ?t) = http_clients s + 1"
    "online_clients (HttpHandler_Accepted ?t) = online_clients s"
    by (simp_all add: HttpHandler_Accepted_def IServerHandler_Accepted_def alloc_client_def)
  ultimately show ?thesis using inv finite_clients[OF b] by (simp add: service_inv_def)
qed

lemma notification_quiet:
  assumes "SendSubscriberNotification C uid dev txt s = Some (s', e)"
  shows "hquiet s s' \<and> open_files s' = open_files s"
proof -
  have "\<exists>w. s' = s\<lparr>io := w\<rparr> \<or> s' = s" using assms
    by (auto simp: SendSubscriberNotification_def split: option.splits prod.splits)
  then show ?thesis by auto
qed

section \<open>Runs of the service\<close>

definition HttpServer_CreateClient ::
    "fastotv_lib \<Rightarrow> ptr \<Rightarrow> ('io, 'a) registry_scheme \<Rightarrow> ('io, 'a) registry_scheme" where
  [simp]: "HttpServer_CreateClient L client s = alloc_client client (SubscriberInfo_new L HttpClient) s"

text \<open>
  An event of the service: one of the server of the subscribers, a connection, data or a closing at
  the http server, or a notification that the daemon wants to be sent.
\<close>

inductive service_step ::
    "('io, 'db) env \<Rightarrow> ('io, 'db) http_env \<Rightarrow> 'io client_io
     \<Rightarrow> ('io, 'db, 'a) service_scheme \<Rightarrow> ('io, 'db, 'a) service_scheme \<Rightarrow> bool" for E H C where
  subscribers: "serve E s s' \<Longrightarrow> service_step E H C s s'"
| http_accepts: "client \<noteq> nullptr \<Longrightarrow> view s client = None \<Longrightarrow>
    service_step E H C s
      (HttpHandler_Accepted (HttpServer_CreateClient (he_lib H) client s))"
| http_receives: "client \<in> clients HttpClient s \<Longrightarrow>
    HttpHandler_DataReceived H now client s = Some s' \<Longrightarrow> service_step E H C s s'"
| http_closes: "client \<in> clients HttpClient s \<Longrightarrow> drop_http H client s = Some s' \<Longrightarrow>
    service_step E H C s s'"
| notifies: "SendSubscriberNotification C uid dev txt s = Some (s', e) \<Longrightarrow> service_step E H C s s'"

lemma more_service:
  "sub_handler.more s' = sub_handler.more s \<Longrightarrow>
     http_clients s' = http_clients s \<and> open_files s' = open_files s \<and> service.more s' = service.more s"
  by (cases s, cases s') simp

lemma serve_service_inv:
  assumes B: "bson_laws (env_bson E)" and step: "serve E s s'" and once: "\<not> registers_again s s'"
    and inv: "service_inv s"
  shows "service_inv s' \<and> open_files s' = open_files s \<and> service.more s' = service.more s"
proof -
  have "server_inv s" using inv by (simp add: service_inv_def server_inv_def)
  from serve_server_inv[OF B step once this] have "server_inv s'" "foreign s' = foreign s" by auto
  moreover from this(2) have "http_clients s' = http_clients s \<and> open_files s' = open_files s \<and> service.more s' = service.more s"
    by (intro more_service) (simp add: foreign_def)
  ultimately show ?thesis using inv by (simp add: service_inv_def server_inv_def foreign_def)
qed

lemma service_step_inv:
  assumes B: "bson_laws (env_bson E)" "bson_laws (he_bson H)"
    and step: "service_step E H C s s'" and once: "\<not> registers_again s s'" and inv: "service_inv s"
  shows "service_inv s' \<and> open_files s' = open_files s \<and> service.more s' = service.more s"
  using step
proof (cases rule: service_step.cases)
  case subscribers
  then show ?thesis by (rule serve_service_inv[OF B(1) _ once inv])
next
  case (http_accepts client)
  then show ?thesis using http_accept_ok[OF inv, of client "he_lib H"]
    by (simp add: HttpHandler_Accepted_def alloc_client_def)
next
  case (http_receives client now)
  then show ?thesis using http_received_ok[OF B(2) inv] by blast
next
  case (http_closes client)
  then show ?thesis using drop_http_ok[OF inv, of client H] by auto
next
  case (notifies uid dev msg e)
  then show ?thesis using notification_quiet[of C uid dev msg s s' e] hquiet_service_inv[OF _ inv]
    by (simp add: hquiet_def)
qed

lemma service_steps_inv:
  assumes "bson_laws (env_bson E)" and "bson_laws (he_bson H)"
    and "(single_logins (service_step E H C))\<^sup>*\<^sup>* s s'" and "service_inv s"
  shows "service_inv s' \<and> open_files s' = open_files s \<and> service.more s' = service.more s"
  using assms(3,4)
  by (induction rule: rtranclp_induct) (auto dest!: single_loginsD dest: service_step_inv[OF assms(1,2)])

end
