(* ===== verification/Catchup_Store.thy ===== *)
theory Catchup_Store
  imports Catchups Serial_Info
begin

text \<open>
  What the recording of a programme leaves in the store: the document of a catchup is read back
  as the catchup that was announced, up to the groups, the parts, the meta urls and the two
  flags; a second request for the programme finds it; an error leaves the store alone.
\<close>

section \<open>Urls in documents\<close>

text \<open>
  The specification of a uri and the path of a directory are texts; an output is canonical when
  they give back the uri and the directory they come from.
\<close>

definition canonical_url :: "fastotv_lib \<Rightarrow> gurl \<Rightarrow> bool" where
  "canonical_url L u \<longleftrightarrow> GURL (fl_url_spec L u) = u"

definition canonical_output :: "fastotv_lib \<Rightarrow> output_uri \<Rightarrow> bool" where
  "canonical_output L out \<longleftrightarrow>
     canonical_url L (ou_url out) \<and>
     (case ou_http_root out of None \<Rightarrow> True | Some root \<Rightarrow> DirPath (fl_dir_path L root) = root)"

definition stored_output :: "fastotv_lib \<Rightarrow> output_uri \<Rightarrow> output_uri" where
  "stored_output L out =
     \<lparr>ou_id = ou_id out, ou_url = GURL (fl_url_spec L (ou_url out)),
      ou_http_root = map_option (\<lambda>root. DirPath (fl_dir_path L root)) (ou_http_root out),
      ou_hls_type = ou_hls_type out\<rparr>"

lemma canonical_stored: "canonical_output L out \<Longrightarrow> stored_output L out = out"
  by (cases out) (auto simp: canonical_output_def canonical_url_def stored_output_def
      split: option.splits)

lemma output_url_stored:
  assumes B: "bson_laws B"
  shows "output_url B (output_entry L out) = Some (stored_output L out)"
  by (cases "ou_http_root out"; cases "ou_hls_type out")
    (simp_all add: output_entry_def output_url_def find_in_def init_find_map_of[OF B]
      optional_field_def stored_output_def)

lemma stored_outputs:
  assumes B: "bson_laws B"
  shows "GetOutputUrlData B (bson_array B (map (output_entry L) urls)) =
           Some (map (stored_output L) urls)"
proof -
  have "output_urls B (map (\<lambda>(i, v). (bl_index B i, v)) (List.enumerate n (map (output_entry L) urls))) =
      map (stored_output L) urls" for n
    by (induction urls arbitrary: n) (simp_all add: output_url_stored[OF B])
  then show ?thesis by (simp add: GetOutputUrlData_def bson_array_def)
qed

text \<open>
  Output urls survive the store: the array that is written for a list of outputs is read back
  as this list, whatever http roots and hls types are set.
\<close>

theorem outputs_roundtrip:
  assumes "bson_laws B" and "\<forall>u \<in> set urls. canonical_output L u"
  shows "\<exists>v. CreateOutputUrl B L urls d = d @ [(''output'', v)] \<and> GetOutputUrlData B v = Some urls"
proof -
  have "map (stored_output L) urls = urls"
    using assms(2) by (simp add: canonical_stored map_idI)
  then show ?thesis using stored_outputs[OF assms(1), of L urls] by (simp add: CreateOutputUrl_def)
qed

theorem outputs_roundtrip_witness:
  "\<exists>v. CreateOutputUrl sample_bson sample_lib
         [\<lparr>ou_id = 4, ou_url = GURL ''http://a'', ou_http_root = Some (DirPath ''/b''), ou_hls_type = None\<rparr>] [] =
         [(''output'', v)] \<and>
       GetOutputUrlData sample_bson v =
         Some [\<lparr>ou_id = 4, ou_url = GURL ''http://a'', ou_http_root = Some (DirPath ''/b''), ou_hls_type = None\<rparr>]"
  using outputs_roundtrip[OF sample_bson_laws,
      of "[\<lparr>ou_id = 4, ou_url = GURL ''http://a'', ou_http_root = Some (DirPath ''/b''), ou_hls_type = None\<rparr>]"
        sample_lib "[]"]
  by (simp add: canonical_output_def canonical_url_def sample_lib_def)

section \<open>Reading the document of a catchup\<close>

definition catchup_urls :: "bson_lib \<Rightarrow> fastotv_lib \<Rightarrow> oid \<Rightarrow> host \<times> dirpath \<Rightarrow> output_uri list \<Rightarrow> output_uri list" where
  "catchup_urls B L cid endpoint ourls =
     map (catchup_output L (ConvertToString B cid) (fst endpoint) (snd endpoint)) ourls"

lemma catchup_document_urls:
  "snd (catchup_document B L cid now endpoint ch title start stop ourls) =
     catchup_urls B L cid endpoint ourls"
  by (simp add: catchup_document_def CreateCatchupOutputUrl_def Let_def catchup_urls_def)

text \<open>The elements of the document that a reader looks at, and that the keys are distinct.\<close>

lemma catchup_document_keys:
  "keys_of (fst (catchup_document B L cid now endpoint ch title start stop ourls)) =
     [''_id'', ''_cls'', ''created_date'', ''name'', ''groups'', ''tvg_id'', ''tvg_name'', ''tvg_logo'',
      ''price'', ''visible'', ''iarc'', ''view_count'', ''parts'', ''output'', ''log_level'', ''input'',
      ''have_video'', ''have_audio'', ''loop'', ''restart_attempts'', ''auto_exit_time'',
      ''extra_config'', ''video_parser'', ''audio_parser'', ''timeshift_chunk_duration'',
      ''timeshift_chunk_life_time'', ''start'', ''stop'']"
  by (simp add: catchup_document_def CreateCatchupOutputUrl_def CreateOutputUrl_def CreateInputUrl_def
      Let_def keys_of_def)

lemma catchup_document_distinct:
  "distinct (keys_of (fst (catchup_document B L cid now endpoint ch title start stop ourls)))"
  unfolding catchup_document_keys by simp

lemma catchup_document_fields:
  fixes B L cid now endpoint ch title start stop ourls
  defines "d \<equiv> fst (catchup_document B L cid now endpoint ch title start stop ourls)"
  shows "map_of d ''_id'' = Some (BOid cid)"
    and "map_of d ''name'' = Some (BUtf8 title)"
    and "map_of d ''groups'' = Some (BArr [(''languages'', bson_array B (map BUtf8 (sb_groups ch)))])"
    and "map_of d ''tvg_id'' = Some (BUtf8 (ep_tvg_id (ci_epg ch)))"
    and "map_of d ''tvg_logo'' = Some (BUtf8 (fl_url_spec L (ep_icon_url (ci_epg ch))))"
    and "map_of d ''visible'' = Some (BBool True)"
    and "map_of d ''iarc'' = Some (BInt32 (sb_iarc ch))"
    and "map_of d ''view_count'' = Some (BInt32 0)"
    and "map_of d ''parts'' = Some (BArr [])"
    and "map_of d ''meta'' = None"
    and "map_of d ''output'' =
      Some (bson_array B (map (output_entry L) (catchup_urls B L cid endpoint ourls)))"
    and "map_of d ''have_video'' = Some (BBool (IsEnableVideo L ch))"
    and "map_of d ''have_audio'' = Some (BBool (IsEnableAudio L ch))"
    and "map_of d ''start'' = Some (BDate start)"
    and "map_of d ''stop'' = Some (BDate stop)"
  unfolding d_def
  by (simp_all add: catchup_document_def CreateCatchupOutputUrl_def CreateOutputUrl_def
      CreateInputUrl_def Let_def catchup_epg_def catchup_urls_def)

lemma accepts_lookup:
  assumes d: "distinct (keys_of d)"
    and typed: "\<And>k t v. (k, t) \<in> set schema \<Longrightarrow> map_of d k = Some v \<Longrightarrow> holds B t v"
    and keys: "set (mandatory schema) \<subseteq> set (keys_of d)"
  shows "accepts B schema proxy d"
proof -
  have "well_typed B schema (fst e) (snd e)" if "e \<in> set d" for e
  proof -
    have "map_of d (fst e) = Some (snd e)" using d that by (simp add: keys_of_def)
    then show ?thesis using typed by (auto simp: well_typed_def dest: map_of_SomeD split: option.splits)
  qed
  then show ?thesis using keys by (simp add: accepts_def)
qed

lemma catchup_document_accepted:
  "accepts B catchup_schema False
     (fst (catchup_document B L cid now endpoint ch title start stop ourls))"
proof (rule accepts_lookup[OF catchup_document_distinct])
  let ?d = "fst (catchup_document B L cid now endpoint ch title start stop ourls)"
  show "holds B t v" if "(k, t) \<in> set catchup_schema" "map_of ?d k = Some v" for k t v
    using that by (auto simp: catchup_schema_def catchup_document_fields holds_iff bson_array_def)
  show "set (mandatory catchup_schema) \<subseteq> set (keys_of ?d)"
    unfolding catchup_counted catchup_document_keys by simp
qed

text \<open>What is announced for a new catchup, and what a reader makes of its document.\<close>

definition announced ::
    "bson_lib \<Rightarrow> fastotv_lib \<Rightarrow> oid \<Rightarrow> host \<times> dirpath \<Rightarrow> channel_info \<Rightarrow> string \<Rightarrow> int \<Rightarrow> int
     \<Rightarrow> output_uri list \<Rightarrow> catchup_info" where
  "announced B L cid endpoint ch title start stop ourls =
     (catchup_copy L ch title start stop)
       \<lparr>ci_epg := (catchup_epg ch title)\<lparr>ep_urls := MakeUrlsFromOutput (catchup_urls B L cid endpoint ourls)\<rparr>,
        sb_sid := ConvertToString B cid\<rparr>"

definition read_back :: "fastotv_lib \<Rightarrow> channel_info \<Rightarrow> user_stream_info \<Rightarrow> catchup_info \<Rightarrow> catchup_info" where
  "read_back L ch u cat =
     cat\<lparr>sb_groups := [], sb_parts := [], sb_meta := [], sb_favorite := us_favorite u,
         sb_recent := us_recent u, sb_interruption := us_interruption u, sb_locked := us_locked u,
         sb_flag1 := IsEnableVideo L ch, sb_flag2 := IsEnableAudio L ch\<rparr>"

definition canonical_catchup :: "bson_lib \<Rightarrow> fastotv_lib \<Rightarrow> oid \<Rightarrow> host \<Rightarrow> channel_info \<Rightarrow> bool" where
  "canonical_catchup B L cid h ch \<longleftrightarrow>
     canonical_url L (ep_icon_url (ci_epg ch)) \<and> ep_programs (fl_new_epg L) = [] \<and>
     (\<forall>i. canonical_url L (GURL (catchup_url h (catchup_postfix L (ConvertToString B cid) i))))"

lemma catchup_urls_canonical:
  assumes "canonical_catchup B L cid (fst endpoint) ch"
  shows "map ou_url (map (stored_output L) (catchup_urls B L cid endpoint ourls)) =
           MakeUrlsFromOutput (catchup_urls B L cid endpoint ourls)"
proof -
  have "GURL (fl_url_spec L u) = u"
    if "u = GURL (catchup_url (fst endpoint) (catchup_postfix L (ConvertToString B cid) i))" for u i
    using assms that by (auto simp: canonical_catchup_def canonical_url_def)
  then show ?thesis
    by (auto simp: catchup_urls_def MakeUrlsFromOutput_def stored_output_def catchup_output_def Let_def
        split: option.splits)
qed

lemma read_catchup_document:
  assumes B: "bson_laws B" and can: "canonical_catchup B L cid (fst endpoint) ch"
  shows "MakeCatchupInfo B L (fst (catchup_document B L cid now endpoint ch title start stop ourls)) st u vis =
           Got (read_back L ch u (announced B L cid endpoint ch title start stop ourls), True)"
proof -
  let ?d = "fst (catchup_document B L cid now endpoint ch title start stop ourls)"
  note fields = catchup_document_fields[of B L cid now endpoint ch title start stop ourls]
  have urls: "the_urls B (bson_array B (map (output_entry L) (catchup_urls B L cid endpoint ourls))) =
      MakeUrlsFromOutput (catchup_urls B L cid endpoint ourls)"
  proof -
    obtain d where "bson_array B (map (output_entry L) (catchup_urls B L cid endpoint ourls)) = BArr d"
      and d: "output_urls B d = map (stored_output L) (catchup_urls B L cid endpoint ourls)"
      using stored_outputs[OF B, of L "catchup_urls B L cid endpoint ourls"]
      by (auto simp: GetOutputUrlData_iff)
    then show ?thesis
      using catchup_urls_canonical[OF can, of ourls] by (simp only: the_simps d MakeUrlsFromOutput_def)
  qed
  have groups: "bl_utf8 B (bson_array B vs) = None" for vs
    by (simp add: bson_array_def bson_lawsD(3)[OF B])
  have icon: "GURL (fl_url_spec L (ep_icon_url (ci_epg ch))) = ep_icon_url (ci_epg ch)"
    and progs: "ep_programs (fl_new_epg L) = []"
    using can by (auto simp: canonical_catchup_def canonical_url_def)
  have epg: "epg_of B L ?d = (catchup_epg ch title)\<lparr>ep_urls := MakeUrlsFromOutput (catchup_urls B L cid endpoint ourls)\<rparr>"
    by (rule epg_info.equality)
      (simp_all add: epg_of_def look_def fields the_simps the_gurl_simp urls catchup_epg_def icon progs)
  have "catchup_of B L u ?d = read_back L ch u (announced B L cid endpoint ch title start stop ourls)"
    by (rule catchup_info.equality)
      (simp_all add: catchup_of_def channel_of_def stream_base_of_def look_def fields the_simps epg
        groups stream_base.defs channel_info.defs read_back_def announced_def catchup_copy_def)
  then show ?thesis
    using MakeCatchupInfo_iff[OF catchup_document_distinct] catchup_document_accepted
    by (simp add: look_def fields the_simps)
qed

text \<open>
  C37: The document of a catchup describes it.  Reading the document that is built for a new
  catchup succeeds and gives the catchup that is announced, with its identifier, its guide data, its
  urls and its times; only the groups, the parts and the meta urls are lost, and the audio flag
  and the video flag change places.
\<close>

theorem catchup_document_roundtrip:
  assumes "bson_laws B" and "canonical_catchup B L cid (fst endpoint) ch"
  shows "MakeCatchupInfo B L (fst (catchup_document B L cid now endpoint ch title start stop ourls)) st u vis =
           Got (read_back L ch u (announced B L cid endpoint ch title start stop ourls), True)"
  using assms by (rule read_catchup_document)

definition sample_channel :: channel_info where
  "sample_channel =
     \<lparr>sb_sid = ''3'', sb_groups = [''News''], sb_iarc = 18, sb_favorite = False, sb_recent = 0,
      sb_interruption = 0, sb_flag1 = True, sb_flag2 = False, sb_parts = [], sb_view_count = 7,
      sb_locked = False, sb_meta = [],
      ci_epg = \<lparr>ep_tvg_id = ''tvg'', ep_display_name = ''One'', ep_icon_url = GURL ''http://logo'',
                ep_urls = [], ep_programs = []\<rparr>\<rparr>"

lemma sample_canonical: "canonical_catchup sample_bson sample_lib cid h ch"
  by (cases "ep_icon_url (ci_epg ch)")
    (simp_all add: canonical_catchup_def canonical_url_def sample_lib_def)

theorem catchup_document_roundtrip_witness:
  "\<exists>c. MakeCatchupInfo sample_bson sample_lib
         (fst (catchup_document sample_bson sample_lib 4 9 (''host'', DirPath ''/root'') sample_channel ''Film'' 10 20
            [\<lparr>ou_id = 0, ou_url = GURL ''http://a'', ou_http_root = None, ou_hls_type = None\<rparr>]))
         CATCHUP new_user_stream_info False = Got (c, True) \<and>
       sb_sid c = ''4'' \<and> ep_display_name (ci_epg c) = ''Film'' \<and> length (ep_urls (ci_epg c)) = 1 \<and>
       sb_groups c = [] \<and> sb_groups sample_channel = [''News''] \<and> cu_start c = 10"
  unfolding catchup_document_roundtrip[OF sample_bson_laws sample_canonical]
  by (simp add: read_back_def announced_def catchup_copy_def catchup_epg_def MakeUrlsFromOutput_def
      catchup_urls_def sample_channel_def)

section \<open>Creating a catchup\<close>

text \<open>
  The behaviour of the store the recording relies on: an insertion makes the document findable by
  its identifier and changes nothing else; \<open>$push\<close> to the parts of a stream appends to this array
  of this stream, creating it when it is missing.
\<close>

definition pushed :: "string \<Rightarrow> bval \<Rightarrow> bdoc \<Rightarrow> bdoc \<Rightarrow> bool" where
  "pushed f v doc doc' \<longleftrightarrow>
     (\<exists>a. doc' = AList.update f (BArr a) doc \<and> map snd a = array_elems doc f @ [v])"

definition recording_laws :: "'db mongo_lib \<Rightarrow> bool" where
  "recording_laws M \<longleftrightarrow>
     (\<forall>d c q. mg_find M (snd (mg_new_oid M d)) c q = mg_find M d c q) \<and>
     (\<forall>d c doc x d'. mg_insert M d c doc = (d', None) \<longrightarrow> map_of doc ''_id'' = Some (BOid x) \<longrightarrow>
        mg_find M d c (by_id x) = None \<longrightarrow>
        (\<forall>w. mg_find M d' c (by_id w) = (if w = x then Some doc else mg_find M d c (by_id w)))) \<and>
     (\<forall>d c doc c' q. c' \<noteq> c \<longrightarrow> mg_find M (fst (mg_insert M d c doc)) c' q = mg_find M d c' q) \<and>
     (\<forall>d u v d'. mg_update M d STREAMS (by_id u) (push_update ''parts'' v) = (d', None) \<longrightarrow>
        (\<forall>w. case mg_find M d STREAMS (by_id w) of
               None \<Rightarrow> mg_find M d' STREAMS (by_id w) = None
             | Some doc \<Rightarrow>
                 (\<exists>doc'. mg_find M d' STREAMS (by_id w) = Some doc' \<and>
                    (if w = u then pushed ''parts'' v doc doc' else doc' = doc))))"

lemma recording_lawsD:
  assumes "recording_laws M"
  shows "mg_find M (snd (mg_new_oid M d)) c q = mg_find M d c q"
    and "mg_insert M d c doc = (d', None) \<Longrightarrow> map_of doc ''_id'' = Some (BOid x) \<Longrightarrow>
        mg_find M d c (by_id x) = None \<Longrightarrow>
        mg_find M d' c (by_id w) = (if w = x then Some doc else mg_find M d c (by_id w))"
    and "c' \<noteq> c \<Longrightarrow> mg_find M (fst (mg_insert M d c doc)) c' q = mg_find M d c' q"
    and "mg_update M d STREAMS (by_id u) (push_update ''parts'' v) = (d', None) \<Longrightarrow>
        (case mg_find M d STREAMS (by_id w) of
               None \<Rightarrow> mg_find M d' STREAMS (by_id w) = None
             | Some doc \<Rightarrow>
                 (\<exists>doc'. mg_find M d' STREAMS (by_id w) = Some doc' \<and>
                    (if w = u then pushed ''parts'' v doc doc' else doc' = doc)))"
  using assms unfolding recording_laws_def by (blast, simp, blast, simp)

lemma sample_recording_laws: "recording_laws sample_mongo"
  unfolding recording_laws_def
proof (intro conjI allI impI)
  show "mg_find sample_mongo (snd (mg_new_oid sample_mongo d)) c q = mg_find sample_mongo d c q" for d c q
    by (simp add: sample_mongo_def)
next
  fix d c doc x d' w
  assume "mg_insert sample_mongo d c doc = (d', None)" and x: "map_of doc ''_id'' = Some (BOid x)"
    and new: "mg_find sample_mongo d c (by_id x) = None"
  then have d': "d' = d @ [(c, doc)]" by (simp add: sample_mongo_def)
  have "sample_find (d @ [(c, doc)]) c (by_id w) =
      (case sample_find d c (by_id w) of None \<Rightarrow> if w = x then Some doc else None | r \<Rightarrow> r)"
    using x by (induction d) auto
  then show "mg_find sample_mongo d' c (by_id w) = (if w = x then Some doc else mg_find sample_mongo d c (by_id w))"
    using new by (auto simp: d' sample_mongo_def split: option.splits)
next
  fix d c doc c' q assume "c' \<noteq> (c :: coll)"
  then have "sample_find (d @ [(c, doc)]) c' q = sample_find d c' q" by (induction d) auto
  then show "mg_find sample_mongo (fst (mg_insert sample_mongo d c doc)) c' q = mg_find sample_mongo d c' q"
    by (simp add: sample_mongo_def)
next
  fix d u v d' w
  assume "mg_update sample_mongo d STREAMS (by_id u) (push_update ''parts'' v) = (d', None)"
  then have d': "d' = sample_update STREAMS (by_id u) (push_update ''parts'' v) d"
    by (simp add: sample_mongo_def)
  have app: "sample_apply q (push_update ''parts'' v) doc = with_array ''parts'' (\<lambda>es. es @ [v]) doc" for q doc
    by (simp add: sample_apply_def push_update_def)
  have id: "map_of (with_array ''parts'' g doc) ''_id'' = map_of doc ''_id''" for g doc
    by (simp add: map_of_with_array)
  have "sample_find d' STREAMS (by_id w) =
      map_option (\<lambda>doc. if w = u then with_array ''parts'' (\<lambda>es. es @ [v]) doc else doc)
        (sample_find d STREAMS (by_id w))"
    unfolding d' by (induction d) (auto simp: app id option.map_ident)
  moreover have "pushed ''parts'' v doc (with_array ''parts'' (\<lambda>es. es @ [v]) doc)" for doc
    unfolding pushed_def with_array_def sample_array_def
    by (intro exI[of _ "map (Pair []) (array_elems doc ''parts'' @ [v])"]) (simp add: o_def)
  ultimately show "case mg_find sample_mongo d STREAMS (by_id w) of
               None \<Rightarrow> mg_find sample_mongo d' STREAMS (by_id w) = None
             | Some doc \<Rightarrow>
                 (\<exists>doc'. mg_find sample_mongo d' STREAMS (by_id w) = Some doc' \<and>
                    (if w = u then pushed ''parts'' v doc doc' else doc' = doc))"
    by (cases "w = u") (auto simp: sample_mongo_def split: option.splits)
qed

lemma CreateCatchup_created:
  assumes "CreateCatchup B L M now auth sid title start stop s = Some (s', Inr (srv, cat, True))"
    and "FindStream B L M auth sid s = Some (Inr ch)"
  shows "find_cached B L M title start stop s (sb_parts ch) = Skip"
    and "\<exists>src. recording_source B L M (sb_sid ch) s = Inr src \<and>
           create_catchup B L M now ch title start stop src s = (s', Inr (srv, cat, True))"
  using assms by (auto simp: CreateCatchup_def CreateOrFindCatchup_def
      split: if_splits option.splits reading.splits sum.splits)

text \<open>The store serves when neither an update nor an insertion fails.\<close>

definition store_serves :: "'db mongo_lib \<Rightarrow> bool" where
  "store_serves M \<longleftrightarrow> store_up M \<and> (\<forall>d c doc. snd (mg_insert M d c doc) = None)"

lemma sample_store_serves: "store_serves sample_mongo"
  by (simp add: store_serves_def sample_store_up) (simp add: sample_mongo_def)

lemma served:
  assumes "store_serves M"
  shows "update_one M c q u s = (s\<lparr>db := fst (mg_update M (db s) c q u)\<rparr>, None)"
    and "insert_one M c doc s = (s\<lparr>db := fst (mg_insert M (db s) c doc)\<rparr>, None)"
proof -
  obtain d where "mg_update M (db s) c q u = (d, None)"
    using assms by (metis prod.collapse store_serves_def store_up_def)
  then show "update_one M c q u s = (s\<lparr>db := fst (mg_update M (db s) c q u)\<rparr>, None)"
    by (simp add: update_one_def)
  obtain d where "mg_insert M (db s) c doc = (d, None)"
    using assms by (metis prod.collapse store_serves_def)
  then show "insert_one M c doc s = (s\<lparr>db := fst (mg_insert M (db s) c doc)\<rparr>, None)"
    by (simp add: insert_one_def)
qed

lemma create_catchup_served:
  assumes "store_serves M"
  shows "\<exists>d srv cat. create_catchup B L M now ch title start stop src s =
           (s\<lparr>db := d\<rparr>, Inr (Some srv, cat, True))"
  by (cases src, simp add: create_catchup_def served[OF assms] AddStreamToServer_def Let_def split_beta,
      blast)

lemma create_catchup_servedD:
  assumes "store_serves M" and "create_catchup B L M now ch title start stop src s = (s', r)"
  shows "\<exists>d srv cat. s' = s\<lparr>db := d\<rparr> \<and> r = Inr (Some srv, cat, True)"
  using create_catchup_served[OF assms(1), of B L now ch title start stop src s] assms(2) by auto

lemma recording_source_id:
  "recording_source B L M sid s = Inr (bsid, server_oid, ourls) \<Longrightarrow>
     ConvertFromString B sid = Some bsid \<and> find_one M STREAMS (by_id bsid) s \<noteq> None"
  by (auto simp: recording_source_def split: if_splits option.splits)

lemma create_catchup_Inr:
  assumes "create_catchup B L M now ch title start stop (bsid, server_oid, ourls) s = (s', Inr (srv, cat, f))"
    and "mg_new_oid M (db s) = (cid, d1)"
  shows "\<exists>d2 d3 d4.
     mg_insert M d1 STREAMS
       (fst (catchup_document B L cid now (catchup_endpoint s) ch title start stop ourls)) = (d2, None) \<and>
     mg_update M d2 STREAMS (by_id bsid) (push_update ''parts'' (BOid cid)) = (d3, None) \<and>
     mg_update M d3 SERVERS (by_id server_oid) (push_update ''streams'' (BOid cid)) = (d4, None) \<and>
     s' = s\<lparr>db := d4\<rparr> \<and> cat = announced B L cid (catchup_endpoint s) ch title start stop ourls"
proof -
  obtain doc caturls where doc:
    "catchup_document B L cid now (catchup_endpoint s) ch title start stop ourls = (doc, caturls)"
    by (cases "catchup_document B L cid now (catchup_endpoint s) ch title start stop ourls")
  then have urls: "caturls = catchup_urls B L cid (catchup_endpoint s) ourls"
    using catchup_document_urls[of B L cid now "catchup_endpoint s" ch title start stop ourls] by simp
  show ?thesis using assms(1)
    by (auto simp: create_catchup_def assms(2) doc urls insert_one_def update_one_def AddStreamToServer_def
        announced_def Let_def split: prod.splits option.splits)
qed

text \<open>What the store holds after a catchup has been created.\<close>

lemma created_store:
  assumes laws: "recording_laws M" and frame: "store_laws M"
    and created: "create_catchup B L M now ch title start stop (bsid, server_oid, ourls) s =
      (s', Inr (srv, cat, f))"
    and new: "mg_new_oid M (db s) = (cid, d1)"
    and fresh: "mg_find M (db s) STREAMS (by_id cid) = None"
    and sdoc: "find_one M STREAMS (by_id bsid) s = Some sdoc"
  shows "find_one M STREAMS (by_id cid) s' =
           Some (fst (catchup_document B L cid now (catchup_endpoint s) ch title start stop ourls))"
    and "\<exists>sdoc'. find_one M STREAMS (by_id bsid) s' = Some sdoc' \<and> pushed ''parts'' (BOid cid) sdoc sdoc'"
    and "\<And>w. w \<noteq> cid \<Longrightarrow> w \<noteq> bsid \<Longrightarrow> find_one M STREAMS (by_id w) s' = find_one M STREAMS (by_id w) s"
    and "\<And>q. find_one M SUBSCRIBERS q s' = find_one M SUBSCRIBERS q s"
proof -
  let ?doc = "fst (catchup_document B L cid now (catchup_endpoint s) ch title start stop ourls)"
  obtain d2 d3 d4 where ins: "mg_insert M d1 STREAMS ?doc = (d2, None)"
    and parts: "mg_update M d2 STREAMS (by_id bsid) (push_update ''parts'' (BOid cid)) = (d3, None)"
    and server: "mg_update M d3 SERVERS (by_id server_oid) (push_update ''streams'' (BOid cid)) = (d4, None)"
    and s': "s' = s\<lparr>db := d4\<rparr>"
    using create_catchup_Inr[OF created new] by blast
  have ne: "cid \<noteq> bsid" using fresh sdoc by (auto simp: find_one_def)
  have d1: "mg_find M d1 c q = mg_find M (db s) c q" for c q
    using recording_lawsD(1)[OF laws, of "db s"] new by simp
  have d2: "mg_find M d2 STREAMS (by_id w) = (if w = cid then Some ?doc else mg_find M (db s) STREAMS (by_id w))" for w
    using recording_lawsD(2)[OF laws ins catchup_document_fields(1), of w] fresh by (simp add: d1)
  have d4: "mg_find M d4 c q = mg_find M d3 c q" if "c \<noteq> SERVERS" for c q
    using store_frame[OF frame that, of d3] server by (metis fst_conv)
  note d3 = recording_lawsD(4)[OF laws parts]
  show "find_one M STREAMS (by_id cid) s' = Some ?doc"
    using d3[of cid] ne by (simp add: find_one_def s' d4 d2)
  show "\<exists>sdoc'. find_one M STREAMS (by_id bsid) s' = Some sdoc' \<and> pushed ''parts'' (BOid cid) sdoc sdoc'"
    using d3[of bsid] ne sdoc by (simp add: find_one_def s' d4 d2)
  show "find_one M STREAMS (by_id w) s' = find_one M STREAMS (by_id w) s" if "w \<noteq> cid" "w \<noteq> bsid" for w
    using d3[of w] that by (auto simp: find_one_def s' d4 d2 split: option.splits)
  have "mg_find M d3 SUBSCRIBERS q = mg_find M d2 SUBSCRIBERS q" for q
    using store_frame[OF frame, of SUBSCRIBERS STREAMS d2] parts by (metis coll.distinct(3) fst_conv)
  moreover have "mg_find M d2 SUBSCRIBERS q = mg_find M d1 SUBSCRIBERS q" for q
    using recording_lawsD(3)[OF laws, of SUBSCRIBERS STREAMS d1 ?doc q] ins by simp
  ultimately show "find_one M SUBSCRIBERS q s' = find_one M SUBSCRIBERS q s" for q
    by (simp add: find_one_def s' d4 d1)
qed

section \<open>The channel after the recording\<close>

lemma read_oids_values: "map snd a = map snd b \<Longrightarrow> read_oids B a = read_oids B b"
proof (induction a arbitrary: b)
  case (Cons e a)
  then obtain e' b' where "b = e' # b'" by (cases b) auto
  with Cons.prems Cons.IH[of b'] show ?case by (auto split: option.splits)
qed simp

lemma read_oids_push:
  assumes "bson_laws B" and "map snd a' = map snd a @ [BOid x]" and "read_oids B a = Some ps"
  shows "read_oids B a' = Some (ps @ [ConvertToString B x])"
proof -
  have "read_oids B (a @ [(k, BOid x)]) = Some (ps @ [ConvertToString B x])" for k
    using assms(3) by (induction a arbitrary: ps) (auto simp: bson_lawsD(4)[OF assms(1)] split: option.splits)
  then show ?thesis using read_oids_values[of a' "a @ [(undefined, BOid x)]" B] assms(2) by simp
qed

lemma count_keys_update:
  "k \<notin> set ks \<Longrightarrow> count_keys ks (AList.update k v d) = count_keys ks d"
  by (induction d) (auto simp: count_keys_def)

lemma channel_of_pushed:
  assumes B: "bson_laws B" and d: "distinct (keys_of d)" and acc: "accepts B channel_schema proxy d"
    and push: "pushed ''parts'' (BOid x) d d'"
  shows "distinct (keys_of d')" and "accepts B channel_schema proxy d'"
    and "channel_of B L u d' =
      (channel_of B L u d)\<lparr>sb_parts := sb_parts (channel_of B L u d) @ [ConvertToString B x]\<rparr>"
    and "\<And>k. k \<noteq> ''parts'' \<Longrightarrow> map_of d' k = map_of d k"
proof -
  obtain a where d': "d' = AList.update ''parts'' (BArr a) d"
    and a: "map snd a = array_elems d ''parts'' @ [BOid x]"
    using push by (auto simp: pushed_def)
  have same: "map_of d' k = (if k = ''parts'' then Some (BArr a) else map_of d k)" for k
    by (simp add: d' update_conv')
  then show other: "map_of d' k = map_of d k" if "k \<noteq> ''parts''" for k using that by simp
  show dist: "distinct (keys_of d')" using d by (simp add: keys_of_def d' distinct_update)
  have parts: "\<exists>b ps. look d ''parts'' the_array [] = b \<and> read_oids B b = Some ps \<and>
      map snd a = map snd b @ [BOid x] \<and> look d ''parts'' (the_oids B) [] = ps"
  proof (cases "map_of d ''parts''")
    case None
    then show ?thesis using a by (simp add: look_def array_elems_def)
  next
    case (Some v)
    then have "(''parts'', v) \<in> set d" by (rule map_of_SomeD)
    then have "well_typed B channel_schema ''parts'' v" using acc by (auto simp: accepts_def)
    then have "holds B OidsT v" by (simp add: well_typed_def channel_schema_def)
    then show ?thesis using Some a by (auto simp: holds_iff look_def the_simps array_elems_def)
  qed
  then obtain b ps where b: "read_oids B b = Some ps" "map snd a = map snd b @ [BOid x]"
    and old: "look d ''parts'' (the_oids B) [] = ps" by blast
  note new = read_oids_push[OF B b(2,1)]
  have "well_typed B channel_schema (fst e) (snd e)" if "e \<in> set d'" for e
  proof -
    have e: "map_of d' (fst e) = Some (snd e)" using dist that by (simp add: keys_of_def)
    show ?thesis
    proof (cases "fst e = ''parts''")
      case True
      then have "snd e = BArr a" using e by (simp add: same)
      then show ?thesis unfolding True using new
        by (simp add: well_typed_def channel_schema_def holds_iff)
    next
      case False
      then have "e \<in> set d" using e map_of_SomeD[of d "fst e" "snd e"] by (simp add: same)
      then show ?thesis using acc by (simp add: accepts_def)
    qed
  qed
  moreover have "set (keys_of d') = insert ''parts'' (set (keys_of d))"
    by (simp add: keys_of_def d' dom_update)
  moreover have "count_keys (mandatory channel_schema) d' = count_keys (mandatory channel_schema) d"
    unfolding d' by (rule count_keys_update) (simp add: channel_counted)
  ultimately show "accepts B channel_schema proxy d'" using acc by (auto simp: accepts_def)
  have "look d' k f z = look d k f z" if "k \<noteq> ''parts''" for k z and f :: "bval \<Rightarrow> 'y"
    using that by (simp add: look_def other)
  then show "channel_of B L u d' =
      (channel_of B L u d)\<lparr>sb_parts := sb_parts (channel_of B L u d) @ [ConvertToString B x]\<rparr>"
    using new old by (simp add: channel_of_def stream_base_of_def epg_of_def stream_base.extend_def look_def same
        the_simps)
qed

section \<open>Asking again\<close>

lemma find_cached_last:
  assumes "\<And>p. p \<in> set ps \<Longrightarrow>
      cached_part B L M title start stop s p = Skip \<or> cached_part B L M title start stop s p = Got r"
    and "cached_part B L M title start stop s q = Got r"
  shows "find_cached B L M title start stop s (ps @ [q]) = Got r"
  using assms
proof (induction ps)
  case (Cons p ps)
  then have "find_cached B L M title start stop s (ps @ [q]) = Got r" by simp
  moreover have "cached_part B L M title start stop s p = Skip \<or> cached_part B L M title start stop s p = Got r"
    using Cons.prems(1) by simp
  ultimately show ?case by auto
qed simp

lemma find_cached_Skip:
  "find_cached B L M title start stop s ps = Skip \<longleftrightarrow>
     (\<forall>p \<in> set ps. cached_part B L M title start stop s p = Skip)"
  by (induction ps) (auto split: reading.splits)

lemma cached_part_cong:
  assumes "\<And>w. ConvertFromString B p = Some w \<Longrightarrow>
      find_one M STREAMS (by_id w) s' = find_one M STREAMS (by_id w) s"
  shows "cached_part B L M title start stop s' p = cached_part B L M title start stop s p"
  using assms by (cases "ConvertFromString B p") (simp_all add: cached_part_def)

lemma cached_part_found:
  assumes "find_utf8 B doc ''name'' = Some title" and "find_date B doc ''start'' = Some start"
    and "find_date B doc ''stop'' = Some stop"
    and "MakeCatchupInfo B L doc CATCHUP new_user_stream_info False = Got (c, v)"
    and "ConvertFromString B p = Some cid" and "find_one M STREAMS (by_id cid) s = Some doc"
  shows "cached_part B L M title start stop s p = Got c"
  using assms by (simp add: cached_part_def)

lemma found_stream_parts:
  assumes "FindStream B L M auth sid s = Some (Inr ch)" and "ConvertFromString B sid = Some x"
    and "find_one M STREAMS (by_id x) s = Some sdoc" and "distinct (keys_of sdoc)"
    and "bson_laws B" and "pushed ''parts'' (BOid cid) sdoc sdoc'"
    and "find_one M STREAMS (by_id x) s' = Some sdoc'"
    and "\<And>q. find_one M SUBSCRIBERS q s' = find_one M SUBSCRIBERS q s"
    and "collection_open s' = collection_open s"
  shows "FindStream B L M auth sid s' = Some (Inr (ch\<lparr>sb_parts := sb_parts ch @ [ConvertToString B cid]\<rparr>))"
proof -
  obtain u udoc cls v where u: "ConvertFromString B (db_uid auth) = Some u"
    and udoc: "find_one M SUBSCRIBERS (entry_query u ''streams'' x) s = Some udoc"
    and cls: "find_utf8 B sdoc ''_cls'' = Some cls" "\<not> IsVod (MongoStreamType2StreamType cls)"
    and rd: "MakeChannelInfo B L sdoc (MongoStreamType2StreamType cls)
               (makeUserStreamInfo B (iter_init udoc)) False = Got (ch, v)"
    using find_user_stream_Inr[OF assms(1)[unfolded FindStream_def]] assms(2,3) by auto
  have guards: "ServerDBAuthInfo_IsValid L auth" "sid \<noteq> fl_invalid_stream_id L"
      "collection_open s SUBSCRIBERS" "collection_open s STREAMS"
    using assms(1) by (auto simp: FindStream_def find_user_stream_def split: if_splits)
  from rd have acc: "accepts B channel_schema (MongoStreamType2StreamType cls = PROXY) sdoc"
    and ch: "ch = channel_of B L (makeUserStreamInfo B (iter_init udoc)) sdoc"
    unfolding MakeChannelInfo_iff[OF assms(4)] by auto
  note p = channel_of_pushed[OF assms(5,4) acc assms(6)]
  have "find_utf8 B sdoc' ''_cls'' = Some cls"
    using cls(1) p(4)[of "''_cls''"] by (simp add: find_typed_iff[OF assms(5)])
  moreover have "MakeChannelInfo B L sdoc' (MongoStreamType2StreamType cls)
      (makeUserStreamInfo B (iter_init udoc)) False =
      Got (ch\<lparr>sb_parts := sb_parts ch @ [ConvertToString B cid]\<rparr>, look sdoc' ''visible'' the_bool False)"
    unfolding MakeChannelInfo_iff[OF p(1)] using p(2,3) by (simp add: ch)
  ultimately show ?thesis
    using guards u udoc cls(2) assms(2,7,8,9) by (simp add: FindStream_def find_user_stream_def Let_def)
qed

lemma create_twice:
  assumes B: "bson_laws B" and laws: "recording_laws M" "store_laws M"
    and first: "CreateCatchup B L M now auth sid title start stop s = Some (s', Inr (srv, cat, True))"
    and ch: "FindStream B L M auth sid s = Some (Inr ch)" "sb_sid ch = sid"
    and new: "mg_new_oid M (db s) = (cid, d1)" "mg_find M (db s) STREAMS (by_id cid) = None"
    and oid_text: "ConvertFromString B (ConvertToString B cid) = Some cid"
    and x: "ConvertFromString B sid = Some x"
    and sdoc: "find_one M STREAMS (by_id x) s = Some sdoc" "distinct (keys_of sdoc)"
    and own: "\<forall>p \<in> set (sb_parts ch). ConvertFromString B p \<noteq> Some x"
    and can: "canonical_catchup B L cid (fst (catchup_endpoint s)) ch"
  shows "CreateCatchup B L M now' auth sid title start stop s' =
           Some (s', Inr (None, read_back L ch new_user_stream_info cat, False))"
proof -
  obtain bsid server_oid ourls where src: "recording_source B L M sid s = Inr (bsid, server_oid, ourls)"
    and created: "create_catchup B L M now ch title start stop (bsid, server_oid, ourls) s =
      (s', Inr (srv, cat, True))"
    using CreateCatchup_created(2)[OF first ch(1)] ch(2) by (metis prod_cases3)
  have "bsid = x" using recording_source_id[OF src] x by simp
  note created = created[unfolded this]
  let ?doc = "fst (catchup_document B L cid now (catchup_endpoint s) ch title start stop ourls)"
  obtain d4 where s': "s' = s\<lparr>db := d4\<rparr>"
    and cat: "cat = announced B L cid (catchup_endpoint s) ch title start stop ourls"
    using create_catchup_Inr[OF created new(1)] by blast
  note st = created_store[OF laws created new sdoc(1)]
  obtain sdoc' where sdoc': "find_one M STREAMS (by_id x) s' = Some sdoc'" "pushed ''parts'' (BOid cid) sdoc sdoc'"
    using st(2) by blast
  have found: "FindStream B L M auth sid s' = Some (Inr (ch\<lparr>sb_parts := sb_parts ch @ [ConvertToString B cid]\<rparr>))"
    by (rule found_stream_parts[OF ch(1) x sdoc B sdoc'(2,1) st(4)]) (simp add: s')
  have hit: "cached_part B L M title start stop s' p = Got (read_back L ch new_user_stream_info cat)"
    if "ConvertFromString B p = Some cid" for p
    using cached_part_found[OF _ _ _ read_catchup_document[OF B can] that st(1)] cat
    by (simp add: find_typed_iff[OF B] catchup_document_fields)
  have "cached_part B L M title start stop s' p = Skip \<or>
      cached_part B L M title start stop s' p = Got (read_back L ch new_user_stream_info cat)"
    if p: "p \<in> set (sb_parts ch)" for p
  proof (cases "ConvertFromString B p = Some cid")
    case False
    have "cached_part B L M title start stop s p = Skip"
      using CreateCatchup_created(1)[OF first ch(1)] p by (simp add: find_cached_Skip)
    moreover have "cached_part B L M title start stop s' p = cached_part B L M title start stop s p"
      by (rule cached_part_cong) (use False own p st(3) in auto)
    ultimately show ?thesis by simp
  qed (use hit in simp)
  then have "find_cached B L M title start stop s' (sb_parts ch @ [ConvertToString B cid]) =
      Got (read_back L ch new_user_stream_info cat)"
    using hit[OF oid_text] by (rule find_cached_last)
  moreover have "ServerDBAuthInfo_IsValid L auth" "sid \<noteq> fl_invalid_stream_id L" "collection_open s' = collection_open s"
      "collection_open s SUBSCRIBERS" "collection_open s STREAMS" "collection_open s SERVERS"
    using first by (auto simp: CreateCatchup_def s' split: if_splits)
  ultimately show ?thesis
    using found by (simp add: CreateCatchup_def CreateOrFindCatchup_def)
qed

text \<open>
  A catchup that exists is found again in every state in which the user still has the stream and the
  stored streams are the same: the marks of the user do not matter for it.
\<close>

lemma MakeChannelInfo_any_marks:
  assumes "MakeChannelInfo B L d st u vis = Got (c, v)"
  shows "\<exists>c'. MakeChannelInfo B L d st u' vis = Got (c', v) \<and> sb_parts c' = sb_parts c"
  using assms by (auto simp: MakeChannelInfo_defs split: reading.splits if_splits)

lemma find_cached_cong:
  assumes "\<And>w. find_one M STREAMS (by_id w) s' = find_one M STREAMS (by_id w) s"
  shows "find_cached B L M title start stop s' ps = find_cached B L M title start stop s ps"
  by (induction ps) (simp_all add: cached_part_cong[of B _ M s' s, OF assms] split: reading.splits)

lemma CreateCatchup_found:
  assumes "CreateCatchup B L M now auth sid title start stop s = Some (s', Inr (srv, cat, False))"
  shows "s' = s \<and> srv = None \<and> ServerDBAuthInfo_IsValid L auth \<and> sid \<noteq> fl_invalid_stream_id L \<and>
    (\<forall>c \<in> {SUBSCRIBERS, STREAMS, SERVERS}. collection_open s c) \<and>
    (\<exists>ch. FindStream B L M auth sid s = Some (Inr ch) \<and>
       find_cached B L M title start stop s (sb_parts ch) = Got cat)"
  using assms by (auto simp: CreateCatchup_def CreateOrFindCatchup_def create_catchup_def Let_def
      split: if_splits option.splits reading.splits sum.splits prod.splits)

lemma FindStream_again:
  assumes "FindStream B L M auth sid s = Some (Inr ch)"
    and "collection_open s' = collection_open s"
    and "\<And>w. find_one M STREAMS (by_id w) s' = find_one M STREAMS (by_id w) s"
    and "\<And>u x. find_one M SUBSCRIBERS (entry_query u ''streams'' x) s \<noteq> None \<Longrightarrow>
                find_one M SUBSCRIBERS (entry_query u ''streams'' x) s' \<noteq> None"
  shows "\<exists>ch'. FindStream B L M auth sid s' = Some (Inr ch') \<and> sb_parts ch' = sb_parts ch"
proof -
  obtain u x udoc sdoc cls v where
    ids: "ConvertFromString B (db_uid auth) = Some u" "ConvertFromString B sid = Some x"
    and udoc: "find_one M SUBSCRIBERS (entry_query u ''streams'' x) s = Some udoc"
    and sdoc: "find_one M STREAMS (by_id x) s = Some sdoc" "find_utf8 B sdoc ''_cls'' = Some cls"
      "\<not> IsVod (MongoStreamType2StreamType cls)"
    and rd: "MakeChannelInfo B L sdoc (MongoStreamType2StreamType cls)
               (makeUserStreamInfo B (iter_init udoc)) False = Got (ch, v)"
    using find_user_stream_Inr[OF assms(1)[unfolded FindStream_def]] by auto
  obtain udoc' where udoc': "find_one M SUBSCRIBERS (entry_query u ''streams'' x) s' = Some udoc'"
    using assms(4)[of u x] udoc by auto
  obtain ch' where "MakeChannelInfo B L sdoc (MongoStreamType2StreamType cls)
      (makeUserStreamInfo B (iter_init udoc')) False = Got (ch', v)" "sb_parts ch' = sb_parts ch"
    using MakeChannelInfo_any_marks[OF rd] by blast
  moreover have "ServerDBAuthInfo_IsValid L auth" "sid \<noteq> fl_invalid_stream_id L"
    "collection_open s SUBSCRIBERS" "collection_open s STREAMS"
    using assms(1) by (auto simp: FindStream_def find_user_stream_def split: if_splits)
  ultimately show ?thesis
    using ids udoc' sdoc by (simp add: FindStream_def find_user_stream_def Let_def assms(2,3))
qed

lemma CreateCatchup_again:
  assumes "CreateCatchup B L M now auth sid title start stop s = Some (s', Inr (srv, cat, False))"
    and "collection_open t = collection_open s"
    and "\<And>w. find_one M STREAMS (by_id w) t = find_one M STREAMS (by_id w) s"
    and "\<And>u x. find_one M SUBSCRIBERS (entry_query u ''streams'' x) s \<noteq> None \<Longrightarrow>
                find_one M SUBSCRIBERS (entry_query u ''streams'' x) t \<noteq> None"
  shows "CreateCatchup B L M now auth sid title start stop t = Some (t, Inr (None, cat, False))"
proof -
  note found = CreateCatchup_found[OF assms(1)]
  then obtain ch where ch: "FindStream B L M auth sid s = Some (Inr ch)"
    "find_cached B L M title start stop s (sb_parts ch) = Got cat" by blast
  obtain ch' where "FindStream B L M auth sid t = Some (Inr ch')" "sb_parts ch' = sb_parts ch"
    using FindStream_again[OF ch(1) assms(2-4)] by blast
  then show ?thesis using found ch(2)
    by (simp add: CreateCatchup_def CreateOrFindCatchup_def assms(2) find_cached_cong[OF assms(3)])
qed

lemma catchup_added_finds:
  assumes laws: "store_laws M" and add: "AddStreamToUserCatchupsArray M u x s = (s', None)"
  shows "c \<noteq> SUBSCRIBERS \<Longrightarrow> find_one M c q s' = find_one M c q s"
    and "find_one M SUBSCRIBERS (entry_query w ''streams'' y) s \<noteq> None \<Longrightarrow>
         find_one M SUBSCRIBERS (entry_query w ''streams'' y) s' \<noteq> None"
proof -
  obtain d v where d: "mg_update M (db s) SUBSCRIBERS (by_id u) (push_update ''catchups'' v) = (d, None)"
    "s' = s\<lparr>db := d\<rparr>"
    using add by (auto simp: AddStreamToUserCatchupsArray_def update_one_None)
  note step = store_lawsD(1)[OF laws user_lists_mem(3) d(1)]
  show "c \<noteq> SUBSCRIBERS \<Longrightarrow> find_one M c q s' = find_one M c q s"
    using step by (simp add: array_step_def find_one_def d(2))
  assume "find_one M SUBSCRIBERS (entry_query w ''streams'' y) s \<noteq> None"
  then obtain doc where doc: "mg_find M (db s) SUBSCRIBERS (by_id w) = Some doc" "sid_matches ''streams'' (BOid y) doc"
    using store_lawsD(4)[OF laws user_lists_mem(1), of "db s" w y] by (auto simp: find_one_def split: option.splits if_splits)
  with array_stepD[OF step, of w] obtain doc' where
    "mg_find M d SUBSCRIBERS (by_id w) = Some doc'" "map_of doc' ''streams'' = map_of doc ''streams''" by auto
  with doc(2) show "find_one M SUBSCRIBERS (entry_query w ''streams'' y) s' \<noteq> None"
    using store_lawsD(4)[OF laws user_lists_mem(1), of d w y]
    by (simp add: find_one_def d(2) sid_matches_def array_elems_def)
qed

lemma CreateCatchup_listed:
  assumes "CreateCatchup B L M now auth sid title start stop s = Some (s, Inr (srv, cat, False))"
    and "store_laws M" and "AddStreamToUserCatchupsArray M u x s = (s', None)"
    and t: "db t = db s'" "collection_open t = collection_open s"
  shows "CreateCatchup B L M now auth sid title start stop t = Some (t, Inr (None, cat, False))"
proof (rule CreateCatchup_again[OF assms(1) t(2)])
  have eq: "find_one M c q t = find_one M c q s'" for c q using t(1) by (simp add: find_one_def)
  show "find_one M STREAMS (by_id w) t = find_one M STREAMS (by_id w) s" for w
    using catchup_added_finds(1)[OF assms(2,3)] eq by simp
  show "find_one M SUBSCRIBERS (entry_query w ''streams'' y) t \<noteq> None"
    if "find_one M SUBSCRIBERS (entry_query w ''streams'' y) s \<noteq> None" for w y
    using catchup_added_finds(2)[OF assms(2,3) that] eq by simp
qed

lemma found_stream_user:
  assumes "store_laws M" and "FindStream B L M auth sid s = Some (Inr ch)"
    and "ConvertFromString B (db_uid auth) = Some u"
  shows "user_known M s u"
proof -
  obtain x udoc where "find_one M SUBSCRIBERS (entry_query u ''streams'' x) s = Some udoc"
    using find_user_stream_Inr[OF assms(2)[unfolded FindStream_def]] assms(3) by auto
  then show ?thesis using store_lawsD(4)[OF assms(1) user_lists_mem(1), of "db s" u x]
    by (auto simp: find_one_def user_known_def split: option.splits)
qed

lemma created_lists:
  assumes laws: "recording_laws M" "store_laws M"
    and first: "CreateCatchup B L M now auth sid title start stop s = Some (s', Inr (srv, cat, True))"
    and ch: "FindStream B L M auth sid s = Some (Inr ch)" "sb_sid ch = sid"
    and new: "mg_new_oid M (db s) = (cid, d1)" "mg_find M (db s) STREAMS (by_id cid) = None"
    and x: "ConvertFromString B sid = Some x" and sdoc: "find_one M STREAMS (by_id x) s = Some sdoc"
  shows "sb_sid cat = ConvertToString B cid"
    and "\<And>q. find_one M SUBSCRIBERS q s' = find_one M SUBSCRIBERS q s"
proof -
  obtain y server_oid ourls where src: "recording_source B L M sid s = Inr (y, server_oid, ourls)"
    and created: "create_catchup B L M now ch title start stop (y, server_oid, ourls) s = (s', Inr (srv, cat, True))"
    using CreateCatchup_created(2)[OF first ch(1)] ch(2) by (metis prod_cases3)
  have y: "y = x" using recording_source_id[OF src] x by simp
  show "sb_sid cat = ConvertToString B cid"
    using create_catchup_Inr[OF created new(1)] by (auto simp: announced_def)
  show "find_one M SUBSCRIBERS q s' = find_one M SUBSCRIBERS q s" for q
    using created_store(4)[OF laws created new] sdoc y by blast
qed

lemma AddUserCatchup_up:
  assumes "store_laws M" and "store_up M" and "collection_open s SUBSCRIBERS" and "user_known M s u"
    and "ServerDBAuthInfo_IsValid L auth" and "ConvertFromString B (db_uid auth) = Some u"
    and "sid \<noteq> fl_invalid_stream_id L" and "ConvertFromString B sid = Some x"
  shows "\<exists>s'. AddUserCatchup B L M auth sid s = (s', None) \<and> AddStreamToUserCatchupsArray M u x s = (s', None) \<and>
    user_known M s' = user_known M s \<and> collection_open s' = collection_open s \<and>
    user_sids M ''catchups'' s' = (user_sids M ''catchups'' s)(u := user_sids M ''catchups'' s u @ [x])"
proof -
  obtain s' where s': "AddStreamToUserCatchupsArray M u x s = (s', None)" "collection_open s' = collection_open s"
    using catchup_array_up(1)[OF assms(2)] by blast
  have "AddUserCatchup B L M auth sid s = AddStreamToUserCatchupsArray M u x s"
    using assms by (simp add: AddUserCatchup_def with_user_and_stream_def)
  with s' catchups.add_ok[OF assms(1,4) s'(1)] show ?thesis by auto
qed

section \<open>Properties\<close>

text \<open>
  C8: Recording is idempotent.  When a catchup has been created for a programme of a stream, a
  second request of the user for the same title and times, in the state the first one has left,
  creates nothing and changes nothing: it finds the part of the stream that the first request has
  linked and answers with its document.
\<close>

theorem catchup_request_idempotent:
  assumes "bson_laws B" and "recording_laws M" and "store_laws M"
    and "CreateCatchup B L M now auth sid title start stop s = Some (s', Inr (srv, cat, True))"
    and "FindStream B L M auth sid s = Some (Inr ch)" and "sb_sid ch = sid"
    and "mg_new_oid M (db s) = (cid, d1)" and "mg_find M (db s) STREAMS (by_id cid) = None"
    and "ConvertFromString B (ConvertToString B cid) = Some cid"
    and "ConvertFromString B sid = Some x"
    and "find_one M STREAMS (by_id x) s = Some sdoc" and "distinct (keys_of sdoc)"
    and "\<forall>p \<in> set (sb_parts ch). ConvertFromString B p \<noteq> Some x"
    and "canonical_catchup B L cid (fst (catchup_endpoint s)) ch"
  shows "CreateCatchup B L M now' auth sid title start stop s' =
           Some (s', Inr (None, read_back L ch new_user_stream_info cat, False)) \<and>
         sb_sid (read_back L ch new_user_stream_info cat) = sb_sid cat"
  using create_twice[OF assms] by (simp add: read_back_def)

definition sample_recording_manager :: "(string list, sample_db) manager" where
  "sample_recording_manager =
     sample_manager\<lparr>db := [(SUBSCRIBERS, [(''_id'', BOid 1),
         (''streams'', BArr [(''0'', BDoc (program_entry 1 True False 5 0))])]),
        (STREAMS, sample_channel_doc),
        (SERVERS, [(''_id'', BOid 2), (''streams'', BArr [(''0'', BOid 1)])])]\<rparr>"

lemma sample_channel_keys: "distinct (keys_of sample_channel_doc)"
  by (simp add: sample_channel_doc_def sample_stream_fields_def keys_of_def)

text \<open>The facts about the sample hold for every state with its store, handles and endpoint.\<close>

definition records_sample :: "('io, sample_db, 'a) manager_scheme \<Rightarrow> bool" where
  "records_sample s \<longleftrightarrow>
     db s = db sample_recording_manager \<and> (\<forall>c. collection_open s c) \<and>
     catchup_endpoint s = (''host'', DirPath ''/root'')"

lemma sample_records: "records_sample sample_recording_manager"
  by (simp add: records_sample_def sample_recording_manager_def sample_manager_open)
     (simp add: sample_manager_def SubscribersManager_new_def registry.extend_def)

lemma records_sample_finds:
  assumes "records_sample s"
  shows "find_one sample_mongo STREAMS (by_id 1) s = Some sample_channel_doc"
    and "find_one sample_mongo SERVERS (server_of_stream 1) s =
      Some [(''_id'', BOid 2), (''streams'', BArr [(''0'', BOid 1)])]"
    and "mg_find sample_mongo (db s) STREAMS (by_id 5) = None"
    and "mg_new_oid sample_mongo (db s) = (5, db s)"
    and "collection_open s c"
    and "catchup_endpoint s = (''host'', DirPath ''/root'')"
proof -
  have id: "map_of sample_channel_doc ''_id'' = Some (BOid 1)"
    by (simp add: sample_channel_doc_def sample_stream_fields_def)
  have d: "db s = db sample_recording_manager" using assms by (simp add: records_sample_def)
  show "find_one sample_mongo STREAMS (by_id 1) s = Some sample_channel_doc"
    by (simp add: find_one_def d sample_recording_manager_def sample_mongo_def id)
  show "find_one sample_mongo SERVERS (server_of_stream 1) s =
     Some [(''_id'', BOid 2), (''streams'', BArr [(''0'', BOid 1)])]"
    by (simp add: find_one_def d sample_recording_manager_def sample_mongo_def sample_selects_def
        sample_matches_def server_of_stream_def array_elems_def)
  show "mg_find sample_mongo (db s) STREAMS (by_id 5) = None"
    by (simp add: d sample_recording_manager_def sample_mongo_def id)
  show "mg_new_oid sample_mongo (db s) = (5, db s)"
    by (simp add: d sample_recording_manager_def sample_mongo_def)
  show "collection_open s c" "catchup_endpoint s = (''host'', DirPath ''/root'')"
    using assms by (simp_all add: records_sample_def)
qed

lemmas sample_recording_finds = records_sample_finds[OF sample_records]

lemma sample_channel_found:
  assumes s: "records_sample s"
  shows "\<exists>ch. FindStream sample_bson sample_lib sample_mongo sample_identity ''1'' s = Some (Inr ch) \<and>
        sb_sid ch = ''1'' \<and> sb_parts ch = []"
proof -
  have udoc: "\<exists>udoc. find_one sample_mongo SUBSCRIBERS (entry_query 1 ''streams'' 1) s = Some udoc"
    using s by (simp add: records_sample_def find_one_def sample_recording_manager_def sample_mongo_def
        sid_matches_def array_elems_def has_sid_def program_entry_def)
  have cls: "find_utf8 sample_bson sample_channel_doc ''_cls'' = Some ''IStream.ProxyStream''"
    unfolding find_typed_iff[OF sample_bson_laws]
    by (simp add: sample_channel_doc_def sample_stream_fields_def)
  have st: "MongoStreamType2StreamType ''IStream.ProxyStream'' = PROXY"
    by (simp add: MongoStreamType2StreamType_def)
  have "accepts sample_bson channel_schema True sample_channel_doc"
    by (simp add: accepts_def channel_counted keys_of_def sample_channel_doc_def
        sample_stream_fields_def)
      (simp add: well_typed_def channel_schema_def holds.simps)
  then have read: "MakeChannelInfo sample_bson sample_lib sample_channel_doc PROXY u False =
      Got (channel_of sample_bson sample_lib u sample_channel_doc, look sample_channel_doc ''visible'' the_bool False)"
    for u unfolding MakeChannelInfo_iff[OF sample_channel_keys] by simp
  have "sb_sid (channel_of sample_bson sample_lib u sample_channel_doc) = ''1''"
    and "sb_parts (channel_of sample_bson sample_lib u sample_channel_doc) = []" for u
    by (simp_all add: channel_of_def stream_base_of_def stream_base.extend_def look_def
        sample_channel_doc_def sample_stream_fields_def the_simps)
  then show ?thesis using udoc records_sample_finds(1)[OF s] cls
    by (auto simp: FindStream_def find_user_stream_def sample_identity_valid records_sample_finds(5)[OF s] st
        IsVod_def sample_marks(1) read Let_def) (simp add: sample_lib_def)
qed

lemma sample_source:
  assumes s: "records_sample s"
  shows "\<exists>ourls. recording_source sample_bson sample_lib sample_mongo ''1'' s = Inr (1, 2, ourls)"
proof -
  have "find_utf8 sample_bson sample_channel_doc ''_cls'' = Some ''IStream.ProxyStream''"
    "\<exists>a. find_array sample_bson sample_channel_doc ''output'' = Some a"
    "find_oid sample_bson [(''_id'', BOid 2), (''streams'', BArr [(''0'', BOid 1)])] ''_id'' = Some 2"
    unfolding find_typed_iff[OF sample_bson_laws]
    by (simp_all add: sample_channel_doc_def sample_stream_fields_def)
  moreover have "CatchupEndpointInfo_IsValid sample_lib (''host'', DirPath ''/root'')"
    by (simp add: CatchupEndpointInfo_IsValid_def sample_lib_def)
  ultimately show ?thesis
    by (auto simp: recording_source_def records_sample_finds[OF s] GetOutputUrlData_def)
qed

lemma sample_created:
  assumes s: "records_sample s"
  shows "\<exists>ch s' srv cat.
     FindStream sample_bson sample_lib sample_mongo sample_identity ''1'' s = Some (Inr ch) \<and>
     sb_sid ch = ''1'' \<and> sb_parts ch = [] \<and>
     CreateCatchup sample_bson sample_lib sample_mongo 7 sample_identity ''1'' ''Film'' 10 20
       s = Some (s', Inr (srv, cat, True))"
proof -
  obtain ch where ch: "FindStream sample_bson sample_lib sample_mongo sample_identity ''1'' s = Some (Inr ch)"
    "sb_sid ch = ''1''" "sb_parts ch = []" using sample_channel_found[OF s] by blast
  obtain ourls where src: "recording_source sample_bson sample_lib sample_mongo ''1'' s = Inr (1, 2, ourls)"
    using sample_source[OF s] by blast
  have "\<exists>s' srv cat. create_catchup sample_bson sample_lib sample_mongo 7 ch ''Film'' 10 20 (1, 2, ourls)
      s = (s', Inr (srv, cat, True))"
    using create_catchup_served[OF sample_store_serves, of sample_bson sample_lib 7 ch "''Film''" 10 20
        "(1, 2, ourls)" s] by auto
  moreover have "''1'' \<noteq> fl_invalid_stream_id sample_lib" by (simp add: sample_lib_def)
  ultimately have "\<exists>s' srv cat. CreateCatchup sample_bson sample_lib sample_mongo 7 sample_identity ''1'' ''Film'' 10 20
       s = Some (s', Inr (srv, cat, True))"
    by (simp add: CreateCatchup_def CreateOrFindCatchup_def sample_identity_valid records_sample_finds(5)[OF s]
        ch src fits64_def)
  then show ?thesis using ch by blast
qed

theorem catchup_request_idempotent_witness:
  "\<exists>s' srv cat cat'.
     CreateCatchup sample_bson sample_lib sample_mongo 7 sample_identity ''1'' ''Film'' 10 20
       sample_recording_manager = Some (s', Inr (srv, cat, True)) \<and>
     CreateCatchup sample_bson sample_lib sample_mongo 8 sample_identity ''1'' ''Film'' 10 20 s' =
       Some (s', Inr (None, cat', False)) \<and> sb_sid cat' = sb_sid cat"
proof -
  obtain ch s' srv cat where
    ch: "FindStream sample_bson sample_lib sample_mongo sample_identity ''1'' sample_recording_manager = Some (Inr ch)"
      "sb_sid ch = ''1''" "sb_parts ch = []"
    and first: "CreateCatchup sample_bson sample_lib sample_mongo 7 sample_identity ''1'' ''Film'' 10 20
       sample_recording_manager = Some (s', Inr (srv, cat, True))"
    using sample_created[OF sample_records] by blast
  have "ConvertFromString sample_bson (ConvertToString sample_bson 5) = Some 5"
    "ConvertFromString sample_bson ''1'' = Some 1" by simp_all
  from catchup_request_idempotent[OF sample_bson_laws sample_recording_laws sample_store_laws first ch(1,2)
      sample_recording_finds(4,3) this sample_recording_finds(1) sample_channel_keys _ sample_canonical] ch(3) first
  show ?thesis by auto
qed

text \<open>
  Recording is all or nothing while the store serves: an error, and likewise the answer with a
  catchup that exists already, leaves the state as it was; only the answer that a catchup has been
  created comes with a change, and this change is in the store only.
\<close>

theorem catchup_all_or_nothing:
  assumes "store_serves M" and "CreateCatchup B L M now auth sid title start stop s = Some (s', r)"
  shows "case r of
           Inl err \<Rightarrow> s' = s
         | Inr (srv, cat, created) \<Rightarrow>
             (if created then (\<exists>d srv'. s' = s\<lparr>db := d\<rparr> \<and> srv = Some srv') else s' = s \<and> srv = None)"
proof -
  note created = create_catchup_servedD[OF assms(1)]
  show ?thesis using assms(2)
    by (auto simp: CreateCatchup_def CreateOrFindCatchup_def dest!: created
        split: if_splits option.splits sum.splits reading.splits)
qed

theorem catchup_all_or_nothing_witness:
  "\<exists>d srv cat. CreateCatchup sample_bson sample_lib sample_mongo 7 sample_identity ''1'' ''Film'' 10 20
       sample_recording_manager = Some (sample_recording_manager\<lparr>db := d\<rparr>, Inr (Some srv, cat, True))"
proof -
  obtain s' srv cat where first: "CreateCatchup sample_bson sample_lib sample_mongo 7 sample_identity ''1'' ''Film'' 10 20
       sample_recording_manager = Some (s', Inr (srv, cat, True))" using sample_created[OF sample_records] by blast
  from catchup_all_or_nothing[OF sample_store_serves first] first show ?thesis by auto
qed

lemma request_document_read:
  assumes "bson_laws B"
  shows "MakeContentRequestInfo B (request_document x r) =
           Got \<lparr>cr_id = ConvertToString B x, cr_text = cq_text r, cr_type = cq_type r, cr_status = cq_status r\<rparr>"
proof -
  have d: "distinct (keys_of (request_document x r))"
    by (simp add: request_document_def keys_of_def)
  have "accepts B request_schema False (request_document x r)"
  proof (rule accepts_lookup[OF d])
    show "holds B t v" if "(k, t) \<in> set request_schema" "map_of (request_document x r) k = Some v" for k t v
      using that by (auto simp: request_schema_def request_document_def holds_iff)
    show "set (mandatory request_schema) \<subseteq> set (keys_of (request_document x r))"
      unfolding request_counted by (simp add: request_document_def keys_of_def)
  qed
  then show ?thesis unfolding MakeContentRequestInfo_iff[OF d]
    by (simp add: request_of_def look_def request_document_def the_simps)
qed

text \<open>
  A content request survives the store: after a request has been created it is found under the
  identifier that was answered, and reading it gives the answer back.
\<close>

theorem content_request_roundtrip:
  assumes "bson_laws B" and "recording_laws M" and "store_laws M"
    and "CreateRequestContent B L M auth request s = Some (s', Inr cont)"
    and "mg_new_oid M (db s) = (x, d1)" and "mg_find M (db s) REQUESTS (by_id x) = None"
  shows "cr_id cont = ConvertToString B x \<and>
         (\<exists>doc. find_one M REQUESTS (by_id x) s' = Some doc \<and> MakeContentRequestInfo B doc = Got cont)"
proof -
  let ?doc = "request_document x request"
  obtain d2 u s2 where ins: "mg_insert M d1 REQUESTS ?doc = (d2, None)"
    and link: "s2 = s\<lparr>db := d2\<rparr>" "AddContentRequestToUserArray M u x s2 = (s', None)"
    and cont: "cont = \<lparr>cr_id = ConvertToString B x, cr_text = cq_text request, cr_type = cq_type request,
                      cr_status = cq_status request\<rparr>"
    using assms(4) by (auto simp: CreateRequestContent_def assms(5) insert_one_def Let_def
        split: if_splits option.splits prod.splits)
  have "find_one M REQUESTS (by_id x) s' = mg_find M d2 REQUESTS (by_id x)"
    using store_frame[OF assms(3), of REQUESTS SUBSCRIBERS d2 "by_id u" _ "by_id x"] link
    by (auto simp: AddContentRequestToUserArray_def update_one_None find_one_def)
      (metis coll.distinct(7) fst_conv)
  also have "\<dots> = Some ?doc"
    using recording_lawsD(2)[OF assms(2) ins, of x x] assms(6) recording_lawsD(1)[OF assms(2), of "db s"]
    by (simp add: request_document_def assms(5))
  finally show ?thesis using request_document_read[OF assms(1), of x request] cont by simp
qed

theorem content_request_roundtrip_witness:
  "\<exists>s' cont doc.
     CreateRequestContent sample_bson sample_lib sample_mongo sample_identity
       \<lparr>cq_text = ''More'', cq_type = 1, cq_status = 0\<rparr> sample_recording_manager = Some (s', Inr cont) \<and>
     find_one sample_mongo REQUESTS (by_id 5) s' = Some doc \<and> MakeContentRequestInfo sample_bson doc = Got cont"
proof -
  let ?r = "\<lparr>cq_text = ''More'', cq_type = 1, cq_status = 0\<rparr>"
  have "\<exists>s' cont. CreateRequestContent sample_bson sample_lib sample_mongo sample_identity ?r
      sample_recording_manager = Some (s', Inr cont)"
    by (simp add: CreateRequestContent_def sample_identity_valid sample_marks(1) sample_recording_finds
        served[OF sample_store_serves] AddContentRequestToUserArray_def Let_def)
  then obtain s' cont where c: "CreateRequestContent sample_bson sample_lib sample_mongo sample_identity ?r
      sample_recording_manager = Some (s', Inr cont)" by blast
  have "mg_find sample_mongo (db sample_recording_manager) REQUESTS (by_id 5) = None"
    by (simp add: sample_recording_manager_def sample_mongo_def)
  from content_request_roundtrip[OF sample_bson_laws sample_recording_laws sample_store_laws c
      sample_recording_finds(4) this] c
  show ?thesis by blast
qed

end
