(* ===== verification/Server_Properties.thy ===== *)
theory Server_Properties
  imports Serving Catchup_Store
begin

text \<open>
  What the server of the subscribers guarantees: the refusal of requests before a login, the sweep
  of the ping timer, the number of watchers it answers, and what a granted request for a catchup
  leaves in the list of the user.
\<close>

section \<open>A small server\<close>

text \<open>
  A protocol in which a command is its own method and parameter, and a network that answers
  everything; one client does not answer a ping.
\<close>

definition sample_rpc :: rpc_lib where
  "sample_rpc =
     \<lparr>rl_parse = (\<lambda>c. Inr (Some \<lparr>rq_id = Some c, rq_method = c, rq_params = Some c\<rparr>, None)),
      rl_is_request = (\<lambda>req. True),
      rl_client_method = (\<lambda>m.
        if m = ''login'' then Some CLIENT_LOGIN
        else if m = ''runtime'' then Some CLIENT_GET_RUNTIME_CHANNEL_INFO
        else if m = ''catchup'' then Some CLIENT_REQUEST_CATCHUP else Some CLIENT_PING),
      rl_server_method = (\<lambda>m. None), rl_invalid_timer = -1,
      rl_login_info = (\<lambda>p. NoJson), rl_auth_info = (\<lambda>p. Parsed sample_auth_info),
      rl_ping_info = (\<lambda>p. Parsed ()), rl_runtime_info = (\<lambda>p. Parsed ''s1''),
      rl_favorite_info = (\<lambda>p. NoJson), rl_recent_info = (\<lambda>p. NoJson),
      rl_interrupt_info = (\<lambda>p. NoJson),
      rl_catchup_info = (\<lambda>p. Parsed (''1'', ''Film'', 10, 20)),
      rl_undo_info = (\<lambda>p. NoJson), rl_content_info = (\<lambda>p. NoJson), rl_client_info = (\<lambda>p. NoJson)\<rparr>"

definition sample_net :: "string list server_io" where
  "sample_net =
     \<lparr>sv_reply = (\<lambda>w p i r. (w, None)),
      sv_ping = (\<lambda>w p. (w, if p = Addr 3 then Some ErrnoInval else None)),
      sv_get_client_info = (\<lambda>w p. (w, None)), sv_close = (\<lambda>w p. w),
      sv_read_command = (\<lambda>w p. (w, Inr ''ping'')), sv_pop_request = (\<lambda>w p i. (w, None)),
      sv_callback = (\<lambda>w p r. w), sv_create_timer = (\<lambda>w n b. (7, w)), sv_remove_timer = (\<lambda>w t. w)\<rparr>"

definition sample_env :: "(string list, sample_db) env" where
  "sample_env =
     \<lparr>env_bson = sample_bson, env_lib = sample_lib, env_mongo = sample_mongo, env_rpc = sample_rpc,
      env_io = sample_net, env_epg_url = GURL ''epg'', env_locked_text = ''locked''\<rparr>"

lemma sample_env_simps [simp]:
  "env_bson sample_env = sample_bson" "env_lib sample_env = sample_lib"
  "env_mongo sample_env = sample_mongo" "env_rpc sample_env = sample_rpc" "env_io sample_env = sample_net"
  by (simp_all add: sample_env_def)

section \<open>A server at its start\<close>

lemma ConnectToDatabase_sel:
  "heap (fst (ConnectToDatabase D url name lazy s)) = heap s"
  "connections (fst (ConnectToDatabase D url name lazy s)) = connections s"
  "observer (fst (ConnectToDatabase D url name lazy s)) = observer s"
  "events (fst (ConnectToDatabase D url name lazy s)) = events s"
  by (simp_all add: ConnectToDatabase_def MongoEngine_Connect_def handle_simps Let_def split: option.splits)

lemma SubscribersManager_new_sel:
  "heap (SubscribersManager_new obs w ep d) = Map.empty"
  "connections (SubscribersManager_new obs w ep d) = []"
  "observer (SubscribersManager_new obs w ep d) = obs" "events (SubscribersManager_new obs w ep d) = []"
  by (simp_all add: SubscribersManager_new_def registry.extend_def SubscribersManager_registry_def)

lemma SubscribersHandler_new_sel:
  "heap (SubscribersHandler_new R obs m) = heap m"
  "connections (SubscribersHandler_new R obs m) = connections m"
  "observer (SubscribersHandler_new R obs m) = observer m" "events (SubscribersHandler_new R obs m) = events m"
  "db (SubscribersHandler_new R obs m) = db m" "view (SubscribersHandler_new R obs m) = view m"
  "kind_of (SubscribersHandler_new R obs m) = kind_of m"
  "online_clients (SubscribersHandler_new R obs m) = 0" "notices (SubscribersHandler_new R obs m) = []"
  by (simp_all add: SubscribersHandler_new_def manager.extend_def view_def kind_of_def fun_eq_iff
      IServerHandler_init_def)

lemma server_inv_initial:
  assumes "heap m = Map.empty" and "connections m = []" and "observer m" and "events m = []"
  shows "server_inv (SubscribersHandler_new R obs m)"
proof -
  let ?s = "SubscribersHandler_new R obs m"
  have v: "view ?s = Map.empty"
    using assms(1) by (simp add: SubscribersHandler_new_sel) (simp add: view_def fun_eq_iff)
  moreover have "online ?s = {}" using v by (simp add: online_def)
  ultimately show ?thesis using assms
    by (simp add: server_inv_def books_inv_def observed_inv_def fronts_def session_inv_iff_view exclusive_def
        SubscribersHandler_new_sel clients_def) (simp add: kind_of_def)
qed

definition sample_start :: "(string list, sample_db) sub_handler" where
  "sample_start = SubscribersHandler_new sample_rpc True
     (fst (ConnectToDatabase full_driver ''url'' ''name'' True
       (SubscribersManager_new True [] (''host'', DirPath ''/root'') [])))"

lemma sample_start_view: "view sample_start = Map.empty"
  by (simp add: sample_start_def SubscribersHandler_new_sel)
     (simp add: view_def fun_eq_iff SubscribersManager_new_sel ConnectToDatabase_sel)

section \<open>Before the login\<close>

lemma check_login:
  assumes "session_inv s"
  shows "view s p = Some None \<Longrightarrow> CheckIsLoginClient p s = Some (Inl (ErrText ''User not logged''))"
    and "view s p = Some (Some a) \<Longrightarrow> CheckIsLoginClient p s = Some (Inr a)"
  using assms by (auto simp: CheckIsLoginClient_def view_def session_inv_def reg_inv_def)

lemma drop_unlogged:
  assumes "session_inv s" and "view s p = Some None"
  shows "drop_client E p s =
    Some (s\<lparr>heap := (heap s)(p := None), online_clients := online_clients s - 1,
            io := sv_close (env_io E) (io s) p\<rparr>)"
proof -
  from assms(2) obtain c where c: "heap s p = Some c" "co_login c = None" by (auto simp: view_def)
  then have "p \<noteq> nullptr" using heap_not_null[OF session_inv_reg[OF assms(1)]] by blast
  then show ?thesis
    by (simp add: drop_client_eq session_drop_def UnRegister_not_logged[OF _ c] free_client_def)
qed

lemma logged_in_refuses:
  assumes "session_inv s" and "view s p = Some None"
  shows "\<exists>w. logged_in E p req k s =
    Some (s\<lparr>heap := (heap s)(p := None), online_clients := online_clients s - 1, io := w\<rparr>,
          Some (ErrnoDesc (ErrText ''User not logged'') EINVAL))"
proof -
  obtain w e where w: "sv_reply (env_io E) (io s) p (rq_id req) (CheckLoginFail (ErrText ''User not logged'')) = (w, e)"
    by fastforce
  let ?t = "s\<lparr>io := w\<rparr>"
  have "session_inv ?t" using assms(1) session_inv_view[of ?t s] by simp
  from drop_unlogged[OF this, of p E] assms(2) show ?thesis
    by (auto simp: logged_in_def check_login(1)[OF assms] send_def w)
qed

text \<open>
  C10: Nothing is served before a login.  Any request of a connection that has not logged in, other
  than the activation and the login, only costs the client its connection: it is refused, closed
  and deleted, and the store, the sessions of the others and what the observer knows are as before.
\<close>

theorem unauthenticated_refused:
  assumes "session_inv s" and "view s p = Some None"
    and "rl_client_method (env_rpc E) (rq_method req) = Some m"
    and "m \<noteq> CLIENT_ACTIVATE_DEVICE" and "m \<noteq> CLIENT_LOGIN"
  shows "\<exists>w. HandleRequestCommand E now p req s =
    Some (s\<lparr>heap := (heap s)(p := None), online_clients := online_clients s - 1, io := w\<rparr>,
          Some (ErrnoDesc (ErrText ''User not logged'') EINVAL))"
  using assms(3-5) logged_in_refuses[OF assms(1,2), of E req]
  by (cases m) (simp_all add: HandleRequestCommand_def HandleRequestClientPing_def
      HandleRequestClientGetServerInfo_def HandleRequestClientGetChannels_def
      HandleRequestClientGetRuntimeChannelInfo_def HandleRequestClientSetFavorite_def
      HandleRequestClientSetRecent_def HandleRequestInterruptStreamTime_def
      HandleRequestGenerateCatchup_def HandleRequestUndoCatchup_def HandleRequestContent_def)

definition sample_server :: "(string list, sample_db) sub_handler" where
  "sample_server = (SubscribersHandler_new sample_rpc True sample_manager)\<lparr>online_clients := 2, ping_timer := 7\<rparr>"

lemma sample_server_view: "view sample_server = [Addr 2 \<mapsto> None, Addr 3 \<mapsto> None]"
  by (simp add: sample_server_def SubscribersHandler_new_sel sample_manager_view)

lemma sample_server_inv: "session_inv sample_server"
proof -
  have "connections sample_server = connections sample_manager"
    by (simp add: sample_server_def SubscribersHandler_new_sel)
  then show ?thesis using sample_manager_inv(1) sample_server_view sample_manager_view
    by (simp add: session_inv_iff_view)
qed

theorem unauthenticated_refused_witness:
  "\<exists>w. HandleRequestCommand sample_env 50 (Addr 2)
         \<lparr>rq_id = None, rq_method = ''catchup'', rq_params = Some ''p''\<rparr> sample_server =
    Some (sample_server\<lparr>heap := (heap sample_server)(Addr 2 := None), online_clients := 1, io := w\<rparr>,
          Some (ErrnoDesc (ErrText ''User not logged'') EINVAL))"
proof -
  have "view sample_server (Addr 2) = Some None" by (simp add: sample_server_view)
  from unauthenticated_refused[OF sample_server_inv this, of sample_env
      "\<lparr>rq_id = None, rq_method = ''catchup'', rq_params = Some ''p''\<rparr>" CLIENT_REQUEST_CATCHUP 50]
  show ?thesis by (simp add: sample_rpc_def) (simp add: sample_server_def)
qed

section \<open>The ping timer\<close>

lemma ping_client_kinds:
  assumes inv: "server_inv s" and p: "p \<in> clients SubscriberClient s" and ok: "ping_client E p s = Some s'"
    and answer: "\<And>w q. snd (sv_ping (env_io E) w q) = answer q"
  shows "view s' = (if answer p = None then view s else (view s)(p := None)) \<and>
    kind_of s' = (if answer p = None then kind_of s else (kind_of s)(p := None))"
proof -
  obtain c where c: "heap s p = Some c" using client_live[OF p] by (auto simp: view_def)
  have "session_inv s" using inv by (auto simp: server_inv_def intro: books_inv_session)
  then have null: "p \<noteq> nullptr" using heap_not_null[OF session_inv_reg c] by blast
  obtain w e where w: "sv_ping (env_io E) (io s) p = (w, e)" by fastforce
  then have e: "e = answer p" using answer[of "io s" p] by simp
  show ?thesis
  proof (cases e)
    case None
    then show ?thesis using ok c null w e by (auto simp: ping_client_def split: option.splits)
  next
    case (Some err)
    then have "drop_client E p (s\<lparr>io := w\<rparr>) = Some s'" using ok c null w by (simp add: ping_client_def)
    moreover have "server_inv (s\<lparr>io := w\<rparr>)" by (rule quiet_server_inv[OF quiet_io inv])
    ultimately show ?thesis
      using drop_client_ok[of "s\<lparr>io := w\<rparr>" p E] p e[symmetric] Some by (auto simp: clients_def)
  qed
qed

lemma ping_clients_kinds:
  assumes "server_inv s" and "distinct ps" and "set ps \<subseteq> clients SubscriberClient s"
    and "opt_fold (ping_client E) ps s = Some s'"
    and answer: "\<And>w q. snd (sv_ping (env_io E) w q) = answer q"
  shows "view s' = view s |` {p. p \<in> set ps \<longrightarrow> answer p = None} \<and>
    kind_of s' = kind_of s |` {p. p \<in> set ps \<longrightarrow> answer p = None}"
  using assms(1-4)
proof (induction ps arbitrary: s)
  case Nil
  then show ?case by (simp add: restrict_map_def fun_eq_iff)
next
  case (Cons p ps)
  then have p: "p \<in> clients SubscriberClient s" by simp
  obtain t where t: "ping_client E p s = Some t" and rest: "opt_fold (ping_client E) ps t = Some s'"
    using Cons.prems(4) by (auto split: option.splits)
  note v = ping_client_kinds[OF Cons.prems(1) p t answer]
  have "server_inv t" using settled_server_inv[OF ping_client_settled[OF t] Cons.prems(1) p] by blast
  moreover have "set ps \<subseteq> clients SubscriberClient t" using Cons.prems(2,3) v by (auto simp: clients_def)
  ultimately have "view s' = view t |` {q. q \<in> set ps \<longrightarrow> answer q = None} \<and>
      kind_of s' = kind_of t |` {q. q \<in> set ps \<longrightarrow> answer q = None}"
    using Cons.IH[OF _ _ _ rest] Cons.prems(2) by simp
  then show ?case using v by (auto simp: restrict_map_def fun_eq_iff)
qed

text \<open>
  C20: The ping timer sweeps the server: it comes to an end, and when the loop hands over its
  clients, exactly those that a ping reaches stay connected; the others are unregistered, closed
  and counted out, also when several of them fail at once.  The connections of the http server are
  left alone.
\<close>

theorem ping_sweep:
  assumes "server_inv s" and "ping_timer s = tid"
    and "distinct ps" and "set ps = clients SubscriberClient s"
    and "\<And>w p. snd (sv_ping (env_io E) w p) = answer p"
  shows "\<exists>s'. TimerEmited E ps tid s = Some s' \<and>
    view s' = view s |` {p. p \<in> clients SubscriberClient s \<longrightarrow> answer p = None} \<and>
    online_clients s' = of_nat (card {p \<in> clients SubscriberClient s. answer p = None}) \<and> server_inv s'"
proof -
  have sub: "set ps \<subseteq> clients SubscriberClient s" using assms(4) by simp
  obtain s' where s': "opt_fold (ping_client E) ps s = Some s'" "server_inv s'"
    using ping_clients_ok[OF assms(1,3) sub, of E] by blast
  note v = ping_clients_kinds[OF assms(1,3) sub s'(1) assms(5)]
  then have "clients SubscriberClient s' = {p \<in> clients SubscriberClient s. answer p = None}"
    using assms(4) by (auto simp: clients_def restrict_map_def split: if_splits)
  then show ?thesis using s' v assms(2,4) by (auto simp: TimerEmited_def server_inv_def)
qed

lemma sample_server_clients: "clients SubscriberClient sample_server = {Addr 2, Addr 3}"
  by (auto simp: clients_def kind_of_def sample_server_def SubscribersHandler_new_sel sample_manager_def
      sample_object_def split: if_splits)

lemma sample_server_server_inv: "server_inv sample_server"
proof -
  have on: "online sample_server = {}" by (auto simp: online_def sample_server_view)
  moreover have "observer sample_server" "events sample_server = []"
    by (simp_all add: sample_server_def SubscribersHandler_new_sel sample_manager_def SubscribersManager_new_sel)
  moreover have "finite (dom (view sample_server))" by (simp add: sample_server_view)
  ultimately show ?thesis using sample_server_inv
    by (simp add: server_inv_def books_inv_def observed_inv_def fronts_def exclusive_def sample_server_clients)
       (simp add: sample_server_def)
qed

theorem ping_sweep_witness:
  "\<exists>s'. TimerEmited sample_env [Addr 2, Addr 3] 7 sample_server = Some s' \<and>
     view s' = [Addr 2 \<mapsto> None] \<and> online_clients s' = 1"
proof -
  let ?answer = "\<lambda>p. if p = Addr 3 then Some ErrnoInval else None"
  have "snd (sv_ping (env_io sample_env) w p) = ?answer p" for w p by (simp add: sample_net_def)
  moreover have "ping_timer sample_server = 7" by (simp add: sample_server_def)
  ultimately obtain s' where s': "TimerEmited sample_env [Addr 2, Addr 3] 7 sample_server = Some s'"
    "view s' = view sample_server |` {p. p \<in> {Addr 2, Addr 3} \<longrightarrow> ?answer p = None}"
    "online_clients s' = of_nat (card {p \<in> {Addr 2, Addr 3}. ?answer p = None})"
    using ping_sweep[OF sample_server_server_inv, of 7 "[Addr 2, Addr 3]" sample_env ?answer]
    by (auto simp: sample_server_clients)
  have "{p \<in> {Addr 2, Addr 3}. ?answer p = None} = {Addr 2}" by auto
  then have "online_clients s' = 1" using s'(3) by simp
  moreover have "view s' = [Addr 2 \<mapsto> None]"
    using s'(2) by (auto simp: sample_server_view restrict_map_def fun_eq_iff)
  ultimately show ?thesis using s'(1) by blast
qed

section \<open>Watchers\<close>

text \<open>
  C28: The answer to a request for a stream is the number of the connections that watch it at that
  moment; the connection that asks becomes one of its watchers, so that it is counted from the next
  request on, once.
\<close>

theorem runtime_info_counts:
  assumes inv: "session_inv s" and p: "view s p = Some (Some a)"
    and req: "rl_is_request (env_rpc E) req" "rq_params req = Some params"
      "rl_runtime_info (env_rpc E) params = Parsed sid"
  shows "\<exists>s1. HandleRequestClientGetRuntimeChannelInfo E p req s =
      Some (send E p req (GetRuntimeChannelInfoSuccess sid
        (card {q \<in> online s. map_option co_stream (heap s q) = Some sid})) s1) \<and>
    GetAndUpdateOnlineUserByStreamID sid s1 =
      Some (card (insert p {q \<in> online s. map_option co_stream (heap s q) = Some sid}))"
proof -
  obtain c where c: "heap s p = Some c" using p by (auto simp: view_def)
  let ?s1 = "s\<lparr>heap := (heap s)(p \<mapsto> SetCurrentStreamID sid c)\<rparr>"
  have watched: "GetAndUpdateOnlineUserByStreamID sid t =
      Some (card {q \<in> online t. map_option co_stream (heap t q) = Some sid})"
    if "session_inv t" for t :: "('a, 'b, 'c) sub_handler_scheme"
    using count_watchers_online[OF that _ session_inv_values(2)[OF that]] session_inv_values(1)[OF that]
    by (simp add: GetAndUpdateOnlineUserByStreamID_def)
  have q: "quiet s ?s1" by (rule quiet_object[OF c]) (simp_all add: SetCurrentStreamID_def)
  then have v: "view ?s1 = view s" and inv1: "session_inv ?s1"
    using inv session_inv_view[of ?s1 s] by (auto simp: quiet_def)
  have "{q \<in> online ?s1. map_option co_stream (heap ?s1 q) = Some sid} =
      insert p {q \<in> online s. map_option co_stream (heap s q) = Some sid}"
    using p online_view[OF v] by (auto simp: online_def SetCurrentStreamID_def)
  then show ?thesis
    using req check_login(2)[OF inv p] watched[OF inv] watched[OF inv1] c
    by (intro exI[of _ ?s1])
       (simp add: HandleRequestClientGetRuntimeChannelInfo_def logged_in_def with_params_def Let_def)
qed

definition sample_watching :: "(string list, sample_db) sub_handler" where
  "sample_watching = sample_server
     \<lparr>heap := [Addr 2 \<mapsto> sample_object (Some sample_identity) ''s1'', Addr 3 \<mapsto> sample_object None ''s1''],
      connections := [(''1'', [Addr 2])]\<rparr>"

lemma sample_watching_view:
  "view sample_watching = [Addr 2 \<mapsto> Some sample_identity, Addr 3 \<mapsto> None]"
  by (auto simp: sample_watching_def view_def sample_object_def fun_eq_iff)

lemma sample_watching_inv: "session_inv sample_watching"
  by (simp add: session_inv_iff_view sample_watching_view filed_def)
     (simp add: sample_watching_def sample_identity_def)

theorem runtime_info_counts_witness:
  "\<exists>s1. HandleRequestClientGetRuntimeChannelInfo sample_env (Addr 2)
       \<lparr>rq_id = None, rq_method = ''runtime'', rq_params = Some ''p''\<rparr> sample_watching =
     Some (send sample_env (Addr 2) \<lparr>rq_id = None, rq_method = ''runtime'', rq_params = Some ''p''\<rparr>
             (GetRuntimeChannelInfoSuccess ''s1'' 1) s1)"
proof -
  let ?req = "\<lparr>rq_id = None, rq_method = ''runtime'', rq_params = Some ''p''\<rparr>"
  have on: "online sample_watching = {Addr 2}" by (auto simp: online_def sample_watching_view split: if_splits)
  have "{q \<in> online sample_watching. map_option co_stream (heap sample_watching q) = Some ''s1''} = {Addr 2}"
    unfolding on by (auto simp: sample_watching_def sample_object_def)
  then show ?thesis
    using runtime_info_counts[OF sample_watching_inv, of "Addr 2" sample_identity sample_env ?req "''p''" "''s1''"]
    by (auto simp: sample_watching_view sample_rpc_def)
qed

section \<open>Catchups of a user\<close>

lemma store_only_sel:
  assumes "store_only s s'"
  shows "view s' = view s" "notices s' = notices s" "attached s' = attached s"
    "collection_open s' = collection_open s" "catchup_endpoint s' = catchup_endpoint s"
  using assms by (auto simp: store_only_def)

lemma user_sids_db: "db t = db s \<Longrightarrow> user_sids M f t = user_sids M f s"
  by (simp add: user_sids_def fun_eq_iff)

definition asks_catchup ::
    "('io, 'db) env \<Rightarrow> rpc_request \<Rightarrow> string \<Rightarrow> string \<Rightarrow> int \<Rightarrow> int \<Rightarrow> bool" where
  "asks_catchup E req sid title start stop \<longleftrightarrow>
     rl_is_request (env_rpc E) req \<and>
     (\<exists>params. rq_params req = Some params \<and>
        rl_catchup_info (env_rpc E) params = Parsed (sid, title, start, stop))"

text \<open>What a request leaves when the catchup is there and the list of the user takes it.\<close>

lemma catchup_granted:
  assumes inv: "session_inv s" and p: "view s p = Some (Some auth)"
    and req: "asks_catchup E req sid title start stop"
    and create: "CreateCatchup (env_bson E) (env_lib E) (env_mongo E) now auth sid title start stop s =
      Some (s1, Inr (srv, cat, created))"
    and add: "AddUserCatchup (env_bson E) (env_lib E) (env_mongo E) auth (sb_sid cat) s1 = (s2, None)"
  shows "\<exists>t e. HandleRequestGenerateCatchup E now p req s = Some (t, e) \<and> db t = db s2 \<and>
    notices t = notices s @ (if created \<and> attached s then [CatchupCreated srv cat] else []) \<and>
    attached t = attached s \<and> collection_open t = collection_open s \<and> view t = view s \<and> session_inv t"
proof -
  let ?t = "if created then tell (CatchupCreated srv cat) s2 else s2"
  obtain w e where "sv_reply (env_io E) (io ?t) p (rq_id req) (CatchupGenerateSuccess cat) = (w, e)" by fastforce
  then have send: "send E p req (CatchupGenerateSuccess cat) ?t = (?t\<lparr>io := w\<rparr>, e)" by (simp add: send_def)
  have "HandleRequestGenerateCatchup E now p req s = Some (send E p req (CatchupGenerateSuccess cat) ?t)"
    using req by (auto simp: asks_catchup_def HandleRequestGenerateCatchup_def logged_in_def check_login(2)[OF inv p]
        with_params_def create add Let_def)
  then have "HandleRequestGenerateCatchup E now p req s = Some (?t\<lparr>io := w\<rparr>, e)" unfolding send .
  moreover have so: "store_only s s2"
    by (rule store_only_trans[OF CreateCatchup_store[OF create] store_only_pair[OF add AddUserCatchup_store]])
  note so = store_only_sel[OF so]
  moreover have "view (?t\<lparr>io := w\<rparr>) = view s" using so(1) by (simp add: tell_def)
  moreover have "session_inv (?t\<lparr>io := w\<rparr>)"
  proof -
    have "connections (?t\<lparr>io := w\<rparr>) = connections s" using \<open>store_only s s2\<close> by (auto simp: store_only_def tell_def)
    with \<open>view (?t\<lparr>io := w\<rparr>) = view s\<close> show ?thesis using inv session_inv_view by blast
  qed
  ultimately show ?thesis by (intro exI[of _ "?t\<lparr>io := w\<rparr>"] exI[of _ e]) (auto simp: tell_def)
qed

text \<open>
  C29: A catchup is recorded once and listed as often as it is asked for.  Let a user who is logged in
  ask for a programme of which there is no recording yet, of one of the user's streams, and let the
  manager create the catchup; the store serves, and the identifiers it makes up are new and are not the
  text for no stream.  Then the request succeeds: the list of catchups of this user is the list from
  before the request with the new identifier at its end, the lists of all other users are as before, and
  the observer, if there is one, is told of the recording.  When the user asks for the same again, in
  the state this leaves, this also succeeds, the observer is told nothing, and the same identifier is in
  the list twice.
\<close>

theorem catchup_request_appends:
  assumes inv: "session_inv s" and p: "view s p = Some (Some auth)"
    and req: "asks_catchup E req sid title start stop" and req': "asks_catchup E req' sid title start stop"
    and laws: "bson_laws (env_bson E)" "recording_laws (env_mongo E)" "store_laws (env_mongo E)"
      "store_up (env_mongo E)"
    and create: "CreateCatchup (env_bson E) (env_lib E) (env_mongo E) now auth sid title start stop s =
      Some (s1, Inr (srv, cat, True))"
    and ch: "FindStream (env_bson E) (env_lib E) (env_mongo E) auth sid s = Some (Inr ch)" "sb_sid ch = sid"
    and new: "mg_new_oid (env_mongo E) (db s) = (cid, d1)" "mg_find (env_mongo E) (db s) STREAMS (by_id cid) = None"
    and made: "ConvertFromString (env_bson E) (ConvertToString (env_bson E) cid) = Some cid"
      "ConvertToString (env_bson E) cid \<noteq> fl_invalid_stream_id (env_lib E)"
    and ids: "ConvertFromString (env_bson E) (db_uid auth) = Some u" "ConvertFromString (env_bson E) sid = Some x"
    and sdoc: "find_one (env_mongo E) STREAMS (by_id x) s = Some sdoc" "distinct (keys_of sdoc)"
    and own: "\<forall>part \<in> set (sb_parts ch). ConvertFromString (env_bson E) part \<noteq> Some x"
    and can: "canonical_catchup (env_bson E) (env_lib E) cid (fst (catchup_endpoint s)) ch"
  shows "\<exists>s2 e s3 e'. HandleRequestGenerateCatchup E now p req s = Some (s2, e) \<and>
    user_sids (env_mongo E) ''catchups'' s2 = (user_sids (env_mongo E) ''catchups'' s)
      (u := user_sids (env_mongo E) ''catchups'' s u @ [cid]) \<and>
    notices s2 = notices s @ (if attached s then [CatchupCreated srv cat] else []) \<and>
    HandleRequestGenerateCatchup E now' p req' s2 = Some (s3, e') \<and>
    user_sids (env_mongo E) ''catchups'' s3 = (user_sids (env_mongo E) ''catchups'' s)
      (u := user_sids (env_mongo E) ''catchups'' s u @ [cid, cid]) \<and>
    notices s3 = notices s2"
proof -
  let ?B = "env_bson E" and ?L = "env_lib E" and ?M = "env_mongo E"
  let ?old = "user_sids ?M ''catchups'' s"
  note lists = created_lists[OF laws(2,3) create ch new ids(2) sdoc(1)]
  obtain cat' where again: "CreateCatchup ?B ?L ?M now' auth sid title start stop s1 = Some (s1, Inr (None, cat', False))"
    "sb_sid cat' = ConvertToString ?B cid"
    using create_twice[OF laws(1-3) create ch new made(1) ids(2) sdoc own can] lists(1)
    by (simp add: read_back_def)
  note valid = CreateCatchup_found[OF again(1)]
  have user: "user_known ?M s1 u"
    using found_stream_user[OF laws(3) ch(1) ids(1)] lists(2) by (simp add: user_known_def find_one_def)
  have sids1: "user_sids ?M ''catchups'' s1 = ?old"
    using lists(2) by (simp add: user_sids_def find_one_def fun_eq_iff)
  obtain s1' where add: "AddUserCatchup ?B ?L ?M auth (sb_sid cat) s1 = (s1', None)"
    and put: "AddStreamToUserCatchupsArray ?M u cid s1 = (s1', None)"
    and s1': "user_known ?M s1' = user_known ?M s1" "collection_open s1' = collection_open s1"
      "user_sids ?M ''catchups'' s1' = ?old(u := ?old u @ [cid])"
    using AddUserCatchup_up[OF laws(3,4) _ user _ ids(1) made(2,1)] valid ids(1) lists(1) sids1 by auto
  obtain s2 e where s2: "HandleRequestGenerateCatchup E now p req s = Some (s2, e)" "db s2 = db s1'"
    "notices s2 = notices s @ (if attached s then [CatchupCreated srv cat] else [])"
    "collection_open s2 = collection_open s" "view s2 = view s" "session_inv s2"
    using catchup_granted[OF inv p req create add] by auto
  have open1: "collection_open s1 = collection_open s"
    using store_only_sel(4)[OF CreateCatchup_store[OF create]] .
  have create': "CreateCatchup ?B ?L ?M now' auth sid title start stop s2 = Some (s2, Inr (None, cat', False))"
    by (rule CreateCatchup_listed[OF again(1) laws(3) put s2(2)]) (simp add: s2(4) open1)
  have known: "user_known ?M s2 u" and sids2: "user_sids ?M ''catchups'' s2 = ?old(u := ?old u @ [cid])"
    using user s1'(3) user_sids_db[OF s2(2), of ?M "''catchups''"] fun_cong[OF s1'(1), of u] s2(2)
    by (simp_all add: user_known_def)
  have "collection_open s2 SUBSCRIBERS" "ServerDBAuthInfo_IsValid ?L auth" using valid s2(4) open1 by simp_all
  from AddUserCatchup_up[OF laws(3,4) this(1) known this(2) ids(1) made(2,1)] obtain s2' where
    add': "AddUserCatchup ?B ?L ?M auth (sb_sid cat') s2 = (s2', None)"
    and s2': "user_sids ?M ''catchups'' s2' = (user_sids ?M ''catchups'' s2)(u := user_sids ?M ''catchups'' s2 u @ [cid])"
    unfolding again(2) by blast
  obtain s3 e' where s3: "HandleRequestGenerateCatchup E now' p req' s2 = Some (s3, e')" "db s3 = db s2'" "notices s3 = notices s2"
    using catchup_granted[OF s2(6) _ req' create' add', of p] s2(5) p by auto
  have "user_sids ?M ''catchups'' s3 = ?old(u := ?old u @ [cid, cid])"
    using s2' sids2 by (simp add: user_sids_db[OF s3(2)])
  then show ?thesis using s2(1,3) s3(1,3) sids2 by blast
qed

definition sample_recorder :: "(string list, sample_db) sub_handler" where
  "sample_recorder = sample_watching\<lparr>db := db sample_recording_manager\<rparr>"

lemma sample_recorder_records: "records_sample sample_recorder"
  by (simp add: records_sample_def sample_recorder_def sample_watching_def sample_server_def
      SubscribersHandler_new_def manager.extend_def sample_manager_open)
     (simp add: sample_manager_def SubscribersManager_new_def registry.extend_def)

lemma sample_recorder_inv: "session_inv sample_recorder"
  using sample_watching_inv session_inv_view[of sample_recorder sample_watching]
  by (simp add: sample_recorder_def)

theorem catchup_request_appends_witness:
  "\<exists>s2 e s3 e' xs. HandleRequestGenerateCatchup sample_env 7 (Addr 2)
       \<lparr>rq_id = None, rq_method = ''catchup'', rq_params = Some ''p''\<rparr> sample_recorder = Some (s2, e) \<and>
     HandleRequestGenerateCatchup sample_env 8 (Addr 2)
       \<lparr>rq_id = Some ''4'', rq_method = ''catchup'', rq_params = Some ''p''\<rparr> s2 = Some (s3, e') \<and>
     user_sids sample_mongo ''catchups'' s2 1 = xs @ [5] \<and>
     user_sids sample_mongo ''catchups'' s3 1 = xs @ [5, 5] \<and>
     length (notices s2) = 1 \<and> length (notices s3) = 1"
proof -
  let ?req = "\<lparr>rq_id = None, rq_method = ''catchup'', rq_params = Some ''p''\<rparr>"
  let ?req' = "\<lparr>rq_id = Some ''4'', rq_method = ''catchup'', rq_params = Some ''p''\<rparr>"
  obtain ch s1 srv cat where
    ch: "FindStream sample_bson sample_lib sample_mongo sample_identity ''1'' sample_recorder = Some (Inr ch)"
      "sb_sid ch = ''1''" "sb_parts ch = []"
    and first: "CreateCatchup sample_bson sample_lib sample_mongo 7 sample_identity ''1''
      ''Film'' 10 20 sample_recorder = Some (s1, Inr (srv, cat, True))"
    using sample_created[OF sample_recorder_records] by blast
  note finds = records_sample_finds[OF sample_recorder_records]
  have asks: "asks_catchup sample_env ?req ''1'' ''Film'' 10 20" "asks_catchup sample_env ?req' ''1'' ''Film'' 10 20"
    by (simp_all add: asks_catchup_def sample_rpc_def)
  have ids: "ConvertFromString sample_bson (ConvertToString sample_bson 5) = Some 5"
    "ConvertToString sample_bson 5 \<noteq> fl_invalid_stream_id sample_lib"
    "ConvertFromString sample_bson (db_uid sample_identity) = Some 1" "ConvertFromString sample_bson ''1'' = Some 1"
    by (simp_all add: sample_identity_def) (simp add: sample_lib_def)
  have state: "view sample_recorder (Addr 2) = Some (Some sample_identity)" "attached sample_recorder"
    "notices sample_recorder = []"
    using sample_watching_view
    by (simp_all add: sample_recorder_def)
       (simp_all add: sample_watching_def sample_server_def SubscribersHandler_new_def manager.extend_def)
  have can: "canonical_catchup sample_bson sample_lib 5 (fst (catchup_endpoint sample_recorder)) ch"
    by (rule sample_canonical)
  have env: "env_bson sample_env = sample_bson" "env_lib sample_env = sample_lib" "env_mongo sample_env = sample_mongo"
    by simp_all
  from catchup_request_appends[OF sample_recorder_inv state(1) asks, unfolded env, OF sample_bson_laws
      sample_recording_laws sample_store_laws sample_store_up first ch(1,2) finds(4,3) ids finds(1) sample_channel_keys _ can]
    ch(3) state(2,3)
  show ?thesis by fastforce
qed

end
