(* ===== verification/Channel_Lists.thy ===== *)
theory Channel_Lists
  imports Channels
begin

text \<open>
  What the lists of a user contain: the interface of the loops over an array of the user's
  document with its five implementations, the exact content of the answer of
  \<open>ClientGetChannels\<close>, and the streams that \<open>ClientFindHttpDirectoryOrUrlForChannel\<close> gives access
  to.
\<close>

section \<open>Loops over an array\<close>

text \<open>What the elements of an array yield, in order.\<close>

definition yield :: "'r reading \<Rightarrow> 'r option" where
  "yield r = (case r of Got x \<Rightarrow> Some x | _ \<Rightarrow> None)"

definition gots :: "(belem \<Rightarrow> 'r reading) \<Rightarrow> bdoc \<Rightarrow> 'r list" where
  "gots get_elem ar = List.map_filter (\<lambda>e. yield (get_elem e)) ar"

lemma gots_simps [simp]:
  "gots f [] = []"
  "gots f (e # ar) = (case f e of Got x \<Rightarrow> x # gots f ar | _ \<Rightarrow> gots f ar)"
  by (simp_all add: gots_def yield_def List.map_filter_simps split: reading.splits)

lemma in_gots: "x \<in> set (gots f ar) \<longleftrightarrow> (\<exists>e \<in> set ar. f e = Got x)"
  by (induction ar) (auto split: reading.splits)

text \<open>
  The contract of one pass: it leaves the accumulator alone, adds what the element yields, or is
  undefined together with the element.
\<close>

locale array_loop =
  fixes step :: "belem \<Rightarrow> 'b \<Rightarrow> 'b option"
    and get_elem :: "belem \<Rightarrow> 'r reading"
    and add :: "'r \<Rightarrow> 'b \<Rightarrow> 'b"
  assumes step_eq:
    "step e acc = (case get_elem e of Undef \<Rightarrow> None | Skip \<Rightarrow> Some acc | Got r \<Rightarrow> Some (add r acc))"
begin

lemma run:
  "opt_fold step ar acc =
     (if \<exists>e \<in> set ar. get_elem e = Undef then None else Some (fold add (gots get_elem ar) acc))"
  by (induction ar arbitrary: acc) (auto simp: step_eq split: reading.splits)

lemma run_Some:
  "opt_fold step ar acc = Some r \<longleftrightarrow>
     (\<forall>e \<in> set ar. get_elem e \<noteq> Undef) \<and> r = fold add (gots get_elem ar) acc"
  unfolding run by auto

end

definition elem_channel where
  "elem_channel B L M s e = entry_stream B M (MakeChannelInfo B L) s (snd e)"

definition elem_vod where
  "elem_vod B L M s e = entry_stream B M (MakeVodInfo B L) s (snd e)"

definition elem_catchup where
  "elem_catchup B L M s e = entry_stream B M (MakeCatchupInfo B L) s (snd e)"

definition elem_doc ::
    "bson_lib \<Rightarrow> 'db mongo_lib \<Rightarrow> coll \<Rightarrow> (bdoc \<Rightarrow> 'r reading) \<Rightarrow> ('io, 'db, 'a) manager_scheme \<Rightarrow> belem
     \<Rightarrow> 'r reading" where
  "elem_doc B M c rdr s e =
     (case bl_oid B (snd e) of
        None \<Rightarrow> Undef
      | Some x \<Rightarrow> (case find_one M c (by_id x) s of None \<Rightarrow> Skip | Some sdoc \<Rightarrow> rdr sdoc))"

definition with_views :: "fastotv_lib \<Rightarrow> vod_info list \<Rightarrow> serial_info \<Rightarrow> serial_info" where
  "with_views L lvods ser = ser\<lparr>se_view_count := stable_views L lvods (se_episodes ser)\<rparr>"

definition shelve :: "(user_stream_info \<times> 'c \<times> bool) \<Rightarrow> 'c list \<times> 'c list \<Rightarrow> 'c list \<times> 'c list" where
  "shelve r acc =
     (case r of (uinf, ch, visible) \<Rightarrow>
        if us_priv uinf then (fst acc, snd acc @ [ch]) else (fst acc @ [ch], snd acc))"

interpretation channels: array_loop "add_channel B L M s" "elem_channel B L M s"
    "\<lambda>r acc. if snd (snd r) then shelve r acc else acc" for B L M s
  by unfold_locales (auto simp: add_channel_def elem_channel_def shelve_def split: reading.splits prod.splits)

interpretation vod_list: array_loop "add_vod B L M s" "elem_vod B L M s" shelve for B L M s
  by unfold_locales (auto simp: add_vod_def elem_vod_def shelve_def split: reading.splits prod.splits)

interpretation catchup_list: array_loop "add_catchup B L M s" "elem_catchup B L M s"
    "\<lambda>r acc. acc @ [fst (snd r)]" for B L M s
  by unfold_locales (auto simp: add_catchup_def elem_catchup_def split: reading.splits prod.splits)

interpretation series: array_loop "add_serial B L M lvods s"
    "elem_doc B M SERIES (\<lambda>d. MakeSerialInfo B L d False) s" "\<lambda>r acc. acc @ [with_views L lvods (fst r)]"
    for B L M lvods s
  by unfold_locales (auto simp: add_serial_def elem_doc_def with_views_def split: reading.splits option.splits)

interpretation requests: array_loop "add_request B M s"
    "elem_doc B M REQUESTS (MakeContentRequestInfo B) s" "\<lambda>r acc. acc @ [r]" for B M s
  by unfold_locales (auto simp: add_request_def elem_doc_def split: reading.splits option.splits)

section \<open>The answer\<close>

definition array_of :: "bdoc \<Rightarrow> string \<Rightarrow> bdoc" where
  "array_of doc f = (case map_of doc f of Some (BArr ar) \<Rightarrow> ar | _ \<Rightarrow> [])"

lemma find_array_of:
  assumes "bson_laws B"
  shows "(case find_array B doc f of None \<Rightarrow> Some acc | Some ar \<Rightarrow> opt_fold step ar acc) =
           opt_fold step (array_of doc f) acc"
proof (cases "find_array B doc f")
  case None
  then have "array_of doc f = []"
    using find_typed_iff(5)[OF assms, of doc f] by (auto simp: array_of_def split: option.splits bval.splits)
  then show ?thesis by (simp add: None)
next
  case (Some ar)
  then have "map_of doc f = Some (BArr ar)" using find_typed_iff(5)[OF assms] by simp
  then show ?thesis by (simp add: Some array_of_def)
qed

lemma fold_snoc: "fold (\<lambda>r acc. acc @ [f r]) xs ys = ys @ map f xs"
  by (induction xs arbitrary: ys) simp_all

text \<open>The entries whose stream is shown, and the two shelves they are put on.\<close>

definition on_shelf :: "bool \<Rightarrow> (user_stream_info \<times> 'c \<times> bool) list \<Rightarrow> 'c list" where
  "on_shelf private rs = map (\<lambda>r. fst (snd r)) (filter (\<lambda>r. us_priv (fst r) = private) rs)"

lemma fold_shelve: "fold shelve rs acc = (fst acc @ on_shelf False rs, snd acc @ on_shelf True rs)"
  by (induction rs arbitrary: acc) (simp_all add: on_shelf_def shelve_def split_beta)

lemma fold_shelve_visible:
  "fold (\<lambda>r acc. if snd (snd r) then shelve r acc else acc) rs acc =
     fold shelve (filter (\<lambda>r. snd (snd r)) rs) acc"
  by (induction rs arbitrary: acc) simp_all

definition answer_of ::
    "bson_lib \<Rightarrow> fastotv_lib \<Rightarrow> 'db mongo_lib \<Rightarrow> ('io, 'db, 'a) manager_scheme \<Rightarrow> bdoc \<Rightarrow> channels_answer" where
  "answer_of B L M s doc =
     (let chs = filter (\<lambda>r. snd (snd r)) (gots (elem_channel B L M s) (array_of doc ''streams''));
          vs = gots (elem_vod B L M s) (array_of doc ''vods'')
      in \<lparr>an_vods = on_shelf False vs, an_chans = on_shelf False chs, an_pchans = on_shelf True chs,
          an_pvods = on_shelf True vs,
          an_catchups = map (\<lambda>r. fst (snd r)) (gots (elem_catchup B L M s) (array_of doc ''catchups'')),
          an_series = map (\<lambda>r. with_views L (on_shelf False vs) (fst r))
            (gots (elem_doc B M SERIES (\<lambda>d. MakeSerialInfo B L d False) s) (array_of doc ''series'')),
          an_requests = gots (elem_doc B M REQUESTS (MakeContentRequestInfo B) s) (array_of doc ''requests'')\<rparr>)"

definition lists_defined ::
    "bson_lib \<Rightarrow> fastotv_lib \<Rightarrow> 'db mongo_lib \<Rightarrow> ('io, 'db, 'a) manager_scheme \<Rightarrow> bdoc \<Rightarrow> bool" where
  "lists_defined B L M s doc \<longleftrightarrow>
     (\<forall>e \<in> set (array_of doc ''streams''). elem_channel B L M s e \<noteq> Undef) \<and>
     (\<forall>e \<in> set (array_of doc ''vods''). elem_vod B L M s e \<noteq> Undef) \<and>
     (\<forall>e \<in> set (array_of doc ''catchups''). elem_catchup B L M s e \<noteq> Undef) \<and>
     (\<forall>e \<in> set (array_of doc ''series''). elem_doc B M SERIES (\<lambda>d. MakeSerialInfo B L d False) s e \<noteq> Undef) \<and>
     (\<forall>e \<in> set (array_of doc ''requests''). elem_doc B M REQUESTS (MakeContentRequestInfo B) s e \<noteq> Undef)"

lemma user_list_iff:
  assumes B: "bson_laws B"
  shows "user_channels B L M doc s = Some p \<longleftrightarrow>
      (\<forall>e \<in> set (array_of doc ''streams''). elem_channel B L M s e \<noteq> Undef) \<and>
      p = (on_shelf False (filter (\<lambda>r. snd (snd r)) (gots (elem_channel B L M s) (array_of doc ''streams''))),
           on_shelf True (filter (\<lambda>r. snd (snd r)) (gots (elem_channel B L M s) (array_of doc ''streams''))))"
    and "user_vods B L M doc s = Some pv \<longleftrightarrow>
      (\<forall>e \<in> set (array_of doc ''vods''). elem_vod B L M s e \<noteq> Undef) \<and>
      pv = (on_shelf False (gots (elem_vod B L M s) (array_of doc ''vods'')),
            on_shelf True (gots (elem_vod B L M s) (array_of doc ''vods'')))"
    and "user_catchups B L M doc s = Some cs \<longleftrightarrow>
      (\<forall>e \<in> set (array_of doc ''catchups''). elem_catchup B L M s e \<noteq> Undef) \<and>
      cs = map (\<lambda>r. fst (snd r)) (gots (elem_catchup B L M s) (array_of doc ''catchups''))"
    and "user_series B L M lvods doc s = Some ss \<longleftrightarrow>
      (\<forall>e \<in> set (array_of doc ''series''). elem_doc B M SERIES (\<lambda>d. MakeSerialInfo B L d False) s e \<noteq> Undef) \<and>
      ss = map (\<lambda>r. with_views L lvods (fst r))
             (gots (elem_doc B M SERIES (\<lambda>d. MakeSerialInfo B L d False) s) (array_of doc ''series''))"
    and "user_requests B M doc s = Some rs \<longleftrightarrow>
      (\<forall>e \<in> set (array_of doc ''requests''). elem_doc B M REQUESTS (MakeContentRequestInfo B) s e \<noteq> Undef) \<and>
      rs = gots (elem_doc B M REQUESTS (MakeContentRequestInfo B) s) (array_of doc ''requests'')"
  unfolding user_channels_def user_vods_def user_catchups_def user_series_def user_requests_def
    find_array_of[OF B] channels.run_Some vod_list.run_Some catchup_list.run_Some series.run_Some
    requests.run_Some fold_shelve_visible fold_shelve fold_snoc fold_snoc[where f = "\<lambda>x. x"]
  by auto

lemma user_answer_iff:
  assumes "bson_laws B"
  shows "user_answer B L M doc s = Some ans \<longleftrightarrow> lists_defined B L M s doc \<and> ans = answer_of B L M s doc"
proof -
  have "user_answer B L M doc s = Some ans \<longleftrightarrow>
      (\<exists>c pc v pv cs ss rs. user_channels B L M doc s = Some (c, pc) \<and> user_vods B L M doc s = Some (v, pv) \<and>
         user_catchups B L M doc s = Some cs \<and> user_series B L M v doc s = Some ss \<and>
         user_requests B M doc s = Some rs \<and>
         ans = \<lparr>an_vods = v, an_chans = c, an_pchans = pc, an_pvods = pv, an_catchups = cs,
                an_series = ss, an_requests = rs\<rparr>)"
    unfolding user_answer_def by (auto split: option.splits)
  also have "\<dots> \<longleftrightarrow> lists_defined B L M s doc \<and> ans = answer_of B L M s doc"
    unfolding user_list_iff[OF assms] lists_defined_def answer_of_def Let_def by auto
  finally show ?thesis .
qed

lemma ClientGetChannels_iff:
  assumes "bson_laws B"
  shows "ClientGetChannels B L M auth s = Some (Inr ans) \<longleftrightarrow>
    fl_auth_valid L auth \<and> (\<forall>c \<in> {SUBSCRIBERS, STREAMS, SERIES, REQUESTS}. collection_open s c) \<and>
    (\<exists>doc. find_one M SUBSCRIBERS (by_email (li_login auth)) s = Some doc \<and>
           lists_defined B L M s doc \<and> ans = answer_of B L M s doc)"
proof -
  have "user_answer B L M doc s = (if lists_defined B L M s doc then Some (answer_of B L M s doc) else None)"
    for doc using user_answer_iff[OF assms, of L M doc s] by (cases "user_answer B L M doc s") auto
  then show ?thesis by (auto simp: ClientGetChannels_def split: option.splits if_splits)
qed

section \<open>Ownership\<close>

lemma open_entry_sid:
  assumes "bson_laws B"
  shows "open_entry B v = Got (x, it) \<Longrightarrow> sid_of v = Some x"
proof -
  have "find_after k rec = (f, it) \<Longrightarrow> (f \<longrightarrow> map_of rec k = Some (iter_value it)) \<and> (\<not> f \<longrightarrow> map_of rec k = None)"
    for k rec f it by (induction rec) (auto simp: iter_value_def split: if_splits)
  then show "open_entry B v = Got (x, it) \<Longrightarrow> sid_of v = Some x"
    by (auto simp: open_entry_def bson_lawsD(1,8)[OF assms] iter_init_def holds_doc_iff sid_of_def
        split: option.splits prod.splits if_splits bval.splits)
qed

text \<open>The marks of an entry, as the loops read them behind its identifier.\<close>

definition entry_marks :: "bson_lib \<Rightarrow> bval \<Rightarrow> user_stream_info" where
  "entry_marks B v =
     (case open_entry B v of Got (x, it) \<Rightarrow> makeUserStreamInfo B it | _ \<Rightarrow> new_user_stream_info)"

lemma entry_stream_own:
  assumes "bson_laws B" and "entry_stream B M rdr s v = Got (u, c, vis)"
  shows "u = entry_marks B v \<and>
         (\<exists>x sdoc st. sid_of v = Some x \<and> find_one M STREAMS (by_id x) s = Some sdoc \<and>
           rdr sdoc st u False = Got (c, vis))"
proof -
  obtain x it where "open_entry B v = Got (x, it)"
    using assms(2) by (auto simp: entry_stream_def split: reading.splits)
  then show ?thesis using assms(2) open_entry_sid[OF assms(1), of v x it]
    by (auto simp: entry_stream_def entry_marks_def Let_def split: reading.splits option.splits)
qed

definition doc_sids :: "bdoc \<Rightarrow> string \<Rightarrow> oid list" where
  "doc_sids doc f = List.map_filter sid_of (array_elems doc f)"

lemma doc_sids_array: "doc_sids doc f = List.map_filter (\<lambda>e. sid_of (snd e)) (array_of doc f)"
proof -
  have "array_elems doc f = map snd (array_of doc f)"
    by (simp add: array_elems_def array_of_def split: option.splits bval.splits)
  then show ?thesis by (simp add: doc_sids_def List.map_filter_def filter_map o_def)
qed

text \<open>
  A stream is listed when an entry of the user's list has its identifier and the marks, and its
  document reads as this stream.
\<close>

definition listed ::
    "bson_lib \<Rightarrow> 'db mongo_lib \<Rightarrow> (bdoc \<Rightarrow> stream_type \<Rightarrow> user_stream_info \<Rightarrow> bool \<Rightarrow> ('c \<times> bool) reading)
     \<Rightarrow> ('io, 'db, 'a) manager_scheme \<Rightarrow> bdoc \<Rightarrow> 'c \<times> bool \<Rightarrow> bool \<Rightarrow> bool" where
  "listed B M rdr s ar cv private \<longleftrightarrow>
     (\<exists>e \<in> set ar. \<exists>x sdoc st.
        sid_of (snd e) = Some x \<and> find_one M STREAMS (by_id x) s = Some sdoc \<and>
        rdr sdoc st (entry_marks B (snd e)) False = Got cv \<and>
        us_priv (entry_marks B (snd e)) = private)"

lemma gots_own:
  assumes B: "bson_laws B"
    and "(u, c, vis) \<in> set (gots (\<lambda>e. entry_stream B M rdr s (snd e)) ar)"
  shows "listed B M rdr s ar (c, vis) (us_priv u)"
proof -
  obtain e where e: "e \<in> set ar" "entry_stream B M rdr s (snd e) = Got (u, c, vis)"
    using assms(2) by (auto simp: in_gots)
  from entry_stream_own[OF B e(2)] e(1) show ?thesis unfolding listed_def by blast
qed

lemma in_shelf: "c \<in> set (on_shelf p rs) \<longleftrightarrow> (\<exists>u vis. (u, c, vis) \<in> set rs \<and> us_priv u = p)"
  by (force simp: on_shelf_def)

lemma answer_own:
  assumes B: "bson_laws B"
  shows "ch \<in> set (an_chans (answer_of B L M s doc)) \<Longrightarrow>
      listed B M (MakeChannelInfo B L) s (array_of doc ''streams'') (ch, True) False"
    and "ch \<in> set (an_pchans (answer_of B L M s doc)) \<Longrightarrow>
      listed B M (MakeChannelInfo B L) s (array_of doc ''streams'') (ch, True) True"
    and "vod \<in> set (an_vods (answer_of B L M s doc)) \<Longrightarrow>
      \<exists>vis. listed B M (MakeVodInfo B L) s (array_of doc ''vods'') (vod, vis) False"
    and "vod \<in> set (an_pvods (answer_of B L M s doc)) \<Longrightarrow>
      \<exists>vis. listed B M (MakeVodInfo B L) s (array_of doc ''vods'') (vod, vis) True"
    and "cat \<in> set (an_catchups (answer_of B L M s doc)) \<Longrightarrow>
      \<exists>vis private. listed B M (MakeCatchupInfo B L) s (array_of doc ''catchups'') (cat, vis) private"
proof -
  note own = gots_own[OF B]
  have elems: "elem_channel B L M s = (\<lambda>e. entry_stream B M (MakeChannelInfo B L) s (snd e))"
    "elem_vod B L M s = (\<lambda>e. entry_stream B M (MakeVodInfo B L) s (snd e))"
    "elem_catchup B L M s = (\<lambda>e. entry_stream B M (MakeCatchupInfo B L) s (snd e))"
    by (simp_all add: fun_eq_iff elem_channel_def elem_vod_def elem_catchup_def)
  note defs = answer_of_def Let_def in_shelf elems
  show "ch \<in> set (an_chans (answer_of B L M s doc)) \<Longrightarrow>
      listed B M (MakeChannelInfo B L) s (array_of doc ''streams'') (ch, True) False"
    by (auto simp: defs dest: own)
  show "ch \<in> set (an_pchans (answer_of B L M s doc)) \<Longrightarrow>
      listed B M (MakeChannelInfo B L) s (array_of doc ''streams'') (ch, True) True"
    by (auto simp: defs dest: own)
  show "vod \<in> set (an_vods (answer_of B L M s doc)) \<Longrightarrow>
      \<exists>vis. listed B M (MakeVodInfo B L) s (array_of doc ''vods'') (vod, vis) False"
    by (auto simp: defs dest!: own)
  show "vod \<in> set (an_pvods (answer_of B L M s doc)) \<Longrightarrow>
      \<exists>vis. listed B M (MakeVodInfo B L) s (array_of doc ''vods'') (vod, vis) True"
    by (auto simp: defs dest!: own)
  show "cat \<in> set (an_catchups (answer_of B L M s doc)) \<Longrightarrow>
      \<exists>vis private. listed B M (MakeCatchupInfo B L) s (array_of doc ''catchups'') (cat, vis) private"
  proof -
    assume "cat \<in> set (an_catchups (answer_of B L M s doc))"
    then obtain u vis where "(u, cat, vis) \<in> set (gots (\<lambda>e. entry_stream B M (MakeCatchupInfo B L) s (snd e))
        (array_of doc ''catchups''))" by (auto simp: defs)
    from own[OF this] show ?thesis by blast
  qed
qed

section \<open>Marks that are shown\<close>

text \<open>An element of the list whose document is read as the stream \<open>c\<close>, and the key \<open>locked\<close> in it.\<close>

definition shown_by ::
    "bson_lib \<Rightarrow> 'db mongo_lib \<Rightarrow> (bdoc \<Rightarrow> stream_type \<Rightarrow> user_stream_info \<Rightarrow> bool \<Rightarrow> ('c \<times> bool) reading)
     \<Rightarrow> ('io, 'db, 'a) manager_scheme \<Rightarrow> 'c \<Rightarrow> belem \<Rightarrow> bool" where
  "shown_by B M rdr s c e \<longleftrightarrow> (\<exists>u vis. entry_stream B M rdr s (snd e) = Got (u, c, vis))"

definition has_locked :: "bval \<Rightarrow> bool" where
  "has_locked v \<longleftrightarrow> (\<exists>d. v = BDoc d \<and> ''locked'' \<in> set (keys_of d))"

lemma recent_needs_locked:
  assumes B: "bson_laws B" and "entry_stream B M rdr s v = Got (u, c, vis)" and "\<not> has_locked v"
  shows "us_recent u = 0"
proof -
  obtain x it where it: "open_entry B v = Got (x, it)" and u: "u = makeUserStreamInfo B it"
    using assms(2) by (auto simp: entry_stream_def Let_def split: reading.splits option.splits)
  then obtain d where d: "v = BDoc d" "it = snd (bl_find B ''sid'' (iter_init d))"
    by (auto simp: open_entry_def holds_doc_iff split: option.splits prod.splits if_splits)
  have "''locked'' \<notin> set (keys_of d)" using assms(3) d(1) by (auto simp: has_locked_def)
  from marks_without_locked[OF B this] show ?thesis by (simp add: u d(2) marks_of_entry_def)
qed

lemma shown_marks:
  "MakeChannelInfo B L d st u vis = Got (c, v) \<Longrightarrow> sb_recent c = us_recent u"
  "MakeVodInfo B L d st u vis = Got (vod, v) \<Longrightarrow> sb_recent vod = us_recent u"
  "MakeCatchupInfo B L d st u vis = Got (cat, v) \<Longrightarrow> sb_recent cat = us_recent u"
  by (auto simp: MakeChannelInfo_defs MakeVodInfo_defs MakeCatchupInfo_defs split: reading.splits if_splits option.splits)

lemma shown_recent:
  assumes B: "bson_laws B" and "(u, c, vis) \<in> set (gots (\<lambda>e. entry_stream B M rdr s (snd e)) ar)"
    and reads: "\<And>d st u vis c v. rdr d st u vis = Got (c, v) \<Longrightarrow> sb_recent c = us_recent u"
  shows "sb_recent c = 0 \<or> (\<exists>e \<in> set ar. has_locked (snd e) \<and> shown_by B M rdr s c e)"
proof -
  obtain e where e: "e \<in> set ar" "entry_stream B M rdr s (snd e) = Got (u, c, vis)"
    using assms(2) by (auto simp: in_gots)
  have "sb_recent c = us_recent u" using entry_stream_own[OF B e(2)] reads by blast
  then show ?thesis using recent_needs_locked[OF B e(2)] e by (auto simp: shown_by_def)
qed

lemma answer_recent:
  assumes B: "bson_laws B"
  shows "\<forall>c \<in> set (an_chans (answer_of B L M s doc) @ an_pchans (answer_of B L M s doc)).
      sb_recent c = 0 \<or> (\<exists>e \<in> set (array_of doc ''streams''). has_locked (snd e) \<and> shown_by B M (MakeChannelInfo B L) s c e)"
    and "\<forall>c \<in> set (an_vods (answer_of B L M s doc) @ an_pvods (answer_of B L M s doc)).
      sb_recent c = 0 \<or> (\<exists>e \<in> set (array_of doc ''vods''). has_locked (snd e) \<and> shown_by B M (MakeVodInfo B L) s c e)"
    and "\<forall>c \<in> set (an_catchups (answer_of B L M s doc)).
      sb_recent c = 0 \<or> (\<exists>e \<in> set (array_of doc ''catchups''). has_locked (snd e) \<and> shown_by B M (MakeCatchupInfo B L) s c e)"
proof -
  have elems: "elem_channel B L M s = (\<lambda>e. entry_stream B M (MakeChannelInfo B L) s (snd e))"
    "elem_vod B L M s = (\<lambda>e. entry_stream B M (MakeVodInfo B L) s (snd e))"
    "elem_catchup B L M s = (\<lambda>e. entry_stream B M (MakeCatchupInfo B L) s (snd e))"
    by (simp_all add: fun_eq_iff elem_channel_def elem_vod_def elem_catchup_def)
  note defs = answer_of_def Let_def elems
  show "\<forall>c \<in> set (an_chans (answer_of B L M s doc) @ an_pchans (answer_of B L M s doc)).
      sb_recent c = 0 \<or> (\<exists>e \<in> set (array_of doc ''streams''). has_locked (snd e) \<and> shown_by B M (MakeChannelInfo B L) s c e)"
    by (intro ballI) (auto simp: defs in_shelf dest!: shown_recent[OF B _ shown_marks(1)])
  show "\<forall>c \<in> set (an_vods (answer_of B L M s doc) @ an_pvods (answer_of B L M s doc)).
      sb_recent c = 0 \<or> (\<exists>e \<in> set (array_of doc ''vods''). has_locked (snd e) \<and> shown_by B M (MakeVodInfo B L) s c e)"
    by (intro ballI) (auto simp: defs in_shelf dest!: shown_recent[OF B _ shown_marks(2)])
  show "\<forall>c \<in> set (an_catchups (answer_of B L M s doc)).
      sb_recent c = 0 \<or> (\<exists>e \<in> set (array_of doc ''catchups''). has_locked (snd e) \<and> shown_by B M (MakeCatchupInfo B L) s c e)"
    by (intro ballI) (auto simp: defs dest!: shown_recent[OF B _ shown_marks(3)])
qed

section \<open>The views of a serial\<close>

definition views :: "fastotv_lib \<Rightarrow> vod_info list \<Rightarrow> string \<Rightarrow> int" where
  "views L vods episode =
     (case find (\<lambda>v. fl_vod_is_serial L v \<and> sb_sid v = episode) vods of
        None \<Rightarrow> 0 | Some v \<Rightarrow> sb_view_count v)"

lemma stable_views_sum: "stable_views L vods eps = word_of_int (\<Sum>ep \<leftarrow> eps. views L vods ep)"
proof -
  have ep: "episode_views L vods ep = word_of_int (views L vods ep)" for ep
    by (simp add: episode_views_def views_def split: option.splits)
  have "fold (\<lambda>ep n. n + episode_views L vods ep) eps (word_of_int a) =
      word_of_int (a + (\<Sum>ep \<leftarrow> eps. views L vods ep))" for a
    by (induction eps arbitrary: a) (simp_all add: ep add.assoc flip: of_int_add)
  from this[of 0] show ?thesis by (simp add: stable_views_def)
qed

lemma answer_series_views:
  assumes "ser \<in> set (an_series (answer_of B L M s doc))"
  shows "se_view_count ser =
    word_of_int (\<Sum>ep \<leftarrow> se_episodes ser. views L (an_vods (answer_of B L M s doc)) ep)"
  using assms by (auto simp: answer_of_def Let_def with_views_def stable_views_sum)

section \<open>Targets of the http server\<close>

lemma search_list_Got:
  assumes B: "bson_laws B"
  shows "search_list B M target sid ar s = Got r \<Longrightarrow>
    \<exists>e \<in> set ar. \<exists>x. sid_of (snd e) = Some x \<and> ConvertToString B x = sid \<and> r = entry_target B M target s x"
  by (induction ar) (auto split: reading.splits if_splits dest: open_entry_sid[OF B])

lemma search_user_list_Got:
  assumes B: "bson_laws B" and "search_user_list B M target f doc sid s = Got r"
  shows "\<exists>x \<in> set (doc_sids doc f). ConvertToString B x = sid \<and> r = entry_target B M target s x"
proof -
  obtain ar where ar: "find_array B doc f = Some ar" "search_list B M target sid ar s = Got r"
    using assms(2) by (auto simp: search_user_list_def split: option.splits)
  have "array_of doc f = ar" using ar(1) by (simp add: find_typed_iff[OF B] array_of_def)
  then show ?thesis using search_list_Got[OF B ar(2)] unfolding doc_sids_array
    by (force simp: List.map_filter_def)
qed

definition targets :: "bson_lib \<Rightarrow> fastotv_lib \<Rightarrow> int \<Rightarrow> bdoc \<Rightarrow> http_target \<Rightarrow> bool" where
  "targets B L cid sdoc t \<longleftrightarrow>
     (case t of
        HttpUrl u \<Rightarrow> GetUrlFromStream B sdoc cid = Some u
      | HttpDirectory d \<Rightarrow>
          GetHttpRootFromStream B sdoc cid = Some d \<and> fl_dir_exists L (fl_dir_path L d))"

lemma target_sound:
  "channel_target B L cid sdoc st = Inr t \<Longrightarrow> targets B L cid sdoc t"
  "vod_target B L cid sdoc st = Inr t \<Longrightarrow> targets B L cid sdoc t"
  "catchup_target B L cid sdoc st = Inr t \<Longrightarrow> targets B L cid sdoc t"
proof -
  have url: "url_target B cid sdoc = Inr t \<Longrightarrow> targets B L cid sdoc t"
    by (auto simp: url_target_def targets_def split: option.splits)
  then have "stream_target B L cid p sdoc = Inr t \<Longrightarrow> targets B L cid sdoc t" for p
    by (auto simp: stream_target_def targets_def split: option.splits if_splits)
  then show "channel_target B L cid sdoc st = Inr t \<Longrightarrow> targets B L cid sdoc t"
    "vod_target B L cid sdoc st = Inr t \<Longrightarrow> targets B L cid sdoc t"
    by (simp_all add: channel_target_def vod_target_def)
  show "catchup_target B L cid sdoc st = Inr t \<Longrightarrow> targets B L cid sdoc t"
    using url by (auto simp: catchup_target_def targets_def Let_def split: option.splits if_splits)
qed

lemma entry_target_Inr:
  "entry_target B M target s x = Inr t \<Longrightarrow>
     \<exists>sdoc st. find_one M STREAMS (by_id x) s = Some sdoc \<and> target sdoc st = Inr t"
  by (auto simp: entry_target_def split: option.splits)

lemma find_http_Inr:
  assumes B: "bson_laws B"
    and found: "ClientFindHttpDirectoryOrUrlForChannel B L M auth sid cid s = Some (Inr t)"
  shows "\<exists>doc f x sdoc. find_one M SUBSCRIBERS (by_email (li_login auth)) s = Some doc \<and>
           f \<in> set user_lists \<and> x \<in> set (doc_sids doc f) \<and> ConvertToString B x = sid \<and>
           find_one M STREAMS (by_id x) s = Some sdoc \<and> targets B L cid sdoc t"
proof -
  obtain doc where doc: "find_one M SUBSCRIBERS (by_email (li_login auth)) s = Some doc"
    and cases: "search_user_list B M (channel_target B L cid) ''streams'' doc sid s = Got (Inr t) \<or>
      search_user_list B M (vod_target B L cid) ''vods'' doc sid s = Got (Inr t) \<or>
      search_user_list B M (catchup_target B L cid) ''catchups'' doc sid s = Got (Inr t)"
    using found by (auto simp: ClientFindHttpDirectoryOrUrlForChannel_defs
        split: if_splits option.splits reading.splits)
  have "\<exists>f x sdoc. f \<in> set user_lists \<and> x \<in> set (doc_sids doc f) \<and> ConvertToString B x = sid \<and>
      find_one M STREAMS (by_id x) s = Some sdoc \<and> targets B L cid sdoc t"
    if "search_user_list B M target f doc sid s = Got (Inr t)" "f \<in> set user_lists"
      "\<And>sdoc st. target sdoc st = Inr t \<Longrightarrow> targets B L cid sdoc t" for target f
    using search_user_list_Got[OF B that(1)] that(2,3) by (metis entry_target_Inr)
  then show ?thesis using doc cases target_sound[of B L cid _ _ t] by (auto simp: user_lists_def)
qed

text \<open>When every entry is a document with an identifier, the first list that has it decides.\<close>

lemma search_list_find:
  assumes "\<And>e. e \<in> set ar \<Longrightarrow> open_entry B (snd e) \<noteq> Undef" and B: "bson_laws B"
    and sid: "\<And>e x. e \<in> set ar \<Longrightarrow> sid_of (snd e) = Some x \<Longrightarrow> open_entry B (snd e) \<noteq> Skip"
  shows "search_list B M target sid ar s =
    (case find (\<lambda>x. ConvertToString B x = sid) (List.map_filter (\<lambda>e. sid_of (snd e)) ar) of
       None \<Rightarrow> Skip | Some x \<Rightarrow> Got (entry_target B M target s x))"
  using assms(1) sid
proof (induction ar)
  case (Cons e ar)
  then show ?case
    by (cases "open_entry B (snd e)"; cases "sid_of (snd e)")
      (auto simp: List.map_filter_simps dest: open_entry_sid[OF B])
qed (simp add: List.map_filter_simps)

section \<open>Properties\<close>

text \<open>
  C5: The answer to a channels request is exact.  It is given exactly when the credentials are
  well formed, the four collections are open, the user exists and every entry can be read; then
  each list has, in the order of the user's lists, the streams whose documents can be read, the
  channels only when they are visible, the private ones apart, and nothing else.
\<close>

theorem get_channels_exact:
  assumes "bson_laws B"
  shows "ClientGetChannels B L M auth s = Some (Inr ans) \<longleftrightarrow>
    fl_auth_valid L auth \<and> (\<forall>c \<in> {SUBSCRIBERS, STREAMS, SERIES, REQUESTS}. collection_open s c) \<and>
    (\<exists>doc. find_one M SUBSCRIBERS (by_email (li_login auth)) s = Some doc \<and>
           lists_defined B L M s doc \<and> ans = answer_of B L M s doc)"
  using assms by (rule ClientGetChannels_iff)

definition sample_viewer :: bdoc where
  "sample_viewer =
     [(''_id'', BOid 1), (''email'', BUtf8 ''user@mail''),
      (''streams'', BArr [(''0'', BDoc (program_entry 1 True False 5 0))]),
      (''vods'', BArr []), (''catchups'', BArr []), (''series'', BArr [(''0'', BOid 3)])]"

definition sample_visible_doc :: bdoc where
  "sample_visible_doc = sample_channel_doc @ [(''visible'', BBool True)]"

definition sample_viewer_manager :: "(string list, sample_db) manager" where
  "sample_viewer_manager =
     sample_manager\<lparr>db := [(SUBSCRIBERS, sample_viewer), (STREAMS, sample_visible_doc),
                          (SERIES, sample_serial_doc)]\<rparr>"

lemma sample_viewer_finds:
  "find_one sample_mongo SUBSCRIBERS (by_email (li_login sample_auth_info)) sample_viewer_manager = Some sample_viewer"
  "find_one sample_mongo STREAMS (by_id 1) sample_viewer_manager = Some sample_visible_doc"
  "find_one sample_mongo SERIES (by_id 3) sample_viewer_manager = Some sample_serial_doc"
  "collection_open sample_viewer_manager c"
  "fl_auth_valid sample_lib sample_auth_info"
proof -
  show "find_one sample_mongo SUBSCRIBERS (by_email (li_login sample_auth_info)) sample_viewer_manager = Some sample_viewer"
    by (simp add: find_one_def sample_viewer_manager_def sample_mongo_def sample_selects_def
        sample_matches_def by_email_def sample_viewer_def sample_auth_info_def)
  show "find_one sample_mongo STREAMS (by_id 1) sample_viewer_manager = Some sample_visible_doc"
    by (simp add: find_one_def sample_viewer_manager_def sample_mongo_def)
      (simp add: sample_visible_doc_def sample_channel_doc_def sample_stream_fields_def)
  show "find_one sample_mongo SERIES (by_id 3) sample_viewer_manager = Some sample_serial_doc"
    by (simp add: find_one_def sample_viewer_manager_def sample_mongo_def)
      (simp add: sample_serial_doc_def)
  show "collection_open sample_viewer_manager c"
    by (simp add: sample_viewer_manager_def sample_manager_open)
  show "fl_auth_valid sample_lib sample_auth_info"
    by (simp add: sample_lib_def sample_auth_info_def)
qed

lemma sample_program_entry:
  "open_entry sample_bson (BDoc (program_entry x f p r i)) =
     Got (x, Some (''sid'', BOid x), tl (program_entry x f p r i))"
  "us_priv (makeUserStreamInfo sample_bson (Some (''sid'', BOid x), tl (program_entry x f False r i))) = False"
  by (simp_all add: open_entry_def holds_doc_def sample_bson_def iter_init_def program_entry_def
      iter_value_def makeUserStreamInfo_def new_user_stream_info_def)

lemma sample_visible_read:
  "\<exists>ch. MakeChannelInfo sample_bson sample_lib sample_visible_doc PROXY u False = Got (ch, True) \<and> sb_sid ch = ''1''"
proof -
  have d: "distinct (keys_of sample_visible_doc)"
    by (simp add: sample_visible_doc_def sample_channel_doc_def sample_stream_fields_def keys_of_def)
  have "accepts sample_bson channel_schema True sample_visible_doc"
    by (simp add: accepts_def channel_counted keys_of_def sample_visible_doc_def sample_channel_doc_def
        sample_stream_fields_def)
      (simp add: well_typed_def channel_schema_def holds.simps)
  then show ?thesis unfolding MakeChannelInfo_iff[OF d]
    by (simp add: channel_of_def stream_base_of_def stream_base.extend_def look_def
        sample_visible_doc_def sample_channel_doc_def sample_stream_fields_def the_simps)
qed

lemma sample_visible_class:
  "find_utf8 sample_bson sample_visible_doc ''_cls'' = Some ''IStream.ProxyStream''"
  "MongoStreamType2StreamType ''IStream.ProxyStream'' = PROXY"
  unfolding find_typed_iff[OF sample_bson_laws]
  by (simp_all add: sample_visible_doc_def sample_channel_doc_def sample_stream_fields_def
      MongoStreamType2StreamType_def)

lemma sample_answer:
  "lists_defined sample_bson sample_lib sample_mongo sample_viewer_manager sample_viewer"
  "length (an_chans (answer_of sample_bson sample_lib sample_mongo sample_viewer_manager sample_viewer)) = 1"
  "length (an_series (answer_of sample_bson sample_lib sample_mongo sample_viewer_manager sample_viewer)) = 1"
proof -
  let ?e = "(''0'', BDoc (program_entry 1 True False 5 0))"
  obtain u ch where e: "elem_channel sample_bson sample_lib sample_mongo sample_viewer_manager ?e = Got (u, ch, True)"
    and u: "\<not> us_priv u"
  proof -
    let ?u = "makeUserStreamInfo sample_bson (Some (''sid'', BOid 1), tl (program_entry 1 True False 5 0))"
    obtain ch where "MakeChannelInfo sample_bson sample_lib sample_visible_doc PROXY ?u False = Got (ch, True)"
      using sample_visible_read by blast
    then have "elem_channel sample_bson sample_lib sample_mongo sample_viewer_manager ?e = Got (?u, ch, True)"
      by (simp add: elem_channel_def entry_stream_def sample_program_entry(1) sample_viewer_finds
          sample_visible_class Let_def)
    then show thesis using that sample_program_entry(2) by blast
  qed
  have "\<exists>ser. MakeSerialInfo sample_bson sample_lib sample_serial_doc False = Got ser"
  proof -
    have d: "distinct (keys_of sample_serial_doc)" by (simp add: sample_serial_doc_def keys_of_def)
    have "accepts sample_bson serial_schema False sample_serial_doc"
      by (simp add: accepts_def serial_counted keys_of_def sample_serial_doc_def)
        (simp add: well_typed_def serial_schema_def holds.simps sample_bson_def)
    then show ?thesis using MakeSerialInfo_iff[OF d] by (metis surj_pair)
  qed
  then obtain ser where ser: "MakeSerialInfo sample_bson sample_lib sample_serial_doc False = Got ser" by blast
  have doc: "elem_doc sample_bson sample_mongo SERIES (\<lambda>d. MakeSerialInfo sample_bson sample_lib d False)
      sample_viewer_manager (''0'', BOid 3) = Got ser"
    by (simp add: elem_doc_def bson_lawsD(4)[OF sample_bson_laws] sample_viewer_finds ser)
  have arrays: "array_of sample_viewer ''streams'' = [?e]" "array_of sample_viewer ''vods'' = []"
    "array_of sample_viewer ''catchups'' = []" "array_of sample_viewer ''series'' = [(''0'', BOid 3)]"
    "array_of sample_viewer ''requests'' = []"
    by (simp_all add: array_of_def sample_viewer_def)
  show "lists_defined sample_bson sample_lib sample_mongo sample_viewer_manager sample_viewer"
    by (simp add: lists_defined_def arrays e doc)
  show "length (an_chans (answer_of sample_bson sample_lib sample_mongo sample_viewer_manager sample_viewer)) = 1"
    by (simp add: answer_of_def arrays e doc on_shelf_def u)
  show "length (an_series (answer_of sample_bson sample_lib sample_mongo sample_viewer_manager sample_viewer)) = 1"
    by (simp add: answer_of_def arrays e doc Let_def)
qed

theorem get_channels_exact_witness:
  "\<exists>ans. ClientGetChannels sample_bson sample_lib sample_mongo sample_auth_info sample_viewer_manager = Some (Inr ans) \<and>
         length (an_chans ans) = 1"
  unfolding get_channels_exact[OF sample_bson_laws]
  using sample_viewer_finds sample_answer by auto

text \<open>
  A user is shown the own streams only, and the private ones apart.  Every channel, vod and
  catchup of an answer has an entry with its identifier in the corresponding list of the user
  who asks; a public channel or vod has an entry that is not marked private, a private one an entry
  that is; and every channel of the two lists is visible.
\<close>

theorem shown_streams_are_own:
  assumes "bson_laws B" and "ClientGetChannels B L M auth s = Some (Inr ans)"
  shows "\<exists>doc. find_one M SUBSCRIBERS (by_email (li_login auth)) s = Some doc \<and>
    (\<forall>ch \<in> set (an_chans ans). listed B M (MakeChannelInfo B L) s (array_of doc ''streams'') (ch, True) False) \<and>
    (\<forall>ch \<in> set (an_pchans ans). listed B M (MakeChannelInfo B L) s (array_of doc ''streams'') (ch, True) True) \<and>
    (\<forall>v \<in> set (an_vods ans). \<exists>vis. listed B M (MakeVodInfo B L) s (array_of doc ''vods'') (v, vis) False) \<and>
    (\<forall>v \<in> set (an_pvods ans). \<exists>vis. listed B M (MakeVodInfo B L) s (array_of doc ''vods'') (v, vis) True) \<and>
    (\<forall>c \<in> set (an_catchups ans). \<exists>vis private.
        listed B M (MakeCatchupInfo B L) s (array_of doc ''catchups'') (c, vis) private)"
proof -
  obtain doc where doc: "find_one M SUBSCRIBERS (by_email (li_login auth)) s = Some doc"
    and ans: "ans = answer_of B L M s doc"
    using assms(2) unfolding ClientGetChannels_iff[OF assms(1)] by blast
  show ?thesis unfolding ans
    by (intro exI[of _ doc] conjI ballI; (rule doc | (rule answer_own[OF assms(1)], assumption)))
qed

theorem shown_streams_are_own_witness:
  "\<exists>ans ch. ClientGetChannels sample_bson sample_lib sample_mongo sample_auth_info sample_viewer_manager = Some (Inr ans) \<and>
         an_chans ans = [ch] \<and>
         listed sample_bson sample_mongo (MakeChannelInfo sample_bson sample_lib) sample_viewer_manager
           (array_of sample_viewer ''streams'') (ch, True) False"
proof -
  let ?ans = "answer_of sample_bson sample_lib sample_mongo sample_viewer_manager sample_viewer"
  have ans: "ClientGetChannels sample_bson sample_lib sample_mongo sample_auth_info sample_viewer_manager = Some (Inr ?ans)"
    unfolding ClientGetChannels_iff[OF sample_bson_laws] using sample_viewer_finds sample_answer(1) by auto
  obtain ch where "an_chans ?ans = [ch]"
    using sample_answer(2) by (auto simp: length_Suc_conv)
  then show ?thesis
    using shown_streams_are_own[OF sample_bson_laws ans] ans sample_viewer_finds(1) by auto
qed

text \<open>
  C40: A recent mark is stored and not shown.  \<open>SetRecent\<close> writes the time into the user's entry of the
  stream and changes nothing else in it.  When the channels are then asked for, the reader looks for
  \<open>locked\<close> before it looks for \<open>recent\<close>, and a search that fails exhausts the iterator: every channel,
  vod and catchup in the answer has the time zero, unless it is shown by an entry that has the key
  \<open>locked\<close>, which no operation of this program writes.
\<close>

theorem recent_mark_lost:
  assumes B: "bson_laws B" and laws: "store_laws M" and up: "store_up M"
    and u: "ConvertFromString B (db_uid auth) = Some u" and x: "ConvertFromString B channel = Some x"
    and sdoc: "find_one M STREAMS (by_id x) s = Some sdoc" and cls: "find_utf8 B sdoc ''_cls'' = Some cls"
    and list: "list = user_list_of (MongoStreamType2StreamType cls)"
    and entry: "entry_of M s u list x = Some (BDoc d)"
    and set: "SetRecent B L M auth channel t s = (s', None)"
    and ans: "ClientGetChannels B L M who s' = Some (Inr ans)"
    and doc: "find_one M SUBSCRIBERS (by_email (li_login who)) s' = Some doc"
  shows "entry_of M s' u list x = Some (BDoc (AList.update ''recent'' (BDate t) d)) \<and>
    (\<forall>c \<in> set (an_chans ans @ an_pchans ans). sb_recent c = 0 \<or>
       (\<exists>e \<in> set (array_of doc ''streams''). has_locked (snd e) \<and> shown_by B M (MakeChannelInfo B L) s' c e)) \<and>
    (\<forall>c \<in> set (an_vods ans @ an_pvods ans). sb_recent c = 0 \<or>
       (\<exists>e \<in> set (array_of doc ''vods''). has_locked (snd e) \<and> shown_by B M (MakeVodInfo B L) s' c e)) \<and>
    (\<forall>c \<in> set (an_catchups ans). sb_recent c = 0 \<or>
       (\<exists>e \<in> set (array_of doc ''catchups''). has_locked (snd e) \<and> shown_by B M (MakeCatchupInfo B L) s' c e))"
proof -
  have "ans = answer_of B L M s' doc" using ans doc unfolding ClientGetChannels_iff[OF B] by auto
  moreover have "entry_of M s' u list x = Some (BDoc (AList.update ''recent'' (BDate t) d))"
    using set_recent_entry[OF laws up u x sdoc cls list set] entry by (simp add: set_elem_def)
  ultimately show ?thesis using answer_recent[OF B] by blast
qed

text \<open>The user of the sample watches the channel at 1234, and the next answer says 0.\<close>

lemma sample_recent:
  "case SetRecent sample_bson sample_lib sample_mongo sample_identity ''1'' 1234 sample_viewer_manager of
     (s', e) \<Rightarrow> e = None \<and>
       (case find_one sample_mongo SUBSCRIBERS (by_email (li_login sample_auth_info)) s' of
          None \<Rightarrow> False
        | Some doc \<Rightarrow>
            map snd (array_of doc ''streams'') = [BDoc (program_entry 1 True False 1234 0)] \<and>
            (case ClientGetChannels sample_bson sample_lib sample_mongo sample_auth_info s' of
               Some (Inr ans) \<Rightarrow> length (an_chans ans) = 1
             | _ \<Rightarrow> False))"
  by code_simp

theorem recent_mark_lost_witness:
  "\<exists>s' ans c. SetRecent sample_bson sample_lib sample_mongo sample_identity ''1'' 1234 sample_viewer_manager = (s', None) \<and>
     entry_of sample_mongo s' 1 ''streams'' 1 = Some (BDoc (program_entry 1 True False 1234 0)) \<and>
     ClientGetChannels sample_bson sample_lib sample_mongo sample_auth_info s' = Some (Inr ans) \<and>
     an_chans ans = [c] \<and> sb_recent c = 0"
proof -
  obtain s' doc ans where set: "SetRecent sample_bson sample_lib sample_mongo sample_identity ''1'' 1234 sample_viewer_manager = (s', None)"
    and doc: "find_one sample_mongo SUBSCRIBERS (by_email (li_login sample_auth_info)) s' = Some doc"
    and ar: "map snd (array_of doc ''streams'') = [BDoc (program_entry 1 True False 1234 0)]"
    and ans: "ClientGetChannels sample_bson sample_lib sample_mongo sample_auth_info s' = Some (Inr ans)"
    and len: "length (an_chans ans) = 1"
    using sample_recent by (auto split: prod.splits option.splits sum.splits)
  have cls: "find_utf8 sample_bson sample_visible_doc ''_cls'' = Some ''IStream.ProxyStream''"
    unfolding find_typed_iff[OF sample_bson_laws]
    by (simp add: sample_visible_doc_def sample_channel_doc_def sample_stream_fields_def)
  have list: "''streams'' = user_list_of (MongoStreamType2StreamType ''IStream.ProxyStream'')"
    by (simp add: user_list_of_def MongoStreamType2StreamType_def IsVod_def)
  have entry: "entry_of sample_mongo sample_viewer_manager 1 ''streams'' 1 = Some (BDoc (program_entry 1 True False 5 0))"
    by (simp add: entry_of_def sample_viewer_manager_def sample_mongo_def)
      (simp add: sample_viewer_def array_elems_def has_sid_def program_entry_def)
  have x: "ConvertFromString sample_bson ''1'' = Some 1" by simp
  note lost = recent_mark_lost[OF sample_bson_laws sample_store_laws sample_store_up sample_marks(1) x
      sample_viewer_finds(2) cls list entry set ans doc]
  obtain c where c: "an_chans ans = [c]" using len by (auto simp: length_Suc_conv)
  have "\<not> has_locked (snd e)" if "e \<in> set (array_of doc ''streams'')" for e
  proof -
    have "snd e \<in> set (map snd (array_of doc ''streams''))" using that by simp
    then show ?thesis unfolding ar by (auto simp: has_locked_def program_entry_def keys_of_def)
  qed
  then have "sb_recent c = 0" using lost c by auto
  then show ?thesis using set ans c lost by (simp add: program_entry_def)
qed

text \<open>
  The views of a serial are the views of its episodes: the view count of a serial in an answer
  is the sum, over its episodes, of the view counts of the public vods of the user that are part
  of a serial, modulo 2 to the 64.
\<close>

theorem serial_views_sum:
  assumes "bson_laws B" and "ClientGetChannels B L M auth s = Some (Inr ans)"
    and "ser \<in> set (an_series ans)"
  shows "se_view_count ser = word_of_int (\<Sum>ep \<leftarrow> se_episodes ser. views L (an_vods ans) ep) \<and>
         uint (se_view_count ser) = (\<Sum>ep \<leftarrow> se_episodes ser. views L (an_vods ans) ep) mod 2 ^ 64"
proof -
  obtain doc where "ans = answer_of B L M s doc"
    using assms(2) unfolding ClientGetChannels_iff[OF assms(1)] by blast
  then have "se_view_count ser = word_of_int (\<Sum>ep \<leftarrow> se_episodes ser. views L (an_vods ans) ep)"
    using answer_series_views assms(3) by blast
  then show ?thesis by (simp add: uint_word_of_int)
qed

theorem serial_views_sum_witness:
  "\<exists>ans ser. ClientGetChannels sample_bson sample_lib sample_mongo sample_auth_info sample_viewer_manager = Some (Inr ans) \<and>
         an_series ans = [ser] \<and>
         se_view_count ser = word_of_int (\<Sum>ep \<leftarrow> se_episodes ser. views sample_lib (an_vods ans) ep)"
proof -
  let ?ans = "answer_of sample_bson sample_lib sample_mongo sample_viewer_manager sample_viewer"
  have ans: "ClientGetChannels sample_bson sample_lib sample_mongo sample_auth_info sample_viewer_manager = Some (Inr ?ans)"
    unfolding ClientGetChannels_iff[OF sample_bson_laws] using sample_viewer_finds sample_answer(1) by auto
  obtain ser where ser: "an_series ?ans = [ser]"
    using sample_answer(3) by (auto simp: length_Suc_conv)
  then show ?thesis using serial_views_sum[OF sample_bson_laws ans, of ser] ans by auto
qed

text \<open>
  C22: The http server serves a user the own streams only: a directory or url is given out only for
  a stream that is in one of the three lists of the user with these credentials, and it is the http
  root or the uri of the output with the requested channel identifier of this stream; a directory
  exists.
\<close>

theorem http_target_own:
  assumes "bson_laws B"
    and "ClientFindHttpDirectoryOrUrlForChannel B L M auth sid cid s = Some (Inr t)"
  shows "\<exists>doc f x sdoc. find_one M SUBSCRIBERS (by_email (li_login auth)) s = Some doc \<and>
           f \<in> set user_lists \<and> x \<in> set (doc_sids doc f) \<and> ConvertToString B x = sid \<and>
           find_one M STREAMS (by_id x) s = Some sdoc \<and> targets B L cid sdoc t"
  using assms by (rule find_http_Inr)

lemma sample_search:
  "search_user_list sample_bson sample_mongo target ''streams'' sample_viewer ''1'' sample_viewer_manager =
     Got (target sample_visible_doc PROXY)"
proof -
  have "find_array sample_bson sample_viewer ''streams'' = Some [(''0'', BDoc (program_entry 1 True False 5 0))]"
    unfolding find_typed_iff[OF sample_bson_laws] by (simp add: sample_viewer_def)
  then show ?thesis
    by (simp add: search_user_list_def sample_program_entry(1) entry_target_def sample_viewer_finds
        sample_visible_class)
qed

lemma sample_url: "GetUrlFromStream sample_bson sample_visible_doc 0 = Some (GURL ''http://out'')"
proof -
  have "output_url sample_bson (BDoc [(''id'', BInt32 0), (''uri'', BUtf8 ''http://out'')]) =
      Some \<lparr>ou_id = 0, ou_url = GURL ''http://out'', ou_http_root = None, ou_hls_type = None\<rparr>"
    by (simp add: output_url_def find_in_def init_find_map_of[OF sample_bson_laws])
  then show ?thesis
    by (simp add: sample_visible_doc_def sample_channel_doc_def sample_stream_fields_def
        GetOutputUrlData_def)
qed

theorem http_target_own_witness:
  "ClientFindHttpDirectoryOrUrlForChannel sample_bson sample_lib sample_mongo sample_auth_info ''1'' 0
     sample_viewer_manager = Some (Inr (HttpUrl (GURL ''http://out''))) \<and>
   (\<exists>f x. f \<in> set user_lists \<and> x \<in> set (doc_sids sample_viewer f) \<and> ConvertToString sample_bson x = ''1'')"
proof -
  have "''1'' \<noteq> fl_invalid_stream_id sample_lib" by (simp add: sample_lib_def)
  then have found: "ClientFindHttpDirectoryOrUrlForChannel sample_bson sample_lib sample_mongo sample_auth_info ''1'' 0
     sample_viewer_manager = Some (Inr (HttpUrl (GURL ''http://out'')))"
    by (simp add: ClientFindHttpDirectoryOrUrlForChannel_defs sample_viewer_finds sample_search
        channel_target_def stream_target_def url_target_def sample_url)
  then show ?thesis
    using http_target_own[OF sample_bson_laws found] sample_viewer_finds(1) by auto
qed

text \<open>
  The three lists treat an output without an http root differently: a channel or a vod that is
  not a proxy is refused although its output has a url, a catchup falls back to the url.
\<close>

theorem missing_http_root:
  assumes "map_of sdoc ''output'' = Some (BArr outs)"
    and "find_output cid (output_urls B outs) = Some out" and "ou_http_root out = None"
    and "st \<noteq> PROXY" and "st \<noteq> VOD_PROXY"
  shows "channel_target B L cid sdoc st = Inl (ErrText ''Cant parse stream urls'') \<and>
         vod_target B L cid sdoc st = Inl (ErrText ''Cant parse stream urls'') \<and>
         catchup_target B L cid sdoc st = Inr (HttpUrl (ou_url out))"
proof -
  have "GetUrlFromStream B sdoc cid = Some (ou_url out)"
    using assms(1,2) by (induction sdoc) (auto simp: GetOutputUrlData_def split: if_splits)
  moreover have "GetHttpRootFromStream B sdoc cid = None"
    using assms(1-3) by (induction sdoc) (auto simp: GetOutputUrlData_def split: if_splits)
  ultimately show ?thesis using assms(4,5)
    by (simp add: channel_target_def vod_target_def stream_target_def catchup_target_def url_target_def)
qed

theorem missing_http_root_witness:
  "channel_target sample_bson sample_lib 0 sample_visible_doc RELAY = Inl (ErrText ''Cant parse stream urls'') \<and>
   catchup_target sample_bson sample_lib 0 sample_visible_doc RELAY = Inr (HttpUrl (GURL ''http://out''))"
proof -
  let ?out = "\<lparr>ou_id = 0, ou_url = GURL ''http://out'', ou_http_root = None, ou_hls_type = None\<rparr>"
  let ?outs = "[(''0'', BDoc [(''id'', BInt32 0), (''uri'', BUtf8 ''http://out'')])]"
  have "output_url sample_bson (BDoc [(''id'', BInt32 0), (''uri'', BUtf8 ''http://out'')]) = Some ?out"
    by (simp add: output_url_def find_in_def init_find_map_of[OF sample_bson_laws])
  then have "find_output 0 (output_urls sample_bson ?outs) = Some ?out" by simp
  moreover have "map_of sample_visible_doc ''output'' = Some (BArr ?outs)"
    by (simp add: sample_visible_doc_def sample_channel_doc_def sample_stream_fields_def)
  ultimately show ?thesis
    using missing_http_root[of sample_visible_doc ?outs 0 sample_bson ?out RELAY sample_lib] by simp
qed

end
