(* ===== verification/Service_Properties.thy ===== *)
theory Service_Properties
  imports Service Server_Properties Channel_Lists
begin

text \<open>
  What the service guarantees with both servers at work: the invariant in every run, the refusal of
  http requests with wrong credentials, and that the files and urls a connection gets are those of
  the streams of its user.
\<close>

section \<open>A small service\<close>

definition sample_http :: http_lib where
  "sample_http =
     \<lparr>hl_parse = (\<lambda>t. Inr \<lparr>hq_method = HM_GET, hq_protocol = ''1.1'', hq_url = GURL t\<rparr>),
      hl_header = (\<lambda>r n b. None), hl_equals = (\<lambda>a b c. a = b), hl_url_valid = (\<lambda>u. True),
      hl_path = (\<lambda>u. ''''),
      hl_tokenize = (\<lambda>p sep. [''1'', ''bad'', ''2'', ''1'', ''0'', ''film'']),
      hl_channel_id = (\<lambda>t. Some 0), hl_file_path = (\<lambda>d n. Some n),
      hl_file_name = (\<lambda>u. ''film''), hl_mime = (\<lambda>n. ''video'')\<rparr>"

definition sample_http_io :: "string list http_io" where
  "sample_http_io =
     \<lparr>hi_single_read = (\<lambda>w p n. (w, Inr ''request'')), hi_send = (\<lambda>w p a. (''sent'' # w, None)),
      hi_close = (\<lambda>w p. w), hi_stat = (\<lambda>w f. None), hi_open = (\<lambda>w f. (w, -1)),
      hi_close_fd = (\<lambda>w f. w)\<rparr>"

definition sample_http_env :: "(string list, sample_db) http_env" where
  "sample_http_env =
     \<lparr>he_bson = sample_bson, he_lib = sample_lib, he_mongo = sample_mongo, he_http = sample_http,
      he_io = sample_http_io\<rparr>"

lemma sample_http_env_simps [simp]:
  "he_bson sample_http_env = sample_bson" "he_lib sample_http_env = sample_lib"
  "he_mongo sample_http_env = sample_mongo" "he_http sample_http_env = sample_http"
  "he_io sample_http_env = sample_http_io"
  by (simp_all add: sample_http_env_def)

section \<open>The invariant\<close>

lemma HttpHandler_new_sel:
  "heap (HttpHandler_new s) = heap s" "connections (HttpHandler_new s) = connections s"
  "observer (HttpHandler_new s) = observer s" "events (HttpHandler_new s) = events s"
  "db (HttpHandler_new s) = db s" "io (HttpHandler_new s) = io s"
  "online_clients (HttpHandler_new s) = online_clients s" "notices (HttpHandler_new s) = notices s"
  "http_clients (HttpHandler_new s) = 0" "open_files (HttpHandler_new s) = []"
  by (simp_all add: HttpHandler_new_def sub_handler.extend_def IServerHandler_init_def)

lemma HttpHandler_new_views [simp]:
  "view (HttpHandler_new s) = view s" "kind_of (HttpHandler_new s) = kind_of s"
  by (simp_all add: view_def kind_of_def fun_eq_iff HttpHandler_new_sel)

lemma service_inv_initial:
  assumes "server_inv s" and "view s = Map.empty"
  shows "service_inv (HttpHandler_new s)"
proof -
  have "books_inv (HttpHandler_new s)"
    by (rule books_inv_view[of _ s]) (use assms(1) in \<open>simp_all add: HttpHandler_new_sel server_inv_def\<close>)
  moreover have "clients k s = {}" for k
    using client_live[of _ k s] assms(2) by auto
  ultimately show ?thesis using assms(1)
    by (simp add: service_inv_def server_inv_def HttpHandler_new_sel clients_def)
qed

text \<open>
  The service keeps its books.  Started on a manager that has been connected to the database,
  and whatever connections arrive at either server, send data, are pinged and leave, and whatever
  notifications the daemon sends in between, as long as no event enters a connection in the registry
  that is logged in already: the registry
  has exactly the live sessions, each filed under its user, and no freed object; no two sessions
  share a user and a device; each server's counter is the number of its connections modulo 2 to
  the 64; what the observer has been told gives exactly the sessions that are logged in; and every file that was opened for an answer is closed again.
\<close>

theorem service_invariant:
  assumes "bson_laws (env_bson E)" and "bson_laws (he_bson H)"
    and "(single_logins (service_step E H C))\<^sup>*\<^sup>*
           (HttpHandler_new (SubscribersHandler_new (env_rpc E) obs
             (fst (ConnectToDatabase D url name lazy (SubscribersManager_new True w ep d))))) s"
  shows "session_inv s \<and> exclusive s \<and> finite (dom (view s)) \<and>
    online_clients s = of_nat (card (clients SubscriberClient s)) \<and>
    http_clients s = of_nat (card (clients HttpClient s)) \<and>
    audience (events s) = fronts s \<and> open_files s = []"
proof -
  let ?s0 = "SubscribersHandler_new (env_rpc E) obs
      (fst (ConnectToDatabase D url name lazy (SubscribersManager_new True w ep d)))"
  have "server_inv ?s0"
    by (intro server_inv_initial) (simp_all add: SubscribersManager_new_sel ConnectToDatabase_sel)
  moreover have "view ?s0 = Map.empty"
    by (simp add: SubscribersHandler_new_sel)
       (simp add: view_def fun_eq_iff SubscribersManager_new_sel ConnectToDatabase_sel)
  ultimately have "service_inv (HttpHandler_new ?s0)" by (rule service_inv_initial)
  from service_steps_inv[OF assms this] show ?thesis
    by (simp add: service_inv_def books_inv_def observed_inv_def HttpHandler_new_sel)
qed

definition sample_service :: "(string list, sample_db) service" where
  "sample_service = HttpHandler_new sample_start"

theorem service_invariant_witness:
  "\<exists>s. service_step sample_env sample_http_env sample_io sample_service s \<and>
     view s = [Addr 2 \<mapsto> None] \<and> http_clients s = 1 \<and> online_clients s = 0 \<and> open_files s = []"
proof -
  let ?t = "alloc_client (Addr 2) (SubscriberInfo_new sample_lib HttpClient) sample_service"
  let ?s = "HttpHandler_Accepted ?t"
  have v0: "view sample_service = Map.empty" by (simp add: sample_service_def sample_start_view)
  have step: "service_step sample_env sample_http_env sample_io sample_service ?s"
    using service_step.http_accepts[of "Addr 2" sample_service sample_env sample_http_env sample_io] v0
    by simp
  have v: "view ?s = [Addr 2 \<mapsto> None]"
    using v0 by (simp add: view_def fun_eq_iff HttpHandler_Accepted_def alloc_client_def SubscriberInfo_new_def)
  have "single_logins (service_step sample_env sample_http_env sample_io) sample_service ?s"
    using step v0 by (simp add: single_logins_def registers_again_def online_def)
  then have run: "(single_logins (service_step sample_env sample_http_env sample_io))\<^sup>*\<^sup>* (HttpHandler_new (SubscribersHandler_new
     (env_rpc sample_env) True (fst (ConnectToDatabase full_driver ''url'' ''name'' True
       (SubscribersManager_new True [] (''host'', DirPath ''/root'') []))))) ?s"
    unfolding sample_service_def sample_start_def by (simp add: r_into_rtranclp)
  have "kind_of ?s = [Addr 2 \<mapsto> HttpClient]"
    using v0 kind_live[of sample_service]
    by (auto simp: kind_of_def fun_eq_iff HttpHandler_Accepted_def alloc_client_def SubscriberInfo_new_def)
  then have "clients HttpClient ?s = {Addr 2}" "clients SubscriberClient ?s = {}"
    by (auto simp: clients_def split: if_splits)
  then show ?thesis
    using service_invariant[OF _ _ run] step v by (intro exI[of _ ?s]) (simp add: sample_bson_laws)
qed

section \<open>Wrong credentials\<close>

lemma login_device_failed: "login_device B M uid uauth ar h s = Some (s', Some err) \<Longrightarrow> s' = s"
  by (induction B M uid uauth ar h s rule: login_device.induct)
     (auto split: option.splits if_splits)

lemma ClientLogin_by_uid_failed:
  "ClientLogin_by_uid B M now uid password dev s = Some (s', Inl err) \<Longrightarrow> s' = s"
  by (auto simp: ClientLogin_by_uid_def ClientLoginImpl_def finish_login_def Let_def
      split: option.splits if_splits dest: login_device_failed)

text \<open>
  C21: Wrong credentials in a path give nothing but an error.  If a connection that has not logged
  in names a user, password and device for which the store admits no login, the service answers
  with the status not found, and apart from this answer its state does not change: the connection
  is not registered, no file is opened and no device is activated.
\<close>

theorem http_refused:
  assumes "bson_laws (he_bson H)" and "session_inv s" and "view s p = Some None"
    and "\<And>doc login exp s1. find_one (he_mongo H) SUBSCRIBERS
           (by_id (bl_oid_of_string (he_bson H) (tokens ! 0))) s = Some doc \<Longrightarrow>
         \<not> admitted (he_bson H) (he_mongo H) now (tokens ! 0)
           (auth_with_exp \<lparr>li_login = login, li_password = tokens ! 1, ai_device = tokens ! 2\<rparr> exp) doc s s1"
  shows "\<exists>err. serve_path H now p r k tokens s =
    Some (s\<lparr>io := fst (hi_send (he_io H) (io s) p
                          (SendError (hq_protocol r) HS_NOT_FOUND extra_headers err k))\<rparr>)"
proof -
  obtain s1 res where s1: "ClientLogin_by_uid (he_bson H) (he_mongo H) now (tokens ! 0) (tokens ! 1) (tokens ! 2) s =
      Some (s1, res)" using login_total(2)[OF assms(1,2)] by blast
  then have "\<nexists>a. res = Inr a"
    using ClientLogin_by_uid_iff[OF assms(1,2)] assms(4) by (auto simp: Let_def)
  then obtain err where err: "res = Inl err" by (cases res) auto
  then have "s1 = s" using s1 ClientLogin_by_uid_failed by blast
  then show ?thesis
    using s1 err check_login(1)[OF assms(2,3)]
    by (intro exI[of _ err]) (simp add: serve_path_def http_error_def http_send_def split: prod.splits)
qed

definition sample_http_server :: "(string list, sample_db) service" where
  "sample_http_server = HttpHandler_new sample_server"

lemma sample_http_server_inv: "session_inv sample_http_server"
  by (rule session_inv_view[THEN iffD2, OF _ _ sample_server_inv])
     (simp_all add: sample_http_server_def HttpHandler_new_sel)

theorem http_refused_witness:
  "\<exists>err. serve_path sample_http_env 50 (Addr 2)
      \<lparr>hq_method = HM_GET, hq_protocol = ''1.1'', hq_url = GURL ''request''\<rparr> False
      [''1'', ''bad'', ''2'', ''1'', ''0'', ''film''] sample_http_server =
    Some (sample_http_server\<lparr>io := fst (hi_send sample_http_io (io sample_http_server) (Addr 2)
            (SendError ''1.1'' HS_NOT_FOUND extra_headers err False))\<rparr>)"
proof -
  have "db sample_http_server = db sample_manager"
    by (simp add: sample_http_server_def HttpHandler_new_sel)
       (simp add: sample_server_def SubscribersHandler_new_sel)
  then have user: "find_one sample_mongo SUBSCRIBERS (by_id 1) sample_http_server = Some sample_user"
    using sample_user_found(2) by (simp add: find_one_def)
  have "bl_oid_of_string sample_bson ''1'' = 1" by (simp add: sample_bson_def)
  moreover have "\<not> credentials_ok 50 sample_user
      (auth_with_exp \<lparr>li_login = login, li_password = ''bad'', ai_device = ''2''\<rparr> exp)" for login exp
    by (simp add: credentials_ok_def sample_user_def auth_with_exp_def auth_info.defs)
  moreover have "view sample_http_server (Addr 2) = Some None"
    by (simp add: sample_http_server_def sample_server_view)
  ultimately show ?thesis
    using http_refused[OF _ sample_http_server_inv, of sample_http_env "Addr 2"
        "[''1'', ''bad'', ''2'', ''1'', ''0'', ''film'']" 50
        "\<lparr>hq_method = HM_GET, hq_protocol = ''1.1'', hq_url = GURL ''request''\<rparr>" False]
    by (simp add: sample_bson_laws user admitted_def)
qed

section \<open>A session that sticks\<close>

text \<open>
  C30: Once a connection has logged in, the credentials in the path count for nothing: two requests
  that name the same stream, channel and file are answered alike, for the user who logged in first,
  whatever user, password and device they name.
\<close>

theorem http_session_sticks:
  assumes "session_inv s" and "view s p = Some (Some a)"
  shows "serve_path H now p r k (u # pw # dev # rest) s =
         serve_path H now' p r k (u' # pw' # dev' # rest) s"
  using check_login(2)[OF assms] by (simp add: serve_path_def serve_stream_def)

definition sample_http_watching :: "(string list, sample_db) service" where
  "sample_http_watching = HttpHandler_new sample_watching"

lemma sample_http_watching_inv: "session_inv sample_http_watching"
  by (rule session_inv_view[THEN iffD2, OF _ _ sample_watching_inv])
     (simp_all add: sample_http_watching_def HttpHandler_new_sel)

theorem http_session_sticks_witness:
  "serve_path sample_http_env 50 (Addr 2) \<lparr>hq_method = HM_GET, hq_protocol = ''1.1'', hq_url = GURL ''request''\<rparr> True
     [''1'', ''hash'', ''2'', ''1'', ''0'', ''film''] sample_http_watching =
   serve_path sample_http_env 90 (Addr 2) \<lparr>hq_method = HM_GET, hq_protocol = ''1.1'', hq_url = GURL ''request''\<rparr> True
     [''7'', ''bad'', ''3'', ''1'', ''0'', ''film''] sample_http_watching"
  by (rule http_session_sticks[OF sample_http_watching_inv, of _ sample_identity])
     (simp add: sample_http_watching_def sample_watching_view)

section \<open>Files of the own streams\<close>

text \<open>
  The directories of a user: the http roots of the outputs of the streams that are in a list of the
  user.  Two file systems agree on them when they cannot be told apart by the paths below them.
\<close>

definition own_directory ::
    "('io, 'db) http_env \<Rightarrow> auth_info \<Rightarrow> ('io, 'db, 'a) manager_scheme \<Rightarrow> dirpath \<Rightarrow> bool" where
  "own_directory H auth s d \<longleftrightarrow>
     (\<exists>doc f x sdoc cid. find_one (he_mongo H) SUBSCRIBERS (by_email (li_login auth)) s = Some doc \<and>
        f \<in> set user_lists \<and> x \<in> set (doc_sids doc f) \<and>
        find_one (he_mongo H) STREAMS (by_id x) s = Some sdoc \<and>
        GetHttpRootFromStream (he_bson H) sdoc cid = Some d)"

definition with_files ::
    "('io \<Rightarrow> string \<Rightarrow> file_stat option) \<Rightarrow> ('io \<Rightarrow> string \<Rightarrow> 'io \<times> int)
     \<Rightarrow> ('io, 'db) http_env \<Rightarrow> ('io, 'db) http_env" where
  "with_files st op H = H\<lparr>he_io := (he_io H)\<lparr>hi_stat := st, hi_open := op\<rparr>\<rparr>"

lemma with_files_simps [simp]:
  "he_bson (with_files st op H) = he_bson H" "he_lib (with_files st op H) = he_lib H"
  "he_mongo (with_files st op H) = he_mongo H" "he_http (with_files st op H) = he_http H"
  "hi_send (he_io (with_files st op H)) = hi_send (he_io H)"
  "hi_close (he_io (with_files st op H)) = hi_close (he_io H)"
  "hi_close_fd (he_io (with_files st op H)) = hi_close_fd (he_io H)"
  "hi_stat (he_io (with_files st op H)) = st" "hi_open (he_io (with_files st op H)) = op"
  by (simp_all add: with_files_def)

lemma with_files_parts [simp]:
  "http_send (with_files st op H) = http_send H" "http_error (with_files st op H) = http_error H"
  "send_redirect (with_files st op H) = send_redirect H" "close_file (with_files st op H) = close_file H"
  "drop_http (with_files st op H) = drop_http H"
  by (simp_all add: fun_eq_iff http_send_def http_error_def send_redirect_def close_file_def drop_http_def
      cong: option.case_cong prod.case_cong)

lemma with_files_send [simp]:
  "send_body (with_files st op H) = send_body H" "send_open_file (with_files st op H) = send_open_file H"
  by (simp_all add: fun_eq_iff send_body_def send_open_file_def cong: option.case_cong prod.case_cong if_cong)

lemma send_file_same:
  assumes "\<And>n path w. hl_file_path (he_http H) d n = Some path \<Longrightarrow>
      st w path = hi_stat (he_io H) w path \<and> op w path = hi_open (he_io H) w path"
  shows "send_file (with_files st op H) p r k sid d n s = send_file H p r k sid d n s"
  using assms by (simp add: send_file_def cong: option.case_cong prod.case_cong if_cong)

lemma serve_stream_same:
  assumes B: "bson_laws (he_bson H)"
    and same: "\<And>d n path w. own_directory H (auth_info.truncate a) s d \<Longrightarrow>
      hl_file_path (he_http H) d n = Some path \<Longrightarrow>
      st w path = hi_stat (he_io H) w path \<and> op w path = hi_open (he_io H) w path"
  shows "serve_stream (with_files st op H) p r k tokens a s = serve_stream H p r k tokens a s"
proof -
  have sent: "send_file (with_files st op H) p r k sid d n s = send_file H p r k sid d n s"
    if "ClientFindHttpDirectoryOrUrlForChannel (he_bson H) (he_lib H) (he_mongo H) (auth_info.truncate a) sid cid s
        = Some (Inr (HttpDirectory d))" for sid cid d n
  proof (rule send_file_same)
    from find_http_Inr[OF B that] have "own_directory H (auth_info.truncate a) s d"
      by (fastforce simp: own_directory_def targets_def)
    then show "\<And>n path w. hl_file_path (he_http H) d n = Some path \<Longrightarrow>
        st w path = hi_stat (he_io H) w path \<and> op w path = hi_open (he_io H) w path"
      using same by blast
  qed
  show ?thesis
    by (auto simp: serve_stream_def Let_def sent split: option.splits sum.splits http_target.splits)
qed

text \<open>
  C9: A session reaches the files of its own streams and no others.  If two file systems agree on
  the paths below the http roots of the streams in the lists of the user, then every request of a
  connection this user has logged in leads to the same answers, the same state and the same
  calls, whatever path it asks for.
\<close>

theorem http_files_own:
  assumes "bson_laws (he_bson H)" and "session_inv s" and "view s p = Some (Some a)"
    and "\<And>d n path w. own_directory H (auth_info.truncate a) s d \<Longrightarrow>
      hl_file_path (he_http H) d n = Some path \<Longrightarrow>
      st w path = hi_stat (he_io H) w path \<and> op w path = hi_open (he_io H) w path"
  shows "ProcessReceived (with_files st op H) now p request s = ProcessReceived H now p request s"
proof -
  have "serve_path (with_files st op H) now p r k tokens s = serve_path H now p r k tokens s" for r k tokens
    using check_login(2)[OF assms(2,3)] serve_stream_same[OF assms(1,4)] by (simp add: serve_path_def)
  then have "serve_url (with_files st op H) now p r k s = serve_url H now p r k s" for r k
    by (simp add: serve_url_def Let_def cong: if_cong)
  then show ?thesis by (simp add: ProcessReceived_def Let_def cong: if_cong sum.case_cong option.case_cong)
qed

text \<open>A user with one stream, below \<open>/root/1\<close>, and a file system that differs elsewhere.\<close>

definition sample_rooted_doc :: bdoc where
  "sample_rooted_doc =
     [(''_id'', BOid 1),
      (''output'', BArr [(''0'', BDoc [(''id'', BInt32 0), (''uri'', BUtf8 ''http://out''),
                                       (''http_root'', BUtf8 ''/root/1'')])])]"

definition sample_rooted :: "(string list, sample_db) service" where
  "sample_rooted =
     sample_http_watching\<lparr>db := [(SUBSCRIBERS, sample_viewer), (STREAMS, sample_rooted_doc)]\<rparr>"

definition sample_rooted_env :: "(string list, sample_db) http_env" where
  "sample_rooted_env = sample_http_env
     \<lparr>he_http := sample_http\<lparr>hl_file_path := (\<lambda>d n. case d of DirPath r \<Rightarrow> Some (r @ ''/'' @ n))\<rparr>\<rparr>"

lemma sample_rooted_finds:
  "find_one sample_mongo SUBSCRIBERS (by_email ''user@mail'') sample_rooted = Some sample_viewer"
  "find_one sample_mongo STREAMS (by_id 1) sample_rooted = Some sample_rooted_doc"
  by (simp_all add: find_one_def sample_rooted_def sample_mongo_def sample_selects_def
      sample_matches_def by_email_def by_id_def sample_viewer_def sample_rooted_doc_def)

lemma sample_rooted_sids: "f \<in> set user_lists \<Longrightarrow> x \<in> set (doc_sids sample_viewer f) \<Longrightarrow> x = 1"
  by (auto simp: user_lists_def doc_sids_def sample_viewer_def array_elems_def program_entry_def
      List.map_filter_simps sid_of_def)

lemma sample_rooted_root:
  assumes "GetHttpRootFromStream sample_bson sample_rooted_doc cid = Some d"
  shows "d = DirPath ''/root/1''"
proof -
  have "output_url sample_bson (BDoc [(''id'', BInt32 0), (''uri'', BUtf8 ''http://out''),
        (''http_root'', BUtf8 ''/root/1'')]) =
      Some \<lparr>ou_id = 0, ou_url = GURL ''http://out'', ou_http_root = Some (DirPath ''/root/1''), ou_hls_type = None\<rparr>"
    by (simp add: output_url_def find_in_def init_find_map_of[OF sample_bson_laws])
  then show ?thesis using assms
    by (simp add: sample_rooted_doc_def GetOutputUrlData_def split: if_splits)
qed

lemma sample_rooted_inv: "session_inv sample_rooted"
  by (rule session_inv_view[THEN iffD2, OF _ _ sample_http_watching_inv])
     (simp_all add: sample_rooted_def view_def)

theorem http_files_own_witness:
  "ProcessReceived (with_files (\<lambda>w f. if take 7 f = ''/root/1'' then None
                                       else Some \<lparr>st_size = 1, st_mtime = 2, st_dir = False\<rparr>)
      (\<lambda>w f. (w, if take 7 f = ''/root/1'' then -1 else 5)) sample_rooted_env) 50 (Addr 2) ''request'' sample_rooted =
   ProcessReceived sample_rooted_env 50 (Addr 2) ''request'' sample_rooted"
proof (rule http_files_own[OF _ sample_rooted_inv, of _ _ sample_identity])
  have login: "li_login (auth_info.truncate sample_identity) = ''user@mail''"
    by (simp add: auth_info.truncate_def sample_identity_def) (simp add: sample_auth_info_def)
  have env: "he_mongo sample_rooted_env = sample_mongo" "he_bson sample_rooted_env = sample_bson"
    "he_io sample_rooted_env = sample_http_io"
    by (simp_all add: sample_rooted_env_def)
  have own: "d = DirPath ''/root/1''"
    if owned: "own_directory sample_rooted_env (auth_info.truncate sample_identity) sample_rooted d" for d
  proof -
    obtain f x sdoc cid where "f \<in> set user_lists" "x \<in> set (doc_sids sample_viewer f)"
      and s: "find_one sample_mongo STREAMS (by_id x) sample_rooted = Some sdoc"
        "GetHttpRootFromStream sample_bson sdoc cid = Some d"
      using owned login by (auto simp: own_directory_def sample_rooted_finds env)
    then have "x = 1" using sample_rooted_sids by blast
    then show ?thesis using s sample_rooted_root by (simp add: sample_rooted_finds)
  qed
  show "bson_laws (he_bson sample_rooted_env)" by (simp add: env sample_bson_laws)
  show "view sample_rooted (Addr 2) = Some (Some sample_identity)"
    by (simp add: sample_rooted_def sample_http_watching_def view_def HttpHandler_new_sel)
       (simp add: sample_watching_def sample_object_def)
  fix d n path w
  assume "own_directory sample_rooted_env (auth_info.truncate sample_identity) sample_rooted d"
    and path: "hl_file_path (he_http sample_rooted_env) d n = Some path"
  then have "d = DirPath ''/root/1''" using own by blast
  then have "take 7 path = ''/root/1''" using path by (auto simp: sample_rooted_env_def)
  then show "(if take 7 path = ''/root/1'' then None else Some \<lparr>st_size = 1, st_mtime = 2, st_dir = False\<rparr>) =
      hi_stat (he_io sample_rooted_env) w path \<and>
    (w, if take 7 path = ''/root/1'' then - 1 else 5) = hi_open (he_io sample_rooted_env) w path"
    by (simp add: env sample_http_io_def)
qed

end
