(* ===== verification/Json_Info.thy ===== *)
theory Json_Info
  imports Base
begin

text \<open>
  The classes that travel as JSON: \<open>FrontSubscriberInfo\<close> and \<open>ServerDBAuthInfo\<close> of \<open>src/base\<close> and
  the infos of the daemon protocol under \<open>src/daemon/commands_info\<close>.  For each class there is
  \<open>SerializeFields\<close>, which fills an object, and \<open>DoDeSerialize\<close>, which reads one.
\<close>

section \<open>JSON objects\<close>

text \<open>
  An object is what the setters and getters of \<open>JsonSerializer\<close> make of it: \<open>SetStringField\<close> and
  the others store a value under a key, \<open>GetStringField\<close> and the others read it or give an error.
  \<open>jl_print\<close> is \<open>json_object_get_string\<close>, \<open>jl_parse\<close> is \<open>json_tokener_parse\<close>.
\<close>

record 'j json_lib =
  jl_new :: 'j
  jl_set_string :: "'j \<Rightarrow> string \<Rightarrow> string \<Rightarrow> 'j"
  jl_set_int64 :: "'j \<Rightarrow> string \<Rightarrow> int \<Rightarrow> 'j"
  jl_set_uint64 :: "'j \<Rightarrow> string \<Rightarrow> 64 word \<Rightarrow> 'j"
  jl_set_object :: "'j \<Rightarrow> string \<Rightarrow> 'j \<Rightarrow> 'j"
  jl_set_array :: "'j \<Rightarrow> string \<Rightarrow> 'j list \<Rightarrow> 'j"
  jl_get_string :: "'j \<Rightarrow> string \<Rightarrow> error + string"
  jl_get_int64 :: "'j \<Rightarrow> string \<Rightarrow> error + int"
  jl_get_uint64 :: "'j \<Rightarrow> string \<Rightarrow> error + 64 word"
  jl_get_object :: "'j \<Rightarrow> string \<Rightarrow> error + 'j"
  jl_get_array :: "'j \<Rightarrow> string \<Rightarrow> error + 'j list"
  jl_print :: "'j \<Rightarrow> string"
  jl_parse :: "string \<Rightarrow> 'j option"
  jl_host_text :: "host \<Rightarrow> string"
  jl_host_of_text :: "string \<Rightarrow> host option"
  jl_no_host :: host

text \<open>
  A class that is not in the repository and whose objects are base classes or members here
  (\<open>MachineInfo\<close>, \<open>OperationSystemInfo\<close>, \<open>NotificationTextInfo\<close>, \<open>ServerAuthInfo\<close>): it fills and
  reads an object as well.
\<close>

record ('j, 'p) json_part =
  pt_set :: "'p \<Rightarrow> 'j \<Rightarrow> error + 'j"
  pt_get :: "'j \<Rightarrow> error + 'p"

text \<open>\<open>JsonSerializer::Serialize\<close> fills a new object; \<open>SerializeToString\<close> prints it.\<close>

definition Serialize :: "'j json_lib \<Rightarrow> ('j \<Rightarrow> error + 'j) \<Rightarrow> error + 'j" where
  "Serialize J fill = fill (jl_new J)"

definition SerializeToString :: "'j json_lib \<Rightarrow> ('j \<Rightarrow> error + 'j) \<Rightarrow> error + string" where
  "SerializeToString J fill = map_sum id (jl_print J) (Serialize J fill)"

section \<open>The classes\<close>

definition FrontSubscriberInfo_SerializeFields ::
    "'j json_lib \<Rightarrow> front_subscriber_info \<Rightarrow> 'j \<Rightarrow> error + 'j" where
  "FrontSubscriberInfo_SerializeFields J f j =
     (if \<not> FrontSubscriberInfo_IsValid f then Inl ErrInval
      else
        let j1 = jl_set_string J j ''id'' (fs_uid f);
            j2 = jl_set_string J j1 ''login'' (fs_login f);
            j3 = jl_set_string J j2 ''device_id'' (fs_device f)
        in Inr (jl_set_int64 J j3 ''exp_date'' (fs_exp_date f)))"

definition FrontSubscriberInfo_DoDeSerialize :: "'j json_lib \<Rightarrow> 'j \<Rightarrow> error + front_subscriber_info" where
  "FrontSubscriberInfo_DoDeSerialize J j =
     (case jl_get_string J j ''id'' of
        Inl err \<Rightarrow> Inl err
      | Inr sid \<Rightarrow>
     (case jl_get_string J j ''login'' of
        Inl err \<Rightarrow> Inl err
      | Inr login \<Rightarrow>
     (case jl_get_string J j ''device_id'' of
        Inl err \<Rightarrow> Inl err
      | Inr did \<Rightarrow>
     (case jl_get_int64 J j ''exp_date'' of
        Inl err \<Rightarrow> Inl err
      | Inr exp \<Rightarrow> Inr \<lparr>fs_uid = sid, fs_login = login, fs_device = did, fs_exp_date = exp\<rparr>))))"

definition ServerDBAuthInfo_SerializeFields ::
    "'j json_lib \<Rightarrow> fastotv_lib \<Rightarrow> ('j, server_auth_info) json_part \<Rightarrow> server_db_auth \<Rightarrow> 'j \<Rightarrow> error + 'j" where
  "ServerDBAuthInfo_SerializeFields J L P a j =
     (if \<not> ServerDBAuthInfo_IsValid L a then Inl ErrInval
      else pt_set P (server_auth_info.truncate a) (jl_set_string J j ''id'' (db_uid a)))"

definition ServerDBAuthInfo_DoDeSerialize ::
    "'j json_lib \<Rightarrow> ('j, server_auth_info) json_part \<Rightarrow> 'j \<Rightarrow> error + server_db_auth" where
  "ServerDBAuthInfo_DoDeSerialize J P j =
     (case pt_get P j of
        Inl err \<Rightarrow> Inl err
      | Inr base \<Rightarrow>
          (case jl_get_string J j ''id'' of
             Inl err \<Rightarrow> Inl err
           | Inr uid \<Rightarrow> Inr (ServerDBAuthInfo_make uid base)))"

record prepare_info =
  pi_catchups_host :: host
  pi_catchups_http_root :: dirpath

definition PrepareInfo_SerializeFields ::
    "'j json_lib \<Rightarrow> fastotv_lib \<Rightarrow> prepare_info \<Rightarrow> 'j \<Rightarrow> error + 'j" where
  "PrepareInfo_SerializeFields J L p j =
     Inr (jl_set_string J (jl_set_string J j ''catchups_host'' (jl_host_text J (pi_catchups_host p)))
            ''catchups_http_root'' (fl_dir_path L (pi_catchups_http_root p)))"

text \<open>Missing fields are ignored: the texts are empty, and a host that cannot be read is the invalid one.\<close>

definition PrepareInfo_DoDeSerialize :: "'j json_lib \<Rightarrow> 'j \<Rightarrow> error + prepare_info" where
  "PrepareInfo_DoDeSerialize J j =
     (let catchups_host = (case jl_get_string J j ''catchups_host'' of Inl err \<Rightarrow> [] | Inr t \<Rightarrow> t);
          h = (case jl_host_of_text J catchups_host of None \<Rightarrow> jl_no_host J | Some h \<Rightarrow> h);
          http_root = (case jl_get_string J j ''catchups_http_root'' of Inl err \<Rightarrow> [] | Inr t \<Rightarrow> t)
      in Inr \<lparr>pi_catchups_host = h, pi_catchups_http_root = DirPath http_root\<rparr>)"

text \<open>The clients of a state that cannot be serialised or read are skipped.\<close>

type_synonym state_info = "front_subscriber_info list"

primrec state_clients :: "'j json_lib \<Rightarrow> state_info \<Rightarrow> 'j list" where
  "state_clients J [] = []"
| "state_clients J (client # clients) =
     (case Serialize J (FrontSubscriberInfo_SerializeFields J client) of
        Inl err \<Rightarrow> state_clients J clients
      | Inr jclient \<Rightarrow> jclient # state_clients J clients)"

definition StateInfo_SerializeFields :: "'j json_lib \<Rightarrow> state_info \<Rightarrow> 'j \<Rightarrow> error + 'j" where
  "StateInfo_SerializeFields J clients j =
     Inr (jl_set_array J j ''online_clients'' (state_clients J clients))"

primrec read_clients :: "'j json_lib \<Rightarrow> 'j list \<Rightarrow> state_info" where
  "read_clients J [] = []"
| "read_clients J (jclient # jclients) =
     (case FrontSubscriberInfo_DoDeSerialize J jclient of
        Inl err \<Rightarrow> read_clients J jclients
      | Inr client \<Rightarrow> client # read_clients J jclients)"

definition StateInfo_DoDeSerialize :: "'j json_lib \<Rightarrow> 'j \<Rightarrow> error + state_info" where
  "StateInfo_DoDeSerialize J j =
     (case jl_get_array J j ''online_clients'' of
        Inl err \<Rightarrow> Inr []
      | Inr jclients \<Rightarrow> Inr (read_clients J jclients))"

definition SyncInfo_SerializeFields :: "'j \<Rightarrow> error + 'j" where
  "SyncInfo_SerializeFields j = Inr j"

definition SyncInfo_DoDeSerialize :: "'j \<Rightarrow> error + unit" where
  "SyncInfo_DoDeSerialize j = Inr ()"

text \<open>\<open>NotificationTextInfo\<close> is the opaque part \<open>'t\<close>; \<open>ni_text\<close> is the base class object.\<close>

record 't notify_info =
  ni_text :: 't
  ni_uid :: string
  ni_device :: string

definition NotifySubscriberInfo_IsValid :: "'t notify_info \<Rightarrow> bool" where
  "NotifySubscriberInfo_IsValid n \<longleftrightarrow> ni_uid n \<noteq> [] \<and> ni_device n \<noteq> []"

text \<open>The constructor with a user and a device builds a new base class object.\<close>

definition NotifySubscriberInfo_make :: "'t \<Rightarrow> string \<Rightarrow> string \<Rightarrow> 't notify_info" where
  "NotifySubscriberInfo_make new_text uid did = \<lparr>ni_text = new_text, ni_uid = uid, ni_device = did\<rparr>"

definition NotifySubscriberInfo_SerializeFields ::
    "'j json_lib \<Rightarrow> ('j, 't) json_part \<Rightarrow> 't notify_info \<Rightarrow> 'j \<Rightarrow> error + 'j" where
  "NotifySubscriberInfo_SerializeFields J P n j =
     (if \<not> NotifySubscriberInfo_IsValid n then Inl ErrInval
      else pt_set P (ni_text n)
             (jl_set_string J (jl_set_string J j ''id'' (ni_uid n)) ''device_id'' (ni_device n)))"

definition NotifySubscriberInfo_DoDeSerialize ::
    "'j json_lib \<Rightarrow> ('j, 't) json_part \<Rightarrow> 't \<Rightarrow> 'j \<Rightarrow> error + 't notify_info" where
  "NotifySubscriberInfo_DoDeSerialize J P new_text j =
     (case pt_get P j of
        Inl err \<Rightarrow> Inl err
      | Inr base \<Rightarrow>
     (case jl_get_string J j ''id'' of
        Inl err \<Rightarrow> Inl err
      | Inr uid \<Rightarrow>
     (case jl_get_string J j ''device_id'' of
        Inl err \<Rightarrow> Inl err
      | Inr did \<Rightarrow> Inr (NotifySubscriberInfo_make new_text uid did))))"

section \<open>Statistics\<close>

text \<open>\<open>online_clients_t\<close> and \<open>size_t\<close> are 64 bits.  The load values are opaque 64-bit doubles.\<close>

record online_users =
  ol_daemon :: "64 word"
  ol_http :: "64 word"
  ol_subscribers :: "64 word"

definition OnlineUsers_SerializeFields :: "'j json_lib \<Rightarrow> online_users \<Rightarrow> 'j \<Rightarrow> error + 'j" where
  "OnlineUsers_SerializeFields J u j =
     Inr (jl_set_uint64 J (jl_set_uint64 J (jl_set_uint64 J j ''daemon'' (ol_daemon u))
            ''http'' (ol_http u)) ''subscribers'' (ol_subscribers u))"

text \<open>
  The three variables are not initialised and the errors of the getters are ignored: when a field
  is missing, an indeterminate value is read.
\<close>

definition OnlineUsers_DoDeSerialize :: "'j json_lib \<Rightarrow> 'j \<Rightarrow> (error + online_users) option" where
  "OnlineUsers_DoDeSerialize J j =
     (case (jl_get_uint64 J j ''daemon'', jl_get_uint64 J j ''http'', jl_get_uint64 J j ''subscribers'') of
        (Inr daemon, Inr http, Inr subscribers) \<Rightarrow>
          Some (Inr \<lparr>ol_daemon = daemon, ol_http = http, ol_subscribers = subscribers\<rparr>)
      | _ \<Rightarrow> None)"

record machine_info =
  mi_cpu_load :: double
  mi_gpu_load :: double
  mi_load_average :: string
  mi_ram_bytes_total :: "64 word"
  mi_ram_bytes_free :: "64 word"
  mi_hdd_bytes_total :: "64 word"
  mi_hdd_bytes_free :: "64 word"
  mi_net_bytes_recv :: "64 word"
  mi_net_bytes_send :: "64 word"
  mi_uptime :: int
  mi_timestamp :: int
  mi_net_total_bytes_recv :: "64 word"
  mi_net_total_bytes_send :: "64 word"

record server_info = machine_info +
  si_online_users :: online_users

definition ServerInfo_SerializeFields ::
    "'j json_lib \<Rightarrow> ('j, machine_info) json_part \<Rightarrow> 'a server_info_scheme \<Rightarrow> 'j \<Rightarrow> error + 'j" where
  "ServerInfo_SerializeFields J P i j =
     (case pt_set P (machine_info.truncate i) j of
        Inl err \<Rightarrow> Inl err
      | Inr j1 \<Rightarrow>
          (case Serialize J (OnlineUsers_SerializeFields J (si_online_users i)) of
             Inl err \<Rightarrow> Inl err
           | Inr obj \<Rightarrow> Inr (jl_set_object J j1 ''online_users'' obj)))"

definition OnlineUsers_new :: online_users where
  "OnlineUsers_new = \<lparr>ol_daemon = 0, ol_http = 0, ol_subscribers = 0\<rparr>"

definition ServerInfo_make :: "machine_info \<Rightarrow> online_users \<Rightarrow> server_info" where
  "ServerInfo_make m u = machine_info.extend m \<lparr>si_online_users = u\<rparr>"

definition ServerInfo_DoDeSerialize ::
    "'j json_lib \<Rightarrow> ('j, machine_info) json_part \<Rightarrow> 'j \<Rightarrow> (error + server_info) option" where
  "ServerInfo_DoDeSerialize J P j =
     (case pt_get P j of
        Inl err \<Rightarrow> Some (Inl err)
      | Inr base \<Rightarrow>
          (case jl_get_object J j ''online_users'' of
             Inl err \<Rightarrow> Some (Inr (ServerInfo_make base OnlineUsers_new))
           | Inr jonline \<Rightarrow>
               (case OnlineUsers_DoDeSerialize J jonline of
                  None \<Rightarrow> None
                | Some (Inl err) \<Rightarrow> Some (Inl err)
                | Some (Inr u) \<Rightarrow> Some (Inr (ServerInfo_make base u)))))"

text \<open>\<open>OperationSystemInfo\<close> is the opaque part \<open>'os\<close>.\<close>

record 'os full_service_info = server_info +
  fi_http_host :: host
  fi_exp_time :: int
  fi_project :: string
  fi_version :: string
  fi_os :: 'os

text \<open>The project, its version and the snapshot of the operating system are those of the build.\<close>

record 'os build_info =
  bd_project :: string
  bd_version :: string
  bd_os_snapshot :: 'os

definition FullServiceInfo_make ::
    "'os build_info \<Rightarrow> host \<Rightarrow> int \<Rightarrow> server_info \<Rightarrow> 'os full_service_info" where
  "FullServiceInfo_make V http_host exp_time base =
     server_info.extend base
       \<lparr>fi_http_host = http_host, fi_exp_time = exp_time, fi_project = bd_project V,
        fi_version = bd_version V, fi_os = bd_os_snapshot V\<rparr>"

definition FullServiceInfo_SerializeFields ::
    "'j json_lib \<Rightarrow> ('j, machine_info) json_part \<Rightarrow> ('j, 'os) json_part \<Rightarrow> 'os full_service_info
     \<Rightarrow> 'j \<Rightarrow> error + 'j" where
  "FullServiceInfo_SerializeFields J P Q i j =
     (case Serialize J (pt_set Q (fi_os i)) of
        Inl err \<Rightarrow> Inl err
      | Inr jos \<Rightarrow>
          let j1 = jl_set_string J j ''http_host'' (jl_host_text J (fi_http_host i));
              j2 = jl_set_int64 J j1 ''expiration_time'' (fi_exp_time i);
              j3 = jl_set_string J j2 ''project'' (fi_project i);
              j4 = jl_set_string J j3 ''version'' (fi_version i);
              j5 = jl_set_object J j4 ''os'' jos
          in ServerInfo_SerializeFields J P i j5)"

text \<open>
  The object starts as a new one, whose expiry time is not initialised; when the field is missing,
  the indeterminate value is copied.
\<close>

definition FullServiceInfo_DoDeSerialize ::
    "'j json_lib \<Rightarrow> ('j, machine_info) json_part \<Rightarrow> ('j, 'os) json_part \<Rightarrow> 'os build_info \<Rightarrow> 'j
     \<Rightarrow> (error + 'os full_service_info) option" where
  "FullServiceInfo_DoDeSerialize J P Q V j =
     (case ServerInfo_DoDeSerialize J P j of
        None \<Rightarrow> None
      | Some (Inl err) \<Rightarrow> Some (Inl err)
      | Some (Inr base) \<Rightarrow>
          (case (case jl_get_object J j ''os'' of Inl err \<Rightarrow> Inr (bd_os_snapshot V) | Inr jos \<Rightarrow> pt_get Q jos) of
             Inl err \<Rightarrow> Some (Inl err)
           | Inr os \<Rightarrow>
               let h = (case jl_get_string J j ''http_host'' of
                          Inl err \<Rightarrow> jl_no_host J
                        | Inr t \<Rightarrow> (case jl_host_of_text J t of None \<Rightarrow> jl_no_host J | Some h \<Rightarrow> h));
                   project = (case jl_get_string J j ''project'' of Inl err \<Rightarrow> bd_project V | Inr t \<Rightarrow> t);
                   version = (case jl_get_string J j ''version'' of Inl err \<Rightarrow> bd_version V | Inr t \<Rightarrow> t)
               in case jl_get_int64 J j ''expiration_time'' of
                    Inl err \<Rightarrow> None
                  | Inr exp_time \<Rightarrow>
                      Some (Inr (server_info.extend base
                        \<lparr>fi_http_host = h, fi_exp_time = exp_time, fi_project = project,
                         fi_version = version, fi_os = os\<rparr>))))"

end
