(* ===== verification/Daemon_Commands.thy ===== *)
theory Daemon_Commands
  imports Json_Info
begin

text \<open>
  The protocol of the daemon: the notifications that are broadcast (\<open>src/daemon/commands.cpp\<close>),
  the requests and responses (\<open>src/daemon/commands_factory.cpp\<close>) and the object of a connection
  that sends them (\<open>src/daemon/client.cpp\<close>).  The pointers to the results are never null.
\<close>

section \<open>Messages\<close>

text \<open>
  A response carries the success message of the JSON-RPC library, a success message with a result,
  or a server error with a text, here the error whose description it is.
\<close>

datatype rpc_body = SuccessMessage | SuccessMessageOf string | ServerErrorFromText error

record daemon_response =
  dr_id :: "string option"
  dr_body :: rpc_body

definition MakeMessage :: "string option \<Rightarrow> rpc_body \<Rightarrow> daemon_response" where
  "MakeMessage i b = \<lparr>dr_id = i, dr_body = b\<rparr>"

definition MakeNotification :: "string \<Rightarrow> string \<Rightarrow> rpc_request" where
  "MakeNotification method params = \<lparr>rq_id = None, rq_method = method, rq_params = Some params\<rparr>"

section \<open>Broadcasts\<close>

text \<open>\<open>catchup_json\<close> and \<open>content_json\<close> are the serialisations of the library's infos.\<close>

definition CatchupCreatedBroadcast ::
    "'j json_lib \<Rightarrow> (catchup_info \<Rightarrow> error + 'j) \<Rightarrow> string \<Rightarrow> catchup_info \<Rightarrow> error + rpc_request" where
  "CatchupCreatedBroadcast J catchup_json serverid params =
     (case catchup_json params of
        Inl err_ser \<Rightarrow> Inl err_ser
      | Inr catchup_obj \<Rightarrow>
          let notif = jl_set_object J (jl_set_string J (jl_new J) ''sid'' serverid) ''catchup'' catchup_obj
          in Inr (MakeNotification ''catchup_created'' (jl_print J notif)))"

definition ContentRequestCreatedBroadcast ::
    "(content_request_info \<Rightarrow> error + string) \<Rightarrow> content_request_info \<Rightarrow> error + rpc_request" where
  "ContentRequestCreatedBroadcast content_json params =
     (case content_json params of
        Inl err_ser \<Rightarrow> Inl err_ser
      | Inr content \<Rightarrow> Inr (MakeNotification ''content_request_created'' content))"

definition StatisitcServiceBroadcast :: "string \<Rightarrow> error + rpc_request" where
  "StatisitcServiceBroadcast params = Inr (MakeNotification ''statistic_service'' params)"

definition SubscriberConnectedBroadcast ::
    "'j json_lib \<Rightarrow> front_subscriber_info \<Rightarrow> error + rpc_request" where
  "SubscriberConnectedBroadcast J subs =
     (case SerializeToString J (FrontSubscriberInfo_SerializeFields J subs) of
        Inl err_ser \<Rightarrow> Inl err_ser
      | Inr subscriber \<Rightarrow> Inr (MakeNotification ''subscriber_connected'' subscriber))"

definition SubscriberDisConnectedBroadcast ::
    "'j json_lib \<Rightarrow> front_subscriber_info \<Rightarrow> error + rpc_request" where
  "SubscriberDisConnectedBroadcast J subs =
     (case SerializeToString J (FrontSubscriberInfo_SerializeFields J subs) of
        Inl err_ser \<Rightarrow> Inl err_ser
      | Inr subscriber \<Rightarrow> Inr (MakeNotification ''subscriber_disconnected'' subscriber))"

section \<open>Requests and responses\<close>

definition make_request :: "string option \<Rightarrow> string \<Rightarrow> error + string \<Rightarrow> error + rpc_request" where
  "make_request i method params =
     (case params of
        Inl err_ser \<Rightarrow> Inl err_ser
      | Inr req_str \<Rightarrow> Inr \<lparr>rq_id = i, rq_method = method, rq_params = Some req_str\<rparr>)"

definition StopServiceRequest :: "string option \<Rightarrow> error + string \<Rightarrow> error + rpc_request" where
  "StopServiceRequest i params = make_request i ''stop_service'' params"

definition PingRequest :: "string option \<Rightarrow> error + string \<Rightarrow> error + rpc_request" where
  "PingRequest i params = make_request i ''ping_client'' params"

definition StopServiceResponseSuccess :: "string option \<Rightarrow> error + daemon_response" where
  "StopServiceResponseSuccess i = Inr (MakeMessage i SuccessMessage)"

definition StopServiceResponseFail :: "string option \<Rightarrow> error \<Rightarrow> error + daemon_response" where
  "StopServiceResponseFail i error_text = Inr (MakeMessage i (ServerErrorFromText error_text))"

definition PingServiceResponce :: "string option \<Rightarrow> error + string \<Rightarrow> error + daemon_response" where
  "PingServiceResponce i ping =
     (case ping of
        Inl err_ser \<Rightarrow> Inl err_ser
      | Inr ping_server_json \<Rightarrow> Inr (MakeMessage i (SuccessMessageOf ping_server_json)))"

definition PingServiceResponceFail :: "string option \<Rightarrow> error \<Rightarrow> error + daemon_response" where
  "PingServiceResponceFail i error_text = Inr (MakeMessage i (ServerErrorFromText error_text))"

definition ActivateResponse :: "string option \<Rightarrow> string \<Rightarrow> error + daemon_response" where
  "ActivateResponse i result = Inr (MakeMessage i (SuccessMessageOf result))"

definition ActivateResponseFail :: "string option \<Rightarrow> error \<Rightarrow> error + daemon_response" where
  "ActivateResponseFail i error_text = Inr (MakeMessage i (ServerErrorFromText error_text))"

definition PrepareServiceResponceSuccess ::
    "'j json_lib \<Rightarrow> string option \<Rightarrow> state_info \<Rightarrow> error + daemon_response" where
  "PrepareServiceResponceSuccess J i state =
     (case SerializeToString J (StateInfo_SerializeFields J state) of
        Inl err_ser \<Rightarrow> Inl err_ser
      | Inr state_json \<Rightarrow> Inr (MakeMessage i (SuccessMessageOf state_json)))"

definition SyncServiceResponceSuccess :: "string option \<Rightarrow> error + daemon_response" where
  "SyncServiceResponceSuccess i = Inr (MakeMessage i SuccessMessage)"

definition GetLogServiceResponseFail :: "string option \<Rightarrow> error \<Rightarrow> error + daemon_response" where
  "GetLogServiceResponseFail i error_text = Inr (MakeMessage i (ServerErrorFromText error_text))"

definition GetLogServiceResponseSuccess :: "string option \<Rightarrow> error + daemon_response" where
  "GetLogServiceResponseSuccess i = Inr (MakeMessage i SuccessMessage)"

definition SendSubscriberMessageResponseFail :: "string option \<Rightarrow> error \<Rightarrow> error + daemon_response" where
  "SendSubscriberMessageResponseFail i error_text = Inr (MakeMessage i (ServerErrorFromText error_text))"

definition SendSubscriberMessageResponseSuccess :: "string option \<Rightarrow> error + daemon_response" where
  "SendSubscriberMessageResponseSuccess i = Inr (MakeMessage i SuccessMessage)"

section \<open>The object of a connection\<close>

text \<open>
  The members of the library's base classes: the verified flag with the expiry time, and whether
  the peer is the local host.
\<close>

record daemon_client =
  dc_verified :: bool
  dc_exp_time :: int
  dc_local_host :: bool

text \<open>The constructor leaves the connection unverified.\<close>

definition ProtocoledDaemonClient_new :: "bool \<Rightarrow> daemon_client" where
  "ProtocoledDaemonClient_new local_host =
     \<lparr>dc_verified = False, dc_exp_time = 0, dc_local_host = local_host\<rparr>"

definition SetVerified :: "int \<Rightarrow> daemon_client \<Rightarrow> daemon_client" where
  "SetVerified tm c = c\<lparr>dc_verified := True, dc_exp_time := tm\<rparr>"

text \<open>
  The calls that leave the program: the next identifier of a request, \<open>WriteRequest\<close>,
  \<open>WriteResponse\<close>, \<open>Close\<close>, \<open>ReadCommand\<close>, \<open>PopRequestByID\<close> (the method of the request), and the
  texts of a new \<open>StopInfo\<close>, \<open>ClientPingInfo\<close> and \<open>ServerPingInfo\<close>.
\<close>

record 'io daemon_io =
  dn_next_request_id :: "'io \<Rightarrow> ptr \<Rightarrow> string option \<times> 'io"
  dn_write_request :: "'io \<Rightarrow> ptr \<Rightarrow> rpc_request \<Rightarrow> 'io \<times> errno option"
  dn_write_response :: "'io \<Rightarrow> ptr \<Rightarrow> daemon_response \<Rightarrow> 'io \<times> errno option"
  dn_close :: "'io \<Rightarrow> ptr \<Rightarrow> 'io"
  dn_read_command :: "'io \<Rightarrow> ptr \<Rightarrow> 'io \<times> (errno + string)"
  dn_pop_request :: "'io \<Rightarrow> ptr \<Rightarrow> string option \<Rightarrow> 'io \<times> string option"
  dn_stop_info :: "'io \<Rightarrow> error + string"
  dn_client_ping_info :: "'io \<Rightarrow> error + string"
  dn_server_ping_info :: "'io \<Rightarrow> error + string"
  dn_create_timer :: "'io \<Rightarrow> int \<Rightarrow> bool \<Rightarrow> int \<times> 'io"
  dn_remove_timer :: "'io \<Rightarrow> int \<Rightarrow> 'io"

definition write_request ::
    "'io daemon_io \<Rightarrow> ptr \<Rightarrow> error + rpc_request \<Rightarrow> 'io \<Rightarrow> 'io \<times> errno option" where
  "write_request N p r w =
     (case r of
        Inl err_ser \<Rightarrow> (w, Some (ErrnoDesc err_ser EAGAIN))
      | Inr req \<Rightarrow> dn_write_request N w p req)"

definition write_response ::
    "'io daemon_io \<Rightarrow> ptr \<Rightarrow> error + daemon_response \<Rightarrow> 'io \<Rightarrow> 'io \<times> errno option" where
  "write_response N p r w =
     (case r of
        Inl err_ser \<Rightarrow> (w, Some (ErrnoDesc err_ser EAGAIN))
      | Inr resp \<Rightarrow> dn_write_response N w p resp)"

definition StopMe :: "'io daemon_io \<Rightarrow> ptr \<Rightarrow> 'io \<Rightarrow> 'io \<times> errno option" where
  "StopMe N p w =
     (let (i, w1) = dn_next_request_id N w p
      in write_request N p (StopServiceRequest i (dn_stop_info N w)) w1)"

definition Ping :: "'io daemon_io \<Rightarrow> ptr \<Rightarrow> 'io \<Rightarrow> 'io \<times> errno option" where
  "Ping N p w =
     (let (i, w1) = dn_next_request_id N w p
      in write_request N p (PingRequest i (dn_client_ping_info N w)) w1)"

definition StopFail :: "'io daemon_io \<Rightarrow> ptr \<Rightarrow> string option \<Rightarrow> error \<Rightarrow> 'io \<Rightarrow> 'io \<times> errno option" where
  "StopFail N p i err = write_response N p (StopServiceResponseFail i err)"

definition StopSuccess :: "'io daemon_io \<Rightarrow> ptr \<Rightarrow> string option \<Rightarrow> 'io \<Rightarrow> 'io \<times> errno option" where
  "StopSuccess N p i = write_response N p (StopServiceResponseSuccess i)"

definition SendPong :: "'io daemon_io \<Rightarrow> ptr \<Rightarrow> string option \<Rightarrow> 'io \<Rightarrow> 'io \<times> errno option" where
  "SendPong N p i w = write_response N p (PingServiceResponce i (dn_server_ping_info N w)) w"

definition ActivateFail :: "'io daemon_io \<Rightarrow> ptr \<Rightarrow> string option \<Rightarrow> error \<Rightarrow> 'io \<Rightarrow> 'io \<times> errno option" where
  "ActivateFail N p i err = write_response N p (ActivateResponseFail i err)"

definition ActivateSuccess ::
    "'io daemon_io \<Rightarrow> ptr \<Rightarrow> string option \<Rightarrow> string \<Rightarrow> 'io \<Rightarrow> 'io \<times> errno option" where
  "ActivateSuccess N p i result = write_response N p (ActivateResponse i result)"

definition PrepareServiceSuccess ::
    "'j json_lib \<Rightarrow> 'io daemon_io \<Rightarrow> ptr \<Rightarrow> string option \<Rightarrow> state_info \<Rightarrow> 'io \<Rightarrow> 'io \<times> errno option" where
  "PrepareServiceSuccess J N p i state = write_response N p (PrepareServiceResponceSuccess J i state)"

definition SyncServiceSuccess :: "'io daemon_io \<Rightarrow> ptr \<Rightarrow> string option \<Rightarrow> 'io \<Rightarrow> 'io \<times> errno option" where
  "SyncServiceSuccess N p i = write_response N p (SyncServiceResponceSuccess i)"

definition GetLogServiceFail ::
    "'io daemon_io \<Rightarrow> ptr \<Rightarrow> string option \<Rightarrow> error \<Rightarrow> 'io \<Rightarrow> 'io \<times> errno option" where
  "GetLogServiceFail N p i err = write_response N p (GetLogServiceResponseFail i err)"

definition GetLogServiceSuccess :: "'io daemon_io \<Rightarrow> ptr \<Rightarrow> string option \<Rightarrow> 'io \<Rightarrow> 'io \<times> errno option" where
  "GetLogServiceSuccess N p i = write_response N p (GetLogServiceResponseSuccess i)"

definition SendSubscriberMessageFail ::
    "'io daemon_io \<Rightarrow> ptr \<Rightarrow> string option \<Rightarrow> error \<Rightarrow> 'io \<Rightarrow> 'io \<times> errno option" where
  "SendSubscriberMessageFail N p i err = write_response N p (SendSubscriberMessageResponseFail i err)"

definition SendSubscriberMessageSuccess ::
    "'io daemon_io \<Rightarrow> ptr \<Rightarrow> string option \<Rightarrow> 'io \<Rightarrow> 'io \<times> errno option" where
  "SendSubscriberMessageSuccess N p i = write_response N p (SendSubscriberMessageResponseSuccess i)"

end
