(* ===== verification/Proc_Files.thy ===== *)
theory Proc_Files
  imports Prelude "HOL-Library.Word"
begin

text \<open>
  Reading numbers from the text files of \<open>/proc\<close>: \<open>fgets\<close> into a buffer of 512 bytes, and the
  conversions \<open>%s\<close> and \<open>%llu\<close>, with and without a width, of \<open>sscanf\<close> and \<open>fscanf\<close>.
\<close>

section \<open>Lines\<close>

text \<open>\<open>fgets\<close>: at most so many characters, up to and with the end of the line; and what is left.\<close>

fun fgets :: "nat \<Rightarrow> string \<Rightarrow> string \<times> string" where
  "fgets 0 cs = ([], cs)"
| "fgets (Suc n) [] = ([], [])"
| "fgets (Suc n) (c # cs) =
     (if c = newline then ([c], cs) else (case fgets n cs of (line, rest) \<Rightarrow> (c # line, rest)))"

lemma fgets_shorter: "fgets (Suc n) (c # cs) = (line, rest) \<Longrightarrow> length rest < Suc (length cs)"
proof -
  have "length (snd (fgets m xs)) \<le> length xs" for m xs
    by (induction m xs rule: fgets.induct) (auto split: prod.splits)
  from this[of n cs] show "fgets (Suc n) (c # cs) = (line, rest) \<Longrightarrow> length rest < Suc (length cs)"
    by (auto split: if_splits prod.splits)
qed

lemma fgets_rest: "xs \<noteq> [] \<Longrightarrow> (line, rest) = fgets 511 xs \<Longrightarrow> length rest < length xs"
  using fgets_shorter[of 510, simplified] by (cases xs) (auto dest: sym)

text \<open>The lines of a file, read into \<open>char line[512]\<close>.\<close>

function fgets_lines :: "string \<Rightarrow> string list" where
  "fgets_lines file_text =
     (if file_text = [] then []
      else (case fgets 511 file_text of (line, rest) \<Rightarrow> line # fgets_lines rest))"
  by auto

termination by (relation "measure length") (auto dest: fgets_rest)

declare fgets_lines.simps [simp del]

lemma fgets_line:
  assumes "newline \<notin> set l"
  shows "length l < n \<Longrightarrow> fgets n (l @ newline # rest) = (l @ [newline], rest)"
  using assms
proof (induction l arbitrary: n)
  case Nil
  then show ?case by (cases n) auto
next
  case (Cons c l)
  then show ?case by (cases n) auto
qed

lemma fgets_lines_Cons:
  assumes "newline \<notin> set l" and "length l < 511"
  shows "fgets_lines (l @ newline # rest) = (l @ [newline]) # fgets_lines rest"
  by (subst fgets_lines.simps) (simp add: fgets_line[OF assms])

lemma fgets_lines_Nil [simp]: "fgets_lines [] = []"
  by (simp add: fgets_lines.simps)

lemma fgets_lines_concat:
  assumes "\<forall>l \<in> set ls. newline \<notin> set l \<and> length l < 511"
  shows "fgets_lines (concat (map (\<lambda>l. l @ [newline]) ls)) = map (\<lambda>l. l @ [newline]) ls"
  using assms by (induction ls) (simp_all add: fgets_lines_Cons)

section \<open>Conversions\<close>

definition isspace :: "char \<Rightarrow> bool" where
  "isspace c \<longleftrightarrow> of_char c \<in> {32, 9, 10, 11, 12, 13 :: nat}"

definition isdigit :: "char \<Rightarrow> bool" where
  "isdigit c \<longleftrightarrow> 48 \<le> (of_char c :: nat) \<and> (of_char c :: nat) \<le> 57"

definition skip_space :: "string \<Rightarrow> string" where
  "skip_space = dropWhile isspace"

text \<open>A text ends at the first NUL.\<close>

definition c_string :: "string \<Rightarrow> string" where
  "c_string = takeWhile (\<lambda>c. c \<noteq> CHR 0x00)"

text \<open>\<open>%s\<close>: the next word.\<close>

definition scan_word :: "string \<Rightarrow> (string \<times> string) option" where
  "scan_word cs =
     (let t = skip_space cs; word = takeWhile (\<lambda>c. \<not> isspace c) t
      in if word = [] then None else Some (word, dropWhile (\<lambda>c. \<not> isspace c) t))"

definition digits_value :: "string \<Rightarrow> nat" where
  "digits_value = foldl (\<lambda>n c. 10 * n + (of_char c - 48)) 0"

text \<open>
  The conversion of \<open>strtoull\<close>: a value that does not fit is the largest number, a negative sign
  negates on 64 bits.
\<close>

definition to_ulong :: "bool \<Rightarrow> nat \<Rightarrow> 64 word" where
  "to_ulong negative n = (if n \<ge> 2 ^ 64 then - 1 else if negative then - of_nat n else of_nat n)"

text \<open>\<open>%llu\<close>, or \<open>%16llu\<close> with the width 16, which counts the sign but not the space before it.\<close>

definition scan_uint :: "nat option \<Rightarrow> string \<Rightarrow> (64 word \<times> string) option" where
  "scan_uint width cs =
     (let t = skip_space cs;
          field = (case width of None \<Rightarrow> t | Some w \<Rightarrow> take w t);
          sign = takeWhile (\<lambda>c. c \<in> {CHR ''+'', CHR ''-''}) (take 1 field);
          digits = takeWhile isdigit (drop (length sign) field)
      in if digits = [] then None
         else Some (to_ulong (sign = ''-'') (digits_value digits), drop (length sign + length digits) t))"

text \<open>A sequence of such conversions ends at the first one that fails.\<close>

fun scan_uints :: "nat option \<Rightarrow> nat \<Rightarrow> string \<Rightarrow> 64 word list" where
  "scan_uints width 0 cs = []"
| "scan_uints width (Suc k) cs =
     (case scan_uint width cs of None \<Rightarrow> [] | Some (n, rest) \<Rightarrow> n # scan_uints width k rest)"

section \<open>Numbers as they are printed\<close>

lemma decimal_digits: "\<forall>c \<in> set (decimal n). isdigit c"
proof (induction n rule: decimal.induct)
  case (1 n)
  have *: "isdigit (char_of (48 + k :: nat))" if "k < 10" for k
    using that by (simp add: isdigit_def of_char_of)
  have "n mod 10 < 10" by simp
  with * have "isdigit (char_of (48 + n mod 10))" by blast
  with 1 * show ?case by (subst decimal.simps) auto
qed

lemma decimal_nonempty [simp]: "decimal n \<noteq> []"
  by (subst decimal.simps) simp

lemma digits_value_snoc: "digits_value (ds @ [c]) = 10 * digits_value ds + (of_char c - 48)"
  by (simp add: digits_value_def)

lemma decimal_value: "digits_value (decimal n) = n"
proof (induction n rule: decimal.induct)
  case (1 n)
  have *: "(of_char (char_of (48 + k :: nat)) :: nat) = 48 + k" if "k < 10" for k
    using that by (simp add: of_char_of)
  show ?case
  proof (cases "n < 10")
    case True
    then show ?thesis by (subst decimal.simps) (simp add: digits_value_def *)
  next
    case False
    have "n mod 10 < 10" by simp
    from *[OF this] show ?thesis
      using 1 False by (subst decimal.simps) (simp add: digits_value_snoc)
  qed
qed

lemma decimal_length: "n < 10 ^ Suc k \<Longrightarrow> length (decimal n) \<le> Suc k"
proof (induction k arbitrary: n)
  case 0
  then show ?case by (subst decimal.simps) simp
next
  case (Suc k)
  then have "n div 10 < 10 ^ Suc k" by auto
  from Suc.IH[OF this] show ?case by (subst decimal.simps) simp
qed

lemma decimal_longer: "10 ^ k \<le> n \<Longrightarrow> k < length (decimal n)"
proof (induction k arbitrary: n)
  case 0
  then show ?case by simp
next
  case (Suc k)
  then have "10 ^ k \<le> n div 10" by (simp add: less_eq_div_iff_mult_less_eq mult.commute)
  from Suc.IH[OF this] have "k < length (decimal (n div 10))" .
  moreover have "\<not> n < 10" using Suc.prems by (metis le_trans not_le one_le_numeral power_Suc
      mult_le_mono2 mult.right_neutral one_le_power)
  ultimately show ?case by (subst decimal.simps) simp
qed

lemma decimal_step: "\<not> n < 10 \<Longrightarrow> decimal n = decimal (n div 10) @ decimal (n mod 10)"
  by (subst decimal.simps, subst (3) decimal.simps) simp

lemma digit_no_space: "isdigit c \<Longrightarrow> \<not> isspace c \<and> c \<notin> {CHR ''+'', CHR ''-''} \<and> c \<noteq> newline"
  by (auto simp: isdigit_def isspace_def)

lemma takeWhile_none: "xs = [] \<or> \<not> P (hd xs) \<Longrightarrow> takeWhile P xs = []"
  by (cases xs) auto

text \<open>A number that fills its field or is followed by something else than a digit.\<close>

lemma scan_digits:
  assumes "ds \<noteq> []" and ds: "\<forall>c \<in> set ds. isdigit c"
    and "case width of None \<Rightarrow> True | Some w \<Rightarrow> length ds \<le> w"
    and "width = Some (length ds) \<or> rest = [] \<or> \<not> isdigit (hd rest)"
  shows "scan_uint width (replicate k (CHR '' '') @ ds @ rest) = Some (to_ulong False (digits_value ds), rest)"
proof -
  obtain c cs where c: "ds = c # cs" using assms(1) by (cases ds) auto
  have sp: "isspace (CHR '' '')" by (simp add: isspace_def)
  have t: "skip_space (replicate k (CHR '' '') @ ds @ rest) = ds @ rest"
    using ds digit_no_space[of c] unfolding skip_space_def
    by (subst dropWhile_append2) (auto simp: c sp)
  define field where "field = (case width of None \<Rightarrow> ds @ rest | Some w \<Rightarrow> take w (ds @ rest))"
  have sign: "takeWhile (\<lambda>c. c \<in> {CHR ''+'', CHR ''-''}) (take 1 field) = []"
  proof -
    have "field \<noteq> [] \<Longrightarrow> hd field = c" unfolding field_def c
      by (cases width) (auto simp: take_Cons split: nat.splits)
    then show ?thesis using digit_no_space[of c] ds by (cases field) (auto simp: c)
  qed
  have "takeWhile isdigit field = ds"
  proof (cases width)
    case None
    then show ?thesis using ds assms(4) unfolding field_def
      by (cases rest) (simp_all add: takeWhile_append takeWhile_eq_all_conv)
  next
    case (Some w)
    then have f: "field = ds @ take (w - length ds) rest" using assms(3) by (simp add: field_def)
    have "take (w - length ds) rest = [] \<or> \<not> isdigit (hd (take (w - length ds) rest))"
      using assms(4) Some by (cases rest; cases "w - length ds") auto
    then have "takeWhile isdigit (take (w - length ds) rest) = []" by (rule takeWhile_none)
    then show ?thesis using ds unfolding f by (simp add: takeWhile_append)
  qed
  then show ?thesis unfolding scan_uint_def t Let_def field_def[symmetric] sign
    using assms(1) by simp
qed

end
