(* ===== verification/Node_Stats.thy ===== *)
theory Node_Stats
  imports Complex_Main Json_Info Proc_Files "HOL-Library.Signed_Division"
begin

text \<open>
  The numbers behind the statistics of the node (\<open>src/daemon/commands_info/details/shots.cpp\<close> for
  Linux and the arithmetic of \<open>ProcessSlaveWrapper::MakeServiceStats\<close>).  All counters are
  unsigned 64-bit integers, which wrap around.
\<close>

section \<open>Shots of the machine\<close>

record cpu_shot =
  cs_usage :: "64 word"
  cs_limit :: "64 word"

record net_shot =
  ns_bytes_recv :: "64 word"
  ns_bytes_send :: "64 word"

record memory_shot =
  ms_total :: "64 word"
  ms_free :: "64 word"

record sysinfo_shot =
  ss_loads :: "64 word \<times> 64 word \<times> 64 word"
  ss_uptime :: int

text \<open>
  The differences are taken on 64 bits and then converted; \<open>r\<close> is the rounding of the operations on
  \<open>long double\<close>.
\<close>

definition GetCpuMachineLoad :: "(rat \<Rightarrow> rat) \<Rightarrow> cpu_shot \<Rightarrow> cpu_shot \<Rightarrow> rat" where
  "GetCpuMachineLoad r prev next =
     (let whole = of_int (uint (cs_limit next - cs_limit prev))
      in if whole = 0 then 0
         else let busy = of_int (uint (cs_usage next - cs_usage prev)) in r (r (busy / whole) * 100))"

text \<open>
  The text of \<open>/proc/stat\<close>, or nothing when it cannot be opened: then \<open>fscanf\<close> is called with a null
  pointer.  When it does not convert the four numbers they count as zero.
\<close>

definition GetMachineCpuShot :: "string option \<Rightarrow> cpu_shot option" where
  "GetMachineCpuShot fp =
     (case fp of
        None \<Rightarrow> None
      | Some stat \<Rightarrow>
          let scanned = (if take 3 stat = ''cpu'' then scan_uints None 4 (drop 3 stat) else []);
              (user, nice, system, idle) =
                (case scanned of [a, b, c, d] \<Rightarrow> (a, b, c, d) | _ \<Rightarrow> (0, 0, 0, 0));
              busy = user + nice + system
          in Some \<lparr>cs_usage = busy, cs_limit = busy + idle\<rparr>)"

definition GetMachineMemoryShot :: "64 word option \<Rightarrow> 64 word option \<Rightarrow> memory_shot" where
  "GetMachineMemoryShot whole avail =
     \<lparr>ms_total = (case whole of None \<Rightarrow> 0 | Some n \<Rightarrow> n), ms_free = (case avail of None \<Rightarrow> 0 | Some n \<Rightarrow> n)\<rparr>"

text \<open>The same two fields hold the sizes of the disk.\<close>

definition GetMachineHddShot :: "64 word option \<Rightarrow> 64 word option \<Rightarrow> memory_shot" where
  "GetMachineHddShot whole avail =
     \<lparr>ms_total = (case whole of None \<Rightarrow> 0 | Some n \<Rightarrow> n), ms_free = (case avail of None \<Rightarrow> 0 | Some n \<Rightarrow> n)\<rparr>"

text \<open>
  \<open>/proc/net/dev\<close>: \<open>sscanf\<close> reads the name of the interface and up to sixteen numbers from a line.
  The name goes to \<open>char interf[128]\<close>, which starts as the empty text; numbers that are not
  converted leave their variables uninitialised.
\<close>

definition scan_net_line :: "string \<Rightarrow> string \<times> 64 word list" where
  "scan_net_line line =
     (case scan_word (c_string line) of
        None \<Rightarrow> ([], [])
      | Some (interf, rest) \<Rightarrow> (interf, scan_uints (Some 16) 16 rest))"

text \<open>
  The first two lines are the head of the table, and interfaces whose names start with \<open>lo\<close> are left
  out.
\<close>

fun net_lines :: "nat \<Rightarrow> string list \<Rightarrow> net_shot \<Rightarrow> net_shot option" where
  "net_lines pos [] shot = Some shot"
| "net_lines pos (line # rest) shot =
     (if pos > 1 then
        (case scan_net_line line of (interf, numbers) \<Rightarrow>
           if length interf > 127 then None
           else if take 2 interf \<noteq> ''lo'' then
             (if length numbers < 9 then None
              else net_lines (pos + 1) rest
                     \<lparr>ns_bytes_recv = ns_bytes_recv shot + numbers ! 0,
                      ns_bytes_send = ns_bytes_send shot + numbers ! 8\<rparr>)
           else net_lines (pos + 1) rest shot)
      else net_lines (pos + 1) rest shot)"

definition GetMachineNetShot :: "string option \<Rightarrow> net_shot option" where
  "GetMachineNetShot netinfo =
     (let shot = \<lparr>ns_bytes_recv = 0, ns_bytes_send = 0\<rparr>
      in case netinfo of None \<Rightarrow> Some shot | Some dev \<Rightarrow> net_lines 0 (fgets_lines dev) shot)"

definition GetMachineSysinfoShot :: "sysinfo_shot option \<Rightarrow> sysinfo_shot" where
  "GetMachineSysinfoShot info =
     (case info of None \<Rightarrow> \<lparr>ss_loads = (0, 0, 0), ss_uptime = 0\<rparr> | Some i \<Rightarrow> i)"

section \<open>Differences and rates\<close>

definition uptime_text :: "sysinfo_shot \<Rightarrow> string" where
  "uptime_text s =
     (let (a, b, c) = ss_loads s
      in decimal (unat a) @ '' '' @ decimal (unat b) @ '' '' @ decimal (unat c))"

text \<open>Milliseconds to seconds; the division of C rounds towards zero, and zero is avoided.\<close>

definition seconds_between :: "int \<Rightarrow> int \<Rightarrow> int" where
  "seconds_between previous current_time =
     (let ts_diff = (current_time - previous) sdiv 1000 in if ts_diff = 0 then 1 else ts_diff)"

text \<open>A \<open>size_t\<close> divided by a \<open>timestamp_t\<close>: the latter is converted to 64 unsigned bits.\<close>

definition rate :: "64 word \<Rightarrow> int \<Rightarrow> 64 word" where
  "rate bytes ts_diff = bytes div word_of_int ts_diff"

section \<open>Facts\<close>

lemma seconds_between_exact:
  assumes "previous \<le> current_time"
  shows "seconds_between previous current_time = max 1 ((current_time - previous) div 1000)"
proof -
  have "(current_time - previous) sdiv 1000 = (current_time - previous) div 1000"
    using assms by (cases "current_time = previous") (simp_all add: signed_divide_int_def)
  moreover have "0 \<le> (current_time - previous) div 1000" using assms by simp
  ultimately show ?thesis by (simp add: seconds_between_def Let_def max_def)
qed

lemma rate_exact:
  assumes "previous \<le> current_time" and "current_time - previous < 2 ^ 63" and "m \<le> n"
  shows "unat (rate (n - m) (seconds_between previous current_time)) =
    (unat n - unat m) div nat (max 1 ((current_time - previous) div 1000))"
proof -
  let ?d = "max 1 ((current_time - previous) div 1000)"
  have "(current_time - previous) div 1000 \<le> current_time - previous"
    using assms(1) int_div_less_self[of "current_time - previous" 1000]
    by (cases "current_time = previous") auto
  then have "?d < 2 ^ 64" using assms(2) by simp
  then have "unat (word_of_int ?d :: 64 word) = nat ?d"
    by (simp add: unsigned_of_int take_bit_int_eq_self)
  then show ?thesis using assms(3)
    by (simp add: rate_def seconds_between_exact[OF assms(1)] unat_div unat_sub)
qed

section \<open>The tables as the kernel prints them\<close>

text \<open>Numbers in columns, each after at least one blank.\<close>

abbreviation blank :: char where
  "blank \<equiv> CHR '' ''"

fun column_text :: "(nat \<times> nat) list \<Rightarrow> string" where
  "column_text [] = []"
| "column_text ((pad, n) # cols) = blank # replicate pad blank @ decimal n @ column_text cols"

lemma column_text_chars:
  "c \<in> set (column_text cols) \<Longrightarrow> c = blank \<or> isdigit c"
  by (induction cols rule: column_text.induct) (auto dest: decimal_digits[rule_format] split: if_splits)

lemma not_digit [simp]: "\<not> isdigit blank" "\<not> isdigit newline" "blank \<noteq> newline"
  by (simp_all add: isdigit_def)

lemma column_text_ends: "rest = [] \<or> \<not> isdigit (hd rest) \<Longrightarrow>
    column_text cols @ rest = [] \<or> \<not> isdigit (hd (column_text cols @ rest))"
  by (cases cols rule: column_text.cases) auto

text \<open>With or without a width, columns that fit are read as they were printed.\<close>

lemma scan_columns:
  assumes "rest = [] \<or> \<not> isdigit (hd rest)"
    and "\<forall>(pad, n) \<in> set cols. n < 2 ^ 64 \<and> (case width of None \<Rightarrow> True | Some w \<Rightarrow> length (decimal n) \<le> w)"
  shows "scan_uints width (length cols) (column_text cols @ rest) = map (of_nat \<circ> snd) cols"
  using assms(2)
proof (induction cols rule: column_text.induct)
  case (2 pad n cols)
  have "scan_uint width (replicate (Suc pad) blank @ decimal n @ column_text cols @ rest) =
      Some (to_ulong False (digits_value (decimal n)), column_text cols @ rest)"
    using 2(2) column_text_ends[OF assms(1)] by (intro scan_digits decimal_nonempty decimal_digits) auto
  with 2 show ?case by (simp add: decimal_value to_ulong_def)
qed simp

definition net_text :: "nat \<times> string \<times> (nat \<times> nat) list \<Rightarrow> string" where
  "net_text l = (case l of (pad, name, cols) \<Rightarrow> replicate pad blank @ name @ '':'' @ column_text cols)"

definition interface_ok :: "nat \<times> string \<times> (nat \<times> nat) list \<Rightarrow> bool" where
  "interface_ok l =
     (case l of (pad, name, cols) \<Rightarrow>
        (\<forall>c \<in> set name. \<not> isspace c \<and> c \<noteq> CHR 0x00) \<and> length name < 127 \<and> length cols = 16 \<and>
        (\<forall>col \<in> set cols. snd col < 10 ^ 16) \<and> length (net_text l) < 511)"

definition dev_table :: "string \<Rightarrow> string \<Rightarrow> (nat \<times> string \<times> (nat \<times> nat) list) list \<Rightarrow> string" where
  "dev_table h1 h2 ls = concat (map (\<lambda>l. l @ [newline]) (h1 # h2 # map net_text ls))"

lemma scan_net_text:
  assumes name: "\<forall>c \<in> set name. \<not> isspace c \<and> c \<noteq> CHR 0x00"
  shows "scan_net_line (net_text (pad, name, cols) @ [newline]) =
    (name @ '':'', scan_uints (Some 16) 16 (column_text cols @ [newline]))"
proof -
  have c: "c_string (net_text (pad, name, cols) @ [newline]) = net_text (pad, name, cols) @ [newline]"
    using name column_text_chars by (force simp: c_string_def takeWhile_eq_all_conv net_text_def isdigit_def)
  have w: "isspace blank" "isspace newline" "\<not> isspace CHR '':''" by (simp_all add: isspace_def)
  have "skip_space (net_text (pad, name, cols) @ [newline]) = name @ '':'' @ column_text cols @ [newline]"
    using name w unfolding skip_space_def net_text_def by (cases name) (simp_all add: dropWhile_append)
  moreover have "takeWhile (\<lambda>c. \<not> isspace c) (name @ '':'' @ column_text cols @ [newline]) = name @ '':''"
    using name w by (cases cols rule: column_text.cases) (simp_all add: takeWhile_append)
  moreover have "dropWhile (\<lambda>c. \<not> isspace c) (name @ '':'' @ column_text cols @ [newline]) = column_text cols @ [newline]"
    using name w by (cases cols rule: column_text.cases) (simp_all add: dropWhile_append)
  ultimately show ?thesis by (simp add: scan_net_line_def scan_word_def c)
qed

lemma scan_interface:
  assumes "interface_ok (pad, name, cols)"
  shows "scan_net_line (net_text (pad, name, cols) @ [newline]) = (name @ '':'', map (of_nat \<circ> snd) cols)"
proof -
  have ok: "\<forall>c \<in> set name. \<not> isspace c \<and> c \<noteq> CHR 0x00" "length cols = 16" "\<forall>col \<in> set cols. snd col < 10 ^ 16"
    using assms by (simp_all add: interface_ok_def)
  have "n < 2 ^ 64 \<and> length (decimal n) \<le> 16" if "(p, n) \<in> set cols" for p n
    using ok(3) that decimal_length[of n 15] by auto
  then have "scan_uints (Some 16) 16 (column_text cols @ [newline]) = map (of_nat \<circ> snd) cols"
    using scan_columns[of "[newline]" cols "Some 16"] ok(2) by auto
  then show ?thesis using scan_net_text[OF ok(1)] by simp
qed

definition counted :: "nat \<times> string \<times> (nat \<times> nat) list \<Rightarrow> bool" where
  "counted l \<longleftrightarrow> take 2 (fst (snd l)) \<noteq> ''lo''"

abbreviation column :: "nat \<Rightarrow> nat \<times> string \<times> (nat \<times> nat) list \<Rightarrow> 64 word" where
  "column i l \<equiv> of_nat (snd (snd (snd l) ! i))"

lemma lo_colon: "take 2 (name @ '':'') = ''lo'' \<longleftrightarrow> take 2 name = ''lo''"
  by (cases name; cases "tl name") auto

lemma net_lines_table:
  assumes "\<forall>l \<in> set ls. interface_ok l" and "pos > 1"
  shows "net_lines pos (map (\<lambda>l. net_text l @ [newline]) ls) shot =
    Some \<lparr>ns_bytes_recv = ns_bytes_recv shot + sum_list (map (column 0) (filter counted ls)),
          ns_bytes_send = ns_bytes_send shot + sum_list (map (column 8) (filter counted ls))\<rparr>"
  using assms
proof (induction ls arbitrary: pos shot)
  case (Cons l ls)
  obtain pad name cols where l: "l = (pad, name, cols)" by (cases l)
  have ok: "interface_ok (pad, name, cols)" using Cons.prems l by simp
  then have "length cols = 16" "length name < 127" by (simp_all add: interface_ok_def)
  moreover have "Suc pos > 1" using Cons.prems by simp
  ultimately show ?case
    using Cons.IH[of "Suc pos"] Cons.prems
    by (simp add: l scan_interface[OF ok] counted_def lo_colon add.assoc del: take_append)
qed simp

lemma net_text_line:
  "\<forall>c \<in> set name. \<not> isspace c \<and> c \<noteq> CHR 0x00 \<Longrightarrow> newline \<notin> set (net_text (pad, name, cols))"
proof -
  have "isspace newline" by (simp add: isspace_def)
  moreover have "newline \<notin> set (column_text cols)" using column_text_chars[of newline cols] by auto
  ultimately show "\<forall>c \<in> set name. \<not> isspace c \<and> c \<noteq> CHR 0x00 \<Longrightarrow> newline \<notin> set (net_text (pad, name, cols))"
    by (auto simp: net_text_def)
qed

text \<open>The sum of a column over the interfaces that count, and the table that is read exactly.\<close>

definition bytes_of :: "nat \<Rightarrow> (nat \<times> string \<times> (nat \<times> nat) list) list \<Rightarrow> nat" where
  "bytes_of i ls = sum_list (map (\<lambda>l. snd (snd (snd l) ! i)) (filter counted ls))"

definition table_ok :: "string \<Rightarrow> string \<Rightarrow> (nat \<times> string \<times> (nat \<times> nat) list) list \<Rightarrow> bool" where
  "table_ok h1 h2 ls \<longleftrightarrow>
     newline \<notin> set h1 \<and> length h1 < 511 \<and> newline \<notin> set h2 \<and> length h2 < 511 \<and> (\<forall>l \<in> set ls. interface_ok l)"

lemma net_table_read:
  assumes "table_ok h1 h2 ls"
  shows "GetMachineNetShot (Some (dev_table h1 h2 ls)) =
    Some \<lparr>ns_bytes_recv = of_nat (bytes_of 0 ls), ns_bytes_send = of_nat (bytes_of 8 ls)\<rparr>"
proof -
  have ok: "\<forall>l \<in> set ls. interface_ok l" using assms by (simp add: table_ok_def)
  have "\<forall>l \<in> set (h1 # h2 # map net_text ls). newline \<notin> set l \<and> length l < 511"
    using assms net_text_line by (fastforce simp: table_ok_def interface_ok_def)
  from fgets_lines_concat[OF this]
  have "fgets_lines (dev_table h1 h2 ls) = map (\<lambda>l. l @ [newline]) (h1 # h2 # map net_text ls)"
    by (simp add: dev_table_def)
  moreover have "of_nat (bytes_of i ls) = sum_list (map (column i) (filter counted ls))" for i
    by (induction ls) (simp_all add: bytes_of_def)
  ultimately show ?thesis
    using net_lines_table[OF ok, of "Suc (Suc 0)"] by (simp add: GetMachineNetShot_def comp_def)
qed

text \<open>The first line of \<open>/proc/stat\<close> is read exactly, and what follows the four numbers is left.\<close>

lemma cpu_line_read:
  assumes "rest = [] \<or> \<not> isdigit (hd rest)"
    and "user < 2 ^ 64" "nice < 2 ^ 64" "sys < 2 ^ 64" "idle < 2 ^ 64"
  shows "GetMachineCpuShot (Some (''cpu'' @ column_text [(i, user), (j, nice), (k, sys), (l, idle)] @ rest)) =
    Some \<lparr>cs_usage = of_nat (user + nice + sys), cs_limit = of_nat (user + nice + sys + idle)\<rparr>"
proof -
  let ?cols = "[(i, user), (j, nice), (k, sys), (l, idle)]"
  have "scan_uints None (length ?cols) (column_text ?cols @ rest) = map (of_nat \<circ> snd) ?cols"
    by (rule scan_columns) (use assms in auto)
  moreover have "length ?cols = 4" by simp
  ultimately have "scan_uints None 4 (column_text ?cols @ rest) = [of_nat user, of_nat nice, of_nat sys, of_nat idle]"
    by (simp only: list.map comp_apply snd_conv)
  then show ?thesis by (simp add: GetMachineCpuShot_def Let_def)
qed

lemma scan_two:
  "scan_uint width cs = Some (a, cs1) \<Longrightarrow> scan_uint width cs1 = Some (b, cs2) \<Longrightarrow>
     scan_uints width (m + 2) cs = a # b # scan_uints width m cs2"
  by (simp add: numeral_2_eq_2)

text \<open>
  A counter of the received bytes with seventeen digits does not fit \<open>%16llu\<close>: its last digit is taken
  for the next number, and the column before the sent bytes for the sent bytes.
\<close>

lemma long_counter:
  assumes name: "\<forall>c \<in> set name. \<not> isspace c \<and> c \<noteq> CHR 0x00"
    and cols: "length cols = 15" "\<forall>col \<in> set cols. snd col < 10 ^ 16"
    and n: "10 ^ 16 \<le> n" "n < 10 ^ 17"
  shows "scan_net_line (net_text (pad, name, (k, n) # cols) @ [newline]) =
    (name @ '':'', of_nat (n div 10) # of_nat (n mod 10) # map (of_nat \<circ> snd) (take 14 cols))"
proof -
  have ten: "\<not> n < 10" using n by simp
  have "n div 10 < 10 ^ 16" "10 ^ 15 \<le> n div 10" using n by (simp_all add: div_less_iff_less_mult less_eq_div_iff_mult_less_eq)
  then have len: "length (decimal (n div 10)) = 16"
    using decimal_length[of "n div 10" 15] decimal_longer[of 15 "n div 10"] by simp
  have first: "scan_uint (Some 16) (replicate (Suc k) blank @ decimal (n div 10) @ x) =
      Some (of_nat (n div 10), x)" for x
    using n len by (subst scan_digits) (simp_all add: decimal_digits[rule_format] decimal_value to_ulong_def)
  have "length (decimal (n mod 10)) \<le> 16" using decimal_length[of "n mod 10" 15] by simp
  then have second: "scan_uint (Some 16) (replicate 0 blank @ decimal (n mod 10) @ column_text cols @ [newline]) =
      Some (of_nat (n mod 10), column_text cols @ [newline])"
    using column_text_ends[of "[newline]" cols]
    by (subst scan_digits) (simp_all add: decimal_digits[rule_format] decimal_value to_ulong_def)
  have take: "scan_uints w m cs = take m (scan_uints w (m + i) cs)" for w m i cs
    by (induction w m cs rule: scan_uints.induct) (auto split: option.splits prod.splits)
  have "length (decimal m) \<le> 16" if "(p, m) \<in> set cols" for p m
    using cols(2) that decimal_length[of m 15] by auto
  then have "scan_uints (Some 16) 15 (column_text cols @ [newline]) = map (of_nat \<circ> snd) cols"
    using scan_columns[of "[newline]" cols "Some 16"] cols by fastforce
  then have "scan_uints (Some 16) 14 (column_text cols @ [newline]) = map (of_nat \<circ> snd) (take 14 cols)"
    using take[of "Some 16" 14 "column_text cols @ [newline]" 1] by (simp add: take_map)
  moreover have "scan_uint (Some 16) (column_text ((k, n) # cols) @ [newline]) =
      Some (of_nat (n div 10), decimal (n mod 10) @ column_text cols @ [newline])"
    using first decimal_step[OF ten] by simp
  then have "scan_uints (Some 16) 16 (column_text ((k, n) # cols) @ [newline]) =
      of_nat (n div 10) # of_nat (n mod 10) # scan_uints (Some 16) 14 (column_text cols @ [newline])"
    using scan_two[of "Some 16" _ _ _ _ _ 14] second by fastforce
  ultimately show ?thesis using scan_net_text[OF name] by simp
qed

end
