(* ===== verification/Config.thy ===== *)
theory Config
  imports Lib_Types Samples "HOL-Library.Multiset"
begin

text \<open>
  The configuration file (\<open>src/config.cpp\<close>): its lines are split at the first equals sign, the
  known keys are put into a hash, and the fields of the configuration are taken from it, with a
  default for each but the license.
\<close>

section \<open>Surroundings\<close>

datatype conf_value = StringValue string | TimeValue int

record config =
  cf_host :: host
  cf_subscribers_host :: host
  cf_log_path :: string
  cf_log_level :: int
  cf_http_host :: host
  cf_mongodb_url :: string
  cf_epg_url :: gurl
  cf_locked_stream_text :: string
  cf_license_key :: "string option"
  cf_report_node :: int

text \<open>
  \<open>common::HashValue\<close> of type \<open>'h\<close>; the conversions, the license library and the constants of the
  build.
\<close>

record 'h config_lib =
  hv_new :: 'h
  hv_insert :: "'h \<Rightarrow> string \<Rightarrow> conf_value \<Rightarrow> 'h"
  hv_find :: "'h \<Rightarrow> string \<Rightarrow> conf_value option"
  cl_time_of_text :: "string \<Rightarrow> int option"
  cl_host_of_text :: "string \<Rightarrow> host option"
  cl_log_level_of_text :: "string \<Rightarrow> int option"
  cl_log_level_info :: int
  cl_make_license :: "string \<Rightarrow> string option"
  cl_license_valid :: "string \<Rightarrow> bool"
  cl_url_valid :: "gurl \<Rightarrow> bool"
  cl_default_host :: host
  cl_default_subscribers_host :: host
  cl_default_http_host :: host
  cl_no_host :: host
  cl_mongodb_url :: string
  cl_epg_url :: string
  cl_locked_stream_text :: string

section \<open>Reading the file\<close>

text \<open>\<open>getline\<close>: the lines of a text; a last line without a newline counts unless it is empty.\<close>

function getlines :: "string \<Rightarrow> string list" where
  "getlines t =
     (if t = [] then []
      else takeWhile (\<lambda>c. c \<noteq> newline) t # getlines (tl (dropWhile (\<lambda>c. c \<noteq> newline) t)))"
  by pat_completeness auto

termination
proof (relation "measure length")
  fix t :: string
  assume t: "t \<noteq> []"
  have "length (tl (dropWhile (\<lambda>c. c \<noteq> newline) t)) = length (dropWhile (\<lambda>c. c \<noteq> newline) t) - 1" by simp
  also have "\<dots> \<le> length t - 1" by (rule diff_le_mono[OF length_dropWhile_le])
  also have "\<dots> < length t" using t by (cases t) simp_all
  finally show "(tl (dropWhile (\<lambda>c. c \<noteq> newline) t), t) \<in> measure length" by simp
qed simp

declare getlines.simps [simp del]

definition GetKeyValue :: "string \<Rightarrow> char \<Rightarrow> string \<times> string" where
  "GetKeyValue line separator =
     (if separator \<in> set line then
        (takeWhile (\<lambda>c. c \<noteq> separator) line, tl (dropWhile (\<lambda>c. c \<noteq> separator) line))
      else (line, []))"

definition string_keys :: "string list" where
  "string_keys =
     [''log_path'', ''log_level'', ''host'', ''subscribers_host'', ''http_host'', ''mongodb_url'',
      ''epg_url'', ''locked_stream_text'', ''license_key'']"

definition read_line :: "'h config_lib \<Rightarrow> string \<Rightarrow> 'h \<Rightarrow> 'h" where
  "read_line G line options =
     (let (key, val) = GetKeyValue line (CHR ''='')
      in if key \<in> set string_keys then hv_insert G options key (StringValue val)
         else if key = ''report_node_stats'' then
           (case cl_time_of_text G val of
              None \<Rightarrow> options
            | Some report \<Rightarrow> hv_insert G options key (TimeValue report))
         else options)"

text \<open>The file is its contents, if it can be opened.\<close>

definition ReadConfigFile :: "'h config_lib \<Rightarrow> (string \<Rightarrow> string option) \<Rightarrow> string \<Rightarrow> errno + 'h" where
  "ReadConfigFile G fs path =
     (if path = [] then Inl (ErrnoText ''Invalid config path'' EINVAL)
      else case fs path of
        None \<Rightarrow> Inl (ErrnoText ''Failed to open config file'' EINVAL)
      | Some contents \<Rightarrow> Inr (fold (read_line G) (getlines contents) (hv_new G)))"

section \<open>The fields\<close>

definition get_string :: "'h config_lib \<Rightarrow> 'h \<Rightarrow> string \<Rightarrow> string option" where
  "get_string G args key = (case hv_find G args key of Some (StringValue t) \<Rightarrow> Some t | _ \<Rightarrow> None)"

definition get_time :: "'h config_lib \<Rightarrow> 'h \<Rightarrow> string \<Rightarrow> int option" where
  "get_time G args key = (case hv_find G args key of Some (TimeValue n) \<Rightarrow> Some n | _ \<Rightarrow> None)"

definition with_default :: "'x \<Rightarrow> 'x option \<Rightarrow> 'x" where
  "with_default d v = (case v of None \<Rightarrow> d | Some x \<Rightarrow> x)"

text \<open>\<open>DUMMY_LOG_FILE_PATH\<close> and \<open>REPORT_NODE_STATS\<close> are \<open>/dev/null\<close> and 10.\<close>

definition Config_new :: "'h config_lib \<Rightarrow> config" where
  "Config_new G =
     \<lparr>cf_host = cl_default_host G, cf_subscribers_host = cl_no_host G, cf_log_path = ''/dev/null'',
      cf_log_level = cl_log_level_info G, cf_http_host = cl_no_host G, cf_mongodb_url = cl_mongodb_url G,
      cf_epg_url = GURL (cl_epg_url G), cf_locked_stream_text = [], cf_license_key = None,
      cf_report_node = 10\<rparr>"

text \<open>\<open>host_valid\<close> is \<open>HostAndPort::IsValid\<close>.\<close>

definition Config_IsValid :: "(host \<Rightarrow> bool) \<Rightarrow> config \<Rightarrow> bool" where
  "Config_IsValid host_valid cfg = host_valid (cf_host cfg)"

definition get_host :: "'h config_lib \<Rightarrow> 'h \<Rightarrow> string \<Rightarrow> host option" where
  "get_host G args key = Option.bind (get_string G args key) (cl_host_of_text G)"

definition config_fields :: "'h config_lib \<Rightarrow> string \<Rightarrow> 'h \<Rightarrow> config" where
  "config_fields G license_str args =
     (let license = cl_make_license G license_str;
          lconfig = (case license of
                       Some key \<Rightarrow> if cl_license_valid G key then (Config_new G)\<lparr>cf_license_key := license\<rparr>
                                   else Config_new G
                     | None \<Rightarrow> Config_new G);
          epg_url = (case get_string G args ''epg_url'' of
                       None \<Rightarrow> cf_epg_url lconfig | Some t \<Rightarrow> GURL t)
      in lconfig
           \<lparr>cf_log_path := with_default ''/dev/null'' (get_string G args ''log_path''),
            cf_log_level := with_default (cl_log_level_info G)
               (Option.bind (get_string G args ''log_level'') (cl_log_level_of_text G)),
            cf_host := with_default (cl_default_host G) (get_host G args ''host''),
            cf_subscribers_host :=
               with_default (cl_default_subscribers_host G) (get_host G args ''subscribers_host''),
            cf_mongodb_url := with_default (cl_mongodb_url G) (get_string G args ''mongodb_url''),
            cf_http_host := with_default (cl_default_http_host G) (get_host G args ''http_host''),
            cf_epg_url := (if cl_url_valid G epg_url then epg_url else GURL (cl_epg_url G)),
            cf_locked_stream_text :=
               with_default (cl_locked_stream_text G) (get_string G args ''locked_stream_text''),
            cf_report_node := with_default 10 (get_time G args ''report_node_stats'')\<rparr>)"

text \<open>
  The second component of the result tells whether the hash is still allocated on return: it is
  deleted on the last line only.
\<close>

definition load_config_from_file ::
    "'h config_lib \<Rightarrow> (string \<Rightarrow> string option) \<Rightarrow> string \<Rightarrow> (errno + config) \<times> bool" where
  "load_config_from_file G fs config_absolute_path =
     (case ReadConfigFile G fs config_absolute_path of
        Inl err \<Rightarrow> (Inl err, False)
      | Inr args \<Rightarrow>
          (case get_string G args ''license_key'' of
             None \<Rightarrow> (Inl (ErrnoText ''license_key field in config required'' EINTR), True)
           | Some license_str \<Rightarrow> (Inr (config_fields G license_str args), False)))"

section \<open>What the loader reads\<close>

text \<open>A hash finds what was inserted under a new key; inserting does not touch other keys.\<close>

definition hash_laws :: "'h config_lib \<Rightarrow> bool" where
  "hash_laws G \<longleftrightarrow>
     (\<forall>k. hv_find G (hv_new G) k = None) \<and>
     (\<forall>h k v. hv_find G h k = None \<longrightarrow> hv_find G (hv_insert G h k v) k = Some v) \<and>
     (\<forall>h k k' v. k \<noteq> k' \<longrightarrow> hv_find G (hv_insert G h k v) k' = hv_find G h k')"

text \<open>What the loader keeps of the value of a key.\<close>

definition value_of :: "'h config_lib \<Rightarrow> string \<Rightarrow> string \<Rightarrow> conf_value option" where
  "value_of G key val =
     (if key \<in> set string_keys then Some (StringValue val)
      else if key = ''report_node_stats'' then map_option TimeValue (cl_time_of_text G val)
      else None)"

definition config_line :: "string \<times> string \<Rightarrow> string" where
  "config_line e = fst e @ ''='' @ snd e"

definition config_text :: "(string \<times> string) list \<Rightarrow> string" where
  "config_text kvs = concat (map (\<lambda>e. config_line e @ [newline]) kvs)"

lemma cut_at:
  "x \<notin> set l \<Longrightarrow> takeWhile (\<lambda>c. c \<noteq> x) (l @ x # t) = l"
  "x \<notin> set l \<Longrightarrow> tl (dropWhile (\<lambda>c. c \<noteq> x) (l @ x # t)) = t"
  by (induction l) auto

lemma getlines_line: "newline \<notin> set l \<Longrightarrow> getlines (l @ newline # t) = l # getlines t"
  by (subst getlines.simps) (simp add: cut_at)

lemma getlines_text:
  "(\<And>e. e \<in> set kvs \<Longrightarrow> newline \<notin> set (fst e) \<and> newline \<notin> set (snd e)) \<Longrightarrow>
     getlines (config_text kvs) = map config_line kvs"
proof (induction kvs)
  case Nil
  then show ?case by (simp add: config_text_def getlines.simps)
next
  case (Cons e kvs)
  then have "newline \<notin> set (config_line e)" by (auto simp: config_line_def)
  from getlines_line[OF this, of "config_text kvs"] Cons show ?case by (simp add: config_text_def)
qed

lemma key_value_line: "CHR ''='' \<notin> set k \<Longrightarrow> GetKeyValue (config_line (k, v)) (CHR ''='') = (k, v)"
  by (simp add: GetKeyValue_def config_line_def cut_at)

lemma read_line_find:
  assumes "hash_laws G" and "CHR ''='' \<notin> set k"
  shows "k' \<noteq> k \<Longrightarrow> hv_find G (read_line G (config_line (k, v)) h) k' = hv_find G h k'"
    and "hv_find G h k = None \<Longrightarrow> hv_find G (read_line G (config_line (k, v)) h) k = value_of G k v"
  using assms by (auto simp: read_line_def key_value_line hash_laws_def value_of_def split: option.splits)

lemma read_lines_find:
  assumes G: "hash_laws G"
  shows "distinct (map fst kvs) \<Longrightarrow> (\<And>e. e \<in> set kvs \<Longrightarrow> CHR ''='' \<notin> set (fst e)) \<Longrightarrow>
    (\<And>e. e \<in> set kvs \<Longrightarrow> hv_find G h (fst e) = None) \<Longrightarrow>
    hv_find G (fold (read_line G) (map config_line kvs) h) k =
      (case map_of kvs k of None \<Rightarrow> hv_find G h k | Some v \<Rightarrow> value_of G k v)"
proof (induction kvs arbitrary: h)
  case (Cons e kvs)
  obtain k0 v0 where e: "e = (k0, v0)" by (cases e)
  let ?h = "read_line G (config_line e) h"
  have keep: "k' \<noteq> k0 \<Longrightarrow> hv_find G ?h k' = hv_find G h k'" for k'
    using read_line_find(1)[OF G] Cons.prems(2)[of e] e by simp
  have new: "hv_find G ?h k0 = value_of G k0 v0"
    using read_line_find(2)[OF G] Cons.prems(2,3)[of e] e by simp
  have "hv_find G (fold (read_line G) (map config_line kvs) ?h) k =
      (case map_of kvs k of None \<Rightarrow> hv_find G ?h k | Some v \<Rightarrow> value_of G k v)"
  proof (rule Cons.IH)
    fix e' assume e': "e' \<in> set kvs"
    then have "fst e' \<noteq> k0" using Cons.prems(1) e by force
    then show "hv_find G ?h (fst e') = None" using keep Cons.prems(3)[of e'] e' by simp
  qed (use Cons.prems in auto)
  moreover have "map_of kvs k0 = None" using Cons.prems(1) e by (simp add: map_of_eq_None_iff)
  ultimately show ?case using keep new e by (cases "k = k0") (auto split: option.splits)
qed simp

lemma hash_of_file:
  assumes G: "hash_laws G" and d: "distinct (map fst kvs)"
    and chars: "\<And>e. e \<in> set kvs \<Longrightarrow> CHR ''='' \<notin> set (fst e) \<and> newline \<notin> set (fst e) \<and> newline \<notin> set (snd e)"
  shows "hv_find G (fold (read_line G) (getlines (config_text kvs)) (hv_new G)) k =
    Option.bind (map_of kvs k) (value_of G k)"
proof -
  have "getlines (config_text kvs) = map config_line kvs" using chars by (intro getlines_text) auto
  moreover have "hv_find G (hv_new G) k' = None" for k' using G by (simp add: hash_laws_def)
  ultimately show ?thesis using read_lines_find[OF G d, of "hv_new G" k] chars
    by (simp split: option.splits)
qed

text \<open>A configuration as lines; \<open>ht\<close>, \<open>lt\<close> and \<open>tt\<close> write hosts, log levels and times.\<close>

definition config_lines ::
    "(host \<Rightarrow> string) \<Rightarrow> (int \<Rightarrow> string) \<Rightarrow> (int \<Rightarrow> string) \<Rightarrow> string \<Rightarrow> config \<Rightarrow> (string \<times> string) list" where
  "config_lines ht lt tt key c =
     [(''log_path'', cf_log_path c), (''log_level'', lt (cf_log_level c)), (''host'', ht (cf_host c)),
      (''subscribers_host'', ht (cf_subscribers_host c)), (''http_host'', ht (cf_http_host c)),
      (''mongodb_url'', cf_mongodb_url c), (''epg_url'', case cf_epg_url c of GURL u \<Rightarrow> u),
      (''locked_stream_text'', cf_locked_stream_text c), (''license_key'', key),
      (''report_node_stats'', tt (cf_report_node c))]"

lemma config_lines_keys:
  "map fst (config_lines ht lt tt key c) = string_keys @ [''report_node_stats'']"
  by (simp add: config_lines_def string_keys_def)

text \<open>
  C31: A configuration that is written line by line is read back, in whatever order its lines are:
  the loader gives exactly the configuration, and no hash stays allocated.  The license has to be
  a valid one, the url has to be valid, and no value may contain a newline.
\<close>

theorem config_roundtrip:
  assumes G: "hash_laws G" and path: "path \<noteq> []"
    and lines: "mset kvs = mset (config_lines ht lt tt key c)"
    and chars: "\<And>e. e \<in> set (config_lines ht lt tt key c) \<Longrightarrow> newline \<notin> set (snd e)"
    and license: "cl_make_license G key = Some key" "cl_license_valid G key" "cf_license_key c = Some key"
    and hosts: "\<And>h. h \<in> {cf_host c, cf_subscribers_host c, cf_http_host c} \<Longrightarrow> cl_host_of_text G (ht h) = Some h"
    and level: "cl_log_level_of_text G (lt (cf_log_level c)) = Some (cf_log_level c)"
    and time: "cl_time_of_text G (tt (cf_report_node c)) = Some (cf_report_node c)"
    and url: "cl_url_valid G (cf_epg_url c)"
  shows "load_config_from_file G (\<lambda>p. if p = path then Some (config_text kvs) else None) path = (Inr c, False)"
proof -
  have keys: "mset (map fst kvs) = mset (string_keys @ [''report_node_stats''])"
    using lines config_lines_keys by (metis mset_map)
  have d: "distinct (map fst kvs)" "distinct (map fst (config_lines ht lt tt key c))"
    unfolding mset_eq_imp_distinct_iff[OF keys] config_lines_keys by (simp_all add: string_keys_def)
  have same: "set kvs = set (config_lines ht lt tt key c)" using lines by (metis set_mset_mset)
  then have m: "map_of kvs = map_of (config_lines ht lt tt key c)"
    by (simp add: map_of_inject_set[OF d])
  let ?h = "fold (read_line G) (getlines (config_text kvs)) (hv_new G)"
  have h: "hv_find G ?h k = Option.bind (map_of (config_lines ht lt tt key c) k) (value_of G k)" for k
    unfolding m[symmetric]
  proof (rule hash_of_file[OF G d(1)])
    fix e assume e: "e \<in> set kvs"
    then have "fst e \<in> set (string_keys @ [''report_node_stats''])"
      using same config_lines_keys[of ht lt tt key c] by (metis image_eqI set_map)
    then have "CHR ''='' \<notin> set (fst e) \<and> newline \<notin> set (fst e)" by (auto simp: string_keys_def)
    then show "CHR ''='' \<notin> set (fst e) \<and> newline \<notin> set (fst e) \<and> newline \<notin> set (snd e)"
      using chars e same by auto
  qed
  have "ReadConfigFile G (\<lambda>p. if p = path then Some (config_text kvs) else None) path = Inr ?h"
    using path by (simp add: ReadConfigFile_def)
  moreover have "get_string G ?h ''license_key'' = Some key"
    by (simp add: get_string_def h config_lines_def value_of_def string_keys_def)
  moreover have "config_fields G key ?h = c"
  proof -
    have "get_string G ?h ''log_path'' = Some (cf_log_path c)"
      "get_string G ?h ''log_level'' = Some (lt (cf_log_level c))"
      "get_string G ?h ''host'' = Some (ht (cf_host c))"
      "get_string G ?h ''subscribers_host'' = Some (ht (cf_subscribers_host c))"
      "get_string G ?h ''http_host'' = Some (ht (cf_http_host c))"
      "get_string G ?h ''mongodb_url'' = Some (cf_mongodb_url c)"
      "get_string G ?h ''epg_url'' = Some (case cf_epg_url c of GURL u \<Rightarrow> u)"
      "get_string G ?h ''locked_stream_text'' = Some (cf_locked_stream_text c)"
      "get_time G ?h ''report_node_stats'' = Some (cf_report_node c)"
      by (simp_all add: get_string_def get_time_def h config_lines_def value_of_def string_keys_def time)
    then show ?thesis using license hosts level url
      by (cases c; cases "cf_epg_url c")
        (simp add: config_fields_def get_host_def with_default_def Config_new_def Let_def)
  qed
  ultimately show ?thesis by (simp add: load_config_from_file_def)
qed

definition sample_config_lib :: "(string \<times> conf_value) list config_lib" where
  "sample_config_lib =
     \<lparr>hv_new = [], hv_insert = (\<lambda>h k v. (k, v) # h), hv_find = map_of,
      cl_time_of_text = (\<lambda>t. if t = ''10'' then Some 10 else None), cl_host_of_text = Some,
      cl_log_level_of_text = (\<lambda>t. if t = ''INFO'' then Some 6 else None), cl_log_level_info = 6,
      cl_make_license = Some, cl_license_valid = (\<lambda>k. k \<noteq> []), cl_url_valid = (\<lambda>u. u \<noteq> GURL []),
      cl_default_host = ''localhost:6317'', cl_default_subscribers_host = ''0.0.0.0:6000'',
      cl_default_http_host = ''0.0.0.0:5000'', cl_no_host = [], cl_mongodb_url = ''mongodb://localhost'',
      cl_epg_url = ''http://epg'', cl_locked_stream_text = ''locked''\<rparr>"

definition sample_config :: config where
  "sample_config =
     \<lparr>cf_host = ''h:1'', cf_subscribers_host = ''h:2'', cf_log_path = ''/log'', cf_log_level = 6,
      cf_http_host = ''h:3'', cf_mongodb_url = ''mongodb://db?a=b'', cf_epg_url = GURL ''http://e'',
      cf_locked_stream_text = ''no'', cf_license_key = Some ''key'', cf_report_node = 10\<rparr>"

theorem config_roundtrip_witness:
  "load_config_from_file sample_config_lib
     (\<lambda>p. if p = ''conf'' then
        Some (config_text (rev (config_lines (\<lambda>h. h) (\<lambda>n. ''INFO'') (\<lambda>n. ''10'') ''key'' sample_config)))
      else None) ''conf'' = (Inr sample_config, False)"
proof (rule config_roundtrip)
  show "hash_laws sample_config_lib" by (simp add: hash_laws_def sample_config_lib_def)
  show "newline \<notin> set (snd e)"
    if "e \<in> set (config_lines (\<lambda>h. h) (\<lambda>n. ''INFO'') (\<lambda>n. ''10'') ''key'' sample_config)" for e
    using that by (auto simp: config_lines_def sample_config_def)
qed (simp_all add: sample_config_lib_def sample_config_def)

text \<open>Without a license the file is rejected, and the hash with the options is never deleted.\<close>

lemma missing_license:
  assumes "path \<noteq> []" and "fs path = Some contents"
    and "hv_find G (fold (read_line G) (getlines contents) (hv_new G)) ''license_key'' = None"
  shows "load_config_from_file G fs path =
    (Inl (ErrnoText ''license_key field in config required'' EINTR), True)"
  using assms by (simp add: load_config_from_file_def ReadConfigFile_def get_string_def)

end
