(* ===== verification/Slave_Wrapper.thy ===== *)
theory Slave_Wrapper
  imports Http_Handler Daemon_Commands Node_Stats Config Manager
begin

text \<open>
  The process (\<open>src/process_slave_wrapper.cpp\<close>): it owns the subscribers manager and the two
  servers, listens to the daemon's connections, observes what the servers report and broadcasts it
  to the daemons, and watches the license.
\<close>

section \<open>State and surroundings\<close>

text \<open>
  \<open>daemons\<close> are the connections of the daemon server, \<open>posted\<close> the broadcasts that wait in the loop
  after \<open>ExecInLoopThread\<close>, \<open>stopped\<close> tells whether the three loops have been told to stop; then
  the three timers and the members of \<open>NodeStats\<close>.
\<close>

record ('io, 'db) process = "('io, 'db) service" +
  daemons :: "ptr \<Rightarrow> daemon_client option"
  ping_client_timer :: int
  node_stats_timer :: int
  check_license_timer :: int
  prev_cpu :: cpu_shot
  prev_net :: net_shot
  stats_timestamp :: int
  posted :: "rpc_request list"
  stopped :: bool

text \<open>
  The surroundings: the JSON library and its classes, the calls on the connections, the members of
  the configuration, the parsers of the classes that are not in the repository, the license
  library, the clock and what the machine reports: the texts of the files of \<open>/proc\<close>, the total and
  the free memory and disk space, and the answer of \<open>sysinfo\<close>.
\<close>

record ('j, 'io, 'os) daemon_env =
  de_json :: "'j json_lib"
  de_lib :: fastotv_lib
  de_io :: "'io daemon_io"
  de_client_io :: "'io client_io"
  de_config :: config
  de_build :: "'os build_info"
  de_machine :: "('j, machine_info) json_part"
  de_os :: "('j, 'os) json_part"
  de_text :: "('j, string) json_part"
  de_new_text :: string
  de_catchup_json :: "catchup_info \<Rightarrow> error + 'j"
  de_content_json :: "content_request_info \<Rightarrow> error + string"
  de_parse :: "string \<Rightarrow> error + rpc_request option \<times> rpc_response option"
  de_stop_info :: "'j \<Rightarrow> error option"
  de_ping_info :: "'j \<Rightarrow> error option"
  de_log_info :: "'j \<Rightarrow> error + gurl"
  de_activate_info :: "'j \<Rightarrow> error + string option"
  de_url_http :: "gurl \<Rightarrow> bool"
  de_url_http_or_https :: "gurl \<Rightarrow> bool"
  de_post_http :: "'io \<Rightarrow> string \<Rightarrow> gurl \<Rightarrow> 'io \<times> error option"
  de_post_https :: "'io \<Rightarrow> string \<Rightarrow> gurl \<Rightarrow> 'io \<times> error option"
  de_expire_time :: "string \<Rightarrow> int option"
  de_now :: "'io \<Rightarrow> int"
  de_proc :: "'io \<Rightarrow> string \<Rightarrow> string option"
  de_memory :: "'io \<Rightarrow> 64 word option \<times> 64 word option"
  de_disk :: "'io \<Rightarrow> 64 word option \<times> 64 word option"
  de_sysinfo :: "'io \<Rightarrow> sysinfo_shot option"
  de_round :: "rat \<Rightarrow> rat"
  de_double :: "rat \<Rightarrow> double"
  de_no_timer :: int

type_synonym ('io, 'db, 'a) daemon_handled = "(('io, 'db, 'a) process_scheme \<times> errno option) option"

section \<open>Life of the process\<close>

text \<open>The constructor; \<open>NodeStats\<close> has no shots yet and the time of its construction.\<close>

definition ProcessSlaveWrapper_new ::
    "('j, 'io, 'os) daemon_env \<Rightarrow> rpc_lib \<Rightarrow> 'io \<Rightarrow> host \<times> dirpath \<Rightarrow> 'db \<Rightarrow> ('io, 'db) process" where
  "ProcessSlaveWrapper_new D R w no_endpoint store =
     service.extend
       (HttpHandler_new (SubscribersHandler_new R True (SubscribersManager_new True w no_endpoint store)))
       \<lparr>daemons = Map.empty, ping_client_timer = de_no_timer D, node_stats_timer = de_no_timer D,
        check_license_timer = de_no_timer D, prev_cpu = \<lparr>cs_usage = 0, cs_limit = 0\<rparr>,
        prev_net = \<lparr>ns_bytes_recv = 0, ns_bytes_send = 0\<rparr>, stats_timestamp = de_now D w,
        posted = [], stopped = False\<rparr>"

definition PreLooped_daemon ::
    "('j, 'io, 'os) daemon_env \<Rightarrow> ('io, 'db, 'a) process_scheme \<Rightarrow> ('io, 'db, 'a) process_scheme" where
  "PreLooped_daemon D s =
     (let (t1, w1) = dn_create_timer (de_io D) (io s) 60 True;
          (t2, w2) = dn_create_timer (de_io D) w1 (cf_report_node (de_config D)) True;
          (t3, w3) = dn_create_timer (de_io D) w2 300 True
      in s\<lparr>ping_client_timer := t1, node_stats_timer := t2, check_license_timer := t3, io := w3\<rparr>)"

definition remove_timer :: "('j, 'io, 'os) daemon_env \<Rightarrow> int \<Rightarrow> 'io \<Rightarrow> 'io" where
  "remove_timer D t w = (if t \<noteq> de_no_timer D then dn_remove_timer (de_io D) w t else w)"

definition PostLooped_daemon ::
    "('j, 'io, 'os) daemon_env \<Rightarrow> ('io, 'db, 'a) process_scheme \<Rightarrow> ('io, 'db, 'a) process_scheme" where
  "PostLooped_daemon D s =
     (let w1 = remove_timer D (ping_client_timer s) (io s);
          w2 = remove_timer D (node_stats_timer s) w1;
          w3 = remove_timer D (check_license_timer s) w2
      in s\<lparr>io := w3, ping_client_timer := de_no_timer D, node_stats_timer := de_no_timer D,
           check_license_timer := de_no_timer D\<rparr>)"

text \<open>The daemon server creates the object of a connection; the observer does nothing.\<close>

definition accept_daemon ::
    "ptr \<Rightarrow> bool \<Rightarrow> ('io, 'db, 'a) process_scheme \<Rightarrow> ('io, 'db, 'a) process_scheme" where
  "accept_daemon p local_host s =
     s\<lparr>daemons := (daemons s)(p \<mapsto> ProtocoledDaemonClient_new local_host)\<rparr>"

text \<open>\<open>ignore_result(dclient->Close()); delete dclient;\<close>\<close>

definition drop_daemon ::
    "('j, 'io, 'os) daemon_env \<Rightarrow> ptr \<Rightarrow> ('io, 'db, 'a) process_scheme \<Rightarrow> ('io, 'db, 'a) process_scheme" where
  "drop_daemon D p s = s\<lparr>io := dn_close (de_io D) (io s) p, daemons := (daemons s)(p := None)\<rparr>"

definition StopImpl :: "('io, 'db, 'a) process_scheme \<Rightarrow> ('io, 'db, 'a) process_scheme" where
  "StopImpl s = s\<lparr>stopped := True\<rparr>"

section \<open>Broadcasts\<close>

text \<open>
  \<open>ps\<close> is the vector that \<open>loop_->GetClients()\<close> gives; touching a deleted client is undefined.  The
  error of a write is only logged.
\<close>

fun BroadcastClients ::
    "('j, 'io, 'os) daemon_env \<Rightarrow> ptr list \<Rightarrow> rpc_request \<Rightarrow> ('io, 'db, 'a) process_scheme
     \<Rightarrow> ('io, 'db, 'a) process_scheme option" where
  "BroadcastClients D [] req s = Some s"
| "BroadcastClients D (p # ps) req s =
     (case daemons s p of
        None \<Rightarrow> None
      | Some c \<Rightarrow>
          if dc_verified c then
            BroadcastClients D ps req (s\<lparr>io := fst (dn_write_request (de_io D) (io s) p req)\<rparr>)
          else BroadcastClients D ps req s)"

definition post ::
    "error + rpc_request \<Rightarrow> ('io, 'db, 'a) process_scheme \<Rightarrow> ('io, 'db, 'a) process_scheme" where
  "post r s = (case r of Inl err_ser \<Rightarrow> s | Inr req \<Rightarrow> s\<lparr>posted := posted s @ [req]\<rparr>)"

definition OnSubscriberConnected ::
    "('j, 'io, 'os) daemon_env \<Rightarrow> front_subscriber_info \<Rightarrow> ('io, 'db, 'a) process_scheme
     \<Rightarrow> ('io, 'db, 'a) process_scheme" where
  "OnSubscriberConnected D info = post (SubscriberConnectedBroadcast (de_json D) info)"

definition OnSubscriberDisConnected ::
    "('j, 'io, 'os) daemon_env \<Rightarrow> front_subscriber_info \<Rightarrow> ('io, 'db, 'a) process_scheme
     \<Rightarrow> ('io, 'db, 'a) process_scheme" where
  "OnSubscriberDisConnected D info = post (SubscriberDisConnectedBroadcast (de_json D) info)"

text \<open>A server identifier that was not set is the empty text.\<close>

definition OnCatchupCreated ::
    "('j, 'io, 'os) daemon_env \<Rightarrow> string option \<Rightarrow> catchup_info \<Rightarrow> ('io, 'db, 'a) process_scheme
     \<Rightarrow> ('io, 'db, 'a) process_scheme" where
  "OnCatchupCreated D serverid chan =
     post (CatchupCreatedBroadcast (de_json D) (de_catchup_json D)
             (case serverid of None \<Rightarrow> [] | Some i \<Rightarrow> i) chan)"

definition OnContentRequestCreated ::
    "('j, 'io, 'os) daemon_env \<Rightarrow> content_request_info \<Rightarrow> ('io, 'db, 'a) process_scheme
     \<Rightarrow> ('io, 'db, 'a) process_scheme" where
  "OnContentRequestCreated D request = post (ContentRequestCreatedBroadcast (de_content_json D) request)"

definition observe_event ::
    "('j, 'io, 'os) daemon_env \<Rightarrow> sub_event \<Rightarrow> ('io, 'db, 'a) process_scheme \<Rightarrow> ('io, 'db, 'a) process_scheme" where
  "observe_event D e =
     (case e of
        SubscriberConnected info \<Rightarrow> OnSubscriberConnected D info
      | SubscriberDisConnected info \<Rightarrow> OnSubscriberDisConnected D info)"

definition observe_notice ::
    "('j, 'io, 'os) daemon_env \<Rightarrow> notice \<Rightarrow> ('io, 'db, 'a) process_scheme \<Rightarrow> ('io, 'db, 'a) process_scheme" where
  "observe_notice D n =
     (case n of
        CatchupCreated serverid chan \<Rightarrow> OnCatchupCreated D serverid chan
      | ContentRequestCreated request \<Rightarrow> OnContentRequestCreated D request)"

section \<open>Statistics and license\<close>

definition verified_count :: "('io, 'db, 'a) process_scheme \<Rightarrow> ptr list \<Rightarrow> nat option" where
  "verified_count s ps =
     opt_fold (\<lambda>p n. case daemons s p of None \<Rightarrow> None | Some c \<Rightarrow> Some (if dc_verified c then n + 1 else n)) ps 0"

text \<open>The shots of the processor and the network, from the files of the system.\<close>

definition cpu_now :: "('j, 'io, 'os) daemon_env \<Rightarrow> 'io \<Rightarrow> cpu_shot option" where
  "cpu_now D w = GetMachineCpuShot (de_proc D w ''/proc/stat'')"

definition net_now :: "('j, 'io, 'os) daemon_env \<Rightarrow> 'io \<Rightarrow> net_shot option" where
  "net_now D w = GetMachineNetShot (de_proc D w ''/proc/net/dev'')"

definition machine_now ::
    "('j, 'io, 'os) daemon_env \<Rightarrow> cpu_shot \<Rightarrow> net_shot \<Rightarrow> ('io, 'db, 'a) process_scheme \<Rightarrow> machine_info" where
  "machine_now D next next_nshot s =
     (let w = io s; ts_diff = seconds_between (stats_timestamp s) (de_now D w);
          mem_shot = GetMachineMemoryShot (fst (de_memory D w)) (snd (de_memory D w));
          hdd_shot = GetMachineHddShot (fst (de_disk D w)) (snd (de_disk D w));
          sshot = GetMachineSysinfoShot (de_sysinfo D w)
      in \<lparr>mi_cpu_load = de_double D (GetCpuMachineLoad (de_round D) (prev_cpu s) next),
          mi_gpu_load = 0, mi_load_average = uptime_text sshot,
          mi_ram_bytes_total = ms_total mem_shot, mi_ram_bytes_free = ms_free mem_shot,
          mi_hdd_bytes_total = ms_total hdd_shot, mi_hdd_bytes_free = ms_free hdd_shot,
          mi_net_bytes_recv = rate (ns_bytes_recv next_nshot - ns_bytes_recv (prev_net s)) ts_diff,
          mi_net_bytes_send = rate (ns_bytes_send next_nshot - ns_bytes_send (prev_net s)) ts_diff,
          mi_uptime = ss_uptime sshot, mi_timestamp = de_now D w,
          mi_net_total_bytes_recv = ns_bytes_recv next_nshot,
          mi_net_total_bytes_send = ns_bytes_send next_nshot\<rparr>)"

text \<open>An error of the serialisation is only logged and leaves the text empty.\<close>

definition MakeServiceStats ::
    "('j, 'io, 'os) daemon_env \<Rightarrow> ptr list \<Rightarrow> int \<Rightarrow> ('io, 'db, 'a) process_scheme
     \<Rightarrow> (string \<times> ('io, 'db, 'a) process_scheme) option" where
  "MakeServiceStats D ps expiration_time s =
     (case (cpu_now D (io s), net_now D (io s), verified_count s ps) of
        (Some next, Some next_nshot, Some daemons_client_count) \<Rightarrow>
          let online = \<lparr>ol_daemon = of_nat daemons_client_count, ol_http = http_clients s,
                        ol_subscribers = online_clients s\<rparr>;
              stat = ServerInfo_make (machine_now D next next_nshot s) online;
              node_stats =
                (if expiration_time \<noteq> 0 then
                   SerializeToString (de_json D)
                     (FullServiceInfo_SerializeFields (de_json D) (de_machine D) (de_os D)
                        (FullServiceInfo_make (de_build D) (cf_http_host (de_config D)) expiration_time stat))
                 else
                   SerializeToString (de_json D) (ServerInfo_SerializeFields (de_json D) (de_machine D) stat))
          in Some (case node_stats of Inl err_ser \<Rightarrow> [] | Inr t \<Rightarrow> t,
                   s\<lparr>prev_cpu := next, prev_net := next_nshot, stats_timestamp := de_now D (io s)\<rparr>)
      | _ \<Rightarrow> None)"

definition CheckLicenseExpired ::
    "('j, 'io, 'os) daemon_env \<Rightarrow> ('io, 'db, 'a) process_scheme \<Rightarrow> ('io, 'db, 'a) process_scheme" where
  "CheckLicenseExpired D s =
     (case cf_license_key (de_config D) of
        None \<Rightarrow> StopImpl s
      | Some license \<Rightarrow>
          (case de_expire_time D license of
             None \<Rightarrow> StopImpl s
           | Some tm \<Rightarrow> if tm < de_now D (io s) then StopImpl s else s))"

section \<open>Timers\<close>

definition ping_daemon ::
    "('j, 'io, 'os) daemon_env \<Rightarrow> ptr \<Rightarrow> ('io, 'db, 'a) process_scheme \<Rightarrow> ('io, 'db, 'a) process_scheme option" where
  "ping_daemon D p s =
     (case daemons s p of
        None \<Rightarrow> None
      | Some c \<Rightarrow>
          if dc_verified c then
            (case Ping (de_io D) p (io s) of
               (w, Some err) \<Rightarrow> Some (drop_daemon D p (s\<lparr>io := w\<rparr>))
             | (w, None) \<Rightarrow> Some (s\<lparr>io := w\<rparr>))
          else Some s)"

definition TimerEmited_daemon ::
    "('j, 'io, 'os) daemon_env \<Rightarrow> ptr list \<Rightarrow> int \<Rightarrow> ('io, 'db, 'a) process_scheme
     \<Rightarrow> ('io, 'db, 'a) process_scheme option" where
  "TimerEmited_daemon D ps tid s =
     (if ping_client_timer s = tid then opt_fold (ping_daemon D) ps s
      else if node_stats_timer s = tid then
        (case MakeServiceStats D ps 0 s of
           None \<Rightarrow> None
         | Some (node_stats, s1) \<Rightarrow>
             (case StatisitcServiceBroadcast node_stats of
                Inl err_ser \<Rightarrow> Some s1
              | Inr req \<Rightarrow> BroadcastClients D ps req s1))
      else if check_license_timer s = tid then Some (CheckLicenseExpired D s)
      else Some s)"

end
