(* ===== verification/Daemon_Handlers.thy ===== *)
theory Daemon_Handlers
  imports Slave_Wrapper
begin

text \<open>
  The requests and responses of the daemon and the life of the process from \<open>Exec\<close> to its end
  (\<open>src/process_slave_wrapper.cpp\<close>).  The result of a handler is the new state with its error, or
  nothing when a deleted object is touched.
\<close>

section \<open>Guards and parameters\<close>

definition with_daemon ::
    "ptr \<Rightarrow> (daemon_client \<Rightarrow> ('io, 'db, 'a) process_scheme \<Rightarrow> ('io, 'db, 'a) daemon_handled)
     \<Rightarrow> ('io, 'db, 'a) process_scheme \<Rightarrow> ('io, 'db, 'a) daemon_handled" where
  "with_daemon p k s = (case daemons s p of None \<Rightarrow> None | Some c \<Rightarrow> k c s)"

text \<open>\<open>if (!dclient->IsVerified()) return make_errno_error_inval();\<close>\<close>

definition verified ::
    "ptr \<Rightarrow> (('io, 'db, 'a) process_scheme \<Rightarrow> ('io, 'db, 'a) daemon_handled)
     \<Rightarrow> ('io, 'db, 'a) process_scheme \<Rightarrow> ('io, 'db, 'a) daemon_handled" where
  "verified p k = with_daemon p (\<lambda>c s. if \<not> dc_verified c then Some (s, Some ErrnoInval) else k s)"

definition json_params ::
    "('j, 'io, 'os) daemon_env \<Rightarrow> rpc_request
     \<Rightarrow> ('j \<Rightarrow> ('io, 'db, 'a) process_scheme \<Rightarrow> ('io, 'db, 'a) daemon_handled)
     \<Rightarrow> ('io, 'db, 'a) process_scheme \<Rightarrow> ('io, 'db, 'a) daemon_handled" where
  "json_params D req k s =
     (case rq_params req of
        None \<Rightarrow> Some (s, Some ErrnoInval)
      | Some params \<Rightarrow>
          (case jl_parse (de_json D) params of
             None \<Rightarrow> Some (s, Some ErrnoInval)
           | Some j \<Rightarrow> k j s))"

definition answer ::
    "('io \<Rightarrow> 'io \<times> errno option) \<Rightarrow> ('io, 'db, 'a) process_scheme
     \<Rightarrow> ('io, 'db, 'a) process_scheme \<times> errno option" where
  "answer f s = (let (w, e) = f (io s) in (s\<lparr>io := w\<rparr>, e))"

definition bad_info :: "error \<Rightarrow> ('io, 'db, 'a) process_scheme \<Rightarrow> ('io, 'db, 'a) daemon_handled" where
  "bad_info err_des s = Some (s, Some (ErrnoDesc err_des EAGAIN))"

section \<open>Requests\<close>

definition HandleRequestClientStopService ::
    "('j, 'io, 'os) daemon_env \<Rightarrow> ptr \<Rightarrow> rpc_request \<Rightarrow> ('io, 'db, 'a) process_scheme
     \<Rightarrow> ('io, 'db, 'a) daemon_handled" where
  "HandleRequestClientStopService D p req =
     with_daemon p (\<lambda>c s.
       if \<not> dc_verified c \<and> \<not> dc_local_host c then Some (s, Some ErrnoInval)
       else json_params D req (\<lambda>jstop s.
         case de_stop_info D jstop of
           Some err_des \<Rightarrow> bad_info err_des s
         | None \<Rightarrow>
             (case answer (StopSuccess (de_io D) p (rq_id req)) s of
                (s1, err) \<Rightarrow> Some (StopImpl s1, err))) s)"

definition HandleRequestClientPingService ::
    "('j, 'io, 'os) daemon_env \<Rightarrow> ptr \<Rightarrow> rpc_request \<Rightarrow> ('io, 'db, 'a) process_scheme
     \<Rightarrow> ('io, 'db, 'a) daemon_handled" where
  "HandleRequestClientPingService D p req =
     verified p (json_params D req (\<lambda>jping s.
       case de_ping_info D jping of
         Some err_des \<Rightarrow> bad_info err_des s
       | None \<Rightarrow> Some (answer (SendPong (de_io D) p (rq_id req)) s)))"

text \<open>\<open>PostHttpOrHttpsFile\<close>.\<close>

definition PostHttpOrHttpsFile ::
    "('j, 'io, 'os) daemon_env \<Rightarrow> string \<Rightarrow> gurl \<Rightarrow> 'io \<Rightarrow> 'io \<times> error option" where
  "PostHttpOrHttpsFile D file_path url w =
     (if de_url_http D url then de_post_http D w file_path url else de_post_https D w file_path url)"

definition HandleRequestClientGetLogService ::
    "('j, 'io, 'os) daemon_env \<Rightarrow> ptr \<Rightarrow> rpc_request \<Rightarrow> ('io, 'db, 'a) process_scheme
     \<Rightarrow> ('io, 'db, 'a) daemon_handled" where
  "HandleRequestClientGetLogService D p req =
     verified p (json_params D req (\<lambda>jlog s.
       case de_log_info D jlog of
         Inl err_des \<Rightarrow>
           Some (fst (answer (GetLogServiceFail (de_io D) p (rq_id req) err_des) s),
                 Some (ErrnoDesc err_des EAGAIN))
       | Inr remote_log_path \<Rightarrow>
           if \<not> de_url_http_or_https D remote_log_path then
             (let errn = ErrnoText ''Not supported protocol'' EAGAIN
              in Some (fst (answer (GetLogServiceFail (de_io D) p (rq_id req) (ErrFromErrno errn)) s), Some errn))
           else
             (case PostHttpOrHttpsFile D (cf_log_path (de_config D)) remote_log_path (io s) of
                (w, Some err) \<Rightarrow>
                  Some (fst (answer (GetLogServiceFail (de_io D) p (rq_id req) err) (s\<lparr>io := w\<rparr>)),
                        Some (ErrnoDesc err EAGAIN))
              | (w, None) \<Rightarrow> Some (answer (GetLogServiceSuccess (de_io D) p (rq_id req)) (s\<lparr>io := w\<rparr>)))))"

text \<open>The notification that goes to the subscriber is the base class object of the info.\<close>

definition HandleRequestClientSendMessageForSubscriber ::
    "('j, 'io, 'os) daemon_env \<Rightarrow> ptr \<Rightarrow> rpc_request \<Rightarrow> ('io, 'db, 'a) process_scheme
     \<Rightarrow> ('io, 'db, 'a) daemon_handled" where
  "HandleRequestClientSendMessageForSubscriber D p req =
     verified p (json_params D req (\<lambda>jnotify s.
       case NotifySubscriberInfo_DoDeSerialize (de_json D) (de_text D) (de_new_text D) jnotify of
         Inl err_des \<Rightarrow> bad_info err_des s
       | Inr notify \<Rightarrow>
           (case SendSubscriberNotification (de_client_io D) (ni_uid notify) (ni_device notify) (ni_text notify) s of
              None \<Rightarrow> None
            | Some (s1, Some err) \<Rightarrow>
                Some (fst (answer (SendSubscriberMessageFail (de_io D) p (rq_id req) err) s1),
                      Some (ErrnoDesc err EAGAIN))
            | Some (s1, None) \<Rightarrow> Some (answer (SendSubscriberMessageSuccess (de_io D) p (rq_id req)) s1))))"

definition HandleRequestClientPrepareService ::
    "('j, 'io, 'os) daemon_env \<Rightarrow> ptr \<Rightarrow> rpc_request \<Rightarrow> ('io, 'db, 'a) process_scheme
     \<Rightarrow> ('io, 'db, 'a) daemon_handled" where
  "HandleRequestClientPrepareService D p req =
     verified p (json_params D req (\<lambda>jstate s.
       case PrepareInfo_DoDeSerialize (de_json D) jstate of
         Inl err_des \<Rightarrow> bad_info err_des s
       | Inr info \<Rightarrow>
           let s1 = SetupCatchupsEndpoint (pi_catchups_host info, pi_catchups_http_root info) s
           in case GetOnlineSubscribers s1 of
                None \<Rightarrow> None
              | Some state \<Rightarrow>
                  Some (answer (PrepareServiceSuccess (de_json D) (de_io D) p (rq_id req) state) s1)))"

definition HandleRequestClientSyncService ::
    "('j, 'io, 'os) daemon_env \<Rightarrow> ptr \<Rightarrow> rpc_request \<Rightarrow> ('io, 'db, 'a) process_scheme
     \<Rightarrow> ('io, 'db, 'a) daemon_handled" where
  "HandleRequestClientSyncService D p req =
     verified p (json_params D req (\<lambda>jstate s.
       case SyncInfo_DoDeSerialize jstate of
         Inl err_des \<Rightarrow> bad_info err_des s
       | Inr info \<Rightarrow> Some (answer (SyncServiceSuccess (de_io D) p (rq_id req)) s)))"

text \<open>
  The key of the request is compared with the one of the configuration; when both are missing,
  the value of an empty optional is read.
\<close>

definition activation_fails ::
    "('j, 'io, 'os) daemon_env \<Rightarrow> ptr \<Rightarrow> rpc_request \<Rightarrow> error \<Rightarrow> errno_code
     \<Rightarrow> ('io, 'db, 'a) process_scheme \<Rightarrow> ('io, 'db, 'a) daemon_handled" where
  "activation_fails D p req err code s =
     Some (fst (answer (ActivateFail (de_io D) p (rq_id req) err) s), Some (ErrnoDesc err code))"

definition finish_activation ::
    "('j, 'io, 'os) daemon_env \<Rightarrow> ptr list \<Rightarrow> ptr \<Rightarrow> rpc_request \<Rightarrow> int \<Rightarrow> ('io, 'db, 'a) process_scheme
     \<Rightarrow> ('io, 'db, 'a) daemon_handled" where
  "finish_activation D ps p req tm s =
     (case MakeServiceStats D ps tm s of
        None \<Rightarrow> None
      | Some (node_stats, s1) \<Rightarrow>
          (case answer (ActivateSuccess (de_io D) p (rq_id req) node_stats) s1 of
             (s2, Some err_ser) \<Rightarrow> Some (s2, Some err_ser)
           | (s2, None) \<Rightarrow>
               with_daemon p (\<lambda>c s. Some (s\<lparr>daemons := (daemons s)(p \<mapsto> SetVerified tm c)\<rparr>, None)) s2))"

definition HandleRequestClientActivate_daemon ::
    "('j, 'io, 'os) daemon_env \<Rightarrow> ptr list \<Rightarrow> ptr \<Rightarrow> rpc_request \<Rightarrow> ('io, 'db, 'a) process_scheme
     \<Rightarrow> ('io, 'db, 'a) daemon_handled" where
  "HandleRequestClientActivate_daemon D ps p req =
     json_params D req (\<lambda>jactivate s.
       case de_activate_info D jactivate of
         Inl err_des \<Rightarrow> activation_fails D p req err_des EAGAIN s
       | Inr expire_key \<Rightarrow>
           if expire_key \<noteq> cf_license_key (de_config D) then
             activation_fails D p req (ErrText ''Config not same activation key'') EINVAL s
           else
             (case expire_key of
                None \<Rightarrow> None
              | Some key \<Rightarrow>
                  (case de_expire_time D key of
                     None \<Rightarrow> activation_fails D p req (ErrText ''Invalid expire key'') EINVAL s
                   | Some tm \<Rightarrow> finish_activation D ps p req tm s)))"

text \<open>An unknown method is only logged.\<close>

definition HandleRequestServiceCommand ::
    "('j, 'io, 'os) daemon_env \<Rightarrow> ptr list \<Rightarrow> ptr \<Rightarrow> rpc_request \<Rightarrow> ('io, 'db, 'a) process_scheme
     \<Rightarrow> ('io, 'db, 'a) daemon_handled" where
  "HandleRequestServiceCommand D ps p req =
     (if rq_method req = ''stop_service'' then HandleRequestClientStopService D p req
      else if rq_method req = ''ping_service'' then HandleRequestClientPingService D p req
      else if rq_method req = ''activate_request'' then HandleRequestClientActivate_daemon D ps p req
      else if rq_method req = ''prepare_service'' then HandleRequestClientPrepareService D p req
      else if rq_method req = ''sync_service'' then HandleRequestClientSyncService D p req
      else if rq_method req = ''get_log_service'' then HandleRequestClientGetLogService D p req
      else if rq_method req = ''send_message'' then HandleRequestClientSendMessageForSubscriber D p req
      else (\<lambda>s. Some (s, None)))"

section \<open>Responses\<close>

text \<open>The handlers of responses only check the text of a message.\<close>

definition HandleResponcePingService ::
    "('j, 'io, 'os) daemon_env \<Rightarrow> rpc_response \<Rightarrow> errno option" where
  "HandleResponcePingService D resp =
     (case rs_result resp of
        None \<Rightarrow> None
      | Some params \<Rightarrow>
          (case jl_parse (de_json D) params of
             None \<Rightarrow> Some ErrnoInval
           | Some jping \<Rightarrow> map_option (\<lambda>err_des. ErrnoDesc err_des EAGAIN) (de_ping_info D jping)))"

definition HandleResponceCatchupCreatedService ::
    "('j, 'io, 'os) daemon_env \<Rightarrow> rpc_response \<Rightarrow> errno option" where
  "HandleResponceCatchupCreatedService D resp =
     (case rs_result resp of
        None \<Rightarrow> None
      | Some params \<Rightarrow> (case jl_parse (de_json D) params of None \<Rightarrow> Some ErrnoInval | Some j \<Rightarrow> None))"

definition HandleResponceSendMessageForSubscriber ::
    "('j, 'io, 'os) daemon_env \<Rightarrow> rpc_response \<Rightarrow> errno option" where
  "HandleResponceSendMessageForSubscriber D resp =
     (case rs_result resp of
        None \<Rightarrow> None
      | Some params \<Rightarrow> (case jl_parse (de_json D) params of None \<Rightarrow> Some ErrnoInval | Some j \<Rightarrow> None))"

text \<open>
  The two warnings print \<open>*sid\<close>; for a response without an identifier this reads an empty optional.
\<close>

definition warn_response :: "rpc_response \<Rightarrow> ('io, 'db, 'a) process_scheme \<Rightarrow> ('io, 'db, 'a) daemon_handled" where
  "warn_response resp s = (case rs_id resp of None \<Rightarrow> None | Some sid \<Rightarrow> Some (s, None))"

text \<open>Whatever the handlers of the responses return is ignored; they change nothing.\<close>

definition response_ignored ::
    "('j, 'io, 'os) daemon_env \<Rightarrow> string \<Rightarrow> rpc_response \<Rightarrow> ('io, 'db, 'a) process_scheme
     \<Rightarrow> ('io, 'db, 'a) daemon_handled" where
  "response_ignored D method resp s =
     (let ignore_result = (\<lambda>result. case result of Some err \<Rightarrow> Some (s, None) | None \<Rightarrow> Some (s, None))
      in if method = ''ping_client'' then ignore_result (HandleResponcePingService D resp)
         else if method = ''catchup_created'' then ignore_result (HandleResponceCatchupCreatedService D resp)
         else if method = ''send_message'' then ignore_result (HandleResponceSendMessageForSubscriber D resp)
         else warn_response resp s)"

definition HandleResponceServiceCommand ::
    "('j, 'io, 'os) daemon_env \<Rightarrow> ptr \<Rightarrow> rpc_response \<Rightarrow> ('io, 'db, 'a) process_scheme
     \<Rightarrow> ('io, 'db, 'a) daemon_handled" where
  "HandleResponceServiceCommand D p resp =
     verified p (\<lambda>s.
       case dn_pop_request (de_io D) (io s) p (rs_id resp) of
         (w, Some method) \<Rightarrow> response_ignored D method resp (s\<lparr>io := w\<rparr>)
       | (w, None) \<Rightarrow> warn_response resp (s\<lparr>io := w\<rparr>))"

section \<open>Data of a daemon\<close>

text \<open>The errors of the handlers are logged and forgotten; an error of the protocol is returned.\<close>

definition DaemonDataReceived ::
    "('j, 'io, 'os) daemon_env \<Rightarrow> ptr list \<Rightarrow> ptr \<Rightarrow> ('io, 'db, 'a) process_scheme
     \<Rightarrow> ('io, 'db, 'a) daemon_handled" where
  "DaemonDataReceived D ps p s =
     (case dn_read_command (de_io D) (io s) p of
        (w, Inl err) \<Rightarrow> Some (s\<lparr>io := w\<rparr>, Some err)
      | (w, Inr input_command) \<Rightarrow>
          (let s1 = s\<lparr>io := w\<rparr>
           in case de_parse D input_command of
                Inl err_parse \<Rightarrow> Some (s1, Some (ErrnoDesc err_parse EAGAIN))
              | Inr (Some req, resp) \<Rightarrow>
                  map_option (\<lambda>(s2, err). (s2, None)) (HandleRequestServiceCommand D ps p req s1)
              | Inr (None, Some resp) \<Rightarrow>
                  map_option (\<lambda>(s2, err). (s2, None)) (HandleResponceServiceCommand D p resp s1)
              | Inr (None, None) \<Rightarrow> Some (s1, Some (ErrnoText ''Invalid command type.'' EINVAL))))"

definition DataReceived_daemon ::
    "('j, 'io, 'os) daemon_env \<Rightarrow> ptr list \<Rightarrow> ptr \<Rightarrow> ('io, 'db, 'a) process_scheme
     \<Rightarrow> ('io, 'db, 'a) process_scheme option" where
  "DataReceived_daemon D ps p s =
     (case daemons s p of
        None \<Rightarrow> None
      | Some c \<Rightarrow>
          (case DaemonDataReceived D ps p s of
             None \<Rightarrow> None
           | Some (s1, Some err) \<Rightarrow> Some (drop_daemon D p s1)
           | Some (s1, None) \<Rightarrow> Some s1))"

section \<open>From start to end\<close>

text \<open>
  The results of \<open>Bind\<close> and \<open>Listen\<close> of a server.  The thread of a server ends at once when one of
  them fails, and otherwise when the server has been told to stop.
\<close>

type_synonym listening = "errno option \<times> errno option"

definition listens :: "listening \<Rightarrow> bool" where
  "listens r \<longleftrightarrow> fst r = None \<and> snd r = None"

definition joins :: "listening \<Rightarrow> ('io, 'db, 'a) process_scheme \<Rightarrow> bool" where
  "joins r s \<longleftrightarrow> \<not> listens r \<or> stopped s"

text \<open>
  \<open>run\<close> is what the loop of the daemon server does until it ends, with its result; nothing when it
  never ends.  The result of \<open>Exec\<close> is nothing when the process never ends or a shot of the machine
  is undefined.
\<close>

definition Exec ::
    "('j, 'io, 'os) daemon_env \<Rightarrow> mongo_driver \<Rightarrow> listening \<Rightarrow> listening \<Rightarrow> listening
     \<Rightarrow> (('io, 'db, 'a) process_scheme \<Rightarrow> (('io, 'db, 'a) process_scheme \<times> int) option)
     \<Rightarrow> ('io, 'db, 'a) process_scheme \<Rightarrow> (('io, 'db, 'a) process_scheme \<times> int) option" where
  "Exec D M subs http daemon run s =
     (case ConnectToDatabase M (cf_mongodb_url (de_config D)) ''iptv'' True s of
        (s1, Some err) \<Rightarrow> Some (s1, 1)
      | (s1, None) \<Rightarrow>
          (case (if listens daemon then
                   (case (cpu_now D (io s1), net_now D (io s1)) of
                      (Some prev, Some prev_nshot) \<Rightarrow>
                        run (s1\<lparr>prev_cpu := prev, prev_net := prev_nshot, stats_timestamp := de_now D (io s1)\<rparr>)
                    | _ \<Rightarrow> None)
                 else Some (s1, 1)) of
             None \<Rightarrow> None
           | Some (s2, res) \<Rightarrow> if joins subs s2 \<and> joins http s2 then Some (s2, res) else None))"

text \<open>The destructor disconnects the manager from the database; the error is ignored.\<close>

definition ProcessSlaveWrapper_destroy ::
    "('io, 'db, 'a) process_scheme \<Rightarrow> ('io, 'db, 'a) process_scheme" where
  "ProcessSlaveWrapper_destroy s = fst (Disconnect s)"

text \<open>
  \<open>SendStopDaemonRequest\<close>: \<open>host_valid\<close> is \<open>HostAndPort::IsValid\<close>; \<open>docker\<close> tells whether the name of
  a host is the name of the project, and \<open>local_host\<close> is \<open>CreateLocalHostIPV4\<close> of its port; \<open>conn\<close> is
  the connection attempt with the construction of the client.
\<close>

definition SendStopDaemonRequest ::
    "'io daemon_io \<Rightarrow> (host \<Rightarrow> bool) \<Rightarrow> (host \<Rightarrow> bool) \<Rightarrow> (host \<Rightarrow> host)
     \<Rightarrow> ('io \<Rightarrow> host \<Rightarrow> 'io \<times> (errno + ptr)) \<Rightarrow> config \<Rightarrow> 'io \<Rightarrow> 'io \<times> errno option" where
  "SendStopDaemonRequest N host_valid docker local_host conn cfg w =
     (if \<not> Config_IsValid host_valid cfg then (w, Some ErrnoInval)
      else
        let h = (if docker (cf_host cfg) then local_host (cf_host cfg) else cf_host cfg)
        in case conn w h of
             (w1, Inl err) \<Rightarrow> (w1, Some err)
           | (w1, Inr p) \<Rightarrow> (case StopMe N p w1 of (w2, err) \<Rightarrow> (dn_close N w2 p, err)))"

end
