(* ===== verification/Counters.thy ===== *)
theory Counters
  imports Service
begin

text \<open>
  What every event of the two servers keeps, whatever the clients send and however often they log in:
  the counters of the connections, the balance of the files, and the part of the state that belongs
  to the daemon server.
\<close>

section \<open>The counters\<close>

definition tallied :: "('io, 'db, 'a) service_scheme \<Rightarrow> bool" where
  "tallied s \<longleftrightarrow>
     finite (dom (kind_of s)) \<and>
     online_clients s = of_nat (card (clients SubscriberClient s)) \<and>
     http_clients s = of_nat (card (clients HttpClient s))"

definition steady :: "('io, 'db, 'a) service_scheme \<Rightarrow> ('io, 'db, 'a) service_scheme \<Rightarrow> bool" where
  "steady s s' \<longleftrightarrow>
     (tallied s \<longrightarrow> tallied s') \<and> open_files s' = open_files s \<and> service.more s' = service.more s"

lemma steady_refl [simp, intro]: "steady s s"
  by (simp add: steady_def)

lemma steady_trans [trans]: "steady s t \<Longrightarrow> steady t u \<Longrightarrow> steady s u"
  by (simp add: steady_def)

lemma steady_same:
  assumes "kind_of s' = kind_of s" and "online_clients s' = online_clients s" and "http_clients s' = http_clients s"
    and "open_files s' = open_files s" and "service.more s' = service.more s"
  shows "steady s s'"
  using assms by (simp add: steady_def tallied_def clients_def)

lemma steady_quiet:
  fixes s s' :: "('io, 'db, 'a) service_scheme"
  assumes "quiet s s'" shows "steady s s'"
  using assms more_service[of s' s] by (intro steady_same) (simp_all add: quiet_def)

lemma steady_hquiet: "hquiet s s' \<Longrightarrow> open_files s' = open_files s \<Longrightarrow> steady s s'"
  by (intro steady_same) (simp_all add: hquiet_def)

lemma steady_hkeeps: "hkeeps k \<Longrightarrow> k s = Some s' \<Longrightarrow> steady s s'"
  using hkeepsD steady_hquiet by blast

lemma steady_store:
  fixes s s' :: "('io, 'db, 'a) service_scheme"
  assumes "store_only s s'" shows "steady s s'"
proof -
  have "quiet s s'" by (rule quiet_store[OF assms])
  then show ?thesis by (rule steady_quiet)
qed

lemma clients_removed:
  assumes "kind_of s' = (kind_of s)(p := None)"
  shows "clients k s' = clients k s - {p}"
  using assms by (auto simp: clients_def)

lemma finite_kind: "finite (dom (kind_of s)) \<Longrightarrow> finite (clients k s)"
  by (rule finite_subset[of _ "dom (kind_of s)"]) (auto simp: clients_def)

text \<open>A client that is removed is one less of its kind, and the counter of its server says so.\<close>

lemma count_removed:
  assumes "finite (dom (kind_of s))" and "p \<in> clients k s"
  shows "(of_nat (card (clients k s - {p})) :: 64 word) = of_nat (card (clients k s)) - 1"
proof -
  have "card (clients k s) = Suc (card (clients k s - {p}))"
    using card_Suc_Diff1[OF finite_kind[OF assms(1)] assms(2)] by simp
  then show ?thesis by simp
qed

lemma other_kind: "p \<in> clients k s \<Longrightarrow> j \<noteq> k \<Longrightarrow> clients j s - {p} = clients j s"
  by (auto simp: clients_def)

lemma drop_client_steady:
  fixes s s' :: "('io, 'db, 'a) service_scheme"
  assumes p: "p \<in> clients SubscriberClient s" and drop: "drop_client E p s = Some s'"
  shows "steady s s' \<and> kind_of s' = (kind_of s)(p := None)"
proof -
  obtain t where t: "session_drop p s = Some t"
    and s': "s' = t\<lparr>online_clients := online_clients s - 1, io := sv_close (env_io E) (io s) p\<rparr>"
    using drop by (auto simp: drop_client_eq)
  have k: "kind_of s' = (kind_of s)(p := None)" using session_drop_kinds[OF t] s' by simp
  have "online_clients s' = online_clients s - 1" "http_clients s' = http_clients s"
    using s' session_frames(1)[OF t] by simp_all
  then have "tallied s'" if "tallied s"
    using that k count_removed[OF _ p] other_kind[OF p, of HttpClient]
    by (simp add: tallied_def clients_removed[OF k])
  then show ?thesis using k s' session_frames(1)[OF t] by (simp add: steady_def)
qed

lemma drop_http_steady:
  assumes p: "p \<in> clients HttpClient s" and drop: "drop_http H p s = Some s'"
  shows "steady s s' \<and> kind_of s' = (kind_of s)(p := None)"
proof -
  obtain t where t: "session_drop p s = Some t"
    and s': "s' = t\<lparr>http_clients := http_clients s - 1, io := hi_close (he_io H) (io s) p\<rparr>"
    using drop by (auto simp: drop_http_eq)
  have k: "kind_of s' = (kind_of s)(p := None)" using session_drop_kinds[OF t] s' by simp
  have "http_clients s' = http_clients s - 1" "online_clients s' = online_clients s"
    using s' session_counter[OF t] by simp_all
  then have "tallied s'" if "tallied s"
    using that k count_removed[OF _ p] other_kind[OF p, of SubscriberClient]
    by (simp add: tallied_def clients_removed[OF k])
  then show ?thesis using k s' session_frames(1)[OF t] by (simp add: steady_def)
qed

lemma login_steady:
  fixes s s' :: "('io, 'db, 'a) service_scheme"
  assumes "session_login L p a s = Some s'"
  shows "steady s s'"
  using session_login_frame[OF assms] session_login_counter[OF assms] session_frames(2)[OF assms]
  by (intro steady_same) simp_all

section \<open>The server of the subscribers\<close>

lemma settled_steady:
  fixes s s' :: "('io, 'db, 'a) service_scheme"
  assumes "settled E p s s'" and p: "p \<in> clients SubscriberClient s"
  shows "steady s s' \<and> (kind_of s' = kind_of s \<or> kind_of s' = (kind_of s)(p := None))"
proof -
  from assms(1) consider "quiet s s'" | t where "quiet s t" "drop_client E p t = Some s'"
    by (auto simp: settled_def)
  then show ?thesis
  proof cases
    case 1
    then show ?thesis using steady_quiet[OF 1] by (simp add: quiet_def)
  next
    case 2
    then have k: "kind_of t = kind_of s" by (simp add: quiet_def)
    then have "p \<in> clients SubscriberClient t" using p by (simp add: clients_def)
    from drop_client_steady[OF this 2(2)] show ?thesis using steady_trans[OF steady_quiet[OF 2(1)]] k by simp
  qed
qed

lemma received_steady:
  fixes s s' :: "('io, 'db, 'a) service_scheme"
  assumes "DataReceived E now p s = Some s'" and p: "p \<in> clients SubscriberClient s"
  shows "steady s s'"
  using received_moves[OF assms(1)]
proof
  assume "\<exists>w req e. HandleRequestClientLogin E now p req (s\<lparr>io := w\<rparr>) = Some (s', e)"
  then obtain w req e where h: "HandleRequestClientLogin E now p req (s\<lparr>io := w\<rparr>) = Some (s', e)" by blast
  have io: "steady s (s\<lparr>io := w\<rparr>)" by (rule steady_quiet) simp
  from login_moves[OF h] have "steady (s\<lparr>io := w\<rparr>) s'"
    using steady_quiet login_steady steady_trans by blast
  with io show ?thesis by (rule steady_trans)
qed (use settled_steady[OF _ p] in blast)

lemma ping_sweep_steady:
  fixes s s' :: "('io, 'db, 'a) service_scheme"
  assumes "opt_fold (ping_client E) ps s = Some s'" and "set ps \<subseteq> clients SubscriberClient s" and "distinct ps"
  shows "steady s s'"
  using assms
proof (induction ps arbitrary: s)
  case (Cons p ps)
  then obtain t where t: "ping_client E p s = Some t" "opt_fold (ping_client E) ps t = Some s'"
    by (auto split: option.splits)
  have p: "p \<in> clients SubscriberClient s" using Cons.prems by simp
  note st = settled_steady[OF ping_client_settled[OF t(1)] p]
  then have "steady t s'" using Cons.prems by (intro Cons.IH[OF t(2)]) (auto simp: clients_def)
  then show ?case using st steady_trans by blast
qed simp

lemma accept_tallied:
  assumes "tallied s" and "view s p = None"
  shows "finite (dom ((kind_of s)(p \<mapsto> k)))" and "p \<notin> clients k s"
  using assms client_live[of p k s] by (auto simp: tallied_def)

lemma kind_alloc:
  "kind_of (alloc_client p (SubscriberInfo_new L k) s) = (kind_of s)(p \<mapsto> k)"
  by (auto simp: kind_of_def alloc_client_def SubscriberInfo_new_def)

lemma serve_steady:
  fixes s s' :: "('io, 'db, 'a) service_scheme"
  assumes "serve E s s'"
  shows "steady s s'"
  using assms
proof (cases rule: serve.cases)
  case (accepts client)
  have k: "kind_of s' = (kind_of s)(client \<mapsto> SubscriberClient)" using accepts(1) by (simp add: Accepted_def kind_alloc)
  have "kind_of s client = None" using kind_live[of s client] accepts(3) by blast
  then have "clients SubscriberClient s' = insert client (clients SubscriberClient s)" "clients HttpClient s' = clients HttpClient s"
    using k by (auto simp: clients_def)
  moreover have "online_clients s' = online_clients s + 1" "http_clients s' = http_clients s" "open_files s' = open_files s"
    "service.more s' = service.more s"
    unfolding accepts(1) by (simp_all add: Accepted_def IServerHandler_Accepted_def alloc_client_def)
  ultimately show ?thesis
    using accept_tallied[of s client] accepts(3) k finite_kind[of s SubscriberClient]
    by (auto simp: steady_def tallied_def)
next
  case (receives client now)
  then show ?thesis by (intro received_steady)
next
  case (fires ps tid)
  then show ?thesis by (auto simp: TimerEmited_def intro: ping_sweep_steady split: if_splits)
next
  case (closes client)
  then show ?thesis using drop_client_steady by blast
qed (use loop_quiet steady_quiet in blast)+

section \<open>The http server\<close>

lemma serve_path_steady:
  assumes "serve_path H now p r k tokens s = Some s'"
  shows "steady s s' \<and> kind_of s' = kind_of s"
proof -
  have final: "steady t s' \<and> kind_of s' = kind_of t" if "hkeeps f" "f t = Some s'" for f t
    using hkeepsD[OF that] steady_hkeeps[OF that] by (simp add: hquiet_def)
  show ?thesis
  proof (cases "CheckIsLoginClient p s")
    case (Some r0)
    show ?thesis
    proof (cases r0)
      case (Inr a)
      then show ?thesis using assms Some final[OF serve_stream_keeps] by (simp add: serve_path_def)
    next
      case l: (Inl cerr)
      obtain s1 res where s1: "ClientLogin_by_uid (he_bson H) (he_mongo H) now (tokens ! 0) (tokens ! 1) (tokens ! 2) s =
          Some (s1, res)"
        using assms Some l by (auto simp: serve_path_def split: option.splits)
      have st: "store_only s s1" by (rule ClientLogin_by_uid_store[OF s1])
      have k1: "kind_of s1 = kind_of s" using quiet_store[OF st] by (simp add: quiet_def)
      have "steady s1 s' \<and> kind_of s' = kind_of s1"
      proof (cases res)
        case (Inl err)
        then show ?thesis using assms Some l s1 final[OF http_error_keeps] by (simp add: serve_path_def)
      next
        case (Inr a)
        then obtain s2 where s2: "session_login (he_lib H) p a s1 = Some s2"
          and "serve_stream H p r k tokens a s2 = Some s'"
          using assms Some l s1 by (auto simp: serve_path_def session_login_def split: option.splits)
        from final[OF serve_stream_keeps this(2)] show ?thesis
          using steady_trans[OF login_steady[OF s2]] session_login_frame[OF s2] by simp
      qed
      then show ?thesis using steady_trans[OF steady_store[OF st]] k1 by simp
    qed
  qed (use assms in \<open>simp add: serve_path_def\<close>)
qed

lemma serve_url_steady:
  assumes "serve_url H now p r k s = Some s'"
  shows "steady s s' \<and> kind_of s' = kind_of s"
proof -
  have "steady s s' \<and> kind_of s' = kind_of s" if "http_error H p r k st err s = Some s'" for st err
    using hkeepsD[OF http_error_keeps that] steady_hkeeps[OF http_error_keeps that] by (simp add: hquiet_def)
  then show ?thesis using assms serve_path_steady[of H now p r k _ s s']
    by (auto simp: serve_url_def Let_def split: if_splits)
qed

lemma process_received_steady:
  assumes ok: "ProcessReceived H now p request s = Some s'" and p: "p \<in> clients HttpClient s"
  shows "steady s s'"
proof -
  have dropped: "steady s s'" if "drop_http H p t = Some s'" "steady s t" "kind_of t = kind_of s" for t
    using drop_http_steady[of p t H s'] steady_trans[OF that(2)] that p by (simp add: clients_def)
  show ?thesis
  proof (cases "hl_parse (he_http H) request")
    case (Inl e)
    obtain st err where e: "e = (st, err)" by (cases e)
    obtain t e2 where t: "http_send H p (SendError ''1.1'' st extra_headers err False) s = (t, e2)" by fastforce
    then have "drop_http H p t = Some s'" using ok Inl e by (simp add: ProcessReceived_def)
    then show ?thesis using dropped hquiet_after_send[OF t] steady_hquiet by (auto simp: hquiet_def)
  next
    case (Inr r)
    let ?k = "keep_alive (he_http H) r"
    obtain t where t: "(if hq_method r = HM_GET \<or> hq_method r = HM_HEAD then serve_url H now p r ?k s else Some s) = Some t"
      and s': "(if \<not> ?k then drop_http H p t else Some t) = Some s'"
      using ok Inr by (auto simp: ProcessReceived_def Let_def split: option.splits)
    have "steady s t \<and> kind_of t = kind_of s"
      using t serve_url_steady[of H now p r ?k s t] by (auto split: if_splits)
    then show ?thesis using s' dropped by (auto split: if_splits)
  qed
qed

lemma http_received_steady:
  assumes ok: "HttpHandler_DataReceived H now p s = Some s'" and p: "p \<in> clients HttpClient s"
  shows "steady s s'"
proof -
  obtain w r where r: "hi_single_read (he_io H) (io s) p 4095 = (w, r)" by fastforce
  let ?s = "s\<lparr>io := w\<rparr>"
  have io: "steady s ?s" by (rule steady_hquiet) simp_all
  have p1: "p \<in> clients HttpClient ?s" using p by (simp add: clients_def)
  have "drop_http H p ?s = Some s' \<or> (\<exists>buff. ProcessReceived H now p buff ?s = Some s')"
    using ok r by (auto simp: HttpHandler_DataReceived_def split: sum.splits if_splits)
  then have "steady ?s s'" using drop_http_steady[OF p1] process_received_steady[OF _ p1] by blast
  with io show ?thesis by (rule steady_trans)
qed

text \<open>No event of the servers touches what belongs to the daemons, and none miscounts.\<close>

lemma service_step_steady:
  assumes "service_step E H C s s'"
  shows "steady s s'"
  using assms
proof (cases rule: service_step.cases)
  case subscribers
  then show ?thesis by (rule serve_steady)
next
  case (http_accepts client)
  have k: "kind_of s' = (kind_of s)(client \<mapsto> HttpClient)"
    using http_accepts(1) by (simp add: HttpHandler_Accepted_def kind_alloc)
  have "kind_of s client = None" using kind_live[of s client] http_accepts(3) by blast
  then have "clients HttpClient s' = insert client (clients HttpClient s)" "clients SubscriberClient s' = clients SubscriberClient s"
    using k by (auto simp: clients_def)
  moreover have "http_clients s' = http_clients s + 1" "online_clients s' = online_clients s" "open_files s' = open_files s"
    "service.more s' = service.more s"
    unfolding http_accepts(1) by (simp_all add: HttpHandler_Accepted_def IServerHandler_Accepted_def alloc_client_def)
  ultimately show ?thesis
    using accept_tallied[of s client] http_accepts(3) k finite_kind[of s HttpClient]
    by (auto simp: steady_def tallied_def)
next
  case (http_receives client now)
  then show ?thesis by (intro http_received_steady)
next
  case (http_closes client)
  then show ?thesis using drop_http_steady by blast
next
  case (notifies uid dev msg e)
  then show ?thesis using notification_quiet[OF notifies] by (intro steady_hquiet) simp_all
qed

lemma service_inv_tallied: "service_inv s \<Longrightarrow> tallied s"
proof -
  assume inv: "service_inv s"
  have "dom (kind_of s) = dom (view s)" by (auto simp: kind_of_def view_def)
  then show "tallied s" using inv by (simp add: service_inv_def tallied_def books_inv_def)
qed

end
