(* ===== verification/Process_Run.thy ===== *)
theory Process_Run
  imports Daemon_Handlers Counters
begin

text \<open>
  The whole process as a sequence of events: the two servers, the daemons and the loop that sends
  the posted broadcasts.  What the daemons may change, that no operation of theirs touches a
  deleted object, what every run keeps, and the invariant of the runs in which no connection that is
  logged in is registered again.
\<close>

section \<open>What the daemons may change\<close>

text \<open>
  A connection is licensed when its expiry time is the one of the license key in the configuration.
\<close>

definition licensed :: "('j, 'io, 'os) daemon_env \<Rightarrow> daemon_client \<Rightarrow> bool" where
  "licensed D c \<longleftrightarrow>
     (\<exists>key. cf_license_key (de_config D) = Some key \<and> de_expire_time D key = Some (dc_exp_time c))"

text \<open>
  An operation of the daemons leaves sessions, counters, events and files alone, adds no
  connection, and verifies a connection only with the license.
\<close>

definition dquiet ::
    "('j, 'io, 'os) daemon_env \<Rightarrow> ('io, 'db, 'a) process_scheme \<Rightarrow> ('io, 'db, 'a) process_scheme \<Rightarrow> bool" where
  "dquiet D s s' \<longleftrightarrow>
     view s' = view s \<and> kind_of s' = kind_of s \<and> connections s' = connections s \<and>
     observer s' = observer s \<and> events s' = events s \<and> notices s' = notices s \<and>
     online_clients s' = online_clients s \<and> http_clients s' = http_clients s \<and>
     open_files s' = open_files s \<and> collection_open s' = collection_open s \<and> db s' = db s \<and>
     (\<forall>p c. daemons s' p = Some c \<longrightarrow>
        daemons s p \<noteq> None \<and> (dc_verified c \<longrightarrow> daemons s p = Some c \<or> licensed D c))"

definition dkeeps ::
    "('j, 'io, 'os) daemon_env \<Rightarrow> (('io, 'db, 'a) process_scheme \<Rightarrow> ('io, 'db, 'a) daemon_handled) \<Rightarrow> bool" where
  "dkeeps D k \<longleftrightarrow> (\<forall>s s' e. k s = Some (s', e) \<longrightarrow> dquiet D s s')"

lemma dquiet_refl [simp, intro]: "dquiet D s s"
  by (simp add: dquiet_def)

lemma dquiet_trans:
  assumes st: "dquiet D s t" and tu: "dquiet D t u"
  shows "dquiet D s u"
proof -
  have "daemons s p \<noteq> None \<and> (dc_verified c \<longrightarrow> daemons s p = Some c \<or> licensed D c)"
    if "daemons u p = Some c" for p c
  proof -
    from tu that have "daemons t p \<noteq> None" "dc_verified c \<longrightarrow> daemons t p = Some c \<or> licensed D c"
      by (simp_all add: dquiet_def)
    then show ?thesis using st by (auto simp: dquiet_def)
  qed
  then show ?thesis using st tu by (simp add: dquiet_def)
qed

lemma process_views [simp]:
  "view (s\<lparr>daemons := d\<rparr>) = view s" "view (s\<lparr>stopped := b\<rparr>) = view s"
  "view (s\<lparr>posted := ps\<rparr>) = view s" "view (s\<lparr>ping_client_timer := i\<rparr>) = view s"
  "view (s\<lparr>node_stats_timer := i\<rparr>) = view s" "view (s\<lparr>check_license_timer := i\<rparr>) = view s"
  "view (s\<lparr>prev_cpu := c\<rparr>) = view s" "view (s\<lparr>prev_net := n\<rparr>) = view s"
  "view (s\<lparr>stats_timestamp := i\<rparr>) = view s" "view (s\<lparr>catchup_endpoint := e\<rparr>) = view s"
  "kind_of (s\<lparr>daemons := d\<rparr>) = kind_of s" "kind_of (s\<lparr>stopped := b\<rparr>) = kind_of s"
  "kind_of (s\<lparr>posted := ps\<rparr>) = kind_of s" "kind_of (s\<lparr>ping_client_timer := i\<rparr>) = kind_of s"
  "kind_of (s\<lparr>node_stats_timer := i\<rparr>) = kind_of s" "kind_of (s\<lparr>check_license_timer := i\<rparr>) = kind_of s"
  "kind_of (s\<lparr>prev_cpu := c\<rparr>) = kind_of s" "kind_of (s\<lparr>prev_net := n\<rparr>) = kind_of s"
  "kind_of (s\<lparr>stats_timestamp := i\<rparr>) = kind_of s" "kind_of (s\<lparr>catchup_endpoint := e\<rparr>) = kind_of s"
  by (simp_all add: view_def kind_of_def fun_eq_iff)

lemma dquiet_updates [simp, intro]:
  "dquiet D s (s\<lparr>io := w\<rparr>)" "dquiet D s (s\<lparr>stopped := b\<rparr>)" "dquiet D s (s\<lparr>posted := ps\<rparr>)"
  "dquiet D s (s\<lparr>catchup_endpoint := e\<rparr>)"
  "dquiet D s (s\<lparr>prev_cpu := c, prev_net := n, stats_timestamp := i\<rparr>)"
  "dquiet D s (s\<lparr>ping_client_timer := t1, node_stats_timer := t2, check_license_timer := t3, io := w\<rparr>)"
  "dquiet D s (s\<lparr>io := w, ping_client_timer := t1, node_stats_timer := t2, check_license_timer := t3\<rparr>)"
  by (simp_all add: dquiet_def)

lemma dquiet_after:
  "dquiet D (s\<lparr>io := w\<rparr>) s' \<Longrightarrow> dquiet D s s'"
  by (rule dquiet_trans[OF dquiet_updates(1)])

lemma drop_daemon_quiet [simp, intro]: "dquiet D s (drop_daemon D p s)"
  by (auto simp: dquiet_def drop_daemon_def split: if_splits)

lemma StopImpl_quiet [simp, intro]: "dquiet D s (StopImpl s)"
  by (simp add: StopImpl_def)

lemma answer_eq: "answer f s = (t, e) \<Longrightarrow> \<exists>w. t = s\<lparr>io := w\<rparr>"
  by (auto simp: answer_def split: prod.splits)

lemma answer_quiet: "answer f s = (t, e) \<Longrightarrow> dquiet D s t" "dquiet D s (fst (answer f s))"
  by (auto simp: answer_def split: prod.splits)

lemma dkeepsD: "dkeeps D k \<Longrightarrow> k s = Some (s', e) \<Longrightarrow> dquiet D s s'"
  by (auto simp: dkeeps_def)

lemma BroadcastClients_eq:
  "BroadcastClients D ps req s =
     (if \<forall>p \<in> set ps. daemons s p \<noteq> None then
        Some (s\<lparr>io := fold (\<lambda>p w. fst (dn_write_request (de_io D) w p req))
                       (filter (\<lambda>p. \<exists>c. daemons s p = Some c \<and> dc_verified c) ps) (io s)\<rparr>)
      else None)"
  by (induction ps arbitrary: s) (auto split: option.splits)

lemma MakeServiceStats_quiet: "MakeServiceStats D ps n s = Some (t, s') \<Longrightarrow> dquiet D s s'"
  by (auto simp: MakeServiceStats_def Let_def split: option.splits)

lemma stats_io_quiet: "MakeServiceStats D ps n s = Some (t, b) \<Longrightarrow> dquiet D s (b\<lparr>io := w\<rparr>)"
  by (rule dquiet_trans[OF MakeServiceStats_quiet dquiet_updates(1)])

section \<open>Handlers\<close>

lemma verified_keeps: "dkeeps D k \<Longrightarrow> dkeeps D (verified p k)"
  by (auto simp: dkeeps_def verified_def with_daemon_def split: option.splits if_splits)

lemma json_params_keeps: "(\<And>j. dkeeps D (k j)) \<Longrightarrow> dkeeps D (json_params D req k)"
  by (auto simp: dkeeps_def json_params_def split: option.splits)

lemma keeps_cases [intro]:
  "dkeeps D (bad_info err)" "dkeeps D (\<lambda>s. Some (answer f s))"
  "dkeeps D (activation_fails D p req err code)"
  by (auto simp: dkeeps_def bad_info_def activation_fails_def intro: answer_quiet)

lemma stop_keeps: "dkeeps D (HandleRequestClientStopService D p req)"
proof -
  have "dkeeps D (json_params D req (\<lambda>jstop s.
      case de_stop_info D jstop of
        Some err_des \<Rightarrow> bad_info err_des s
      | None \<Rightarrow> (case answer (StopSuccess (de_io D) p (rq_id req)) s of (s1, err) \<Rightarrow> Some (StopImpl s1, err))))"
    by (rule json_params_keeps)
       (auto simp: dkeeps_def bad_info_def split: option.splits prod.splits
         intro: dquiet_trans[OF answer_quiet(1)])
  from dkeepsD[OF this] show ?thesis
    by (auto simp: dkeeps_def HandleRequestClientStopService_def with_daemon_def split: option.splits if_splits)
qed

lemma ping_service_keeps: "dkeeps D (HandleRequestClientPingService D p req)"
  unfolding HandleRequestClientPingService_def
  by (intro verified_keeps json_params_keeps)
     (auto simp: dkeeps_def bad_info_def split: option.splits intro: answer_quiet)

lemma sync_keeps: "dkeeps D (HandleRequestClientSyncService D p req)"
  unfolding HandleRequestClientSyncService_def
  by (intro verified_keeps json_params_keeps)
     (auto simp: dkeeps_def bad_info_def split: sum.splits intro: answer_quiet)

lemma get_log_keeps: "dkeeps D (HandleRequestClientGetLogService D p req)"
  unfolding HandleRequestClientGetLogService_def
  by (intro verified_keeps json_params_keeps)
     (auto simp: dkeeps_def Let_def split: sum.splits if_splits prod.splits option.splits
       intro: answer_quiet dquiet_after)

lemma notification_dquiet:
  fixes s s' :: "('io, 'db, 'a) process_scheme"
  assumes "SendSubscriberNotification C uid dev msg s = Some (s', e)"
  shows "dquiet D s s'"
proof -
  have "\<exists>w. s' = s\<lparr>io := w\<rparr> \<or> s' = s" using assms
    by (auto simp: SendSubscriberNotification_def split: option.splits prod.splits)
  then show ?thesis by auto
qed

lemma send_message_keeps: "dkeeps D (HandleRequestClientSendMessageForSubscriber D p req)"
  unfolding HandleRequestClientSendMessageForSubscriber_def
  by (intro verified_keeps json_params_keeps)
     (auto simp: dkeeps_def bad_info_def split: sum.splits option.splits
       intro: dquiet_trans[OF notification_dquiet answer_quiet(1)]
         dquiet_trans[OF notification_dquiet answer_quiet(2)])

lemma prepare_keeps: "dkeeps D (HandleRequestClientPrepareService D p req)"
  unfolding HandleRequestClientPrepareService_def
  by (intro verified_keeps json_params_keeps)
     (auto simp: dkeeps_def bad_info_def Let_def SetupCatchupsEndpoint_def split: sum.splits option.splits
       intro: dquiet_trans[OF dquiet_updates(4) answer_quiet(1)])

lemma set_verified_quiet:
  assumes "daemons s p = Some c" and "cf_license_key (de_config D) = Some key"
    and "de_expire_time D key = Some tm"
  shows "dquiet D s (s\<lparr>daemons := (daemons s)(p \<mapsto> SetVerified tm c)\<rparr>)"
  using assms by (auto simp: dquiet_def licensed_def SetVerified_def)

lemma finish_activation_quiet:
  assumes "finish_activation D ps p req tm s = Some (s', e)"
    and "cf_license_key (de_config D) = Some key" and "de_expire_time D key = Some tm"
  shows "dquiet D s s'"
proof -
  obtain t s1 where t: "MakeServiceStats D ps tm s = Some (t, s1)"
    using assms(1) by (auto simp: finish_activation_def split: option.splits)
  obtain s2 err where s2: "answer (ActivateSuccess (de_io D) p (rq_id req) t) s1 = (s2, err)" by fastforce
  have "dquiet D s s2" by (rule dquiet_trans[OF MakeServiceStats_quiet[OF t] answer_quiet(1)[OF s2]])
  moreover have "dquiet D s2 s'"
    using assms t s2 set_verified_quiet[OF _ assms(2,3)]
    by (auto simp: finish_activation_def with_daemon_def split: option.splits)
  ultimately show ?thesis by (rule dquiet_trans)
qed

lemma activate_keeps: "dkeeps D (HandleRequestClientActivate_daemon D ps p req)"
  unfolding HandleRequestClientActivate_daemon_def
  by (rule json_params_keeps)
     (auto simp: dkeeps_def activation_fails_def split: sum.splits option.splits if_splits
       intro: answer_quiet finish_activation_quiet)

lemma request_keeps: "dkeeps D (HandleRequestServiceCommand D ps p req)"
  unfolding HandleRequestServiceCommand_def
  by (simp add: stop_keeps ping_service_keeps activate_keeps prepare_keeps sync_keeps get_log_keeps
      send_message_keeps) (simp add: dkeeps_def)

lemma warn_response_same: "warn_response resp s = Some (t, e) \<Longrightarrow> t = s"
  by (auto simp: warn_response_def split: option.splits)

lemma response_ignored_same: "response_ignored D m resp s = Some (t, e) \<Longrightarrow> t = s"
  by (auto simp: response_ignored_def Let_def split: option.splits if_splits dest: warn_response_same)

lemma daemon_response_defined:
  "rs_id resp \<noteq> None \<Longrightarrow> warn_response resp s \<noteq> None"
  "rs_id resp \<noteq> None \<Longrightarrow> response_ignored D m resp s \<noteq> None"
  by (auto simp: warn_response_def response_ignored_def Let_def split: option.split)

lemma daemon_response_keeps: "dkeeps D (HandleResponceServiceCommand D p resp)"
  unfolding HandleResponceServiceCommand_def
  by (rule verified_keeps)
     (auto simp: dkeeps_def split: prod.splits option.splits dest!: warn_response_same response_ignored_same)

lemma daemon_data_quiet:
  assumes "DataReceived_daemon D ps p s = Some s'"
  shows "dquiet D s s'"
proof -
  have "dquiet D s t" if "DaemonDataReceived D ps p s = Some (t, e)" for t e
    using that
    by (auto simp: DaemonDataReceived_def Let_def split: prod.splits sum.splits option.splits
        dest: dkeepsD[OF request_keeps] dkeepsD[OF daemon_response_keeps] intro: dquiet_after)
  then show ?thesis using assms
    by (auto simp: DataReceived_daemon_def split: option.splits prod.splits intro: dquiet_trans)
qed

lemma ping_daemon_quiet: "ping_daemon D p s = Some s' \<Longrightarrow> dquiet D s s'"
  by (auto simp: ping_daemon_def split: option.splits prod.splits if_splits intro: dquiet_after)

lemma ping_daemons_quiet: "opt_fold (ping_daemon D) ps s = Some s' \<Longrightarrow> dquiet D s s'"
  by (induction ps arbitrary: s) (auto split: option.splits intro: dquiet_trans[OF ping_daemon_quiet])

lemma daemon_timer_quiet:
  assumes "TimerEmited_daemon D ps tid s = Some s'"
  shows "dquiet D s s'"
  using assms
  by (auto simp: TimerEmited_daemon_def StatisitcServiceBroadcast_def BroadcastClients_eq
      CheckLicenseExpired_def split: if_splits option.splits
      dest: ping_daemons_quiet intro: stats_io_quiet)

section \<open>No deleted object is touched\<close>

text \<open>\<open>loop_clients\<close>: what \<open>GetClients()\<close> of the daemon server gives.\<close>

definition loop_clients :: "ptr list \<Rightarrow> ('io, 'db, 'a) process_scheme \<Rightarrow> bool" where
  "loop_clients ps s \<longleftrightarrow> distinct ps \<and> set ps = dom (daemons s)"

lemma verified_count_eq:
  assumes "loop_clients ps s"
  shows "verified_count s ps = Some (card {p. \<exists>c. daemons s p = Some c \<and> dc_verified c})"
proof -
  have count: "opt_fold (\<lambda>p n. case daemons s p of None \<Rightarrow> None
        | Some c \<Rightarrow> Some (if dc_verified c then n + 1 else n)) ps k =
      Some (k + length (filter (\<lambda>p. \<exists>c. daemons s p = Some c \<and> dc_verified c) ps))"
    if "set ps \<subseteq> dom (daemons s)" for ps k
    using that by (induction ps arbitrary: k) (auto split: option.splits)
  have "{p. \<exists>c. daemons s p = Some c \<and> dc_verified c} =
      set (filter (\<lambda>p. \<exists>c. daemons s p = Some c \<and> dc_verified c) ps)"
    using assms by (auto simp: loop_clients_def)
  then show ?thesis
    using assms count[of ps 0] distinct_card[of "filter (\<lambda>p. \<exists>c. daemons s p = Some c \<and> dc_verified c) ps"]
    by (simp add: verified_count_def loop_clients_def)
qed

text \<open>The files of the system can be read.\<close>

definition machine_readable :: "('j, 'io, 'os) daemon_env \<Rightarrow> 'io \<Rightarrow> bool" where
  "machine_readable D w \<longleftrightarrow> cpu_now D w \<noteq> None \<and> net_now D w \<noteq> None"

lemma stats_daemons: "MakeServiceStats D ps n s = Some (t, s') \<Longrightarrow> daemons s' = daemons s"
  by (auto simp: MakeServiceStats_def Let_def split: option.splits)

lemma stats_total:
  assumes "loop_clients ps s" and "machine_readable D (io s)"
  shows "\<exists>t s'. MakeServiceStats D ps n s = Some (t, s') \<and> daemons s' = daemons s"
  using assms(2) by (auto simp: MakeServiceStats_def verified_count_eq[OF assms(1)] machine_readable_def Let_def)

lemma broadcast_total: "loop_clients ps s \<Longrightarrow> \<exists>s'. BroadcastClients D ps req s = Some s'"
  by (auto simp: BroadcastClients_eq loop_clients_def dom_def)

lemma notification_total:
  assumes "session_inv s"
  shows "SendSubscriberNotification C uid dev msg s \<noteq> None"
proof (cases "find (\<lambda>p. ai_device (identity_of s p) = dev) (connections_of s uid)")
  case None
  then show ?thesis using notification_target[OF assms, of uid dev C msg] by simp
next
  case (Some p)
  then obtain c where "SendSubscriberNotification C uid dev msg s =
      (case SendNotification C p c msg (io s) of (w, e) \<Rightarrow> Some (s\<lparr>io := w\<rparr>, map_option ErrFromErrno e))"
    using notification_target[OF assms, of uid dev C msg] by auto
  then show ?thesis by (simp split: prod.splits)
qed

lemma online_total:
  assumes "session_inv s"
  shows "GetOnlineSubscribers (SetupCatchupsEndpoint e s) \<noteq> None"
proof -
  have "session_inv (SetupCatchupsEndpoint e s)"
    using assms session_inv_view[of "SetupCatchupsEndpoint e s" s]
    by (simp add: SetupCatchupsEndpoint_def view_def fun_eq_iff)
  then show ?thesis using online_subscribers by fastforce
qed

lemma json_params_total:
  "(\<And>j. k j s \<noteq> None) \<Longrightarrow> json_params D req k s \<noteq> None"
  by (simp add: json_params_def split: option.splits)

lemma verified_total: "daemons s p \<noteq> None \<Longrightarrow> k s \<noteq> None \<Longrightarrow> verified p k s \<noteq> None"
  by (auto simp: verified_def with_daemon_def)

lemma request_total:
  assumes inv: "session_inv s" and ps: "loop_clients ps s" and p: "p \<in> set ps"
    and key: "cf_license_key (de_config D) \<noteq> None" and files: "machine_readable D (io s)"
  shows "HandleRequestServiceCommand D ps p req s \<noteq> None"
proof -
  have live: "daemons s p \<noteq> None" using ps p by (auto simp: loop_clients_def)
  note total = verified_total[OF live] json_params_total
  have "HandleRequestClientStopService D p req s \<noteq> None"
    using live json_params_total[of "\<lambda>j s. case de_stop_info D j of Some err_des \<Rightarrow> bad_info err_des s
        | None \<Rightarrow> (case answer (StopSuccess (de_io D) p (rq_id req)) s of (s1, err) \<Rightarrow> Some (StopImpl s1, err))" s D req]
    by (auto simp: HandleRequestClientStopService_def with_daemon_def bad_info_def split: option.splits prod.splits)
  moreover have "HandleRequestClientPingService D p req s \<noteq> None"
    unfolding HandleRequestClientPingService_def
    by (intro total) (simp add: bad_info_def split: option.splits)
  moreover have "HandleRequestClientSyncService D p req s \<noteq> None"
    unfolding HandleRequestClientSyncService_def
    by (intro total) (simp add: bad_info_def split: sum.splits)
  moreover have "HandleRequestClientGetLogService D p req s \<noteq> None"
    unfolding HandleRequestClientGetLogService_def
    by (intro total) (simp add: Let_def split: sum.splits prod.splits option.splits)
  moreover have "HandleRequestClientSendMessageForSubscriber D p req s \<noteq> None"
    unfolding HandleRequestClientSendMessageForSubscriber_def
    by (intro total)
       (auto simp: bad_info_def notification_total[OF inv] simp del: not_None_eq split: sum.splits option.splits)
  moreover have "HandleRequestClientPrepareService D p req s \<noteq> None"
    unfolding HandleRequestClientPrepareService_def
    by (intro total)
       (auto simp: bad_info_def Let_def online_total[OF inv] simp del: not_None_eq
         split: sum.splits option.splits)
  moreover have "finish_activation D ps p req tm s \<noteq> None" for tm
    using stats_total[OF ps files, of tm] live
    by (auto simp: finish_activation_def with_daemon_def answer_def split: option.splits prod.splits)
  then have "HandleRequestClientActivate_daemon D ps p req s \<noteq> None"
    unfolding HandleRequestClientActivate_daemon_def using key
    by (intro json_params_total) (auto simp: activation_fails_def split: sum.splits option.splits)
  ultimately show ?thesis by (simp add: HandleRequestServiceCommand_def)
qed

text \<open>The one message that is not survived: a response without an identifier.\<close>

definition fatal_response :: "('j, 'io, 'os) daemon_env \<Rightarrow> ptr \<Rightarrow> ('io, 'db, 'a) process_scheme \<Rightarrow> bool" where
  "fatal_response D p s =
     (case snd (dn_read_command (de_io D) (io s) p) of
        Inl err \<Rightarrow> False
      | Inr buff \<Rightarrow>
          (case de_parse D buff of Inr (None, Some resp) \<Rightarrow> rs_id resp = None | _ \<Rightarrow> False))"

lemma daemon_data_total:
  assumes "session_inv s" and ps: "loop_clients ps s" and p: "p \<in> set ps" and fine: "\<not> fatal_response D p s"
    and key: "cf_license_key (de_config D) \<noteq> None" and files: "\<And>w. machine_readable D w"
  shows "\<exists>s'. DataReceived_daemon D ps p s = Some s'"
proof -
  have live: "daemons s p \<noteq> None" using ps p by (auto simp: loop_clients_def)
  have inv: "session_inv (s\<lparr>io := w\<rparr>)" for w using assms(1) session_inv_view[of "s\<lparr>io := w\<rparr>" s] by simp
  have "HandleRequestServiceCommand D ps p req (s\<lparr>io := w\<rparr>) \<noteq> None" for req w
    by (rule request_total[OF inv _ p key]) (use ps files in \<open>simp_all add: loop_clients_def\<close>)
  moreover have "HandleResponceServiceCommand D p resp (s\<lparr>io := w\<rparr>) \<noteq> None" if "rs_id resp \<noteq> None" for resp w
    unfolding HandleResponceServiceCommand_def using live daemon_response_defined[OF that]
    by (intro verified_total) (auto split: prod.splits option.splits)
  ultimately have "DaemonDataReceived D ps p s \<noteq> None"
    using fine by (auto simp: DaemonDataReceived_def fatal_response_def Let_def split: prod.splits sum.splits option.splits)
  then show ?thesis using live by (auto simp: DataReceived_daemon_def split: option.splits)
qed

section \<open>Runs of the process\<close>

text \<open>
  An event of the process: an event of the two servers, with what the observer does about it; a
  connection, data or a closing of a daemon; a timer of the daemon server; the loop that carries out
  a posted broadcast; its start and its end.
\<close>

definition observe ::
    "('j, 'io, 'os) daemon_env \<Rightarrow> ('io, 'db, 'a) process_scheme \<Rightarrow> ('io, 'db, 'a) process_scheme
     \<Rightarrow> ('io, 'db, 'a) process_scheme" where
  "observe D s t =
     fold (observe_event D) (drop (length (events s)) (events t))
       (fold (observe_notice D) (drop (length (notices s)) (notices t)) t)"

inductive process_step ::
    "('io, 'db) env \<Rightarrow> ('io, 'db) http_env \<Rightarrow> ('j, 'io, 'os) daemon_env
     \<Rightarrow> ('io, 'db, 'a) process_scheme \<Rightarrow> ('io, 'db, 'a) process_scheme \<Rightarrow> bool" for E H D where
  serves: "service_step E H (de_client_io D) s t \<Longrightarrow> process_step E H D s (observe D s t)"
| daemon_accepts: "p \<noteq> nullptr \<Longrightarrow> daemons s p = None \<Longrightarrow> process_step E H D s (accept_daemon p b s)"
| daemon_receives: "loop_clients ps s \<Longrightarrow> p \<in> set ps \<Longrightarrow> DataReceived_daemon D ps p s = Some s' \<Longrightarrow>
    process_step E H D s s'"
| daemon_closes: "daemons s p \<noteq> None \<Longrightarrow> process_step E H D s (drop_daemon D p s)"
| daemon_timer: "loop_clients ps s \<Longrightarrow> TimerEmited_daemon D ps tid s = Some s' \<Longrightarrow> process_step E H D s s'"
| broadcasts: "posted s = req # rest \<Longrightarrow> loop_clients ps s \<Longrightarrow>
    BroadcastClients D ps req (s\<lparr>posted := rest\<rparr>) = Some s' \<Longrightarrow> process_step E H D s s'"
| starts: "process_step E H D s (PreLooped_daemon D s)"
| ends: "process_step E H D s (PostLooped_daemon D s)"

text \<open>What every event keeps: the counters, the files, and the licenses of the verified daemons.\<close>

definition process_counts :: "('j, 'io, 'os) daemon_env \<Rightarrow> ('io, 'db, 'a) process_scheme \<Rightarrow> bool" where
  "process_counts D s \<longleftrightarrow>
     tallied s \<and> open_files s = [] \<and> (\<forall>p c. daemons s p = Some c \<longrightarrow> dc_verified c \<longrightarrow> licensed D c)"

definition process_inv :: "('j, 'io, 'os) daemon_env \<Rightarrow> ('io, 'db, 'a) process_scheme \<Rightarrow> bool" where
  "process_inv D s \<longleftrightarrow>
     service_inv s \<and> open_files s = [] \<and>
     (\<forall>p c. daemons s p = Some c \<longrightarrow> dc_verified c \<longrightarrow> licensed D c)"

lemma dquiet_process_inv:
  assumes "dquiet D s s'" and "process_inv D s"
  shows "process_inv D s'"
proof -
  have "service_inv s'"
    using assms by (auto simp: dquiet_def process_inv_def service_inv_def clients_def intro: books_inv_view)
  moreover have "licensed D c" if "daemons s' p = Some c" "dc_verified c" for p c
    using that assms by (auto simp: dquiet_def process_inv_def)
  ultimately show ?thesis using assms by (simp add: process_inv_def dquiet_def)
qed

lemma post_quiet: "dquiet D s (post r s)"
  by (auto simp: post_def split: sum.splits)

lemma observe_quiet: "dquiet D t (observe D s t)"
proof -
  have "dquiet D t (fold (observe_event D) es t)" for es t
    by (induction es arbitrary: t)
       (auto simp: observe_event_def OnSubscriberConnected_def OnSubscriberDisConnected_def
         split: sub_event.splits intro: dquiet_trans[OF post_quiet])
  moreover have "dquiet D t (fold (observe_notice D) ns t)" for ns t
    by (induction ns arbitrary: t)
       (auto simp: observe_notice_def OnCatchupCreated_def OnContentRequestCreated_def
         split: notice.splits intro: dquiet_trans[OF post_quiet])
  ultimately show ?thesis unfolding observe_def by (blast intro: dquiet_trans)
qed

lemma broadcast_quiet: "BroadcastClients D ps req s = Some s' \<Longrightarrow> dquiet D s s'"
  by (auto simp: BroadcastClients_eq split: if_splits)

lemma more_process: "service.more s' = service.more s \<Longrightarrow> daemons s' = daemons s"
  by (cases s, cases s') simp

lemma dquiet_counts:
  assumes "dquiet D s s'" and "process_counts D s"
  shows "process_counts D s'"
proof -
  have "licensed D c" if "daemons s' p = Some c" "dc_verified c" for p c
    using that assms by (auto simp: dquiet_def process_counts_def)
  then show ?thesis using assms by (simp add: process_counts_def dquiet_def tallied_def clients_def)
qed

text \<open>Every event but a service step and a new daemon is quiet.\<close>

lemma process_step_quiet:
  assumes "process_step E H D s s'"
  obtains (serves) t where "service_step E H (de_client_io D) s t" "s' = observe D s t"
  | (accepts) p b where "p \<noteq> nullptr" "daemons s p = None" "s' = accept_daemon p b s"
  | (quiet) "dquiet D s s'"
  using assms
proof (cases rule: process_step.cases)
  case (broadcasts req rest ps)
  then show ?thesis using quiet dquiet_trans[OF dquiet_updates(3) broadcast_quiet] by blast
next
  case starts
  then have "dquiet D s s'" by (auto simp: PreLooped_daemon_def Let_def split: prod.splits)
  then show ?thesis by (rule quiet)
next
  case ends
  then have "dquiet D s s'" by (simp add: PostLooped_daemon_def Let_def)
  then show ?thesis by (rule quiet)
qed (use that daemon_data_quiet drop_daemon_quiet daemon_timer_quiet in blast)+

lemma process_step_counts:
  assumes step: "process_step E H D s s'" and inv: "process_counts D s"
  shows "process_counts D s'"
  using step
proof (cases rule: process_step_quiet)
  case (serves t)
  from service_step_steady[OF serves(1)] have "tallied s \<longrightarrow> tallied t" "open_files t = open_files s"
    "daemons t = daemons s" by (auto simp: steady_def intro: more_process)
  then have "process_counts D t" using inv by (simp add: process_counts_def)
  then show ?thesis unfolding serves(2) by (rule dquiet_counts[OF observe_quiet])
next
  case (accepts p b)
  then show ?thesis using inv
    by (auto simp: process_counts_def accept_daemon_def ProtocoledDaemonClient_new_def tallied_def clients_def)
next
  case quiet
  then show ?thesis by (rule dquiet_counts[OF _ inv])
qed

lemma process_steps_counts:
  assumes "(process_step E H D)\<^sup>*\<^sup>* s s'" and "process_counts D s"
  shows "process_counts D s'"
  using assms by (induction rule: rtranclp_induct) (auto dest: process_step_counts)

lemma process_inv_counts: "process_inv D s \<Longrightarrow> process_counts D s"
  using service_inv_tallied by (auto simp: process_inv_def process_counts_def)

lemma process_step_inv:
  assumes B: "bson_laws (env_bson E)" "bson_laws (he_bson H)"
    and step: "process_step E H D s s'" and once: "\<not> registers_again s s'" and inv: "process_inv D s"
  shows "process_inv D s'"
  using step
proof (cases rule: process_step_quiet)
  case (serves t)
  have "connections s' = connections t"
    using observe_quiet[of D t s] unfolding serves(2) by (simp add: dquiet_def)
  then have "\<not> registers_again s t" using once registers_again_cong[of s s s' t] by simp
  moreover have "service_inv s" using inv by (simp add: process_inv_def)
  ultimately have "service_inv t" "open_files t = open_files s" "daemons t = daemons s"
    using service_step_inv[OF B serves(1)] by (auto intro: more_process)
  then have "process_inv D t" using inv by (simp add: process_inv_def)
  then show ?thesis unfolding serves(2) by (rule dquiet_process_inv[OF observe_quiet])
next
  case (accepts p b)
  have "service_inv s'" "open_files s' = open_files s"
    using inv unfolding accepts(3)
    by (auto simp: process_inv_def accept_daemon_def service_inv_def clients_def intro: books_inv_view)
  then show ?thesis using inv unfolding accepts(3)
    by (auto simp: process_inv_def accept_daemon_def ProtocoledDaemonClient_new_def)
next
  case quiet
  then show ?thesis by (rule dquiet_process_inv[OF _ inv])
qed

lemma process_steps_inv:
  assumes "bson_laws (env_bson E)" and "bson_laws (he_bson H)"
    and "(single_logins (process_step E H D))\<^sup>*\<^sup>* s s'" and "process_inv D s"
  shows "process_inv D s'"
  using assms(3,4)
  by (induction rule: rtranclp_induct) (auto dest!: single_loginsD dest: process_step_inv[OF assms(1,2)])

end
