(* ===== verification/Json_Roundtrip.thy ===== *)
theory Json_Roundtrip
  imports Json_Info Samples
begin

text \<open>
  What a class reads from an object that the same class has filled.  The fields of the libraries'
  classes lie under keys of their own, and the values the JSON library keeps exactly are texts
  without a NUL, integers of 64 bits and unsigned integers below 2 to the 63.
\<close>

section \<open>Laws of the JSON library\<close>

definition nul_free :: "string \<Rightarrow> bool" where
  "nul_free t \<longleftrightarrow> CHR 0x00 \<notin> set t"

definition int64 :: "int \<Rightarrow> bool" where
  "int64 n \<longleftrightarrow> - (2 ^ 63) \<le> n \<and> n < 2 ^ 63"

definition small64 :: "64 word \<Rightarrow> bool" where
  "small64 w \<longleftrightarrow> uint w < 2 ^ 63"

definition same_field :: "'j json_lib \<Rightarrow> string \<Rightarrow> 'j \<Rightarrow> 'j \<Rightarrow> bool" where
  "same_field J k j j' \<longleftrightarrow>
     jl_get_string J j k = jl_get_string J j' k \<and> jl_get_int64 J j k = jl_get_int64 J j' k \<and>
     jl_get_uint64 J j k = jl_get_uint64 J j' k \<and> jl_get_object J j k = jl_get_object J j' k \<and>
     jl_get_array J j k = jl_get_array J j' k"

definition json_laws :: "'j json_lib \<Rightarrow> bool" where
  "json_laws J \<longleftrightarrow>
     (\<forall>j k v. nul_free v \<longrightarrow> jl_get_string J (jl_set_string J j k v) k = Inr v) \<and>
     (\<forall>j k n. int64 n \<longrightarrow> jl_get_int64 J (jl_set_int64 J j k n) k = Inr n) \<and>
     (\<forall>j k w. small64 w \<longrightarrow> jl_get_uint64 J (jl_set_uint64 J j k w) k = Inr w) \<and>
     (\<forall>j k obj. jl_get_object J (jl_set_object J j k obj) k = Inr obj) \<and>
     (\<forall>j k ar. jl_get_array J (jl_set_array J j k ar) k = Inr ar) \<and>
     (\<forall>j k k' v. k \<noteq> k' \<longrightarrow> same_field J k' (jl_set_string J j k v) j) \<and>
     (\<forall>j k k' n. k \<noteq> k' \<longrightarrow> same_field J k' (jl_set_int64 J j k n) j) \<and>
     (\<forall>j k k' w. k \<noteq> k' \<longrightarrow> same_field J k' (jl_set_uint64 J j k w) j) \<and>
     (\<forall>j k k' obj. k \<noteq> k' \<longrightarrow> same_field J k' (jl_set_object J j k obj) j) \<and>
     (\<forall>j k k' ar. k \<noteq> k' \<longrightarrow> same_field J k' (jl_set_array J j k ar) j)"

text \<open>A class of a library touches and reads the fields under its own keys only.\<close>

definition part_laws :: "'j json_lib \<Rightarrow> string set \<Rightarrow> ('p \<Rightarrow> bool) \<Rightarrow> ('j, 'p) json_part \<Rightarrow> bool" where
  "part_laws J K ok P \<longleftrightarrow>
     (\<forall>x j j'. ok x \<longrightarrow> pt_set P x j = Inr j' \<longrightarrow>
        pt_get P j' = Inr x \<and> (\<forall>k. k \<notin> K \<longrightarrow> same_field J k j' j)) \<and>
     (\<forall>j j'. (\<forall>k \<in> K. same_field J k j j') \<longrightarrow> pt_get P j = pt_get P j')"

definition host_laws :: "'j json_lib \<Rightarrow> host \<Rightarrow> bool" where
  "host_laws J h \<longleftrightarrow> nul_free (jl_host_text J h) \<and> jl_host_of_text J (jl_host_text J h) = Some h"

lemma json_get:
  assumes "json_laws J"
  shows "nul_free v \<Longrightarrow> jl_get_string J (jl_set_string J j k v) k = Inr v"
    and "int64 n \<Longrightarrow> jl_get_int64 J (jl_set_int64 J j k n) k = Inr n"
    and "small64 w \<Longrightarrow> jl_get_uint64 J (jl_set_uint64 J j k w) k = Inr w"
    and "jl_get_object J (jl_set_object J j k obj) k = Inr obj"
    and "jl_get_array J (jl_set_array J j k ar) k = Inr ar"
  using assms by (simp_all add: json_laws_def)

lemma json_frame:
  assumes "json_laws J" and "k \<noteq> k'"
  shows "same_field J k' (jl_set_string J j k v) j" and "same_field J k' (jl_set_int64 J j k n) j"
    and "same_field J k' (jl_set_uint64 J j k w) j" and "same_field J k' (jl_set_object J j k obj) j"
    and "same_field J k' (jl_set_array J j k ar) j"
  using assms by (simp_all add: json_laws_def)

lemma same_fieldD:
  assumes "same_field J k j j'"
  shows "jl_get_string J j k = jl_get_string J j' k" and "jl_get_int64 J j k = jl_get_int64 J j' k"
    and "jl_get_uint64 J j k = jl_get_uint64 J j' k" and "jl_get_object J j k = jl_get_object J j' k"
    and "jl_get_array J j k = jl_get_array J j' k"
  using assms by (simp_all add: same_field_def)

lemma same_field_trans: "same_field J k j j' \<Longrightarrow> same_field J k j' j'' \<Longrightarrow> same_field J k j j''"
  by (simp add: same_field_def)

lemma same_field_sym: "same_field J k j j' \<Longrightarrow> same_field J k j' j"
  by (simp add: same_field_def)

lemma json_other:
  assumes "json_laws J" and "k \<noteq> k'"
  shows "jl_get_string J (jl_set_string J j k v) k' = jl_get_string J j k'"
    and "jl_get_string J (jl_set_int64 J j k n) k' = jl_get_string J j k'"
    and "jl_get_string J (jl_set_object J j k obj) k' = jl_get_string J j k'"
    and "jl_get_int64 J (jl_set_string J j k v) k' = jl_get_int64 J j k'"
    and "jl_get_int64 J (jl_set_object J j k obj) k' = jl_get_int64 J j k'"
    and "jl_get_uint64 J (jl_set_uint64 J j k w) k' = jl_get_uint64 J j k'"
    and "jl_get_object J (jl_set_object J j k obj) k' = jl_get_object J j k'"
  by (simp_all add: same_fieldD(1)[OF json_frame(1)[OF assms]] same_fieldD(1)[OF json_frame(2)[OF assms]]
      same_fieldD(1)[OF json_frame(4)[OF assms]] same_fieldD(2)[OF json_frame(1)[OF assms]]
      same_fieldD(2)[OF json_frame(4)[OF assms]] same_fieldD(3)[OF json_frame(3)[OF assms]]
      same_fieldD(4)[OF json_frame(4)[OF assms]])

lemma part_get:
  assumes "part_laws J K ok P" and "ok x" and "pt_set P x j = Inr j'"
  shows "pt_get P j' = Inr x" and "k \<notin> K \<Longrightarrow> same_field J k j' j"
  using assms by (auto simp: part_laws_def)

lemma part_cong:
  assumes "part_laws J K ok P" and "\<And>k. k \<in> K \<Longrightarrow> same_field J k j j'"
  shows "pt_get P j = pt_get P j'"
  using assms by (auto simp: part_laws_def)

section \<open>Classes that read what they write\<close>

locale json_class =
  fixes J :: "'j json_lib"
    and fill :: "'x \<Rightarrow> 'j \<Rightarrow> error + 'j"
    and get :: "'j \<Rightarrow> error + 'x"
    and ok :: "'x \<Rightarrow> bool"
  assumes read_back: "ok x \<Longrightarrow> fill x j = Inr j' \<Longrightarrow> get j' = Inr x"
begin

lemma serialized: "ok x \<Longrightarrow> Serialize J (fill x) = Inr j \<Longrightarrow> get j = Inr x"
  by (simp add: Serialize_def read_back)

lemma printed:
  assumes "ok x" and "SerializeToString J (fill x) = Inr t"
    and "\<And>j. Serialize J (fill x) = Inr j \<Longrightarrow> jl_parse J (jl_print J j) = Some j"
  shows "\<exists>j. jl_parse J t = Some j \<and> get j = Inr x"
proof -
  obtain j where "Serialize J (fill x) = Inr j" "t = jl_print J j"
    using assms(2) by (cases "Serialize J (fill x)") (auto simp: SerializeToString_def)
  then show ?thesis using assms(1,3) serialized by auto
qed

end

definition front_ok :: "front_subscriber_info \<Rightarrow> bool" where
  "front_ok f \<longleftrightarrow>
     nul_free (fs_uid f) \<and> nul_free (fs_login f) \<and> nul_free (fs_device f) \<and> int64 (fs_exp_date f)"

interpretation front_json: json_class J "FrontSubscriberInfo_SerializeFields J"
    "FrontSubscriberInfo_DoDeSerialize J" "\<lambda>f. json_laws J \<and> front_ok f" for J
proof
  fix x j j'
  assume ok: "json_laws J \<and> front_ok x" and j': "FrontSubscriberInfo_SerializeFields J x j = Inr j'"
  then show "FrontSubscriberInfo_DoDeSerialize J j' = Inr x"
    by (auto simp: FrontSubscriberInfo_SerializeFields_def FrontSubscriberInfo_DoDeSerialize_def Let_def
        front_ok_def json_get json_other split: if_splits)
qed

definition prepare_ok :: "'j json_lib \<Rightarrow> fastotv_lib \<Rightarrow> prepare_info \<Rightarrow> bool" where
  "prepare_ok J L p \<longleftrightarrow>
     host_laws J (pi_catchups_host p) \<and> nul_free (fl_dir_path L (pi_catchups_http_root p)) \<and>
     DirPath (fl_dir_path L (pi_catchups_http_root p)) = pi_catchups_http_root p"

interpretation prepare_json: json_class J "PrepareInfo_SerializeFields J L" "PrepareInfo_DoDeSerialize J"
    "\<lambda>p. json_laws J \<and> prepare_ok J L p" for J L
proof
  fix x j j'
  assume ok: "json_laws J \<and> prepare_ok J L x" and j': "PrepareInfo_SerializeFields J L x j = Inr j'"
  then show "PrepareInfo_DoDeSerialize J j' = Inr x"
    by (auto simp: PrepareInfo_SerializeFields_def PrepareInfo_DoDeSerialize_def Let_def prepare_ok_def
        host_laws_def json_get json_other)
qed

interpretation auth_json: json_class J "ServerDBAuthInfo_SerializeFields J L P"
    "ServerDBAuthInfo_DoDeSerialize J P"
    "\<lambda>a. json_laws J \<and> part_laws J K ok P \<and> ''id'' \<notin> K \<and> nul_free (db_uid a) \<and> ok (server_auth_info.truncate a)"
    for J L P K ok
proof
  fix x :: server_db_auth and j j'
  assume ok: "json_laws J \<and> part_laws J K ok P \<and> ''id'' \<notin> K \<and> nul_free (db_uid x) \<and>
      ok (server_auth_info.truncate x)"
    and "ServerDBAuthInfo_SerializeFields J L P x j = Inr j'"
  then have "pt_set P (server_auth_info.truncate x) (jl_set_string J j ''id'' (db_uid x)) = Inr j'"
    by (auto simp: ServerDBAuthInfo_SerializeFields_def split: if_splits)
  from part_get[OF _ _ this, of J K ok] ok
  have "pt_get P j' = Inr (server_auth_info.truncate x)"
    and "same_field J ''id'' j' (jl_set_string J j ''id'' (db_uid x))" by auto
  moreover from same_fieldD(1)[OF this(2)] ok have "jl_get_string J j' ''id'' = Inr (db_uid x)"
    by (simp add: json_get)
  ultimately show "ServerDBAuthInfo_DoDeSerialize J P j' = Inr x"
    by (simp add: ServerDBAuthInfo_DoDeSerialize_def ServerDBAuthInfo_make_def server_auth_info.defs)
qed

section \<open>The statistics\<close>

definition online_ok :: "online_users \<Rightarrow> bool" where
  "online_ok u \<longleftrightarrow> small64 (ol_daemon u) \<and> small64 (ol_http u) \<and> small64 (ol_subscribers u)"

lemma online_users_back:
  assumes "json_laws J" and "online_ok u" and "OnlineUsers_SerializeFields J u j = Inr j'"
  shows "OnlineUsers_DoDeSerialize J j' = Some (Inr u)"
  using assms
  by (auto simp: OnlineUsers_SerializeFields_def OnlineUsers_DoDeSerialize_def online_ok_def json_get
      json_other)

definition server_ok ::
    "'j json_lib \<Rightarrow> string set \<Rightarrow> (machine_info \<Rightarrow> bool) \<Rightarrow> ('j, machine_info) json_part
     \<Rightarrow> 'a server_info_scheme \<Rightarrow> bool" where
  "server_ok J K ok P i \<longleftrightarrow>
     json_laws J \<and> part_laws J K ok P \<and> ''online_users'' \<notin> K \<and> ok (machine_info.truncate i) \<and>
     online_ok (si_online_users i)"

lemma server_fields_frame:
  assumes ok: "server_ok J K ok P i" and j': "ServerInfo_SerializeFields J P i j = Inr j'"
    and k: "k \<notin> K" "k \<noteq> ''online_users''"
  shows "same_field J k j' j"
proof -
  from j' obtain j1 obj where j1: "pt_set P (machine_info.truncate i) j = Inr j1"
    "j' = jl_set_object J j1 ''online_users'' obj"
    by (auto simp: ServerInfo_SerializeFields_def split: sum.splits)
  have "same_field J k j' j1" using j1(2) ok k(2) json_frame(4)[of J "''online_users''" k] by (auto simp: server_ok_def)
  moreover have "same_field J k j1 j"
    using part_get(2)[OF _ _ j1(1) k(1)] ok by (auto simp: server_ok_def)
  ultimately show ?thesis by (rule same_field_trans)
qed

lemma server_fields_back:
  assumes ok: "server_ok J K ok P i" and j': "ServerInfo_SerializeFields J P i j = Inr j'"
  shows "ServerInfo_DoDeSerialize J P j' =
    Some (Inr (ServerInfo_make (machine_info.truncate i) (si_online_users i)))"
proof -
  from j' obtain j1 obj where j1: "pt_set P (machine_info.truncate i) j = Inr j1"
    and obj: "Serialize J (OnlineUsers_SerializeFields J (si_online_users i)) = Inr obj"
      "j' = jl_set_object J j1 ''online_users'' obj"
    by (auto simp: ServerInfo_SerializeFields_def split: sum.splits)
  have "pt_get P j1 = Inr (machine_info.truncate i)"
    using part_get(1)[OF _ _ j1] ok by (auto simp: server_ok_def)
  moreover have "pt_get P j' = pt_get P j1"
  proof (rule part_cong)
    show "part_laws J K ok P" using ok by (simp add: server_ok_def)
    show "same_field J k j' j1" if "k \<in> K" for k
      using that obj(2) ok json_frame(4)[of J "''online_users''" k] by (auto simp: server_ok_def)
  qed
  moreover have "OnlineUsers_DoDeSerialize J obj = Some (Inr (si_online_users i))"
    using online_users_back obj(1) ok by (auto simp: server_ok_def Serialize_def)
  ultimately show ?thesis
    using obj(2) ok by (simp add: ServerInfo_DoDeSerialize_def json_get server_ok_def)
qed

lemma server_info_parts: "ServerInfo_make (machine_info.truncate i) (si_online_users i) = server_info.truncate i"
  by (simp add: ServerInfo_make_def machine_info.defs server_info.defs)

definition full_ok ::
    "'j json_lib \<Rightarrow> string set \<Rightarrow> (machine_info \<Rightarrow> bool) \<Rightarrow> ('j, machine_info) json_part
     \<Rightarrow> string set \<Rightarrow> ('os \<Rightarrow> bool) \<Rightarrow> ('j, 'os) json_part \<Rightarrow> 'os full_service_info \<Rightarrow> bool" where
  "full_ok J K ok P K' ok' Q i \<longleftrightarrow>
     server_ok J K ok P i \<and> part_laws J K' ok' Q \<and> ok' (fi_os i) \<and>
     K \<inter> {''http_host'', ''expiration_time'', ''project'', ''version'', ''os''} = {} \<and>
     host_laws J (fi_http_host i) \<and> int64 (fi_exp_time i) \<and> nul_free (fi_project i) \<and>
     nul_free (fi_version i)"

lemma full_fields_back:
  assumes ok: "full_ok J K ok P K' ok' Q i" and j': "FullServiceInfo_SerializeFields J P Q i j = Inr j'"
  shows "FullServiceInfo_DoDeSerialize J P Q V j' = Some (Inr i)"
proof -
  obtain jos where jos: "pt_set Q (fi_os i) (jl_new J) = Inr jos"
    and j5: "ServerInfo_SerializeFields J P i
       (jl_set_object J (jl_set_string J (jl_set_string J (jl_set_int64 J (jl_set_string J j
          ''http_host'' (jl_host_text J (fi_http_host i))) ''expiration_time'' (fi_exp_time i))
          ''project'' (fi_project i)) ''version'' (fi_version i)) ''os'' jos) = Inr j'"
      (is "ServerInfo_SerializeFields J P i ?j5 = _")
    using j' by (auto simp: FullServiceInfo_SerializeFields_def Serialize_def Let_def split: sum.splits)
  have s: "server_ok J K ok P i" and J: "json_laws J" and h: "host_laws J (fi_http_host i)"
    and v: "int64 (fi_exp_time i)" "nul_free (fi_project i)" "nul_free (fi_version i)"
    using ok by (simp_all add: full_ok_def server_ok_def)
  have frame: "same_field J k j' ?j5"
    if "k \<in> {''http_host'', ''expiration_time'', ''project'', ''version'', ''os''}" for k
    using server_fields_frame[OF s j5] ok that by (auto simp: full_ok_def)
  have "jl_get_string J j' ''http_host'' = Inr (jl_host_text J (fi_http_host i))"
    using same_fieldD(1)[OF frame, of "''http_host''"] J h by (simp add: json_get json_other host_laws_def)
  moreover have "jl_get_int64 J j' ''expiration_time'' = Inr (fi_exp_time i)"
    using same_fieldD(2)[OF frame, of "''expiration_time''"] J v by (simp add: json_get json_other)
  moreover have "jl_get_string J j' ''project'' = Inr (fi_project i)"
    using same_fieldD(1)[OF frame, of "''project''"] J v by (simp add: json_get json_other)
  moreover have "jl_get_string J j' ''version'' = Inr (fi_version i)"
    using same_fieldD(1)[OF frame, of "''version''"] J v by (simp add: json_get json_other)
  moreover have "jl_get_object J j' ''os'' = Inr jos"
    using same_fieldD(4)[OF frame, of "''os''"] J by (simp add: json_get json_other)
  moreover have "pt_get Q jos = Inr (fi_os i)"
    using part_get(1)[OF _ _ jos, of J K' ok'] ok by (auto simp: full_ok_def)
  moreover have "server_info.extend (server_info.truncate i)
      \<lparr>fi_http_host = fi_http_host i, fi_exp_time = fi_exp_time i, fi_project = fi_project i,
       fi_version = fi_version i, fi_os = fi_os i\<rparr> = i"
    by (cases i) (simp add: server_info.defs full_service_info.defs)
  ultimately show ?thesis
    using server_fields_back[OF s j5] h
    by (simp add: FullServiceInfo_DoDeSerialize_def server_info_parts host_laws_def Let_def)
qed

end
