(* ===== verification/Daemon_Properties.thy ===== *)
theory Daemon_Properties
  imports Process_Run Json_Roundtrip Service_Properties "HOL-Library.Countable"
begin

text \<open>
  What the process guarantees to its daemons: the invariant of the whole process, the statistics it
  reports, who may give orders, what is broadcast to whom, and what the JSON classes keep.
\<close>

section \<open>A small process\<close>

datatype jval = JStr string | JInt int | JUInt "64 word" | JObj "(string \<times> jval) list" | JArr "jval list"

fun jput :: "jval \<Rightarrow> string \<Rightarrow> jval \<Rightarrow> jval" where
  "jput (JObj es) k v = JObj ((k, v) # es)"
| "jput j k v = JObj [(k, v)]"

fun jlook :: "jval \<Rightarrow> string \<Rightarrow> jval option" where
  "jlook (JObj es) k = map_of es k"
| "jlook j k = None"

instance jval :: countable
  by countable_datatype

text \<open>
  The text of a document is as long as its number.  With a document \<open>doc\<close>, every text is parsed to
  it.
\<close>

definition sample_json :: "jval option \<Rightarrow> jval json_lib" where
  "sample_json doc =
     \<lparr>jl_new = JObj [], jl_set_string = (\<lambda>j k v. jput j k (JStr v)),
      jl_set_int64 = (\<lambda>j k n. jput j k (JInt n)), jl_set_uint64 = (\<lambda>j k w. jput j k (JUInt w)),
      jl_set_object = jput, jl_set_array = (\<lambda>j k js. jput j k (JArr js)),
      jl_get_string = (\<lambda>j k. case jlook j k of Some (JStr t) \<Rightarrow> Inr t | _ \<Rightarrow> Inl ErrInval),
      jl_get_int64 = (\<lambda>j k. case jlook j k of Some (JInt n) \<Rightarrow> Inr n | _ \<Rightarrow> Inl ErrInval),
      jl_get_uint64 = (\<lambda>j k. case jlook j k of Some (JUInt w) \<Rightarrow> Inr w | _ \<Rightarrow> Inl ErrInval),
      jl_get_object = (\<lambda>j k. case jlook j k of Some v \<Rightarrow> Inr v | _ \<Rightarrow> Inl ErrInval),
      jl_get_array = (\<lambda>j k. case jlook j k of Some (JArr js) \<Rightarrow> Inr js | _ \<Rightarrow> Inl ErrInval),
      jl_print = (\<lambda>j. replicate (to_nat j) (CHR ''j'')),
      jl_parse = (\<lambda>t. case doc of None \<Rightarrow> Some (from_nat (length t)) | Some d \<Rightarrow> Some d), jl_host_text = (\<lambda>h. h),
      jl_host_of_text = Some, jl_no_host = []\<rparr>"

lemma jlook_jput: "jlook (jput j k v) k' = (if k' = k then Some v else jlook j k')"
  by (cases j) auto

lemma sample_json_laws: "json_laws (sample_json doc)"
  by (simp add: json_laws_def sample_json_def same_field_def jlook_jput)

text \<open>
  A part of one text under one key, for the machine (its average load) and for the texts of
  notifications.
\<close>

definition sample_machine_info :: "string \<Rightarrow> machine_info" where
  "sample_machine_info t =
     \<lparr>mi_cpu_load = 0, mi_gpu_load = 0, mi_load_average = t, mi_ram_bytes_total = 0,
      mi_ram_bytes_free = 0, mi_hdd_bytes_total = 0, mi_hdd_bytes_free = 0, mi_net_bytes_recv = 0,
      mi_net_bytes_send = 0, mi_uptime = 0, mi_timestamp = 50, mi_net_total_bytes_recv = 0,
      mi_net_total_bytes_send = 0\<rparr>"

definition sample_machine :: "(jval, machine_info) json_part" where
  "sample_machine =
     \<lparr>pt_set = (\<lambda>m j. Inr (jput j ''load'' (JStr (mi_load_average m)))),
      pt_get = (\<lambda>j. case jlook j ''load'' of Some (JStr t) \<Rightarrow> Inr (sample_machine_info t) | _ \<Rightarrow> Inl ErrInval)\<rparr>"

definition sample_text :: "string \<Rightarrow> (jval, string) json_part" where
  "sample_text k =
     \<lparr>pt_set = (\<lambda>t j. Inr (jput j k (JStr t))),
      pt_get = (\<lambda>j. case jlook j k of Some (JStr t) \<Rightarrow> Inr t | _ \<Rightarrow> Inl ErrInval)\<rparr>"

lemma sample_same: "same_field (sample_json doc) k j j' \<longleftrightarrow> jlook j k = jlook j' k"
proof
  assume "same_field (sample_json doc) k j j'"
  then have "jl_get_object (sample_json doc) j k = jl_get_object (sample_json doc) j' k"
    by (simp add: same_field_def)
  then show "jlook j k = jlook j' k" by (simp add: sample_json_def split: option.splits)
qed (simp add: same_field_def sample_json_def)

lemma sample_machine_laws:
  "part_laws (sample_json doc) {''load''} (\<lambda>m. m = sample_machine_info (mi_load_average m)) sample_machine"
  by (auto simp: part_laws_def sample_machine_def sample_same jlook_jput)

lemma sample_text_laws: "part_laws (sample_json doc) {k} (\<lambda>t. True) (sample_text k)"
  by (auto simp: part_laws_def sample_text_def sample_same jlook_jput)

text \<open>
  A process whose configuration has the license \<open>key\<close>, valid until 100.  A request is its own text,
  every parameter is parsed to one document, and the network answers everything.
\<close>

definition sample_daemon_io :: "string list daemon_io" where
  "sample_daemon_io =
     \<lparr>dn_next_request_id = (\<lambda>w p. (None, w)), dn_write_request = (\<lambda>w p r. (rq_method r # w, None)),
      dn_write_response = (\<lambda>w p r. (''response'' # w, None)), dn_close = (\<lambda>w p. w),
      dn_read_command = (\<lambda>w p. (w, Inr ''activate_request'')), dn_pop_request = (\<lambda>w p i. (w, None)),
      dn_stop_info = (\<lambda>w. Inr ''stop''), dn_client_ping_info = (\<lambda>w. Inr ''ping''),
      dn_server_ping_info = (\<lambda>w. Inr ''pong''), dn_create_timer = (\<lambda>w n b. (n, w)),
      dn_remove_timer = (\<lambda>w t. w)\<rparr>"

definition sample_daemon_env :: "jval option \<Rightarrow> (jval, string list, string) daemon_env" where
  "sample_daemon_env doc =
     \<lparr>de_json = sample_json doc, de_lib = sample_lib, de_io = sample_daemon_io, de_client_io = sample_io,
      de_config = sample_config,
      de_build = \<lparr>bd_project = ''project'', bd_version = ''1'', bd_os_snapshot = ''os''\<rparr>,
      de_machine = sample_machine, de_os = sample_text ''name'', de_text = sample_text ''message'',
      de_new_text = [], de_catchup_json = (\<lambda>c. Inl ErrInval), de_content_json = (\<lambda>c. Inl ErrInval),
      de_parse = (\<lambda>t. Inr (Some \<lparr>rq_id = None, rq_method = t, rq_params = Some t\<rparr>, None)),
      de_stop_info = (\<lambda>j. None), de_ping_info = (\<lambda>j. None), de_log_info = (\<lambda>j. Inl ErrInval),
      de_activate_info = (\<lambda>j. Inr (Some ''key'')), de_url_http = (\<lambda>u. True),
      de_url_http_or_https = (\<lambda>u. True), de_post_http = (\<lambda>w f u. (w, None)),
      de_post_https = (\<lambda>w f u. (w, None)), de_expire_time = (\<lambda>k. if k = ''key'' then Some 100 else None),
      de_now = (\<lambda>w. 50), de_proc = (\<lambda>w p. if p = ''/proc/stat'' then Some [] else None),
      de_memory = (\<lambda>w. (None, None)), de_disk = (\<lambda>w. (None, None)), de_sysinfo = (\<lambda>w. None), de_round = (\<lambda>r. r),
      de_double = (\<lambda>r. 0), de_no_timer = -1\<rparr>"

definition sample_process :: "(string list, sample_db) process" where
  "sample_process = fst (ConnectToDatabase full_driver ''url'' ''iptv'' True
     (ProcessSlaveWrapper_new (sample_daemon_env (Some (JObj []))) sample_rpc [] (''host'', DirPath ''/root'') []))"

section \<open>The invariant\<close>

lemma ProcessSlaveWrapper_new_sel:
  "heap (ProcessSlaveWrapper_new D R w e store) = Map.empty"
  "connections (ProcessSlaveWrapper_new D R w e store) = []"
  "observer (ProcessSlaveWrapper_new D R w e store) = True" "events (ProcessSlaveWrapper_new D R w e store) = []"
  "online_clients (ProcessSlaveWrapper_new D R w e store) = 0"
  "http_clients (ProcessSlaveWrapper_new D R w e store) = 0"
  "open_files (ProcessSlaveWrapper_new D R w e store) = []"
  "daemons (ProcessSlaveWrapper_new D R w e store) = Map.empty"
  "stopped (ProcessSlaveWrapper_new D R w e store) = False" "posted (ProcessSlaveWrapper_new D R w e store) = []"
  "notices (ProcessSlaveWrapper_new D R w e store) = []"
  by (simp_all add: ProcessSlaveWrapper_new_def service.extend_def HttpHandler_new_sel
      SubscribersHandler_new_sel SubscribersManager_new_sel)

lemma ConnectToDatabase_process:
  fixes s :: "('io, 'db, 'a) process_scheme"
  shows "online_clients (fst (ConnectToDatabase M url name lazy s)) = online_clients s"
    and "http_clients (fst (ConnectToDatabase M url name lazy s)) = http_clients s"
    and "open_files (fst (ConnectToDatabase M url name lazy s)) = open_files s"
    and "daemons (fst (ConnectToDatabase M url name lazy s)) = daemons s"
    and "posted (fst (ConnectToDatabase M url name lazy s)) = posted s"
    and "notices (fst (ConnectToDatabase M url name lazy s)) = notices s"
  by (simp_all add: ConnectToDatabase_def MongoEngine_Connect_def handle_simps Let_def split: option.splits)

lemma process_inv_initial:
  "process_inv D (fst (ConnectToDatabase M url name lazy (ProcessSlaveWrapper_new D R w e store)))"
    (is "process_inv D ?s")
proof -
  note sel = ConnectToDatabase_sel ConnectToDatabase_process ProcessSlaveWrapper_new_sel
  have v: "view ?s = Map.empty" "kind_of ?s = Map.empty"
    by (simp_all add: view_def kind_of_def fun_eq_iff sel)
  have "books_inv ?s"
    by (simp add: books_inv_def observed_inv_def session_inv_iff_view exclusive_def fronts_def online_def v)
       (simp add: sel)
  then show ?thesis by (simp add: process_inv_def service_inv_def clients_def v) (simp add: sel)
qed

text \<open>Every run keeps the counts; the runs of single logins keep the books of the registry as well.\<close>

lemma process_counted:
  assumes "(process_step E H D)\<^sup>*\<^sup>*
      (fst (ConnectToDatabase M url name lazy (ProcessSlaveWrapper_new D R w e store))) s"
  shows "process_counts D s"
  by (rule process_steps_counts[OF assms process_inv_counts[OF process_inv_initial]])

lemma process_reached:
  assumes "bson_laws (env_bson E)" and "bson_laws (he_bson H)"
    and "(single_logins (process_step E H D))\<^sup>*\<^sup>*
           (fst (ConnectToDatabase M url name lazy (ProcessSlaveWrapper_new D R w e store))) s"
  shows "process_inv D s"
  by (rule process_steps_inv[OF assms process_inv_initial])

text \<open>Steps that leave the registry alone.\<close>

lemma single_step:
  "process_step E H D s s' \<Longrightarrow> connections s' = connections s \<Longrightarrow> single_logins (process_step E H D) s s'"
  using registers_more[of s s'] by (auto simp: single_logins_def)

lemma licensed_bind:
  "licensed D c \<longleftrightarrow> Option.bind (cf_license_key (de_config D)) (de_expire_time D) = Some (dc_exp_time c)"
  by (auto simp: licensed_def bind_eq_Some_conv)

text \<open>
  C1: The process keeps its books.  In every run from its start with a connected database, whatever
  the clients of both servers and the daemons send, the two counters are the numbers of connections
  modulo 2 to the 64, no file stays open, and every daemon that is verified has the expiry time of
  the license key in the configuration.  In every run in which no event registers a connection again
  that is logged in, which the program itself does not prevent, moreover the registry has exactly
  the live sessions and no freed object, no two sessions share a user and a device, and what
  the observer has been told gives exactly the sessions that are logged in.
\<close>

theorem process_invariant:
  assumes "bson_laws (env_bson E)" and "bson_laws (he_bson H)"
    and "start = fst (ConnectToDatabase M url name lazy (ProcessSlaveWrapper_new D R w e store))"
    and "(process_step E H D)\<^sup>*\<^sup>* start s"
  shows "online_clients s = of_nat (card (clients SubscriberClient s)) \<and>
    http_clients s = of_nat (card (clients HttpClient s)) \<and> open_files s = [] \<and>
    (\<forall>p c. daemons s p = Some c \<and> dc_verified c \<longrightarrow>
       Option.bind (cf_license_key (de_config D)) (de_expire_time D) = Some (dc_exp_time c)) \<and>
    ((single_logins (process_step E H D))\<^sup>*\<^sup>* start s \<longrightarrow>
       session_inv s \<and> exclusive s \<and> finite (dom (view s)) \<and> audience (events s) = fronts s)"
proof -
  have "process_counts D s" using assms(4) unfolding assms(3) by (rule process_counted)
  moreover have "process_inv D s" if "(single_logins (process_step E H D))\<^sup>*\<^sup>* start s"
    using that unfolding assms(3) by (rule process_reached[OF assms(1,2)])
  ultimately show ?thesis
    by (auto simp: process_counts_def tallied_def process_inv_def service_inv_def books_inv_def
        observed_inv_def licensed_bind)
qed

abbreviation sample_denv :: "(jval, string list, string) daemon_env" where
  "sample_denv \<equiv> sample_daemon_env (Some (JObj []))"

lemma sample_process_daemons: "daemons sample_process = Map.empty"
  by (simp add: sample_process_def ConnectToDatabase_process ProcessSlaveWrapper_new_sel)

lemma sample_denv_simps:
  "de_json (sample_daemon_env doc) = sample_json doc" "de_io (sample_daemon_env doc) = sample_daemon_io"
  "de_config (sample_daemon_env doc) = sample_config" "cf_license_key sample_config = Some ''key''"
  "jl_parse (sample_json (Some d)) t = Some d" "de_activate_info (sample_daemon_env doc) j = Inr (Some ''key'')"
  "de_expire_time (sample_daemon_env doc) ''key'' = Some 100"
  "de_parse (sample_daemon_env doc) t = Inr (Some \<lparr>rq_id = None, rq_method = t, rq_params = Some t\<rparr>, None)"
  "dn_read_command sample_daemon_io w p = (w, Inr ''activate_request'')"
  "dn_write_response sample_daemon_io w p r = (''response'' # w, None)"
  by (simp_all add: sample_daemon_env_def sample_json_def sample_config_def sample_daemon_io_def)

lemma sample_shots:
  "cpu_now (sample_daemon_env doc) w = Some \<lparr>cs_usage = 0, cs_limit = 0\<rparr>"
  "net_now (sample_daemon_env doc) w = Some \<lparr>ns_bytes_recv = 0, ns_bytes_send = 0\<rparr>"
  by (simp_all add: cpu_now_def net_now_def sample_daemon_env_def GetMachineCpuShot_def GetMachineNetShot_def)

lemma sample_readable: "machine_readable (sample_daemon_env doc) w"
  by (simp add: machine_readable_def sample_shots)

theorem process_invariant_witness:
  "\<exists>s. (single_logins (process_step sample_env sample_http_env sample_denv))\<^sup>*\<^sup>* sample_process s \<and>
     daemons s (Addr 9) = Some \<lparr>dc_verified = True, dc_exp_time = 100, dc_local_host = False\<rparr> \<and>
     session_inv s \<and> open_files s = []"
proof -
  let ?step = "process_step sample_env sample_http_env sample_denv"
  let ?t = "accept_daemon (Addr 9) False sample_process"
  have t: "daemons ?t = [Addr 9 \<mapsto> ProtocoledDaemonClient_new False]"
    by (simp add: accept_daemon_def sample_process_daemons)
  have step1: "?step sample_process ?t"
    by (rule process_step.daemon_accepts) (simp_all add: sample_process_daemons)
  have ps: "loop_clients [Addr 9] ?t" by (simp add: loop_clients_def t)
  obtain txt' s1 where stats: "MakeServiceStats sample_denv [Addr 9] 100 ?t = Some (txt', s1)" "daemons s1 = daemons ?t"
    using stats_total[OF ps sample_readable] by blast
  let ?s = "s1\<lparr>io := ''response'' # io s1,
    daemons := (daemons s1)(Addr 9 \<mapsto> SetVerified 100 (ProtocoledDaemonClient_new False))\<rparr>"
  have "DataReceived_daemon sample_denv [Addr 9] (Addr 9) ?t = Some ?s"
    using stats t
    by (simp add: DataReceived_daemon_def DaemonDataReceived_def sample_denv_simps
        HandleRequestServiceCommand_def HandleRequestClientActivate_daemon_def json_params_def
        finish_activation_def with_daemon_def answer_def ActivateSuccess_def ActivateResponse_def
        write_response_def Let_def)
  then have step2: "?step ?t ?s" by (intro process_step.daemon_receives[OF ps]) simp_all
  let ?once = "single_logins ?step"
  have once1: "?once sample_process ?t" by (rule single_step[OF step1]) (simp add: accept_daemon_def)
  have "connections s1 = connections ?t" using stats_io_quiet[OF stats(1), of "io s1"] by (simp add: dquiet_def)
  then have once2: "?once ?t ?s" by (intro single_step[OF step2]) simp
  have run: "?once\<^sup>*\<^sup>* sample_process ?s"
    by (rule converse_rtranclp_into_rtranclp[of ?once, OF once1 r_into_rtranclp[of ?once, OF once2]])
  then have "session_inv ?s \<and> open_files ?s = []"
    using process_invariant[OF _ _ sample_process_def single_logins_run[OF run]] by (simp add: sample_bson_laws)
  then show ?thesis using run by (intro exI[of _ ?s]) (simp add: SetVerified_def ProtocoledDaemonClient_new_def)
qed

section \<open>Who may give orders\<close>

text \<open>
  C11: Only verified daemons give orders.  A request of a connection that has not been activated
  changes nothing at all, is not even answered, unless it asks for the activation, or asks to stop
  the service and comes from the local host.
\<close>

theorem unverified_daemon_refused:
  assumes "daemons s p = Some c" and "\<not> dc_verified c"
    and "rq_method req \<noteq> ''activate_request''"
    and "rq_method req = ''stop_service'' \<Longrightarrow> \<not> dc_local_host c"
  shows "\<exists>e. HandleRequestServiceCommand D ps p req s = Some (s, e)"
proof -
  have "verified p k s = Some (s, Some ErrnoInval)" for k
    using assms(1,2) by (simp add: verified_def with_daemon_def)
  moreover have "HandleRequestClientStopService D p req s = Some (s, Some ErrnoInval)"
    if "rq_method req = ''stop_service''"
    using assms(1,2) assms(4)[OF that] by (simp add: HandleRequestClientStopService_def with_daemon_def)
  ultimately show ?thesis using assms(3)
    by (simp add: HandleRequestServiceCommand_def HandleRequestClientPingService_def
        HandleRequestClientPrepareService_def HandleRequestClientSyncService_def
        HandleRequestClientGetLogService_def HandleRequestClientSendMessageForSubscriber_def)
qed

definition sample_unverified :: "(string list, sample_db) process" where
  "sample_unverified = accept_daemon (Addr 9) False sample_process"

lemma sample_unverified_daemon: "daemons sample_unverified = [Addr 9 \<mapsto> ProtocoledDaemonClient_new False]"
  by (simp add: sample_unverified_def accept_daemon_def sample_process_daemons)

theorem unverified_daemon_refused_witness:
  "\<exists>e. HandleRequestServiceCommand sample_denv [Addr 9] (Addr 9)
     \<lparr>rq_id = None, rq_method = ''stop_service'', rq_params = Some ''p''\<rparr> sample_unverified =
     Some (sample_unverified, e)"
  by (rule unverified_daemon_refused[of _ _ "ProtocoledDaemonClient_new False"])
     (simp_all add: sample_unverified_daemon ProtocoledDaemonClient_new_def)

text \<open>
  C12: An activation verifies a connection exactly when the request carries the license key of the
  configuration, the key is valid, and the answer with the statistics is written without an error.
\<close>

theorem daemon_activation_exact:
  assumes "daemons s p = Some c" and "\<not> dc_verified c" and "loop_clients ps s"
  shows "(\<exists>s' e c'. HandleRequestClientActivate_daemon D ps p req s = Some (s', e) \<and>
            daemons s' p = Some c' \<and> dc_verified c') \<longleftrightarrow>
    (\<exists>params j key tm t s1. rq_params req = Some params \<and> jl_parse (de_json D) params = Some j \<and>
       de_activate_info D j = Inr (Some key) \<and> cf_license_key (de_config D) = Some key \<and>
       de_expire_time D key = Some tm \<and> MakeServiceStats D ps tm s = Some (t, s1) \<and>
       snd (ActivateSuccess (de_io D) p (rq_id req) t (io s1)) = None)"
proof -
  have fails: "daemons s' = daemons s" if "activation_fails D p req err code s = Some (s', e)" for err code s' e
    using that by (auto simp: activation_fails_def answer_def split: prod.splits)
  have fin: "(\<exists>s' e c'. finish_activation D ps p req tm s = Some (s', e) \<and> daemons s' p = Some c' \<and> dc_verified c') \<longleftrightarrow>
      (\<exists>t s1. MakeServiceStats D ps tm s = Some (t, s1) \<and>
         snd (ActivateSuccess (de_io D) p (rq_id req) t (io s1)) = None)" for tm
    using assms
    by (auto dest: stats_daemons simp: finish_activation_def answer_def with_daemon_def SetVerified_def split: prod.splits option.splits)
  have "(\<exists>s' e c'. HandleRequestClientActivate_daemon D ps p req s = Some (s', e) \<and>
            daemons s' p = Some c' \<and> dc_verified c') \<longleftrightarrow>
    (\<exists>params j key tm. rq_params req = Some params \<and> jl_parse (de_json D) params = Some j \<and>
       de_activate_info D j = Inr (Some key) \<and> cf_license_key (de_config D) = Some key \<and>
       de_expire_time D key = Some tm \<and>
       (\<exists>s' e c'. finish_activation D ps p req tm s = Some (s', e) \<and> daemons s' p = Some c' \<and> dc_verified c'))"
    using assms(1,2)
    by (auto simp: HandleRequestClientActivate_daemon_def json_params_def
        split: option.splits sum.splits if_splits dest: fails)
  then show ?thesis unfolding fin by blast
qed

theorem daemon_activation_exact_witness:
  "\<exists>s' e c'. HandleRequestClientActivate_daemon sample_denv [Addr 9] (Addr 9)
       \<lparr>rq_id = None, rq_method = ''activate_request'', rq_params = Some ''p''\<rparr> sample_unverified = Some (s', e) \<and>
     daemons s' (Addr 9) = Some c' \<and> dc_verified c'"
proof -
  have ps: "loop_clients [Addr 9] sample_unverified" by (simp add: loop_clients_def sample_unverified_daemon)
  obtain t s1 where "MakeServiceStats sample_denv [Addr 9] 100 sample_unverified = Some (t, s1)"
    using stats_total[OF ps sample_readable] by blast
  moreover have "snd (ActivateSuccess (de_io sample_denv) (Addr 9) i t (io s1)) = None" for i
    by (simp add: sample_denv_simps ActivateSuccess_def ActivateResponse_def write_response_def)
  ultimately show ?thesis
    using daemon_activation_exact[of sample_unverified "Addr 9" "ProtocoledDaemonClient_new False" "[Addr 9]"
        sample_denv "\<lparr>rq_id = None, rq_method = ''activate_request'', rq_params = Some ''p''\<rparr>"] ps
    by (simp add: sample_unverified_daemon ProtocoledDaemonClient_new_def sample_denv_simps)
qed

section \<open>No undefined behaviour\<close>

lemma ping_daemons_total:
  "distinct ps \<Longrightarrow> set ps \<subseteq> dom (daemons s) \<Longrightarrow> \<exists>s'. opt_fold (ping_daemon D) ps s = Some s'"
proof (induction ps arbitrary: s)
  case (Cons p ps)
  then obtain c where c: "daemons s p = Some c" by auto
  have "\<exists>s1. ping_daemon D p s = Some s1 \<and> (\<forall>q. q \<noteq> p \<longrightarrow> daemons s1 q = daemons s q)"
    using c by (auto simp: ping_daemon_def drop_daemon_def split: prod.splits option.splits)
  then obtain s1 where s1: "ping_daemon D p s = Some s1" "\<forall>q. q \<noteq> p \<longrightarrow> daemons s1 q = daemons s q"
    by blast
  have "set ps \<subseteq> dom (daemons s1)"
  proof
    fix q
    assume "q \<in> set ps"
    then show "q \<in> dom (daemons s1)" using Cons.prems s1(2) by (cases "q = p") auto
  qed
  then show ?case using Cons.IH[of s1] Cons.prems(1) s1(1) by simp
qed simp

text \<open>
  C13: The daemon's side does not touch a deleted object.  When the loop hands over the daemons that
  are connected and the files of the system are readable, every timer and every broadcast is
  processed to its end in every state, also when several daemons do not answer a ping and are
  deleted.  With a license key in the configuration so is the data of each daemon, unless it is a
  response without an identifier, in every state that is reached from the start without registering
  a connection again that is logged in.
\<close>

theorem daemon_side_defined:
  assumes "bson_laws (env_bson E)" and "bson_laws (he_bson H)"
    and "start = fst (ConnectToDatabase M url name lazy (ProcessSlaveWrapper_new D R w e store))"
    and "loop_clients ps s" and "\<And>w. machine_readable D w"
  shows "(\<exists>s'. TimerEmited_daemon D ps tid s = Some s') \<and> (\<exists>s'. BroadcastClients D ps req s = Some s') \<and>
    ((single_logins (process_step E H D))\<^sup>*\<^sup>* start s \<and> cf_license_key (de_config D) \<noteq> None \<longrightarrow>
      (\<forall>p \<in> set ps. \<not> fatal_response D p s \<longrightarrow> (\<exists>s'. DataReceived_daemon D ps p s = Some s')))"
proof -
  have "\<exists>s'. opt_fold (ping_daemon D) ps s = Some s'"
    using assms(4) by (intro ping_daemons_total) (auto simp: loop_clients_def)
  moreover obtain t s1 where s1: "MakeServiceStats D ps 0 s = Some (t, s1)" "daemons s1 = daemons s"
    using stats_total[OF assms(4,5)] by blast
  moreover have "\<exists>s'. BroadcastClients D ps r s1 = Some s'" for r
    using s1(2) assms(4) by (intro broadcast_total) (simp add: loop_clients_def)
  ultimately have "\<exists>s'. TimerEmited_daemon D ps tid s = Some s'"
    by (simp add: TimerEmited_daemon_def StatisitcServiceBroadcast_def)
  moreover have "session_inv s" if "(single_logins (process_step E H D))\<^sup>*\<^sup>* start s"
    using process_reached[OF assms(1,2) that[unfolded assms(3)]]
    by (simp add: process_inv_def service_inv_def books_inv_def observed_inv_def)
  ultimately show ?thesis
    using daemon_data_total[OF _ assms(4) _ _ _ assms(5)] broadcast_total[OF assms(4)] by blast
qed

theorem daemon_side_defined_witness:
  "\<exists>s'. DataReceived_daemon sample_denv [Addr 9] (Addr 9) sample_unverified = Some s'"
proof -
  let ?step = "process_step sample_env sample_http_env sample_denv"
  have "?step sample_process sample_unverified"
    unfolding sample_unverified_def
    by (rule process_step.daemon_accepts) (simp_all add: sample_process_daemons)
  then have "single_logins ?step sample_process sample_unverified"
    by (rule single_step) (simp add: sample_unverified_def accept_daemon_def)
  then have "(single_logins ?step)\<^sup>*\<^sup>* sample_process sample_unverified"
    by (rule r_into_rtranclp[of "single_logins ?step"])
  moreover have "loop_clients [Addr 9] sample_unverified"
    by (simp add: loop_clients_def sample_unverified_daemon)
  moreover have "\<not> fatal_response sample_denv (Addr 9) sample_unverified"
    by (simp add: fatal_response_def sample_denv_simps)
  ultimately show ?thesis
    using daemon_side_defined[OF _ _ sample_process_def, of sample_env sample_http_env "[Addr 9]" sample_unverified]
    by (simp add: sample_bson_laws sample_denv_simps sample_readable)
qed

end
