(* ===== verification/Daemon_Reports.thy ===== *)
theory Daemon_Reports
  imports Daemon_Properties
begin

text \<open>
  What the process tells its daemons and what of it can be read back: the statistics, the clients
  that are online, the broadcasts, and the texts of notifications; and when \<open>Exec\<close> does not end.
\<close>

section \<open>Statistics\<close>

text \<open>
  C15: The statistics count the connections.  In every reachable state the statistics are a text
  that is read back as the figures of the machine together with the number of verified daemons,
  of connections of the http server and of connections of the server of the subscribers, as long
  as these numbers are below 2 to the 63.
\<close>

theorem statistics_count:
  assumes run: "(process_step E H D)\<^sup>*\<^sup>*
      (fst (ConnectToDatabase M url name lazy (ProcessSlaveWrapper_new D R w e store))) s"
    and ps: "loop_clients ps s"
    and J: "json_laws (de_json D)" "\<And>j. jl_parse (de_json D) (jl_print (de_json D) j) = Some j"
    and P: "part_laws (de_json D) K ok (de_machine D)" "''online_users'' \<notin> K" "ok (machine_now D cpu net s)"
      "\<And>m j. \<exists>j'. pt_set (de_machine D) m j = Inr j'"
    and shots: "cpu_now D (io s) = Some cpu" "net_now D (io s) = Some net"
    and small: "card {p. \<exists>c. daemons s p = Some c \<and> dc_verified c} < 2 ^ 63"
      "card (clients HttpClient s) < 2 ^ 63" "card (clients SubscriberClient s) < 2 ^ 63"
  shows "\<exists>t s' j i. MakeServiceStats D ps 0 s = Some (t, s') \<and> jl_parse (de_json D) t = Some j \<and>
    ServerInfo_DoDeSerialize (de_json D) (de_machine D) j = Some (Inr i) \<and>
    machine_info.truncate i = machine_now D cpu net s \<and>
    unat (ol_daemon (si_online_users i)) = card {p. \<exists>c. daemons s p = Some c \<and> dc_verified c} \<and>
    unat (ol_http (si_online_users i)) = card (clients HttpClient s) \<and>
    unat (ol_subscribers (si_online_users i)) = card (clients SubscriberClient s)"
proof -
  let ?n = "card {p. \<exists>c. daemons s p = Some c \<and> dc_verified c}"
  let ?u = "\<lparr>ol_daemon = of_nat ?n, ol_http = http_clients s, ol_subscribers = online_clients s\<rparr>"
  let ?i = "ServerInfo_make (machine_now D cpu net s) ?u"
  have counts: "http_clients s = of_nat (card (clients HttpClient s))"
    "online_clients s = of_nat (card (clients SubscriberClient s))"
    using process_counted[OF run] by (simp_all add: process_counts_def tallied_def)
  have unat: "unat (of_nat k :: 64 word) = k" if "k < 2 ^ 63" for k
    using that by (simp add: unat_of_nat)
  have small': "small64 (of_nat k)" if "k < 2 ^ 63" for k
    using that by (simp add: small64_def uint_nat unat)
  obtain j1 where j1: "pt_set (de_machine D) (machine_info.truncate ?i) (jl_new (de_json D)) = Inr j1" using P(4) by blast
  then obtain j where j: "ServerInfo_SerializeFields (de_json D) (de_machine D) ?i (jl_new (de_json D)) = Inr j"
    by (auto simp: ServerInfo_SerializeFields_def Serialize_def OnlineUsers_SerializeFields_def)
  have trunc: "machine_info.truncate ?i = machine_now D cpu net s" "si_online_users ?i = ?u"
    by (simp_all add: ServerInfo_make_def machine_info.defs)
  have "server_ok (de_json D) K ok (de_machine D) ?i"
    using J P small small' counts trunc by (simp add: server_ok_def online_ok_def)
  from server_fields_back[OF this j]
  have "ServerInfo_DoDeSerialize (de_json D) (de_machine D) j = Some (Inr ?i)"
    by (simp add: trunc)
  moreover have "\<exists>s'. MakeServiceStats D ps 0 s = Some (jl_print (de_json D) j, s')"
    using j by (simp add: MakeServiceStats_def shots verified_count_eq[OF ps] Let_def SerializeToString_def Serialize_def)
  ultimately show ?thesis
    using J(2) trunc counts unat small by (intro exI[of _ "jl_print (de_json D) j"]) auto
qed

lemma sample_print_parse: "jl_parse (sample_json None) (jl_print (sample_json None) j) = Some j"
  by (simp add: sample_json_def)

lemma sample_process_any:
  "sample_process = fst (ConnectToDatabase full_driver ''url'' ''iptv'' True
     (ProcessSlaveWrapper_new (sample_daemon_env doc) sample_rpc [] (''host'', DirPath ''/root'') []))"
  by (simp add: sample_process_def ProcessSlaveWrapper_new_def sample_daemon_env_def)

lemma sample_unverified_clients: "clients k sample_unverified = {}"
proof -
  have "heap sample_unverified = Map.empty"
    by (simp add: sample_unverified_def accept_daemon_def sample_process_def ConnectToDatabase_sel
        ProcessSlaveWrapper_new_sel)
  then show ?thesis by (simp add: clients_def kind_of_def)
qed

lemma sample_unverified_reached:
  "(process_step sample_env sample_http_env (sample_daemon_env doc))\<^sup>*\<^sup>*
     (fst (ConnectToDatabase full_driver ''url'' ''iptv'' True
       (ProcessSlaveWrapper_new (sample_daemon_env doc) sample_rpc [] (''host'', DirPath ''/root'') [])))
     sample_unverified"
  unfolding sample_process_any[symmetric] sample_unverified_def
  by (intro r_into_rtranclp process_step.daemon_accepts) (simp_all add: sample_process_daemons)

theorem statistics_count_witness:
  "\<exists>t s' j i. MakeServiceStats (sample_daemon_env None) [Addr 9] 0 sample_unverified = Some (t, s') \<and>
     jl_parse (sample_json None) t = Some j \<and>
     ServerInfo_DoDeSerialize (sample_json None) sample_machine j = Some (Inr i) \<and>
     ol_daemon (si_online_users i) = 0 \<and> ol_http (si_online_users i) = 0"
proof -
  let ?D = "sample_daemon_env None" and ?cpu = "\<lparr>cs_usage = 0, cs_limit = 0\<rparr>"
  let ?net = "\<lparr>ns_bytes_recv = 0, ns_bytes_send = 0\<rparr>"
  have ps: "loop_clients [Addr 9] sample_unverified" by (simp add: loop_clients_def sample_unverified_daemon)
  have D: "de_json ?D = sample_json None" "de_machine ?D = sample_machine"
    by (simp_all add: sample_daemon_env_def)
  have m: "machine_now ?D ?cpu ?net sample_unverified = sample_machine_info (mi_load_average (machine_now ?D ?cpu ?net sample_unverified))"
    by (simp add: machine_now_def sample_daemon_env_def sample_machine_info_def rate_def Let_def
        sample_unverified_def accept_daemon_def sample_process_def GetCpuMachineLoad_def
        GetMachineMemoryShot_def GetMachineHddShot_def GetMachineSysinfoShot_def)
       (simp add: ConnectToDatabase_def MongoEngine_Connect_def handle_simps ProcessSlaveWrapper_new_def
        service.extend_def Let_def split: option.splits)
  have none: "{p. \<exists>c. daemons sample_unverified p = Some c \<and> dc_verified c} = {}"
    by (auto simp: sample_unverified_daemon ProtocoledDaemonClient_new_def)
  have "\<exists>t s' j i. MakeServiceStats ?D [Addr 9] 0 sample_unverified = Some (t, s') \<and>
    jl_parse (de_json ?D) t = Some j \<and>
    ServerInfo_DoDeSerialize (de_json ?D) (de_machine ?D) j = Some (Inr i) \<and>
    machine_info.truncate i = machine_now ?D ?cpu ?net sample_unverified \<and>
    unat (ol_daemon (si_online_users i)) = card {p. \<exists>c. daemons sample_unverified p = Some c \<and> dc_verified c} \<and>
    unat (ol_http (si_online_users i)) = card (clients HttpClient sample_unverified) \<and>
    unat (ol_subscribers (si_online_users i)) = card (clients SubscriberClient sample_unverified)"
  proof (rule statistics_count[OF sample_unverified_reached ps, where K = "{''load''}"
          and ok = "\<lambda>m. m = sample_machine_info (mi_load_average m)"])
    show "part_laws (de_json ?D) {''load''} (\<lambda>m. m = sample_machine_info (mi_load_average m)) (de_machine ?D)"
      unfolding D by (rule sample_machine_laws)
  qed (rule m | simp add: sample_bson_laws D sample_json_laws sample_print_parse sample_machine_def none
      sample_unverified_clients sample_shots)+
  then show ?thesis unfolding D none sample_unverified_clients by (auto simp: unat_eq_0)
qed

text \<open>
  C16: The rates of the network are what they say.  When the kernel prints its table of interfaces,
  with counters of at most sixteen digits, and neither the clock nor the sums of the counters have
  gone back since the last statistics, the rates are the bytes received and sent since then over all
  interfaces whose names do not start with \<open>lo\<close>, divided by the whole seconds that have passed, or by
  one in the first second.
\<close>

theorem network_rates:
  assumes "stats_timestamp s \<le> de_now D (io s)" and "de_now D (io s) - stats_timestamp s < 2 ^ 63"
    and table: "de_proc D (io s) ''/proc/net/dev'' = Some (dev_table h1 h2 ls)" "table_ok h1 h2 ls"
    and recv: "unat (ns_bytes_recv (prev_net s)) \<le> bytes_of 0 ls" "bytes_of 0 ls < 2 ^ 64"
    and send: "unat (ns_bytes_send (prev_net s)) \<le> bytes_of 8 ls" "bytes_of 8 ls < 2 ^ 64"
  shows "\<exists>n. net_now D (io s) = Some n \<and>
    unat (mi_net_bytes_recv (machine_now D next n s)) =
      (bytes_of 0 ls - unat (ns_bytes_recv (prev_net s)))
        div nat (max 1 ((de_now D (io s) - stats_timestamp s) div 1000)) \<and>
    unat (mi_net_bytes_send (machine_now D next n s)) =
      (bytes_of 8 ls - unat (ns_bytes_send (prev_net s)))
        div nat (max 1 ((de_now D (io s) - stats_timestamp s) div 1000))"
proof -
  let ?n = "\<lparr>ns_bytes_recv = of_nat (bytes_of 0 ls), ns_bytes_send = of_nat (bytes_of 8 ls)\<rparr>"
  have n: "net_now D (io s) = Some ?n" by (simp add: net_now_def table(1) net_table_read[OF table(2)])
  have unat: "unat (of_nat (bytes_of 0 ls) :: 64 word) = bytes_of 0 ls"
    "unat (of_nat (bytes_of 8 ls) :: 64 word) = bytes_of 8 ls"
    using recv(2) send(2) by (simp_all add: unat_of_nat)
  have "ns_bytes_recv (prev_net s) \<le> of_nat (bytes_of 0 ls)" "ns_bytes_send (prev_net s) \<le> of_nat (bytes_of 8 ls)"
    using recv(1) send(1) by (simp_all add: word_le_nat_alt unat)
  from rate_exact[OF assms(1,2) this(1)] rate_exact[OF assms(1,2) this(2)]
  show ?thesis by (intro exI[of _ ?n]) (simp add: n machine_now_def Let_def unat)
qed

text \<open>
  2500 bytes received by two interfaces in 2900 milliseconds are 1250 bytes in each of the two whole
  seconds; what the loopback received does not count.
\<close>

definition sample_table :: "(nat \<times> string \<times> (nat \<times> nat) list) list" where
  "sample_table = [(4, ''lo'', (2, 700) # replicate 15 (0, 0)), (0, ''eth0'', (3, 3000) # replicate 15 (1, 0)),
     (0, ''eth1'', (0, 500) # replicate 7 (1, 0) @ (0, 40) # replicate 7 (1, 0))]"

lemma few_copies:
  "replicate 15 x = [x, x, x, x, x, x, x, x, x, x, x, x, x, x, x]" "replicate 7 x = [x, x, x, x, x, x, x]"
  "replicate 4 x = [x, x, x, x]" "replicate 3 x = [x, x, x]" "replicate 2 x = [x, x]"
  by (simp_all add: eval_nat_numeral)

lemma sample_table_ok: "table_ok ''Inter-|'' ''face |'' sample_table"
  by (simp add: table_ok_def interface_ok_def sample_table_def net_text_def isspace_def few_copies decimal.simps)

theorem network_rates_witness:
  "\<exists>n. net_now (sample_denv\<lparr>de_now := \<lambda>w. 12900, de_proc := \<lambda>w p. Some (dev_table ''Inter-|'' ''face |'' sample_table)\<rparr>)
       (io sample_unverified) = Some n \<and>
     unat (mi_net_bytes_recv (machine_now
     (sample_denv\<lparr>de_now := \<lambda>w. 12900, de_proc := \<lambda>w p. Some (dev_table ''Inter-|'' ''face |'' sample_table)\<rparr>)
     \<lparr>cs_usage = 0, cs_limit = 0\<rparr> n
     (sample_unverified\<lparr>stats_timestamp := 10000, prev_net := \<lparr>ns_bytes_recv = 1000, ns_bytes_send = 0\<rparr>\<rparr>))) = 1250"
proof -
  have "bytes_of 0 sample_table = 3500" "bytes_of 8 sample_table = 40"
    by (simp_all add: bytes_of_def counted_def sample_table_def few_copies)
  then show ?thesis
    using network_rates[of "sample_unverified\<lparr>stats_timestamp := 10000, prev_net := \<lparr>ns_bytes_recv = 1000, ns_bytes_send = 0\<rparr>\<rparr>"
      "sample_denv\<lparr>de_now := \<lambda>w. 12900, de_proc := \<lambda>w p. Some (dev_table ''Inter-|'' ''face |'' sample_table)\<rparr>"
      "''Inter-|''" "''face |''" sample_table "\<lparr>cs_usage = 0, cs_limit = 0\<rparr>"] sample_table_ok
    by auto
qed

text \<open>
  C36: A long counter is misread.  When an interface has received a number of bytes with seventeen
  digits, the conversion of its line stops in the middle of the number: the first sixteen digits
  count as the received bytes, and the column before the sent bytes counts as the sent bytes.
\<close>

theorem long_counter_misread:
  assumes heads: "newline \<notin> set h1" "length h1 < 511" "newline \<notin> set h2" "length h2 < 511"
    and name: "\<forall>c \<in> set name. \<not> isspace c \<and> c \<noteq> CHR 0x00" "length name < 127" "take 2 name \<noteq> ''lo''"
    and cols: "length cols = 15" "\<forall>col \<in> set cols. snd col < 10 ^ 16" "length (net_text (pad, name, (k, n) # cols)) < 511"
    and n: "10 ^ 16 \<le> n" "n < 10 ^ 17"
  shows "GetMachineNetShot (Some (dev_table h1 h2 [(pad, name, (k, n) # cols)])) =
    Some \<lparr>ns_bytes_recv = of_nat (n div 10), ns_bytes_send = of_nat (snd (cols ! 6))\<rparr>"
proof -
  let ?l = "(pad, name, (k, n) # cols)"
  have "newline \<notin> set (net_text ?l)" by (rule net_text_line[OF name(1)])
  then have "\<forall>l \<in> set [h1, h2, net_text ?l]. newline \<notin> set l \<and> length l < 511" using heads cols(3) by auto
  from fgets_lines_concat[OF this]
  have "fgets_lines (dev_table h1 h2 [?l]) = map (\<lambda>l. l @ [newline]) [h1, h2, net_text ?l]" by (simp add: dev_table_def)
  then show ?thesis
    using long_counter[OF name(1) cols(1,2) n, of pad k] name cols(1)
    by (simp add: GetMachineNetShot_def lo_colon del: take_append)
qed

theorem long_counter_misread_witness:
  "GetMachineNetShot (Some (dev_table ''Inter-|'' ''face |'' [(0, ''eth0'', (0, 12345678901234567) # replicate 15 (0, 7))])) =
     Some \<lparr>ns_bytes_recv = 1234567890123456, ns_bytes_send = 7\<rparr>"
proof -
  have "GetMachineNetShot (Some (dev_table ''Inter-|'' ''face |'' [(0, ''eth0'', (0, 12345678901234567) # replicate 15 (0, 7))])) =
     Some \<lparr>ns_bytes_recv = of_nat (12345678901234567 div 10), ns_bytes_send = of_nat (snd (replicate 15 (0::nat, 7::nat) ! 6))\<rparr>"
    by (rule long_counter_misread) (simp_all add: few_copies net_text_def isspace_def decimal.simps)
  then show ?thesis by simp
qed

section \<open>Broadcasts\<close>

text \<open>
  C33: A broadcast goes to the verified daemons, once to each, in the order of the loop, and to
  nobody else; nothing but the network changes, whether or not a write fails.
\<close>

theorem broadcast_exact:
  assumes "loop_clients ps s" and "qs = filter (\<lambda>p. \<exists>c. daemons s p = Some c \<and> dc_verified c) ps"
  shows "distinct qs \<and> set qs = {p. \<exists>c. daemons s p = Some c \<and> dc_verified c} \<and>
    BroadcastClients D ps req s =
      Some (s\<lparr>io := fold (\<lambda>p w. fst (dn_write_request (de_io D) w p req)) qs (io s)\<rparr>)"
proof -
  have "\<forall>p \<in> set ps. daemons s p \<noteq> None" using assms(1) by (auto simp: loop_clients_def)
  then have "BroadcastClients D ps req s =
      Some (s\<lparr>io := fold (\<lambda>p w. fst (dn_write_request (de_io D) w p req)) qs (io s)\<rparr>)"
    unfolding BroadcastClients_eq assms(2) by simp
  then show ?thesis using assms by (auto simp: loop_clients_def)
qed

definition sample_two_daemons :: "(string list, sample_db) process" where
  "sample_two_daemons = sample_process
     \<lparr>daemons := [Addr 8 \<mapsto> \<lparr>dc_verified = True, dc_exp_time = 100, dc_local_host = False\<rparr>,
                  Addr 9 \<mapsto> ProtocoledDaemonClient_new False], io := []\<rparr>"

theorem broadcast_exact_witness:
  "BroadcastClients sample_denv [Addr 9, Addr 8] (MakeNotification ''statistic_service'' ''t'') sample_two_daemons =
     Some (sample_two_daemons\<lparr>io := [''statistic_service'']\<rparr>)"
proof -
  have "loop_clients [Addr 9, Addr 8] sample_two_daemons"
    by (auto simp: loop_clients_def sample_two_daemons_def)
  from broadcast_exact[OF this refl, of sample_denv "MakeNotification ''statistic_service'' ''t''"]
  show ?thesis
    by (simp add: sample_two_daemons_def ProtocoledDaemonClient_new_def sample_denv_simps
        sample_daemon_io_def MakeNotification_def)
qed

section \<open>What a broadcast says\<close>

text \<open>
  A login is announced with its data.  What the observer posts when a subscriber connects is
  one notification whose text is read back as the information of the subscriber; a subscriber
  without login, user, device or expiry date is not announced.
\<close>

theorem announcement_roundtrip:
  assumes "json_laws (de_json D)" and "\<And>j. jl_parse (de_json D) (jl_print (de_json D) j) = Some j"
    and "front_ok info"
  shows "if FrontSubscriberInfo_IsValid info then
      \<exists>t j. OnSubscriberConnected D info s =
          s\<lparr>posted := posted s @ [\<lparr>rq_id = None, rq_method = ''subscriber_connected'', rq_params = Some t\<rparr>]\<rparr> \<and>
        jl_parse (de_json D) t = Some j \<and> FrontSubscriberInfo_DoDeSerialize (de_json D) j = Inr info
    else OnSubscriberConnected D info s = s"
proof (cases "FrontSubscriberInfo_IsValid info")
  case True
  then obtain t where t: "SerializeToString (de_json D) (FrontSubscriberInfo_SerializeFields (de_json D) info) = Inr t"
    by (simp add: SerializeToString_def Serialize_def FrontSubscriberInfo_SerializeFields_def Let_def)
  obtain j where "jl_parse (de_json D) t = Some j" "FrontSubscriberInfo_DoDeSerialize (de_json D) j = Inr info"
    using front_json.printed[OF _ t] assms by blast
  then show ?thesis using True t
    by (auto simp: OnSubscriberConnected_def SubscriberConnectedBroadcast_def post_def MakeNotification_def)
next
  case False
  then show ?thesis
    by (simp add: OnSubscriberConnected_def SubscriberConnectedBroadcast_def post_def SerializeToString_def
        Serialize_def FrontSubscriberInfo_SerializeFields_def)
qed

theorem announcement_roundtrip_witness:
  "\<exists>t j. OnSubscriberConnected (sample_daemon_env None) \<lparr>fs_uid = ''1'', fs_login = ''m'', fs_device = ''2'', fs_exp_date = 9\<rparr>
       sample_process = sample_process\<lparr>posted := posted sample_process @
         [\<lparr>rq_id = None, rq_method = ''subscriber_connected'', rq_params = Some t\<rparr>]\<rparr> \<and>
     jl_parse (sample_json None) t = Some j \<and>
     FrontSubscriberInfo_DoDeSerialize (sample_json None) j =
       Inr \<lparr>fs_uid = ''1'', fs_login = ''m'', fs_device = ''2'', fs_exp_date = 9\<rparr>"
proof -
  let ?f = "\<lparr>fs_uid = ''1'', fs_login = ''m'', fs_device = ''2'', fs_exp_date = 9\<rparr>"
  have "front_ok ?f" by (simp add: front_ok_def nul_free_def int64_def)
  from announcement_roundtrip[OF _ _ this, of "sample_daemon_env None" sample_process]
  show ?thesis
    by (simp add: sample_denv_simps sample_json_laws sample_print_parse FrontSubscriberInfo_IsValid_def)
qed

section \<open>The clients that are online\<close>

lemma state_clients_back:
  assumes J: "json_laws J" and ok: "\<And>f. f \<in> set fs \<Longrightarrow> front_ok f"
  shows "read_clients J (state_clients J fs) = filter FrontSubscriberInfo_IsValid fs"
  using ok
proof (induction fs)
  case (Cons f fs)
  show ?case
  proof (cases "Serialize J (FrontSubscriberInfo_SerializeFields J f)")
    case (Inl err)
    then have "\<not> FrontSubscriberInfo_IsValid f"
      by (auto simp: Serialize_def FrontSubscriberInfo_SerializeFields_def Let_def split: if_splits)
    then show ?thesis using Cons Inl by simp
  next
    case (Inr j)
    then have "FrontSubscriberInfo_IsValid f"
      by (auto simp: Serialize_def FrontSubscriberInfo_SerializeFields_def split: if_splits)
    then show ?thesis using Cons Inr front_json.serialized[of J f j] J by simp
  qed
qed simp

text \<open>
  C32: When a daemon prepares the service, it gets the subscribers that are online.  The answer is a
  text that is read back as the information of every session, each once, but for those without
  a login, user, device or expiry date; the endpoint of the catchups is set, and nothing else
  changes but the network.
\<close>

theorem prepare_reports_online:
  assumes inv: "session_inv s" and c: "daemons s p = Some c" "dc_verified c"
    and J: "json_laws (de_json D)" "\<And>j. jl_parse (de_json D) (jl_print (de_json D) j) = Some j"
    and req: "rq_params req = Some params" "jl_parse (de_json D) params = Some jparams"
      "PrepareInfo_DoDeSerialize (de_json D) jparams = Inr info"
    and ok: "\<And>q. q \<in> online s \<Longrightarrow> front_ok (front_of (identity_of s q))"
  shows "\<exists>t j fs w e. dn_write_response (de_io D) (io s) p \<lparr>dr_id = rq_id req, dr_body = SuccessMessageOf t\<rparr> = (w, e) \<and>
    HandleRequestClientPrepareService D p req s =
      Some (s\<lparr>catchup_endpoint := (pi_catchups_host info, pi_catchups_http_root info), io := w\<rparr>, e) \<and>
    jl_parse (de_json D) t = Some j \<and> StateInfo_DoDeSerialize (de_json D) j = Inr fs \<and>
    mset fs = filter_mset FrontSubscriberInfo_IsValid
      (image_mset (\<lambda>q. front_of (identity_of s q)) (mset_set (online s)))"
proof -
  let ?s1 = "s\<lparr>catchup_endpoint := (pi_catchups_host info, pi_catchups_http_root info)\<rparr>"
  have v: "view ?s1 = view s" "online ?s1 = online s" "identity_of ?s1 = identity_of s"
    using online_view[of ?s1 s] by (simp_all add: identity_of_def fun_eq_iff)
  have "session_inv ?s1" using inv session_inv_view[of ?s1 s] by simp
  from online_subscribers[OF this] obtain gs where gs: "GetOnlineSubscribers ?s1 = Some gs"
    "mset gs = image_mset (\<lambda>q. front_of (identity_of s q)) (mset_set (online s))"
    by (auto simp: v)
  have fin: "finite (online s)" using session_inv_values(1)[OF inv] by (metis List.finite_set)
  have "front_ok f" if "f \<in> set gs" for f
  proof -
    have "f \<in># mset gs" using that by simp
    then show ?thesis unfolding gs(2) using ok fin by auto
  qed
  note reading = state_clients_back[OF J(1) this]
  let ?j = "jl_set_array (de_json D) (jl_new (de_json D)) ''online_clients'' (state_clients (de_json D) gs)"
  have "StateInfo_DoDeSerialize (de_json D) ?j = Inr (filter FrontSubscriberInfo_IsValid gs)"
    using reading J(1) by (simp add: StateInfo_DoDeSerialize_def json_get)
  moreover have "mset (filter FrontSubscriberInfo_IsValid gs) = filter_mset FrontSubscriberInfo_IsValid
      (image_mset (\<lambda>q. front_of (identity_of s q)) (mset_set (online s)))"
    by (simp add: mset_filter gs(2))
  moreover obtain w e where w: "dn_write_response (de_io D) (io s) p
      \<lparr>dr_id = rq_id req, dr_body = SuccessMessageOf (jl_print (de_json D) ?j)\<rparr> = (w, e)" by fastforce
  moreover have "HandleRequestClientPrepareService D p req s = Some (?s1\<lparr>io := w\<rparr>, e)"
    using c req gs(1) w
    by (simp add: HandleRequestClientPrepareService_def verified_def with_daemon_def json_params_def Let_def
        SetupCatchupsEndpoint_def answer_def PrepareServiceSuccess_def PrepareServiceResponceSuccess_def
        write_response_def SerializeToString_def Serialize_def StateInfo_SerializeFields_def MakeMessage_def)
  ultimately show ?thesis using J(2)
    by (intro exI[of _ "jl_print (de_json D) ?j"] exI[of _ ?j] exI[of _ "filter FrontSubscriberInfo_IsValid gs"]
        exI[of _ w] exI[of _ e]) simp
qed

definition sample_prepared :: "(string list, sample_db) process" where
  "sample_prepared = sample_two_daemons
     \<lparr>heap := [Addr 2 \<mapsto> sample_object (Some sample_identity) ''s1''], connections := [(''1'', [Addr 2])]\<rparr>"

lemma sample_prepared_view: "view sample_prepared = [Addr 2 \<mapsto> Some sample_identity]"
  by (auto simp: sample_prepared_def view_def sample_object_def fun_eq_iff)

lemma sample_prepared_inv: "session_inv sample_prepared"
  by (simp add: session_inv_iff_view sample_prepared_view filed_def)
     (simp add: sample_prepared_def sample_identity_def)

theorem prepare_reports_online_witness:
  "\<exists>t j e s'. HandleRequestClientPrepareService (sample_daemon_env None) (Addr 8)
       \<lparr>rq_id = None, rq_method = ''prepare_service'', rq_params = Some ''p''\<rparr> sample_prepared = Some (s', e) \<and>
     jl_parse (sample_json None) t = Some j \<and>
     StateInfo_DoDeSerialize (sample_json None) j = Inr [front_of sample_identity]"
proof -
  have on: "online sample_prepared = {Addr 2}" by (auto simp: online_def sample_prepared_view split: if_splits)
  have ident: "identity_of sample_prepared (Addr 2) = sample_identity"
    by (simp add: identity_of_def sample_prepared_view)
  have f: "front_ok (front_of sample_identity)" "FrontSubscriberInfo_IsValid (front_of sample_identity)"
    by (simp_all add: front_of_def sample_identity_def front_ok_def FrontSubscriberInfo_IsValid_def
        ServerDBAuthInfo_make_def auth_with_exp_def sample_auth_info_def server_auth_info.defs auth_info.defs
        nul_free_def int64_def)
  have d: "daemons sample_prepared (Addr 8) = Some \<lparr>dc_verified = True, dc_exp_time = 100, dc_local_host = False\<rparr>"
    by (simp add: sample_prepared_def sample_two_daemons_def)
  obtain jp where parse: "jl_parse (sample_json None) ''p'' = Some jp" by (simp add: sample_json_def)
  obtain info where info: "PrepareInfo_DoDeSerialize (sample_json None) jp = Inr info"
    by (simp add: PrepareInfo_DoDeSerialize_def Let_def)
  let ?req = "\<lparr>rq_id = None, rq_method = ''prepare_service'', rq_params = Some ''p''\<rparr>"
  have "\<exists>t j fs w e. dn_write_response (de_io (sample_daemon_env None)) (io sample_prepared) (Addr 8)
      \<lparr>dr_id = rq_id ?req, dr_body = SuccessMessageOf t\<rparr> = (w, e) \<and>
    HandleRequestClientPrepareService (sample_daemon_env None) (Addr 8) ?req sample_prepared =
      Some (sample_prepared\<lparr>catchup_endpoint := (pi_catchups_host info, pi_catchups_http_root info), io := w\<rparr>, e) \<and>
    jl_parse (de_json (sample_daemon_env None)) t = Some j \<and>
    StateInfo_DoDeSerialize (de_json (sample_daemon_env None)) j = Inr fs \<and>
    mset fs = filter_mset FrontSubscriberInfo_IsValid
      (image_mset (\<lambda>q. front_of (identity_of sample_prepared q)) (mset_set (online sample_prepared)))"
    by (rule prepare_reports_online[OF sample_prepared_inv d, where params = "''p''" and jparams = jp])
      (use parse info in \<open>simp_all add: sample_denv_simps sample_json_laws sample_print_parse on ident f\<close>)
  then obtain t j fs w e where "HandleRequestClientPrepareService (sample_daemon_env None) (Addr 8) ?req sample_prepared =
      Some (sample_prepared\<lparr>catchup_endpoint := (pi_catchups_host info, pi_catchups_http_root info), io := w\<rparr>, e)"
    "jl_parse (sample_json None) t = Some j" "StateInfo_DoDeSerialize (sample_json None) j = Inr fs"
    "mset fs = filter_mset FrontSubscriberInfo_IsValid
      (image_mset (\<lambda>q. front_of (identity_of sample_prepared q)) (mset_set (online sample_prepared)))"
    unfolding sample_denv_simps(1) by blast
  moreover have "fs = [front_of sample_identity]" using calculation(4) by (simp add: on ident f)
  ultimately show ?thesis by blast
qed

section \<open>Notifications\<close>

text \<open>
  C34: The text of a notification is lost.  An information for a subscriber that is written with a
  text is read with the user and the device it was written with, but always with the text of a new
  object: what the daemon wants to tell the subscriber never arrives.
\<close>

theorem notification_text_lost:
  assumes "json_laws J" and "part_laws J K ok P" and "ok (ni_text n)"
    and "''id'' \<notin> K" and "''device_id'' \<notin> K" and "nul_free (ni_uid n)" and "nul_free (ni_device n)"
    and "NotifySubscriberInfo_SerializeFields J P n j = Inr j'"
  shows "NotifySubscriberInfo_DoDeSerialize J P new_text j' = Inr (n\<lparr>ni_text := new_text\<rparr>)"
proof -
  let ?j = "jl_set_string J (jl_set_string J j ''id'' (ni_uid n)) ''device_id'' (ni_device n)"
  have set: "pt_set P (ni_text n) ?j = Inr j'"
    using assms(8) by (simp add: NotifySubscriberInfo_SerializeFields_def split: if_splits)
  note part = part_get[OF assms(2,3) set]
  have "jl_get_string J j' ''id'' = Inr (ni_uid n)" "jl_get_string J j' ''device_id'' = Inr (ni_device n)"
    using same_fieldD(1)[OF part(2)[OF assms(4)]] same_fieldD(1)[OF part(2)[OF assms(5)]] assms(1,6,7)
    by (simp_all add: json_get json_other)
  then show ?thesis
    using part(1) by (cases n) (simp add: NotifySubscriberInfo_DoDeSerialize_def NotifySubscriberInfo_make_def)
qed

theorem notification_text_lost_witness:
  "\<exists>j. NotifySubscriberInfo_SerializeFields (sample_json None) (sample_text ''message'')
       \<lparr>ni_text = ''hello'', ni_uid = ''1'', ni_device = ''2''\<rparr> (JObj []) = Inr j \<and>
     NotifySubscriberInfo_DoDeSerialize (sample_json None) (sample_text ''message'') [] j =
       Inr \<lparr>ni_text = [], ni_uid = ''1'', ni_device = ''2''\<rparr>"
proof -
  let ?n = "\<lparr>ni_text = ''hello'', ni_uid = ''1'', ni_device = ''2''\<rparr>"
  obtain j where j: "NotifySubscriberInfo_SerializeFields (sample_json None) (sample_text ''message'') ?n (JObj []) = Inr j"
    by (simp add: NotifySubscriberInfo_SerializeFields_def NotifySubscriberInfo_IsValid_def sample_text_def)
  from notification_text_lost[OF sample_json_laws sample_text_laws _ _ _ _ _ this, of "[]"] j
  show ?thesis by (auto simp: nul_free_def)
qed

section \<open>The full information\<close>

text \<open>
  The full information of the service that answers an activation is read back as it was
  written: the figures of the machine, the numbers of clients, the host, the expiry time, the
  project, its version and the operating system.
\<close>

theorem full_info_roundtrip:
  assumes "full_ok J K ok P K' ok' Q i"
    and "SerializeToString J (FullServiceInfo_SerializeFields J P Q i) = Inr t"
    and "\<And>j. jl_parse J (jl_print J j) = Some j"
  shows "\<exists>j. jl_parse J t = Some j \<and> FullServiceInfo_DoDeSerialize J P Q V j = Some (Inr i)"
proof -
  obtain j where j: "FullServiceInfo_SerializeFields J P Q i (jl_new J) = Inr j" "t = jl_print J j"
    using assms(2) by (cases "FullServiceInfo_SerializeFields J P Q i (jl_new J)")
      (auto simp: SerializeToString_def Serialize_def)
  then show ?thesis using full_fields_back[OF assms(1)] assms(3) by auto
qed

definition sample_full_info :: "string full_service_info" where
  "sample_full_info =
     FullServiceInfo_make \<lparr>bd_project = ''project'', bd_version = ''1'', bd_os_snapshot = ''os''\<rparr> ''host:80'' 100
       (ServerInfo_make (sample_machine_info ''0 0 0'') \<lparr>ol_daemon = 1, ol_http = 2, ol_subscribers = 3\<rparr>)"

theorem full_info_roundtrip_witness:
  "\<exists>t j. SerializeToString (sample_json None) (FullServiceInfo_SerializeFields (sample_json None)
         sample_machine (sample_text ''name'') sample_full_info) = Inr t \<and>
     jl_parse (sample_json None) t = Some j \<and>
     FullServiceInfo_DoDeSerialize (sample_json None) sample_machine (sample_text ''name'')
       \<lparr>bd_project = ''other'', bd_version = ''2'', bd_os_snapshot = ''other''\<rparr> j = Some (Inr sample_full_info)"
proof -
  have "full_ok (sample_json None) {''load''} (\<lambda>m. m = sample_machine_info (mi_load_average m)) sample_machine
      {''name''} (\<lambda>t. True) (sample_text ''name'') sample_full_info"
    by (simp add: full_ok_def server_ok_def sample_json_laws sample_machine_laws sample_text_laws)
       (simp add: online_ok_def small64_def host_laws_def int64_def nul_free_def sample_json_def
        sample_full_info_def FullServiceInfo_make_def ServerInfo_make_def machine_info.defs server_info.defs
        sample_machine_info_def)
  moreover obtain t where "SerializeToString (sample_json None) (FullServiceInfo_SerializeFields (sample_json None)
      sample_machine (sample_text ''name'') sample_full_info) = Inr t"
    by (simp add: SerializeToString_def Serialize_def FullServiceInfo_SerializeFields_def Let_def
        ServerInfo_SerializeFields_def OnlineUsers_SerializeFields_def sample_machine_def sample_text_def)
  ultimately show ?thesis using full_info_roundtrip[OF _ _ sample_print_parse] by blast
qed

section \<open>A process that does not end\<close>

text \<open>
  C35: The process hangs when the daemon's port is taken.  If the database can be reached and one of
  the two servers listens, but the daemon server cannot, \<open>Exec\<close> waits for a thread that nobody
  tells to stop, and never returns.
\<close>

theorem exec_hangs:
  assumes "snd (ConnectToDatabase M (cf_mongodb_url (de_config D)) ''iptv'' True s) = None"
    and "\<not> listens daemon" and "listens subs \<or> listens http" and "\<not> stopped s"
  shows "Exec D M subs http daemon run s = None"
proof -
  obtain s1 where s1: "ConnectToDatabase M (cf_mongodb_url (de_config D)) ''iptv'' True s = (s1, None)"
    using assms(1) by (metis prod.collapse)
  have "stopped (fst (ConnectToDatabase M (cf_mongodb_url (de_config D)) ''iptv'' True s)) = stopped s"
    by (simp add: ConnectToDatabase_def MongoEngine_Connect_def handle_simps Let_def split: option.splits)
  then show ?thesis using assms s1 by (auto simp: Exec_def joins_def)
qed

theorem exec_hangs_witness:
  "Exec sample_denv full_driver
     (None, None) (None, None) (Some ErrnoInval, None) (\<lambda>s. Some (s, 0))
     (ProcessSlaveWrapper_new sample_denv sample_rpc [] (''host'', DirPath ''/root'') []) = None"
  by (rule exec_hangs)
    (simp_all add: connect_first_missing sample_driver_def sample_denv_simps sample_config_def listens_def
      ProcessSlaveWrapper_new_sel)

end
