(* ===== verification/Entry_Point.thy ===== *)
theory Entry_Point
  imports Daemon_Handlers
begin

text \<open>
  The entry point (\<open>src/daemon_slave.cpp\<close>): the options of the command line, the configuration, the
  pid file whose lock admits one instance, and the life of the process between them.  The file
  system, the terminal and the daemonisation are calls on the world, the macros of the build are
  fields; the log is left out.
\<close>

section \<open>Surroundings\<close>

datatype stream = Stdout | Stderr

text \<open>
  \<open>en_files\<close> are the contents of the files, \<open>en_print\<close> writes to a stream, \<open>en_daemonise\<close> is
  \<open>create_as_daemon\<close>, \<open>en_dir_path\<close> is \<open>get_dir_path\<close>, and an open file is a handle.
\<close>

record ('h, 'io) entry_env =
  en_config_lib :: "'h config_lib"
  en_files :: "'io \<Rightarrow> string \<Rightarrow> string option"
  en_config_path :: string
  en_pidfile_path :: string
  en_service_name :: string
  en_version :: string
  en_print :: "'io \<Rightarrow> stream \<Rightarrow> string \<Rightarrow> 'io"
  en_description :: "errno \<Rightarrow> string"
  en_io :: "'io daemon_io"
  en_host_valid :: "host \<Rightarrow> bool"
  en_docker :: "host \<Rightarrow> bool"
  en_local_host :: "host \<Rightarrow> host"
  en_connect :: "'io \<Rightarrow> host \<Rightarrow> 'io \<times> (errno + ptr)"
  en_daemonise :: "'io \<Rightarrow> 'io \<times> bool"
  en_init_logger :: "'io \<Rightarrow> string \<Rightarrow> int \<Rightarrow> 'io"
  en_getpid :: "'io \<Rightarrow> int"
  en_dir_path :: "string \<Rightarrow> string"
  en_is_directory :: "'io \<Rightarrow> string \<Rightarrow> bool"
  en_create_directory :: "'io \<Rightarrow> string \<Rightarrow> 'io \<times> bool"
  en_access :: "'io \<Rightarrow> string \<Rightarrow> errno option"
  en_open :: "'io \<Rightarrow> string \<Rightarrow> 'io \<times> (errno + int)"
  en_lock :: "'io \<Rightarrow> int \<Rightarrow> 'io \<times> errno option"
  en_write :: "'io \<Rightarrow> int \<Rightarrow> string \<Rightarrow> 'io \<times> errno option"
  en_unlock :: "'io \<Rightarrow> int \<Rightarrow> 'io \<times> errno option"
  en_close :: "'io \<Rightarrow> int \<Rightarrow> 'io \<times> errno option"
  en_remove :: "'io \<Rightarrow> string \<Rightarrow> 'io \<times> errno option"

text \<open>
  What the process needs beyond the configuration: the surroundings of its handlers, the driver, the
  empty endpoint, the contents of the database, the results of \<open>Bind\<close> and \<open>Listen\<close> of the three
  servers, and what the loop of the daemon server does until it ends.
\<close>

record ('j, 'io, 'os, 'db) boot =
  bt_denv :: "('j, 'io, 'os) daemon_env"
  bt_rpc :: rpc_lib
  bt_driver :: mongo_driver
  bt_no_endpoint :: "host \<times> dirpath"
  bt_store :: 'db
  bt_subscribers :: listening
  bt_http :: listening
  bt_daemon :: listening
  bt_run :: "('j, 'io, 'os) daemon_env \<Rightarrow> ('io, 'db) process \<Rightarrow> (('io, 'db) process \<times> int) option"

abbreviation EXIT_SUCCESS :: int where "EXIT_SUCCESS \<equiv> 0"
abbreviation EXIT_FAILURE :: int where "EXIT_FAILURE \<equiv> 1"

definition HELP_TEXT :: "string \<Rightarrow> string" where
  "HELP_TEXT service =
     ''Usage: '' @ service @ '' [options]'' @ [newline] @ ''  Manipulate '' @ service @ ''.'' @
     [newline, newline] @ ''    --version  display version'' @ [newline] @
     ''    --daemon   run as a daemon'' @ [newline] @ ''    --stop     stop running instance'' @ [newline]"

text \<open>\<open>stream << text << std::endl\<close>.\<close>

definition print_line :: "('h, 'io) entry_env \<Rightarrow> stream \<Rightarrow> string \<Rightarrow> 'io \<Rightarrow> 'io" where
  "print_line E to t w = en_print E w to (t @ [newline])"

definition load_config :: "('h, 'io) entry_env \<Rightarrow> 'io \<Rightarrow> errno + config" where
  "load_config E w = fst (load_config_from_file (en_config_lib E) (en_files E w) (en_config_path E))"

definition config_error :: "('h, 'io) entry_env \<Rightarrow> errno \<Rightarrow> 'io \<Rightarrow> 'io" where
  "config_error E err =
     print_line E Stderr
       (''Can't read config, file path: '' @ en_config_path E @ '', error: '' @ en_description E err)"

section \<open>The command line\<close>

text \<open>\<open>--stop\<close>: ask the running instance to end.\<close>

definition stop_running :: "('h, 'io) entry_env \<Rightarrow> 'io \<Rightarrow> 'io \<times> int" where
  "stop_running E w =
     (case load_config E w of
        Inl err \<Rightarrow> (config_error E err w, EXIT_FAILURE)
      | Inr cfg \<Rightarrow>
          (case SendStopDaemonRequest (en_io E) (en_host_valid E) (en_docker E) (en_local_host E)
                  (en_connect E) cfg w of
             (w1, Some err) \<Rightarrow>
               (print_line E Stderr (''Stop command failed error: '' @ en_description E err) w1, EXIT_FAILURE)
           | (w1, None) \<Rightarrow> (w1, EXIT_SUCCESS)))"

text \<open>
  The loop over the arguments.  The result is the exit code of an option that ends the program, or
  whether to run as a daemon.
\<close>

fun read_options ::
    "('h, 'io) entry_env \<Rightarrow> string list \<Rightarrow> bool \<Rightarrow> 'io \<Rightarrow> 'io \<times> (int + bool)" where
  "read_options E [] run_as_daemon w = (w, Inr run_as_daemon)"
| "read_options E (arg # argv) run_as_daemon w =
     (if arg = ''--version'' then (print_line E Stdout (en_version E) w, Inl EXIT_SUCCESS)
      else if arg = ''--daemon'' then read_options E argv True w
      else if arg = ''--stop'' then (case stop_running E w of (w1, res) \<Rightarrow> (w1, Inl res))
      else if arg = ''--help'' \<or> arg = ''-h'' then
        (print_line E Stdout (HELP_TEXT (en_service_name E)) w, Inl EXIT_SUCCESS)
      else (print_line E Stderr (HELP_TEXT (en_service_name E)) w, Inl EXIT_FAILURE))"

section \<open>The pid file\<close>

text \<open>
  From the directory of the pid file to the number in it.  The result is the handle of the locked
  file; on an error the program ends with a failure.
\<close>

definition pid_directory :: "('h, 'io) entry_env \<Rightarrow> 'io \<Rightarrow> 'io \<times> bool" where
  "pid_directory E w =
     (let folder = en_dir_path E (en_pidfile_path E)
      in if folder = [] then (w, False)
         else case (if en_is_directory E w folder then (w, True) else en_create_directory E w folder) of
                (w1, False) \<Rightarrow> (w1, False)
              | (w1, True) \<Rightarrow> (w1, en_access E w1 folder = None))"

definition lock_pidfile :: "('h, 'io) entry_env \<Rightarrow> int \<Rightarrow> 'io \<Rightarrow> 'io \<times> int option" where
  "lock_pidfile E daemon_pid w =
     (case en_open E w (en_pidfile_path E) of
        (w1, Inl err) \<Rightarrow> (w1, None)
      | (w1, Inr pidfile) \<Rightarrow>
          (case en_lock E w1 pidfile of
             (w2, Some err) \<Rightarrow> (w2, None)
           | (w2, None) \<Rightarrow>
               (case en_write E w2 pidfile (decimal_int daemon_pid @ [newline]) of
                  (w3, Some err) \<Rightarrow> (w3, None)
                | (w3, None) \<Rightarrow> (w3, Some pidfile))))"

text \<open>After the run: unlock, close and remove the file; an error of the removal is only logged.\<close>

definition release_pidfile :: "('h, 'io) entry_env \<Rightarrow> int \<Rightarrow> int \<Rightarrow> 'io \<Rightarrow> 'io \<times> int" where
  "release_pidfile E pidfile res w =
     (case en_unlock E w pidfile of
        (w1, Some err) \<Rightarrow> (w1, EXIT_FAILURE)
      | (w1, None) \<Rightarrow>
          (case en_close E w1 pidfile of
             (w2, Some err) \<Rightarrow> (w2, EXIT_FAILURE)
           | (w2, None) \<Rightarrow> (fst (en_remove E w2 (en_pidfile_path E)), res)))"

section \<open>The program\<close>

definition run_process ::
    "('j, 'io, 'os, 'db) boot \<Rightarrow> config \<Rightarrow> 'io \<Rightarrow> (('io, 'db) process \<times> int) option" where
  "run_process B cfg w =
     (let D = (bt_denv B)\<lparr>de_config := cfg\<rparr>
      in Exec D (bt_driver B) (bt_subscribers B) (bt_http B) (bt_daemon B) (bt_run B D)
           (ProcessSlaveWrapper_new D (bt_rpc B) w (bt_no_endpoint B) (bt_store B)))"

text \<open>
  What happens to the world after \<open>Exec\<close>: the pid file is released, and then the destructors of the
  local objects run, the last one first.
\<close>

definition finish_process ::
    "('h, 'io) entry_env \<Rightarrow> int \<Rightarrow> ('io, 'db) process \<times> int \<Rightarrow> 'io \<times> int" where
  "finish_process E pidfile r =
     (case release_pidfile E pidfile (snd r) (io (fst r)) of
        (w, code) \<Rightarrow> (io (ProcessSlaveWrapper_destroy ((fst r)\<lparr>io := w\<rparr>)), code))"

definition daemonise :: "('h, 'io) entry_env \<Rightarrow> bool \<Rightarrow> 'io \<Rightarrow> 'io \<times> bool" where
  "daemonise E run_as_daemon w = (if run_as_daemon then en_daemonise E w else (w, True))"

definition start_service ::
    "('h, 'io) entry_env \<Rightarrow> ('j, 'io, 'os, 'db) boot \<Rightarrow> bool \<Rightarrow> 'io \<Rightarrow> ('io \<times> int) option" where
  "start_service E B run_as_daemon w =
     (case load_config E w of
        Inl err \<Rightarrow> Some (config_error E err w, EXIT_FAILURE)
      | Inr cfg \<Rightarrow>
          (case daemonise E run_as_daemon w of
             (w1, False) \<Rightarrow> Some (w1, EXIT_FAILURE)
           | (w1, True) \<Rightarrow>
               (let w2 = en_init_logger E w1 (cf_log_path cfg) (cf_log_level cfg)
                in case pid_directory E w2 of
                     (w3, False) \<Rightarrow> Some (w3, EXIT_FAILURE)
                   | (w3, True) \<Rightarrow>
                       (case lock_pidfile E (en_getpid E w2) w3 of
                          (w4, None) \<Rightarrow> Some (w4, EXIT_FAILURE)
                        | (w4, Some pidfile) \<Rightarrow>
                            map_option (finish_process E pidfile) (run_process B cfg w4)))))"

text \<open>\<open>argv\<close> is without the name of the program; nothing when the program never ends.\<close>

definition main ::
    "('h, 'io) entry_env \<Rightarrow> ('j, 'io, 'os, 'db) boot \<Rightarrow> string list \<Rightarrow> 'io \<Rightarrow> ('io \<times> int) option" where
  "main E B argv w =
     (case read_options E argv False w of
        (w1, Inl res) \<Rightarrow> Some (w1, res)
      | (w1, Inr run_as_daemon) \<Rightarrow> start_service E B run_as_daemon w1)"

end
