(* ===== verification/Process_Frames.thy ===== *)
theory Process_Frames
  imports Process_Run
begin

text \<open>
  What the handlers of the daemons leave alone beside the books: the queue of posted broadcasts and
  whether the loops have been told to stop; and what an event of the two servers adds to the queue.
\<close>

section \<open>The queue and the end\<close>

definition apart :: "('io, 'db, 'a) process_scheme \<Rightarrow> rpc_request list \<times> bool" where
  "apart s = (posted s, stopped s)"

lemma apart_updates [simp]:
  "apart (s\<lparr>io := w\<rparr>) = apart s" "apart (s\<lparr>daemons := d\<rparr>) = apart s" "apart (s\<lparr>catchup_endpoint := c\<rparr>) = apart s"
  "apart (s\<lparr>prev_cpu := pc\<rparr>) = apart s" "apart (s\<lparr>prev_net := pn\<rparr>) = apart s"
  "apart (s\<lparr>stats_timestamp := i\<rparr>) = apart s" "apart (s\<lparr>ping_client_timer := i\<rparr>) = apart s"
  "apart (s\<lparr>node_stats_timer := i\<rparr>) = apart s" "apart (s\<lparr>check_license_timer := i\<rparr>) = apart s"
  by (simp_all add: apart_def)

definition runs_on :: "(('io, 'db, 'a) process_scheme \<Rightarrow> ('io, 'db, 'a) daemon_handled) \<Rightarrow> bool" where
  "runs_on k \<longleftrightarrow> (\<forall>s s' e. k s = Some (s', e) \<longrightarrow> apart s' = apart s)"

lemma runs_onD: "runs_on k \<Longrightarrow> k s = Some (s', e) \<Longrightarrow> apart s' = apart s"
  by (auto simp: runs_on_def)

lemma runs_on_verified: "runs_on k \<Longrightarrow> runs_on (verified p k)"
  by (auto simp: runs_on_def verified_def with_daemon_def split: option.splits if_splits)

lemma runs_on_json: "(\<And>j. runs_on (k j)) \<Longrightarrow> runs_on (json_params D req k)"
  by (auto simp: runs_on_def json_params_def split: option.splits)

lemma answer_runs_on: "answer f s = (t, e) \<Longrightarrow> apart t = apart s" "apart (fst (answer f s)) = apart s"
  by (auto simp: answer_def split: prod.splits)

lemma stats_runs_on: "MakeServiceStats D ps n s = Some (t, s') \<Longrightarrow> apart s' = apart s"
  by (auto simp: MakeServiceStats_def Let_def split: option.splits)

lemma notification_runs_on:
  fixes s s' :: "('io, 'db, 'a) process_scheme"
  assumes "SendSubscriberNotification C uid dev msg s = Some (s', e)"
  shows "apart s' = apart s"
  using assms by (auto simp: SendSubscriberNotification_def split: option.splits prod.splits)

lemma broadcast_runs_on: "BroadcastClients D ps req s = Some s' \<Longrightarrow> apart s' = apart s"
  by (auto simp: BroadcastClients_eq split: if_splits)

lemma finish_runs_on: "finish_activation D ps p req tm s = Some (s', e) \<Longrightarrow> apart s' = apart s"
  by (auto simp: finish_activation_def with_daemon_def answer_runs_on stats_runs_on
      split: option.splits prod.splits)

lemma other_requests_run_on:
  assumes "rq_method req \<noteq> ''stop_service''"
  shows "runs_on (HandleRequestServiceCommand D ps p req)"
proof -
  note rules = runs_on_verified runs_on_json
  have "runs_on (HandleRequestClientPingService D p req)"
    unfolding HandleRequestClientPingService_def
    by (intro rules) (auto simp: runs_on_def bad_info_def answer_runs_on split: option.splits)
  moreover have "runs_on (HandleRequestClientSyncService D p req)"
    unfolding HandleRequestClientSyncService_def
    by (intro rules) (auto simp: runs_on_def bad_info_def answer_runs_on split: sum.splits)
  moreover have "runs_on (HandleRequestClientGetLogService D p req)"
    unfolding HandleRequestClientGetLogService_def
    by (intro rules) (auto simp: runs_on_def Let_def answer_runs_on split: sum.splits if_splits prod.splits option.splits)
  moreover have "runs_on (HandleRequestClientSendMessageForSubscriber D p req)"
    unfolding HandleRequestClientSendMessageForSubscriber_def
    by (intro rules) (auto simp: runs_on_def bad_info_def answer_runs_on notification_runs_on
        split: sum.splits option.splits)
  moreover have "runs_on (HandleRequestClientPrepareService D p req)"
    unfolding HandleRequestClientPrepareService_def
    by (intro rules) (auto simp: runs_on_def bad_info_def Let_def answer_runs_on SetupCatchupsEndpoint_def
        split: sum.splits option.splits)
  moreover have "runs_on (HandleRequestClientActivate_daemon D ps p req)"
    unfolding HandleRequestClientActivate_daemon_def
    by (intro rules) (auto simp: runs_on_def activation_fails_def answer_runs_on finish_runs_on
        split: sum.splits option.splits if_splits)
  ultimately show ?thesis using assms
    by (auto simp: HandleRequestServiceCommand_def) (simp add: runs_on_def)
qed

lemma responses_run_on: "runs_on (HandleResponceServiceCommand D p resp)"
  unfolding HandleResponceServiceCommand_def
  by (rule runs_on_verified)
     (auto simp: runs_on_def split: prod.splits option.splits dest!: warn_response_same response_ignored_same)

lemma ping_runs_on: "opt_fold (ping_daemon D) ps s = Some s' \<Longrightarrow> apart s' = apart s"
proof (induction ps arbitrary: s)
  case (Cons p ps)
  then obtain t where t: "ping_daemon D p s = Some t" "opt_fold (ping_daemon D) ps t = Some s'"
    by (auto split: option.splits)
  have "apart t = apart s" using t(1)
    by (auto simp: ping_daemon_def drop_daemon_def split: option.splits prod.splits if_splits)
  then show ?case using Cons.IH[OF t(2)] by simp
qed simp

lemma stop_posts_nothing:
  "HandleRequestClientStopService D p req s = Some (s', e) \<Longrightarrow> posted s' = posted s"
  by (auto simp: HandleRequestClientStopService_def with_daemon_def json_params_def bad_info_def answer_def
      StopImpl_def split: option.splits if_splits prod.splits)

lemma requests_post_nothing:
  assumes "HandleRequestServiceCommand D ps p req s = Some (s', e)"
  shows "posted s' = posted s"
proof (cases "rq_method req = ''stop_service''")
  case True
  then show ?thesis using assms stop_posts_nothing by (auto simp: HandleRequestServiceCommand_def)
next
  case False
  then show ?thesis using runs_onD[OF other_requests_run_on assms] by (simp add: apart_def)
qed

lemma responses_post_nothing:
  "HandleResponceServiceCommand D p resp s = Some (s', e) \<Longrightarrow> posted s' = posted s"
  using runs_onD[OF responses_run_on] by (fastforce simp: apart_def)

lemma data_posts_nothing:
  assumes "DataReceived_daemon D ps p s = Some s'"
  shows "posted s' = posted s"
proof -
  have "posted t = posted s" if "DaemonDataReceived D ps p s = Some (t, e)" for t e
    using that
    by (auto simp: DaemonDataReceived_def Let_def split: prod.splits sum.splits option.splits
        dest!: requests_post_nothing responses_post_nothing)
  then show ?thesis using assms
    by (auto simp: DataReceived_daemon_def drop_daemon_def split: option.splits prod.splits)
qed

lemma apart_posted: "apart t = apart s \<Longrightarrow> posted t = posted s"
  and apart_stopped: "apart t = apart s \<Longrightarrow> stopped t = stopped s"
  by (simp_all add: apart_def)

lemma timer_posts_nothing:
  assumes "TimerEmited_daemon D ps tid s = Some s'"
  shows "posted s' = posted s"
proof -
  have stats: "posted s' = posted s"
    if "MakeServiceStats D ps 0 s = Some (t, s1)" "BroadcastClients D ps req s1 = Some s'" for t s1 req
    using stats_runs_on[OF that(1)] broadcast_runs_on[OF that(2)] by (simp add: apart_def)
  have license: "posted (CheckLicenseExpired D s) = posted s"
    by (simp add: CheckLicenseExpired_def StopImpl_def split: option.splits)
  show ?thesis
  proof (cases "ping_client_timer s = tid")
    case True
    then show ?thesis using assms by (auto simp: TimerEmited_daemon_def dest!: ping_runs_on apart_posted)
  next
    case False
    then show ?thesis using assms stats license
      by (auto simp: TimerEmited_daemon_def StatisitcServiceBroadcast_def split: if_splits option.splits)
  qed
qed

section \<open>What the observer posts\<close>

text \<open>The broadcast for each event and notice; one whose data cannot be serialised is not posted.\<close>

definition event_request :: "('j, 'io, 'os) daemon_env \<Rightarrow> sub_event \<Rightarrow> error + rpc_request" where
  "event_request D e =
     (case e of
        SubscriberConnected info \<Rightarrow> SubscriberConnectedBroadcast (de_json D) info
      | SubscriberDisConnected info \<Rightarrow> SubscriberDisConnectedBroadcast (de_json D) info)"

definition notice_request :: "('j, 'io, 'os) daemon_env \<Rightarrow> notice \<Rightarrow> error + rpc_request" where
  "notice_request D n =
     (case n of
        CatchupCreated serverid chan \<Rightarrow>
          CatchupCreatedBroadcast (de_json D) (de_catchup_json D)
            (case serverid of None \<Rightarrow> [] | Some i \<Rightarrow> i) chan
      | ContentRequestCreated request \<Rightarrow> ContentRequestCreatedBroadcast (de_content_json D) request)"

definition messages :: "(error + rpc_request) list \<Rightarrow> rpc_request list" where
  "messages rs = concat (map (case_sum (\<lambda>err. []) (\<lambda>req. [req])) rs)"

lemma messages_append [simp]: "messages (xs @ ys) = messages xs @ messages ys"
  by (simp add: messages_def)

lemma observe_event_posts:
  "posted (observe_event D e s) = posted s @ messages [event_request D e]"
  "stopped (observe_event D e s) = stopped s"
  by (simp_all add: observe_event_def OnSubscriberConnected_def OnSubscriberDisConnected_def post_def
      event_request_def messages_def split: sub_event.splits sum.splits)

lemma observe_notice_posts:
  "posted (observe_notice D n s) = posted s @ messages [notice_request D n]"
  "stopped (observe_notice D n s) = stopped s"
  by (simp_all add: observe_notice_def OnCatchupCreated_def OnContentRequestCreated_def post_def
      notice_request_def messages_def split: notice.splits sum.splits)

lemma observe_all_events:
  "posted (fold (observe_event D) es s) = posted s @ messages (map (event_request D) es) \<and>
   stopped (fold (observe_event D) es s) = stopped s"
proof (induction es arbitrary: s)
  case (Cons e es)
  show ?case
    using Cons.IH[of "observe_event D e s"] messages_append[of "[event_request D e]" "map (event_request D) es"]
    by (simp add: observe_event_posts)
qed (simp add: messages_def)

lemma observe_all_notices:
  "posted (fold (observe_notice D) ns s) = posted s @ messages (map (notice_request D) ns) \<and>
   stopped (fold (observe_notice D) ns s) = stopped s"
proof (induction ns arbitrary: s)
  case (Cons n ns)
  show ?case
    using Cons.IH[of "observe_notice D n s"] messages_append[of "[notice_request D n]" "map (notice_request D) ns"]
    by (simp add: observe_notice_posts)
qed (simp add: messages_def)

lemma observe_posts:
  "posted (observe D s t) =
     posted t @ messages (map (notice_request D) (drop (length (notices s)) (notices t))) @
     messages (map (event_request D) (drop (length (events s)) (events t)))"
  "stopped (observe D s t) = stopped t"
  by (simp_all add: observe_def observe_all_events observe_all_notices)

end
