(* ===== verification/Entry_Properties.thy ===== *)
theory Entry_Properties
  imports Entry_Point Daemon_Properties Process_Frames
begin

text \<open>
  The program from its command line to its end: what decides about an argument list, that the pid
  file admits one instance, that \<open>--stop\<close> ends a running instance, and that nothing but a request
  to stop and the license ends it.
\<close>

section \<open>The command line\<close>

lemma read_daemon_options:
  "read_options E (replicate n ''--daemon'' @ argv) d w = read_options E argv (d \<or> n > 0) w"
  by (induction n arbitrary: d) simp_all

lemma read_daemon_only: "read_options E (replicate n ''--daemon'') d w = (w, Inr (d \<or> n > 0))"
  using read_daemon_options[of E n "[]" d w] by simp

text \<open>
  The first argument that is not \<open>--daemon\<close> decides.  Whatever follows it is not looked at, the
  process is not run and the pid file not touched: \<open>--version\<close> and \<open>--help\<close> print to the standard
  output and succeed, \<open>--stop\<close> gives the exit code of the request to stop, and anything else prints
  the help to the error output and fails.  With nothing but \<open>--daemon\<close> the service is started.
\<close>

theorem first_option_decides:
  assumes "a \<noteq> ''--daemon''"
  shows "main E B (replicate n ''--daemon'' @ a # rest) w =
      Some (if a = ''--version'' then (en_print E w Stdout (en_version E @ [newline]), 0)
            else if a = ''--stop'' then stop_running E w
            else if a \<in> {''--help'', ''-h''} then
              (en_print E w Stdout (HELP_TEXT (en_service_name E) @ [newline]), 0)
            else (en_print E w Stderr (HELP_TEXT (en_service_name E) @ [newline]), 1)) \<and>
    main E B (replicate n ''--daemon'') w = start_service E B (n > 0) w"
  using assms
  by (simp_all add: main_def read_daemon_options read_daemon_only print_line_def split: prod.splits)

section \<open>One instance\<close>

text \<open>
  \<open>held\<close>: the lock of the pid file belongs to a process that is running.  Nothing the program does
  before it has the lock takes it away from its owner, and the attempt to lock fails.
\<close>

definition lock_laws :: "('h, 'io) entry_env \<Rightarrow> ('io \<Rightarrow> bool) \<Rightarrow> bool" where
  "lock_laws E held \<longleftrightarrow>
     (\<forall>w. held w \<longrightarrow>
        held (fst (en_daemonise E w)) \<and> (\<forall>p l. held (en_init_logger E w p l)) \<and>
        (\<forall>d. held (fst (en_create_directory E w d))) \<and>
        (\<forall>w1 f. en_open E w (en_pidfile_path E) = (w1, Inr f) \<longrightarrow> snd (en_lock E w1 f) \<noteq> None))"

lemma held_no_pidfile:
  assumes "lock_laws E held" and "held w"
  shows "snd (lock_pidfile E i w) = None"
  using assms by (auto simp: lock_pidfile_def lock_laws_def split: prod.splits sum.splits option.splits)

lemma held_directory:
  assumes "lock_laws E held" and "held w"
  shows "held (fst (pid_directory E w))"
  using assms by (auto simp: pid_directory_def lock_laws_def Let_def split: prod.splits bool.splits if_splits)
     (metis fst_conv)+

text \<open>
  C18: One instance.  While another process holds the lock of the pid file, a start of the service
  fails with exit code 1 and does not run the process, whatever it would have done.
\<close>

theorem single_instance:
  assumes "lock_laws E held" and "held w"
  shows "\<exists>w'. \<forall>B. main E B (replicate n ''--daemon'') w = Some (w', 1)"
proof -
  have start: "main E B (replicate n ''--daemon'') w = start_service E B (n > 0) w" for B
    by (simp add: main_def read_daemon_only)
  show ?thesis
  proof (cases "load_config E w")
    case (Inl err)
    then show ?thesis unfolding start by (simp add: start_service_def)
  next
    case (Inr cfg)
    obtain w1 b where w1: "daemonise E (n > 0) w = (w1, b)" by fastforce
    let ?w2 = "en_init_logger E w1 (cf_log_path cfg) (cf_log_level cfg)"
    obtain w3 d where w3: "pid_directory E ?w2 = (w3, d)" by fastforce
    have "held w1" using assms w1 by (auto simp: daemonise_def lock_laws_def split: if_splits)
    then have "held w3" using assms(1) held_directory[OF assms(1), of ?w2] w3 by (simp add: lock_laws_def)
    then have "snd (lock_pidfile E (en_getpid E ?w2) w3) = None" by (rule held_no_pidfile[OF assms(1)])
    then show ?thesis unfolding start
      by (cases "lock_pidfile E (en_getpid E ?w2) w3")
         (simp add: start_service_def Inr w1 w3 Let_def split: bool.splits)
  qed
qed

section \<open>Ending the process\<close>

text \<open>
  The request to stop has been sent: the configuration is read and valid, the server it names accepts
  the connection \<open>p\<close>, and the request \<open>req\<close> is written to it, which leaves the world \<open>v\<close>.
\<close>

definition stop_sent :: "('h, 'io) entry_env \<Rightarrow> 'io \<Rightarrow> ptr \<Rightarrow> rpc_request \<Rightarrow> 'io \<Rightarrow> bool" where
  "stop_sent E w p req v \<longleftrightarrow>
     (\<exists>cfg w1 i w2 body.
        load_config E w = Inr cfg \<and> Config_IsValid (en_host_valid E) cfg \<and>
        en_connect E w (if en_docker E (cf_host cfg) then en_local_host E (cf_host cfg) else cf_host cfg) = (w1, Inr p) \<and>
        dn_stop_info (en_io E) w1 = Inr body \<and> dn_next_request_id (en_io E) w1 p = (i, w2) \<and>
        req = \<lparr>rq_id = i, rq_method = ''stop_service'', rq_params = Some body\<rparr> \<and>
        dn_write_request (en_io E) w2 p req = (v, None))"

lemma stop_running_exact:
  "stop_sent E w p req v \<Longrightarrow> stop_running E w = (dn_close (en_io E) v p, 0)"
  "(\<nexists>p req v. stop_sent E w p req v) \<Longrightarrow> \<exists>w'. stop_running E w = (w', 1)"
proof -
  note defs = stop_running_def SendStopDaemonRequest_def StopMe_def write_request_def StopServiceRequest_def
    make_request_def
  show "stop_sent E w p req v \<Longrightarrow> stop_running E w = (dn_close (en_io E) v p, 0)"
    by (auto simp: stop_sent_def defs Let_def)
  assume none: "\<nexists>p req v. stop_sent E w p req v"
  show "\<exists>w'. stop_running E w = (w', 1)"
  proof (cases "load_config E w")
    case (Inr cfg)
    obtain w1 r where c: "SendStopDaemonRequest (en_io E) (en_host_valid E) (en_docker E) (en_local_host E)
        (en_connect E) cfg w = (w1, r)" by fastforce
    have "r \<noteq> None"
    proof
      assume "r = None"
      then have "\<exists>p req v. stop_sent E w p req v"
        using c Inr unfolding stop_sent_def SendStopDaemonRequest_def StopMe_def write_request_def
          StopServiceRequest_def make_request_def
        by (auto simp: Let_def split: if_splits prod.splits sum.splits)
      with none show False by blast
    qed
    then show ?thesis using Inr c by (auto simp: stop_running_def)
  qed (simp add: stop_running_def)
qed

lemma stop_request_stops:
  assumes read: "dn_read_command (de_io D) (io s) q = (x, Inr cmd)" "de_parse D cmd = Inr (Some req, None)"
    and req: "rq_method req = ''stop_service''" "rq_params req = Some body" "jl_parse (de_json D) body = Some j"
      "de_stop_info D j = None"
    and q: "daemons s q = Some c" "dc_verified c \<or> dc_local_host c"
  shows "\<exists>s'. DataReceived_daemon D ps q s = Some s' \<and> stopped s' \<and> daemons s' = daemons s"
  using assms
  by (auto simp: DataReceived_daemon_def DaemonDataReceived_def HandleRequestServiceCommand_def
      HandleRequestClientStopService_def with_daemon_def json_params_def answer_def StopImpl_def Let_def
      split: prod.splits)

text \<open>
  C19: \<open>--stop\<close> stops.  The program ends with success exactly when it has sent its request: the
  configuration is read and valid, the connection is accepted, and the request is written; otherwise
  it fails.  If the daemon server of a running instance then reads a text from a connection \<open>q\<close>, verified
  or of the local host, that its library parses to the request that was written, with parameters the
  library understands, the three loops are told to stop and no connection is dropped.  That what was
  written is what is read is left to the network and the library.
\<close>

theorem stop_command_stops:
  assumes info: "\<forall>u body. dn_stop_info (en_io E) u = Inr body \<longrightarrow>
      (\<exists>j. jl_parse (de_json D) body = Some j \<and> de_stop_info D j = None)"
    and read: "dn_read_command (de_io D) (io s) q = (x, Inr cmd)"
    and q: "daemons s q = Some c" "dc_verified c \<or> dc_local_host c"
  shows "(\<forall>p req v. stop_sent E w p req v \<longrightarrow>
      main E B (replicate n ''--daemon'' @ ''--stop'' # rest) w = Some (dn_close (en_io E) v p, 0) \<and>
      (de_parse D cmd = Inr (Some req, None) \<longrightarrow>
        (\<exists>s'. DataReceived_daemon D ps q s = Some s' \<and> stopped s' \<and> daemons s' = daemons s))) \<and>
    ((\<nexists>p req v. stop_sent E w p req v) \<longrightarrow>
      (\<exists>w'. main E B (replicate n ''--daemon'' @ ''--stop'' # rest) w = Some (w', 1)))"
proof -
  have main: "main E B (replicate n ''--daemon'' @ ''--stop'' # rest) w = Some (stop_running E w)"
    by (simp add: main_def read_daemon_options split: prod.splits)
  have "\<exists>s'. DataReceived_daemon D ps q s = Some s' \<and> stopped s' \<and> daemons s' = daemons s"
    if sent: "stop_sent E w p req v" "de_parse D cmd = Inr (Some req, None)" for p req v
  proof -
    obtain u i body where "dn_stop_info (en_io E) u = Inr body"
      and req: "req = \<lparr>rq_id = i, rq_method = ''stop_service'', rq_params = Some body\<rparr>"
      using sent(1) by (auto simp: stop_sent_def)
    then obtain j where "jl_parse (de_json D) body = Some j" "de_stop_info D j = None" using info by blast
    with stop_request_stops[OF read sent(2) _ _ _ _ q] req show ?thesis by simp
  qed
  then show ?thesis unfolding main using stop_running_exact[of E w] by auto
qed

text \<open>The two reasons to stop: a request, and the license.\<close>

definition stop_asked :: "('j, 'io, 'os) daemon_env \<Rightarrow> ptr \<Rightarrow> 'io \<Rightarrow> bool" where
  "stop_asked D p w =
     (case snd (dn_read_command (de_io D) w p) of
        Inl err \<Rightarrow> False
      | Inr cmd \<Rightarrow>
          (case de_parse D cmd of
             Inr (Some req, resp) \<Rightarrow> rq_method req = ''stop_service''
           | _ \<Rightarrow> False))"

definition license_over :: "('j, 'io, 'os) daemon_env \<Rightarrow> 'io \<Rightarrow> bool" where
  "license_over D w =
     (case Option.bind (cf_license_key (de_config D)) (de_expire_time D) of
        None \<Rightarrow> True | Some tm \<Rightarrow> tm < de_now D w)"

lemma data_stops:
  assumes d: "DataReceived_daemon D ps p s = Some s'" and s: "stopped s' \<noteq> stopped s"
  shows "\<exists>c. daemons s p = Some c \<and> (dc_verified c \<or> dc_local_host c) \<and> stop_asked D p (io s)"
proof -
  obtain c where c: "daemons s p = Some c" using d by (auto simp: DataReceived_daemon_def split: option.splits)
  have "\<exists>t e. DaemonDataReceived D ps p s = Some (t, e) \<and> stopped t \<noteq> stopped s"
    using d s by (auto simp: DataReceived_daemon_def drop_daemon_def split: option.splits prod.splits)
  then obtain t e where t: "DaemonDataReceived D ps p s = Some (t, e)" "stopped t \<noteq> stopped s" by blast
  obtain w r where r: "dn_read_command (de_io D) (io s) p = (w, r)" by fastforce
  show ?thesis
  proof (rule ccontr)
    assume none: "\<nexists>c. daemons s p = Some c \<and> (dc_verified c \<or> dc_local_host c) \<and> stop_asked D p (io s)"
    have "stopped u = stopped s"
      if "HandleRequestServiceCommand D ps p req (s\<lparr>io := w\<rparr>) = Some (u, e)"
        "r = Inr cmd" "de_parse D cmd = Inr (Some req, resp)" for req u e cmd resp
    proof (cases "rq_method req = ''stop_service''")
      case True
      then have "\<not> (dc_verified c \<or> dc_local_host c)" using none that(2,3) c r by (simp add: stop_asked_def)
      then show ?thesis using that(1) True c
        by (auto simp: HandleRequestServiceCommand_def HandleRequestClientStopService_def with_daemon_def)
    next
      case False
      then show ?thesis using apart_stopped[OF runs_onD[OF other_requests_run_on that(1)]] by simp
    qed
    moreover have "stopped u = stopped s"
      if "HandleResponceServiceCommand D p resp (s\<lparr>io := w\<rparr>) = Some (u, e)" for resp u e
      using apart_stopped[OF runs_onD[OF responses_run_on that]] by simp
    ultimately have "stopped t = stopped s" using t(1) r
      by (auto simp: DaemonDataReceived_def Let_def split: sum.splits option.splits)
    then show False using t(2) by simp
  qed
qed

lemma timer_stops:
  assumes "TimerEmited_daemon D ps tid s = Some s'" "stopped s' \<noteq> stopped s"
  shows "tid = check_license_timer s \<and> license_over D (io s)"
  using assms
  by (auto simp: TimerEmited_daemon_def StatisitcServiceBroadcast_def CheckLicenseExpired_def license_over_def
      StopImpl_def split: if_splits option.splits
      dest!: apart_stopped[OF ping_runs_on] apart_stopped[OF stats_runs_on] apart_stopped[OF broadcast_runs_on])

text \<open>
  C17: Nothing else stops it.  No event of a subscriber, of a http client or of the loops, no
  connection or closing of a daemon and no broadcast changes whether the loops have been told to
  stop.  Data of a daemon does so only if that daemon is verified or of the local host and the data
  is a request to stop, and a timer only if it is the one that checks the license, and the license is
  missing, invalid or expired at that time.
\<close>

theorem stops_only_when_asked:
  "(service_step E H C s t \<longrightarrow> stopped (observe D s t) = stopped s) \<and>
   stopped (accept_daemon p b s) = stopped s \<and> stopped (drop_daemon D p s) = stopped s \<and>
   stopped (PreLooped_daemon D s) = stopped s \<and> stopped (PostLooped_daemon D s) = stopped s \<and>
   (BroadcastClients D ps req s = Some s' \<longrightarrow> stopped s' = stopped s) \<and>
   (DataReceived_daemon D ps p s = Some s' \<and> stopped s' \<noteq> stopped s \<longrightarrow>
      (\<exists>c. daemons s p = Some c \<and> (dc_verified c \<or> dc_local_host c)) \<and> stop_asked D p (io s)) \<and>
   (TimerEmited_daemon D ps tid s = Some s' \<and> stopped s' \<noteq> stopped s \<longrightarrow>
      tid = check_license_timer s \<and> license_over D (io s))"
proof -
  have "stopped (observe D s t) = stopped s" if "service_step E H C s t"
    using service_step_steady[OF that] by (cases s, cases t) (simp add: steady_def observe_posts)
  moreover have "stopped s' = stopped s" if "BroadcastClients D ps req s = Some s'"
    by (rule apart_stopped[OF broadcast_runs_on[OF that]])
  ultimately show ?thesis using data_stops[of D ps p s s'] timer_stops[of D ps tid s s']
    by (auto simp: accept_daemon_def drop_daemon_def PreLooped_daemon_def PostLooped_daemon_def Let_def split: prod.splits)
qed

section \<open>Concrete programs\<close>

text \<open>
  The world is a list of texts: what was printed, written or noted.  The configuration has nothing
  but a license key, the lock of the pid file is the text \<open>locked\<close>, and a request can be written when
  it has no identifier and its parameters are its method.
\<close>

definition sample_entry :: "((string \<times> conf_value) list, string list) entry_env" where
  "sample_entry =
     \<lparr>en_config_lib = sample_config_lib,
      en_files = (\<lambda>w p. if p = ''conf'' then Some (config_text [(''license_key'', ''key'')]) else None),
      en_config_path = ''conf'', en_pidfile_path = ''/run/service.pid'', en_service_name = ''service'',
      en_version = ''1.0'', en_print = (\<lambda>w st t. t # w), en_description = (\<lambda>e. ''error''),
      en_io = sample_daemon_io
        \<lparr>dn_stop_info := (\<lambda>w. Inr ''stop_service''),
         dn_write_request := (\<lambda>w p req. if rq_id req = None \<and> rq_params req = Some (rq_method req)
           then (rq_method req # w, None) else (w, Some ErrnoInval))\<rparr>,
      en_host_valid = (\<lambda>h. h \<noteq> []), en_docker = (\<lambda>h. False), en_local_host = (\<lambda>h. h),
      en_connect = (\<lambda>w h. (w, Inr (Addr 1))), en_daemonise = (\<lambda>w. (w, True)),
      en_init_logger = (\<lambda>w p l. w), en_getpid = (\<lambda>w. 7), en_dir_path = (\<lambda>p. ''/run''),
      en_is_directory = (\<lambda>w d. True), en_create_directory = (\<lambda>w d. (w, True)), en_access = (\<lambda>w d. None),
      en_open = (\<lambda>w p. (w, Inr 3)),
      en_lock = (\<lambda>w f. if ''locked'' \<in> set w then (w, Some ErrnoInval) else (''locked'' # w, None)),
      en_write = (\<lambda>w f t. (w, None)), en_unlock = (\<lambda>w f. (remove1 ''locked'' w, None)),
      en_close = (\<lambda>w f. (w, None)), en_remove = (\<lambda>w p. (w, None))\<rparr>"

text \<open>Its process cannot listen and comes back at once.\<close>

definition sample_boot :: "(jval, string list, string, sample_db) boot" where
  "sample_boot =
     \<lparr>bt_denv = sample_denv, bt_rpc = sample_rpc, bt_driver = full_driver,
      bt_no_endpoint = (''host'', DirPath ''/root''), bt_store = [],
      bt_subscribers = (Some ErrnoInval, None), bt_http = (Some ErrnoInval, None),
      bt_daemon = (None, None), bt_run = (\<lambda>D s. Some (s, 0))\<rparr>"

definition stopping_denv :: "(jval, string list, string) daemon_env" where
  "stopping_denv = sample_denv\<lparr>de_io := sample_daemon_io\<lparr>dn_read_command := (\<lambda>w p. (w, Inr ''stop_service''))\<rparr>\<rparr>"

lemma stopping_denv_simps [simp]:
  "dn_read_command (de_io stopping_denv) w p = (w, Inr ''stop_service'')"
  "de_parse stopping_denv t = Inr (Some \<lparr>rq_id = None, rq_method = t, rq_params = Some t\<rparr>, None)"
  "jl_parse (de_json stopping_denv) t = Some (JObj [])" "de_stop_info stopping_denv j = None"
  by (simp_all add: stopping_denv_def sample_daemon_env_def sample_json_def)

theorem first_option_decides_witness:
  "main sample_entry sample_boot [''--daemon'', ''-h'', ''--stop''] [] =
     Some ([HELP_TEXT ''service'' @ [newline]], 0)"
  using first_option_decides[of "''-h''" sample_entry sample_boot 1 "[''--stop'']" "[]"]
  by (simp add: sample_entry_def)

theorem single_instance_witness:
  "\<exists>w'. \<forall>B :: (jval, string list, string, sample_db) boot.
     main sample_entry B [''--daemon''] [''locked''] = Some (w', 1)"
  using single_instance[of sample_entry "\<lambda>w. ''locked'' \<in> set w" "[''locked'']" 1]
  by (simp add: lock_laws_def) (simp add: sample_entry_def)

lemma sample_loads:
  "\<exists>cfg. load_config sample_entry w = Inr cfg \<and> cf_host cfg = ''localhost:6317''"
proof -
  have "getlines (config_text [(''license_key'', ''key'')]) = [config_line (''license_key'', ''key'')]"
    by (simp add: config_text_def config_line_def getlines_line) (simp add: getlines.simps)
  then show ?thesis
    by (simp add: load_config_def load_config_from_file_def ReadConfigFile_def sample_entry_def read_line_def
        key_value_line string_keys_def sample_config_lib_def get_string_def config_fields_def with_default_def
        get_host_def Let_def)
qed

lemma sample_stop:
  "stop_sent sample_entry [] (Addr 1) \<lparr>rq_id = None, rq_method = ''stop_service'', rq_params = Some ''stop_service''\<rparr>
     [''stop_service'']"
proof -
  obtain cfg where "load_config sample_entry [] = Inr cfg" "cf_host cfg = ''localhost:6317''"
    using sample_loads by blast
  then show ?thesis
    by (simp add: stop_sent_def Config_IsValid_def) (simp add: sample_entry_def sample_daemon_io_def)
qed

theorem stop_command_stops_witness:
  "main sample_entry sample_boot [''--stop''] [] = Some ([''stop_service''], 0) \<and>
   (\<exists>s'. DataReceived_daemon stopping_denv [Addr 9] (Addr 9) (accept_daemon (Addr 9) True sample_process) = Some s' \<and>
     stopped s')"
proof -
  let ?s = "accept_daemon (Addr 9) True sample_process"
  have close: "dn_close (en_io sample_entry) w p = w" for w p by (simp add: sample_entry_def sample_daemon_io_def)
  note stop = stop_command_stops[of sample_entry stopping_denv ?s "Addr 9" "io ?s" "''stop_service''"
      "ProtocoledDaemonClient_new True" "[]" sample_boot 0 "[]" "[Addr 9]", simplified]
  then show ?thesis using sample_stop
    by (auto simp: accept_daemon_def ProtocoledDaemonClient_new_def close)
qed

theorem stops_only_when_asked_witness:
  "\<exists>(s :: (string list, sample_db) process) s'.
     DataReceived_daemon stopping_denv [Addr 9] (Addr 9) s = Some s' \<and> stopped s' \<noteq> stopped s \<and>
     stop_asked stopping_denv (Addr 9) (io s)"
proof -
  let ?s = "accept_daemon (Addr 9) True sample_process"
  have ds: "daemons ?s = [Addr 9 \<mapsto> ProtocoledDaemonClient_new True]"
    by (simp add: accept_daemon_def sample_process_daemons)
  have go: "\<not> stopped ?s"
    by (simp add: accept_daemon_def sample_process_def ConnectToDatabase_def MongoEngine_Connect_def handle_simps Let_def
        ProcessSlaveWrapper_new_sel split: option.splits)
  have "\<exists>s'. DataReceived_daemon stopping_denv [Addr 9] (Addr 9) ?s = Some s' \<and> stopped s' \<and> daemons s' = daemons ?s"
    by (rule stop_request_stops[where cmd = "''stop_service''" and body = "''stop_service''" and j = "JObj []" and
          req = "\<lparr>rq_id = None, rq_method = ''stop_service'', rq_params = Some ''stop_service''\<rparr>" and
          c = "ProtocoledDaemonClient_new True"])
      (simp_all add: ds ProtocoledDaemonClient_new_def)
  then obtain s' where s': "DataReceived_daemon stopping_denv [Addr 9] (Addr 9) ?s = Some s'" "stopped s'" by blast
  show ?thesis
    using stops_only_when_asked[of sample_env sample_http_env sample_io ?s ?s stopping_denv "Addr 9" True "[Addr 9]"
        undefined s' 0] s' go by auto
qed

end
