(* ===== verification/Announcements.thy ===== *)
theory Announcements
  imports Process_Frames Daemon_Properties
begin

text \<open>
  What the daemons are told about the subscribers: the events and notices of the two servers only
  ever grow, every one of them is posted once, the loop sends the posted broadcasts in the order in
  which they were posted, and whoever follows them knows which subscribers are online.
\<close>

section \<open>Events and notices only grow\<close>

definition grows :: "('io, 'db, 'a) sub_handler_scheme \<Rightarrow> ('io, 'db, 'a) sub_handler_scheme \<Rightarrow> bool" where
  "grows s s' \<longleftrightarrow> prefix (events s) (events s') \<and> prefix (notices s) (notices s')"

lemma grows_refl [simp, intro]: "grows s s"
  by (simp add: grows_def)

lemma grows_trans [trans]: "grows s t \<Longrightarrow> grows t u \<Longrightarrow> grows s u"
  by (auto simp: grows_def intro: prefix_order.trans)

lemma grows_quiet: "quiet s s' \<Longrightarrow> grows s s'" "hquiet u u' \<Longrightarrow> grows u u'"
  by (simp_all add: grows_def quiet_def hquiet_def)

lemma grows_io [simp, intro]: "grows s (s\<lparr>io := w\<rparr>)"
  by (simp add: grows_def)

lemma session_drop_grows:
  "session_drop p s = Some t \<Longrightarrow> grows s t"
  by (auto simp: grows_def session_drop_def UnRegisterInnerConnectionByHost_def
      ISubscribersManager_UnRegister_def free_client_def split: if_splits option.splits)

lemma session_login_grows:
  "session_login L p a s = Some t \<Longrightarrow> grows s t"
  by (auto simp: grows_def session_login_def RegisterInnerConnectionByHost_def
      ISubscribersManager_Register_def Let_def split: if_splits option.splits)

lemma drop_client_grows: "drop_client E p s = Some s' \<Longrightarrow> grows s s'"
  using session_drop_grows by (fastforce simp: drop_client_eq grows_def)

lemma drop_http_grows: "drop_http H p s = Some s' \<Longrightarrow> grows s s'"
  using session_drop_grows by (fastforce simp: drop_http_eq grows_def)

lemma settled_grows:
  assumes "settled E p s s'" shows "grows s s'"
proof -
  have "grows s s'" if "quiet s t" "drop_client E p t = Some s'" for t
    by (rule grows_trans[OF grows_quiet(1)[OF that(1)] drop_client_grows[OF that(2)]])
  then show ?thesis using assms grows_quiet(1)[of s s'] by (auto simp: settled_def)
qed

lemma login_grows:
  assumes "HandleRequestClientLogin E now p req s = Some (s', e)"
  shows "grows s s'"
proof -
  have "grows s s'" if "quiet s t" "session_login L p a t = Some s'" for t L a
    by (rule grows_trans[OF grows_quiet(1)[OF that(1)] session_login_grows[OF that(2)]])
  then show ?thesis using login_moves[OF assms] grows_quiet(1)[of s s'] by auto
qed

lemma received_grows:
  assumes "DataReceived E now p s = Some s'" shows "grows s s'"
proof -
  have "grows s s'" if "HandleRequestClientLogin E now p req (s\<lparr>io := w\<rparr>) = Some (s', e)" for w req e
    by (rule grows_trans[OF grows_io login_grows[OF that]])
  then show ?thesis using received_moves[OF assms] settled_grows[of E p s s'] by auto
qed

lemma timer_grows:
  assumes "TimerEmited E ps tid s = Some s'"
  shows "grows s s'"
proof -
  have "grows s s'" if "opt_fold (ping_client E) ps s = Some s'" for s s' :: "('a, 'b, 'c) sub_handler_scheme"
    using that
  proof (induction ps arbitrary: s)
    case (Cons p ps)
    then obtain t where "ping_client E p s = Some t" "opt_fold (ping_client E) ps t = Some s'"
      by (auto split: option.splits)
    then show ?case using grows_trans[OF settled_grows[OF ping_client_settled], of E p s t s'] Cons.IH by simp
  qed simp
  then show ?thesis using assms by (auto simp: TimerEmited_def split: if_splits)
qed

lemma serve_grows:
  assumes "serve E s s'" shows "grows s s'"
  using assms
proof (cases rule: serve.cases)
  case (accepts client)
  then show ?thesis by (simp add: grows_def Accepted_def alloc_client_def)
next
  case (receives client now)
  then show ?thesis using received_grows by blast
next
  case (fires ps tid)
  then show ?thesis using timer_grows by blast
next
  case (closes client)
  then show ?thesis using drop_client_grows by blast
qed (use loop_quiet grows_quiet(1) in blast)+

lemma serve_path_grows:
  assumes "serve_path H now p r k tokens s = Some s'"
  shows "grows s s'"
proof -
  note final = grows_quiet(2)[OF conjunct1[OF hkeepsD[OF http_error_keeps]]]
    grows_quiet(2)[OF conjunct1[OF hkeepsD[OF serve_stream_keeps]]]
  show ?thesis
  proof (cases "CheckIsLoginClient p s")
    case (Some r0)
    show ?thesis
    proof (cases r0)
      case (Inl cerr)
      obtain s1 res where s1: "ClientLogin_by_uid (he_bson H) (he_mongo H) now (tokens ! 0) (tokens ! 1) (tokens ! 2) s =
          Some (s1, res)"
        using assms Some Inl by (auto simp: serve_path_def split: option.splits)
      have g: "grows s s1"
        using ClientLogin_by_uid_store[OF s1] by (auto simp: store_only_def grows_def)
      have "grows s1 s'"
      proof (cases res)
        case (Inl err)
        then show ?thesis using assms Some \<open>r0 = Inl cerr\<close> s1 final(1) by (simp add: serve_path_def)
      next
        case (Inr a)
        then obtain s2 where "session_login (he_lib H) p a s1 = Some s2"
          and "serve_stream H p r k tokens a s2 = Some s'"
          using assms Some \<open>r0 = Inl cerr\<close> s1
          by (auto simp: serve_path_def session_login_def split: option.splits)
        then show ?thesis by (rule grows_trans[OF session_login_grows final(2)])
      qed
      with g show ?thesis by (rule grows_trans)
    next
      case (Inr a)
      then show ?thesis using assms Some final(2) by (simp add: serve_path_def)
    qed
  qed (use assms in \<open>simp add: serve_path_def\<close>)
qed

lemma process_received_grows:
  assumes "ProcessReceived H now p request s = Some s'"
  shows "grows s s'"
proof -
  have url: "grows s t" if "serve_url H now p r k s = Some t" for r k t
    using that serve_path_grows grows_quiet(2)[OF conjunct1[OF hkeepsD[OF http_error_keeps]]]
    by (auto simp: serve_url_def Let_def split: if_splits)
  have dropped: "grows s s'" if "drop_http H p (fst (http_send H p a s)) = Some s'" for a
    using drop_http_grows[OF that] by (simp add: http_send_def grows_def split: prod.splits)
  show ?thesis
  proof (cases "hl_parse (he_http H) request")
    case (Inl e)
    then show ?thesis using assms dropped by (auto simp: ProcessReceived_def split: prod.splits)
  next
    case (Inr r)
    then obtain t where "t = s \<or> serve_url H now p r (keep_alive (he_http H) r) s = Some t"
      "drop_http H p t = Some s' \<or> t = s'"
      using assms by (auto simp: ProcessReceived_def Let_def split: option.splits if_splits)
    then have "grows s t" "grows t s'" using url drop_http_grows[of H p t s'] by auto
    then show ?thesis by (rule grows_trans)
  qed
qed

lemma http_received_grows:
  assumes "HttpHandler_DataReceived H now p s = Some s'"
  shows "grows s s'"
proof -
  obtain w r where r: "hi_single_read (he_io H) (io s) p 4095 = (w, r)" by fastforce
  have "drop_http H p (s\<lparr>io := w\<rparr>) = Some s' \<or> (\<exists>buff. ProcessReceived H now p buff (s\<lparr>io := w\<rparr>) = Some s')"
    using assms r by (auto simp: HttpHandler_DataReceived_def split: sum.splits if_splits)
  then have "grows (s\<lparr>io := w\<rparr>) s'"
    using drop_http_grows[of H p "s\<lparr>io := w\<rparr>" s'] process_received_grows by auto
  then show ?thesis by (rule grows_trans[OF grows_io])
qed

lemma service_step_grows:
  assumes "service_step E H C s s'" shows "grows s s'"
  using assms
proof (cases rule: service_step.cases)
  case subscribers
  then show ?thesis by (rule serve_grows)
next
  case (http_accepts client)
  then show ?thesis by (simp add: grows_def HttpHandler_Accepted_def alloc_client_def)
next
  case (http_receives client now)
  then show ?thesis using http_received_grows by blast
next
  case (http_closes client)
  then show ?thesis using drop_http_grows by blast
next
  case (notifies uid dev msg e)
  then show ?thesis using grows_quiet(2) notification_quiet by blast
qed

section \<open>Histories\<close>

text \<open>
  A run of the process with the broadcasts that the loop has taken from the queue and sent to the
  verified daemons so far.  Every other step leaves what is in the queue there.
\<close>

inductive process_history ::
    "('io, 'db) env \<Rightarrow> ('io, 'db) http_env \<Rightarrow> ('j, 'io, 'os) daemon_env \<Rightarrow> ('io, 'db, 'a) process_scheme
     \<Rightarrow> rpc_request list \<Rightarrow> ('io, 'db, 'a) process_scheme \<Rightarrow> bool" for E H D s0 where
  begins: "process_history E H D s0 [] s0"
| sends: "process_history E H D s0 bs s \<Longrightarrow> posted s = req # rest \<Longrightarrow> loop_clients ps s \<Longrightarrow>
    BroadcastClients D ps req (s\<lparr>posted := rest\<rparr>) = Some s' \<Longrightarrow> process_history E H D s0 (bs @ [req]) s'"
| goes_on: "process_history E H D s0 bs s \<Longrightarrow> process_step E H D s s' \<Longrightarrow>
    length (posted s) \<le> length (posted s') \<Longrightarrow> process_history E H D s0 bs s'"

lemma broadcast_posted: "BroadcastClients D ps req (s\<lparr>posted := rest\<rparr>) = Some s' \<Longrightarrow> posted s' = rest"
  using apart_posted[OF broadcast_runs_on] by fastforce

text \<open>A step either sends the head of the queue, or adds the new events and notices to its end.\<close>

lemma step_posts:
  assumes step: "process_step E H D s s'"
  shows "(\<exists>req rest ps. posted s = req # rest \<and> loop_clients ps s \<and>
      BroadcastClients D ps req (s\<lparr>posted := rest\<rparr>) = Some s') \<or>
    (\<exists>es ns. events s' = events s @ es \<and> notices s' = notices s @ ns \<and>
      posted s' = posted s @ messages (map (notice_request D) ns) @ messages (map (event_request D) es))"
    (is "?sends \<or> ?adds s'")
proof -
  have same: "?adds s'" if "dquiet D s s'" "posted s' = posted s"
    using that by (intro exI[of _ "[]"]) (simp add: dquiet_def messages_def)
  from step show ?thesis
  proof (cases rule: process_step.cases)
    case (serves t)
    have "posted t = posted s" using service_step_steady[OF serves(2)] by (cases s, cases t) (simp add: steady_def)
    moreover obtain es ns where "events t = events s @ es" "notices t = notices s @ ns"
      using service_step_grows[OF serves(2)] by (auto simp: grows_def prefix_def)
    moreover have "events s' = events t" "notices s' = notices t"
      using observe_quiet[of D t s] unfolding serves(1) by (simp_all add: dquiet_def)
    ultimately have "?adds s'" using serves(1) by (simp add: observe_posts)
    then show ?thesis ..
  next
    case (daemon_accepts p b)
    then show ?thesis
      by (intro disjI2 exI[of _ "[]"]) (simp add: accept_daemon_def messages_def)
  next
    case (daemon_receives ps p)
    then show ?thesis using same daemon_data_quiet data_posts_nothing by blast
  next
    case (daemon_closes p)
    then have "dquiet D s s'" "posted s' = posted s" by (simp, simp add: drop_daemon_def)
    then show ?thesis using same by blast
  next
    case (daemon_timer ps tid)
    then show ?thesis using same daemon_timer_quiet timer_posts_nothing by blast
  next
    case (broadcasts req rest ps)
    then show ?thesis by blast
  next
    case starts
    then show ?thesis
      by (intro disjI2 exI[of _ "[]"]) (simp add: PreLooped_daemon_def messages_def Let_def split: prod.splits)
  next
    case ends
    then show ?thesis
      by (intro disjI2 exI[of _ "[]"]) (simp add: PostLooped_daemon_def messages_def Let_def)
  qed
qed

lemma step_in_history:
  assumes h: "process_history E H D r bs s" and step: "process_step E H D s s'"
  shows "\<exists>bs'. process_history E H D r bs' s'"
  using step_posts[OF step]
proof
  assume "\<exists>req rest ps. posted s = req # rest \<and> loop_clients ps s \<and>
      BroadcastClients D ps req (s\<lparr>posted := rest\<rparr>) = Some s'"
  then show ?thesis using process_history.sends[OF h] by blast
next
  assume "\<exists>es ns. events s' = events s @ es \<and> notices s' = notices s @ ns \<and>
      posted s' = posted s @ messages (map (notice_request D) ns) @ messages (map (event_request D) es)"
  then have "length (posted s) \<le> length (posted s')" by auto
  then show ?thesis using process_history.goes_on[OF h step] by blast
qed

lemma history_exists:
  assumes "(process_step E H D)\<^sup>*\<^sup>* r s"
  shows "\<exists>bs. process_history E H D r bs s"
  using assms
proof (induction rule: rtranclp_induct)
  case base
  then show ?case using process_history.begins by blast
next
  case (step t u)
  then show ?case using step_in_history by blast
qed

definition subscriber_message :: "rpc_request \<Rightarrow> bool" where
  "subscriber_message req \<longleftrightarrow> rq_method req \<in> {''subscriber_connected'', ''subscriber_disconnected''}"

lemma message_kinds:
  "event_request D e = Inr req \<Longrightarrow> subscriber_message req"
  "notice_request D n = Inr req \<Longrightarrow> \<not> subscriber_message req"
  by (auto simp: event_request_def notice_request_def subscriber_message_def MakeNotification_def
      SubscriberConnectedBroadcast_def SubscriberDisConnectedBroadcast_def CatchupCreatedBroadcast_def
      ContentRequestCreatedBroadcast_def Let_def split: sub_event.splits notice.splits sum.splits)

lemma set_messages: "set (messages rs) = {req. Inr req \<in> set rs}"
  by (induction rs) (auto simp: messages_def split: sum.splits)

lemma messages_kinds:
  "req \<in> set (messages (map (event_request D) es)) \<Longrightarrow> subscriber_message req"
  "req \<in> set (messages (map (notice_request D) ns)) \<Longrightarrow> \<not> subscriber_message req"
  by (auto simp: set_messages dest: message_kinds[OF sym])

lemma filter_messages:
  "filter subscriber_message (messages (map (event_request D) es)) = messages (map (event_request D) es)"
  "filter subscriber_message (messages (map (notice_request D) ns)) = []"
  "filter (\<lambda>req. \<not> subscriber_message req) (messages (map (event_request D) es)) = []"
  "filter (\<lambda>req. \<not> subscriber_message req) (messages (map (notice_request D) ns)) =
     messages (map (notice_request D) ns)"
  by (auto simp: filter_id_conv filter_empty_conv dest: messages_kinds)

text \<open>What has been sent and what waits in the queue: every event and every notice, in its order.\<close>

definition told :: "('j, 'io, 'os) daemon_env \<Rightarrow> rpc_request list \<Rightarrow> ('io, 'db, 'a) process_scheme \<Rightarrow> bool" where
  "told D bs s \<longleftrightarrow>
     filter subscriber_message (bs @ posted s) = messages (map (event_request D) (events s)) \<and>
     filter (\<lambda>req. \<not> subscriber_message req) (bs @ posted s) = messages (map (notice_request D) (notices s))"

lemma history_told:
  assumes h: "process_history E H D r bs s" and r: "told D [] r"
  shows "told D bs s"
  using h
proof (induction rule: process_history.induct)
  case begins
  then show ?case by (rule r)
next
  case (sends bs s req rest ps s')
  have "dquiet D (s\<lparr>posted := rest\<rparr>) s'" by (rule broadcast_quiet[OF sends(4)])
  then show ?case using sends(2,5) broadcast_posted[OF sends(4)] by (simp add: told_def dquiet_def)
next
  case (goes_on bs s s')
  have "\<exists>es ns. events s' = events s @ es \<and> notices s' = notices s @ ns \<and>
      posted s' = posted s @ messages (map (notice_request D) ns) @ messages (map (event_request D) es)"
    using step_posts[OF goes_on(2)] goes_on(3) broadcast_posted by fastforce
  then show ?case using goes_on(4) by (auto simp: told_def filter_messages)
qed

lemma start_told: "told D [] (fst (ConnectToDatabase M url name lazy (ProcessSlaveWrapper_new D R w e store)))"
  by (simp add: told_def ConnectToDatabase_sel ConnectToDatabase_process ProcessSlaveWrapper_new_sel messages_def)

section \<open>Following the announcements\<close>

text \<open>
  What a request announces to a daemon that reads its parameters, and what a daemon knows that
  enters each announced connection and removes each announced disconnection.
\<close>

definition announced :: "'j json_lib \<Rightarrow> rpc_request \<Rightarrow> front_subscriber_info option" where
  "announced J req =
     Option.bind (Option.bind (rq_params req) (jl_parse J))
       (\<lambda>j. case FrontSubscriberInfo_DoDeSerialize J j of Inl err \<Rightarrow> None | Inr f \<Rightarrow> Some f)"

definition follow ::
    "'j json_lib \<Rightarrow> rpc_request \<Rightarrow> front_subscriber_info multiset \<Rightarrow> front_subscriber_info multiset" where
  "follow J req A =
     (case announced J req of
        None \<Rightarrow> A
      | Some f \<Rightarrow>
          if rq_method req = ''subscriber_connected'' then add_mset f A
          else if rq_method req = ''subscriber_disconnected'' then A - {#f#}
          else A)"

fun event_front :: "sub_event \<Rightarrow> front_subscriber_info" where
  "event_front (SubscriberConnected f) = f"
| "event_front (SubscriberDisConnected f) = f"

lemma follow_others: "\<not> subscriber_message req \<Longrightarrow> follow J req A = A"
  by (auto simp: follow_def subscriber_message_def split: option.split)

lemma follow_filter: "fold (follow J) reqs A = fold (follow J) (filter subscriber_message reqs) A"
  by (induction reqs arbitrary: A) (simp_all add: follow_others)

lemma announced_front:
  assumes J: "json_laws J" "\<And>j. jl_parse J (jl_print J j) = Some j" and f: "front_ok f"
    and t: "SerializeToString J (FrontSubscriberInfo_SerializeFields J f) = Inr t" and p: "rq_params req = Some t"
  shows "announced J req = Some f"
proof -
  from front_json.printed[of J f t] J f t obtain j where
    "jl_parse J t = Some j" "FrontSubscriberInfo_DoDeSerialize J j = Inr f" by blast
  then show ?thesis by (simp add: announced_def p)
qed

lemma front_serialised:
  "(\<exists>t. SerializeToString J (FrontSubscriberInfo_SerializeFields J f) = Inr t) \<longleftrightarrow> FrontSubscriberInfo_IsValid f"
  by (simp add: SerializeToString_def Serialize_def FrontSubscriberInfo_SerializeFields_def Let_def)

lemma follow_event:
  assumes J: "json_laws (de_json D)" "\<And>j. jl_parse (de_json D) (jl_print (de_json D) j) = Some j"
    and f: "front_ok (event_front e)"
  shows "fold (follow (de_json D)) (messages [event_request D e]) (filter_mset FrontSubscriberInfo_IsValid A) =
    filter_mset FrontSubscriberInfo_IsValid (heard e A)"
proof -
  have valid: "(\<exists>t. SerializeToString (de_json D) (FrontSubscriberInfo_SerializeFields (de_json D) (event_front e)) = Inr t) \<longleftrightarrow>
      FrontSubscriberInfo_IsValid (event_front e)" by (rule front_serialised)
  show ?thesis
  proof (cases "SerializeToString (de_json D) (FrontSubscriberInfo_SerializeFields (de_json D) (event_front e))")
    case (Inl err)
    then show ?thesis using valid
      by (cases e) (simp_all add: event_request_def SubscriberConnectedBroadcast_def
          SubscriberDisConnectedBroadcast_def messages_def filter_mset_eq_conv)
  next
    case (Inr t)
    note read = announced_front[OF J f Inr]
    then show ?thesis using valid Inr
      by (cases e) (simp_all add: event_request_def SubscriberConnectedBroadcast_def
          SubscriberDisConnectedBroadcast_def messages_def MakeNotification_def follow_def)
  qed
qed

lemma follow_events:
  assumes J: "json_laws (de_json D)" "\<And>j. jl_parse (de_json D) (jl_print (de_json D) j) = Some j"
    and f: "\<forall>e \<in> set es. front_ok (event_front e)"
  shows "fold (follow (de_json D)) (messages (map (event_request D) es)) (filter_mset FrontSubscriberInfo_IsValid A) =
    filter_mset FrontSubscriberInfo_IsValid (fold heard es A)"
  using f
proof (induction es arbitrary: A)
  case (Cons e es)
  have split: "messages (map (event_request D) (e # es)) = messages [event_request D e] @ messages (map (event_request D) es)"
    by (simp add: messages_def)
  have "fold (follow (de_json D)) (messages [event_request D e]) (filter_mset FrontSubscriberInfo_IsValid A) =
      filter_mset FrontSubscriberInfo_IsValid (heard e A)"
    using Cons.prems by (intro follow_event[OF J]) simp
  then show ?case unfolding split using Cons by simp
qed (simp add: messages_def)

text \<open>
  C14: The daemons can know who is online.  Take any run of the process from its start in which no
  event registers a connection again that is logged in, and the broadcasts that its loop has sent to
  the verified daemons so far.  Whoever reads them, and then those that still wait in the queue, and
  enters each announced connection and removes each announced disconnection, has exactly the
  information of the sessions that are logged in at either server, but for those without a login,
  user, device or expiry date, as long as what was announced has no null character and fits 64 bits.
\<close>

theorem daemons_know_who_is_online:
  assumes "bson_laws (env_bson E)" and "bson_laws (he_bson H)"
    and "json_laws (de_json D)" and "\<And>j. jl_parse (de_json D) (jl_print (de_json D) j) = Some j"
    and "start = fst (ConnectToDatabase M url name lazy (ProcessSlaveWrapper_new D R w e store))"
    and "(single_logins (process_step E H D))\<^sup>*\<^sup>* start s"
    and "\<forall>e \<in> set (events s). front_ok (event_front e)"
  shows "(\<exists>bs. process_history E H D start bs s) \<and>
    (\<forall>bs. process_history E H D start bs s \<longrightarrow>
       fold (follow (de_json D)) (bs @ posted s) {#} =
         filter_mset FrontSubscriberInfo_IsValid
           (image_mset (\<lambda>p. front_of (identity_of s p)) (mset_set (online s))))"
proof -
  have "audience (events s) = fronts s"
    using process_reached[OF assms(1,2) assms(6)[unfolded assms(5)]]
    by (simp add: process_inv_def service_inv_def books_inv_def observed_inv_def)
  moreover have "fold (follow (de_json D)) (bs @ posted s) {#} =
      filter_mset FrontSubscriberInfo_IsValid (audience (events s))" if "process_history E H D start bs s" for bs
  proof -
    have "told D bs s" by (rule history_told[OF that[unfolded assms(5)] start_told])
    then show ?thesis
      using follow_filter[of "de_json D" "bs @ posted s" "{#}"] follow_events[OF assms(3,4,7), of "{#}"]
      by (simp add: told_def audience_def)
  qed
  ultimately show ?thesis using history_exists[OF single_logins_run[OF assms(6)]] by (simp add: fronts_def)
qed

text \<open>A http client that logs in with its request and stays.\<close>

definition visiting_http_env :: "(string list, sample_db) http_env" where
  "visiting_http_env = sample_http_env
     \<lparr>he_http := sample_http\<lparr>hl_tokenize := (\<lambda>p sep. [''1'', ''hash'', ''2'', ''1'', ''0'', ''film'']),
        hl_header := (\<lambda>r n b. Some ''Keep-Alive'')\<rparr>\<rparr>"

definition visited_process :: "(string list, sample_db) process" where
  "visited_process = fst (ConnectToDatabase full_driver ''url'' ''iptv'' True
     (ProcessSlaveWrapper_new (sample_daemon_env None) sample_rpc [] (''host'', DirPath ''/root'')
       [(SUBSCRIBERS, sample_user)]))"

definition visitor :: front_subscriber_info where
  "visitor = \<lparr>fs_uid = ''1'', fs_login = ''user@mail'', fs_device = ''2'', fs_exp_date = 100\<rparr>"

definition visited_accepted :: "(string list, sample_db) process" where
  "visited_accepted = HttpHandler_Accepted (HttpServer_CreateClient sample_lib (Addr 2) visited_process)"

lemma visit_events:
  "map_option (\<lambda>t. (events t, notices t, map_option (map_option front_of \<circ> co_login) (heap t (Addr 2))))
     (HttpHandler_DataReceived visiting_http_env 50 (Addr 2) visited_accepted) =
   Some ([SubscriberConnected visitor], [], Some (Some visitor))"
  by code_simp

theorem daemons_know_who_is_online_witness:
  "\<exists>s. (single_logins (process_step sample_env visiting_http_env (sample_daemon_env None)))\<^sup>*\<^sup>* visited_process s \<and>
     posted s \<noteq> [] \<and> fold (follow (sample_json None)) (posted s) {#} = {#visitor#}"
proof -
  let ?D = "sample_daemon_env None"
  let ?step = "process_step sample_env visiting_http_env ?D" and ?C = "de_client_io ?D" and ?a = visited_accepted
  let ?once = "single_logins ?step"
  note sel = visited_process_def ConnectToDatabase_sel ConnectToDatabase_process ProcessSlaveWrapper_new_sel
  have v: "view visited_process = Map.empty" by (simp add: view_def fun_eq_iff sel)
  have e: "events ?a = []" "notices ?a = []" "posted ?a = []" "connections ?a = connections visited_process"
    by (simp_all add: visited_accepted_def HttpHandler_Accepted_def alloc_client_def sel)
  have va: "view ?a = [Addr 2 \<mapsto> None]" "kind_of ?a (Addr 2) = Some HttpClient"
    using v by (auto simp: visited_accepted_def view_def kind_of_def HttpHandler_Accepted_def alloc_client_def
        SubscriberInfo_new_def fun_eq_iff)
  have "service_step sample_env visiting_http_env ?C visited_process ?a"
    using service_step.http_accepts[of "Addr 2" visited_process sample_env visiting_http_env ?C] v
    by (simp add: visited_accepted_def visiting_http_env_def)
  then have step1: "?step visited_process ?a"
    using process_step.serves[of sample_env visiting_http_env ?D visited_process ?a] e by (simp add: observe_def)
  obtain t where t: "HttpHandler_DataReceived visiting_http_env 50 (Addr 2) ?a = Some t"
      "events t = [SubscriberConnected visitor]" "notices t = []"
      "map_option (map_option front_of \<circ> co_login) (heap t (Addr 2)) = Some (Some visitor)"
    using visit_events by auto
  let ?s = "observe ?D ?a t"
  have "service_step sample_env visiting_http_env ?C ?a t"
    by (rule service_step.http_receives[OF _ t(1)]) (use va in \<open>simp add: clients_def\<close>)
  then have step2: "?step ?a ?s" by (rule process_step.serves)
  have "online ?a = {}" using va by (simp add: online_def)
  then have "?once visited_process ?a" "?once ?a ?s"
    using single_step[OF step1 e(4)] step2 by (simp_all add: single_logins_def registers_again_def)
  then have run: "?once\<^sup>*\<^sup>* visited_process ?s" using converse_rtranclp_into_rtranclp[of ?once] by blast
  have h: "process_history sample_env visiting_http_env ?D visited_process [] ?s"
    by (rule process_history.goes_on[OF process_history.goes_on[OF process_history.begins step1] step2])
       (simp_all add: e observe_posts sel)
  have laws: "bson_laws (env_bson sample_env)" "bson_laws (he_bson visiting_http_env)"
    "json_laws (de_json ?D)" "\<And>j. jl_parse (de_json ?D) (jl_print (de_json ?D) j) = Some j"
    by (simp_all add: sample_bson_laws visiting_http_env_def sample_denv_simps sample_json_laws)
      (simp add: sample_json_def)
  have ev: "events ?s = [SubscriberConnected visitor]"
    using observe_quiet[of ?D t ?a] t(2) by (simp add: dquiet_def)
  have ok: "front_ok visitor" "FrontSubscriberInfo_IsValid visitor"
    by (simp_all add: front_ok_def visitor_def nul_free_def int64_def FrontSubscriberInfo_IsValid_def)
  have "process_inv ?D ?s" by (rule process_reached[OF laws(1,2) run[unfolded visited_process_def]])
  then have "fronts ?s = {#visitor#}"
    by (simp add: process_inv_def service_inv_def books_inv_def observed_inv_def ev audience_def)
  moreover have "fold (follow (de_json ?D)) ([] @ posted ?s) {#} =
      filter_mset FrontSubscriberInfo_IsValid (image_mset (\<lambda>p. front_of (identity_of ?s p)) (mset_set (online ?s)))"
    using daemons_know_who_is_online[OF laws visited_process_def run] h ev ok(1) by (metis event_front.simps(1) empty_iff
        insert_iff list.set)
  ultimately have heard: "fold (follow (sample_json None)) (posted ?s) {#} = {#visitor#}"
    using ok by (simp add: fronts_def sample_denv_simps)
  then show ?thesis using run by (intro exI[of _ ?s]) auto
qed

end
