(* ===== verification/Typed_Store.thy ===== *)
theory Typed_Store
  imports Channels Catchups Login
begin

text \<open>
  The types the code takes for granted.  It reads identifiers without a type check in three places:
  \<open>sid\<close> of the entries of a user, the elements of \<open>series\<close> and \<open>requests\<close> of a user, and the elements
  of \<open>parts\<close> and \<open>episodes\<close>; and it counts the keys of a document, so that a key that occurs twice
  stands for one that is missing.  On a store whose documents are as expected the readers and the
  queries of the manager are defined.
\<close>

section \<open>Documents as expected\<close>

definition is_oid :: "bval \<Rightarrow> bool" where
  "is_oid v = (case v of BOid _ \<Rightarrow> True | _ \<Rightarrow> False)"

lemma is_oid_iff: "is_oid v \<longleftrightarrow> (\<exists>x. v = BOid x)"
  by (simp add: is_oid_def split: bval.splits)

definition oids_under :: "string \<Rightarrow> bdoc \<Rightarrow> bool" where
  "oids_under k d = list_all (\<lambda>e. fst e = k \<longrightarrow>
     (case snd e of BArr a \<Rightarrow> list_all is_oid (map snd a) | _ \<Rightarrow> True)) d"

definition entry_ok :: "bval \<Rightarrow> bool" where
  "entry_ok v = (case v of
     BDoc rec \<Rightarrow> (case map_of rec ''sid'' of None \<Rightarrow> True | Some x \<Rightarrow> is_oid x) | _ \<Rightarrow> True)"

text \<open>The login and the password of a user are valid, together with any device.\<close>

definition credentials_valid :: "fastotv_lib \<Rightarrow> bdoc \<Rightarrow> bool" where
  "credentials_valid L doc \<longleftrightarrow>
     (case (map_of doc ''email'', map_of doc ''password'') of
        (Some (BUtf8 login), Some (BUtf8 password)) \<Rightarrow>
          \<forall>dev. password \<noteq> [] \<longrightarrow> dev \<noteq> [] \<longrightarrow>
            fl_auth_valid L \<lparr>li_login = login, li_password = password, ai_device = dev\<rparr>
      | _ \<Rightarrow> True)"

definition user_document :: "bdoc \<Rightarrow> bool" where
  "user_document doc =
     (list_all (\<lambda>f. list_all entry_ok (array_elems doc f)) user_lists \<and>
      list_all (\<lambda>f. list_all is_oid (array_elems doc f)) [''series'', ''requests''])"

definition typed_document :: "fastotv_lib \<Rightarrow> coll \<Rightarrow> bdoc \<Rightarrow> bool" where
  "typed_document L c doc =
     (case c of
        SUBSCRIBERS \<Rightarrow> user_document doc \<and> credentials_valid L doc
      | SERVERS \<Rightarrow> True
      | STREAMS \<Rightarrow> distinct (keys_of doc) \<and> oids_under ''parts'' doc
      | SERIES \<Rightarrow> distinct (keys_of doc) \<and> oids_under ''episodes'' doc
      | REQUESTS \<Rightarrow> distinct (keys_of doc))"

definition typed_store :: "fastotv_lib \<Rightarrow> 'db mongo_lib \<Rightarrow> 'db \<Rightarrow> bool" where
  "typed_store L M d \<longleftrightarrow> (\<forall>c q doc. mg_find M d c q = Some doc \<longrightarrow> typed_document L c doc)"

lemma typed_find: "typed_store L M (db s) \<Longrightarrow> find_one M c q s = Some doc \<Longrightarrow> typed_document L c doc"
  by (simp add: typed_store_def find_one_def)

lemma array_elems_find: "bson_laws B \<Longrightarrow> find_array B doc f = Some ar \<Longrightarrow> array_elems doc f = map snd ar"
  by (simp add: find_typed_iff array_elems_def)

section \<open>The readers\<close>

named_theorems defined_rules \<open>operations that are defined on a store as expected\<close>

lemma read_oids_defined: "bson_laws B \<Longrightarrow> list_all is_oid (map snd a) \<Longrightarrow> read_oids B a \<noteq> None"
  by (induction a) (auto simp: is_oid_iff bson_lawsD)

lemma need_defined [simp]:
  "need_oid v f \<noteq> Undef" "need_utf8 v g \<noteq> Undef" "need_int32 v h \<noteq> Undef" "need_bool v i \<noteq> Undef"
  "need_double v j \<noteq> Undef" "need_date v k \<noteq> Undef"
  "need_array v l = Undef \<longleftrightarrow> (\<exists>a. v = BArr a \<and> l a = Undef)"
  "(case GetOutputUrlData B v of None \<Rightarrow> Skip | Some urls \<Rightarrow> Got (m urls)) \<noteq> Undef"
  by (simp_all add: need_defs split: bval.splits option.splits)

lemma read_loop_defined: "(\<And>e s. e \<in> set d \<Longrightarrow> elem e s \<noteq> Undef) \<Longrightarrow> read_loop elem d s \<noteq> Undef"
proof (induction d arbitrary: s)
  case (Cons e d)
  then show ?case by (cases "elem e s") auto
qed simp

lemma dispatch_defined:
  "list_all (\<lambda>(k, f). fst e = k \<longrightarrow> f (snd e) s \<noteq> Undef) acts \<Longrightarrow> dispatch acts e s \<noteq> Undef"
  by (cases "map_of acts (fst e)") (auto simp: dispatch_def list_all_iff dest: map_of_SomeD)

lemma oids_underD:
  assumes "bson_laws B" and "oids_under k d" and e: "e \<in> set d" "fst e = k" "snd e = BArr a"
  shows "read_oids B a \<noteq> None"
proof -
  have "fst e = k \<longrightarrow> (case snd e of BArr a \<Rightarrow> list_all is_oid (map snd a) | _ \<Rightarrow> True)"
    using assms(2) e(1) unfolding oids_under_def list_all_iff[of _ d] by blast
  then show ?thesis using e(2,3) by (intro read_oids_defined[OF assms(1)]) simp
qed

lemma loops_defined:
  assumes B: "bson_laws B"
  shows "oids_under ''parts'' d \<Longrightarrow> read_loop (dispatch (channel_actions B L)) d c \<noteq> Undef"
    and "oids_under ''parts'' d \<Longrightarrow> read_loop (dispatch (vod_actions B L @ vod_movie_actions B L)) d v \<noteq> Undef"
    and "oids_under ''parts'' d \<Longrightarrow> read_loop (dispatch (catchup_actions B L)) d u \<noteq> Undef"
    and "oids_under ''episodes'' d \<Longrightarrow> read_loop (dispatch (serial_actions B)) d r \<noteq> Undef"
    and "read_loop (dispatch (request_actions B)) d q \<noteq> Undef"
proof -
  assume oids: "oids_under ''parts'' d"
  note parts = oids_underD[OF B oids]
  show "read_loop (dispatch (channel_actions B L)) d c \<noteq> Undef"
    by (intro read_loop_defined dispatch_defined)
       (auto simp: channel_actions_def add_parts_def split: option.splits dest: parts)
  show "read_loop (dispatch (vod_actions B L @ vod_movie_actions B L)) d v \<noteq> Undef"
    by (intro read_loop_defined dispatch_defined)
       (auto simp: vod_actions_def vod_movie_actions_def add_parts_def split: option.splits dest: parts)
  show "read_loop (dispatch (catchup_actions B L)) d u \<noteq> Undef"
    by (intro read_loop_defined dispatch_defined)
       (auto simp: catchup_actions_def add_parts_def split: option.splits dest: parts)
next
  assume oids: "oids_under ''episodes'' d"
  show "read_loop (dispatch (serial_actions B)) d r \<noteq> Undef"
    by (intro read_loop_defined dispatch_defined)
       (auto simp: serial_actions_def split: option.splits dest: oids_underD[OF B oids])
next
  show "read_loop (dispatch (request_actions B)) d q \<noteq> Undef"
    by (intro read_loop_defined dispatch_defined) (simp add: request_actions_def)
qed

text \<open>
  The variables without initial value are assigned when a document without duplicates is complete.
\<close>

lemma readers_defined:
  assumes B: "bson_laws B"
  shows "typed_document L' STREAMS d \<Longrightarrow> MakeChannelInfo B L d st u vis \<noteq> Undef"
    and "typed_document L' STREAMS d \<Longrightarrow> MakeVodInfo B L d st u vis \<noteq> Undef"
    and "typed_document L' STREAMS d \<Longrightarrow> MakeCatchupInfo B L d st u vis \<noteq> Undef"
    and "typed_document L' SERIES d \<Longrightarrow> MakeSerialInfo B L d vis \<noteq> Undef"
    and "typed_document L' REQUESTS d \<Longrightarrow> MakeContentRequestInfo B d \<noteq> Undef"
proof -
  assume "typed_document L' STREAMS d"
  then have d: "distinct (keys_of d)" and oids: "oids_under ''parts'' d" by (simp_all add: typed_document_def)
  show "MakeChannelInfo B L d st u vis \<noteq> Undef"
    using loops_defined(1)[OF B oids, of L "channel_vars_init L vis"]
    by (auto simp: MakeChannelInfo_defs split: reading.splits)
  show "MakeVodInfo B L d st u vis \<noteq> Undef"
    using loops_defined(2)[OF B oids, of L "vod_vars_init L vis"]
    by (auto simp: MakeVodInfo_defs split: reading.splits)
  have "a_start a \<noteq> None \<and> a_stop a \<noteq> None"
    if a: "read_loop (dispatch (catchup_actions B L)) d (catchup_vars_init L vis) = Got a" "a_sum a = 12" for a
  proof -
    have "count_keys (mandatory catchup_schema) d = 12"
      using catchup.loop_sum[OF a(1)] a(2) by (simp add: vars_init)
    then have "set (mandatory catchup_schema) \<subseteq> set (keys_of d)"
      using catchup.loop_complete[OF d] by (simp add: schema_lengths)
    then have "map_of d ''start'' \<noteq> None" "map_of d ''stop'' \<noteq> None"
      by (simp_all add: catchup_counted keys_of_def map_of_eq_None_iff)
    then show ?thesis using catchup_loop_values[OF d a(1)] by (auto simp: look_def)
  qed
  then show "MakeCatchupInfo B L d st u vis \<noteq> Undef"
    using loops_defined(3)[OF B oids, of L "catchup_vars_init L vis"]
    by (cases "read_loop (dispatch (catchup_actions B L)) d (catchup_vars_init L vis)")
       (auto simp: MakeCatchupInfo_defs)
next
  assume "typed_document L' SERIES d"
  then have d: "distinct (keys_of d)" and oids: "oids_under ''episodes'' d" by (simp_all add: typed_document_def)
  have "r_season a \<noteq> None"
    if a: "read_loop (dispatch (serial_actions B)) d (serial_vars_init L vis) = Got a" "r_sum a = 6" for a
  proof -
    have "count_keys (mandatory serial_schema) d = 6"
      using serial.loop_sum[OF a(1)] a(2) by (simp add: serial_vars_init_def)
    then have "set (mandatory serial_schema) \<subseteq> set (keys_of d)"
      using serial.loop_complete[OF d] by (simp add: serial_lengths)
    then have "map_of d ''season'' \<noteq> None" by (simp add: serial_counted keys_of_def map_of_eq_None_iff)
    then show ?thesis using serial_loop_values(3)[OF d a(1)] by (auto simp: look_def)
  qed
  then show "MakeSerialInfo B L d vis \<noteq> Undef"
    using loops_defined(4)[OF B oids, of "serial_vars_init L vis"]
    by (cases "read_loop (dispatch (serial_actions B)) d (serial_vars_init L vis)")
       (auto simp: MakeSerialInfo_def)
next
  assume "typed_document L' REQUESTS d"
  then have d: "distinct (keys_of d)" by (simp add: typed_document_def)
  have "q_type a \<noteq> None \<and> q_status a \<noteq> None"
    if a: "read_loop (dispatch (request_actions B)) d request_vars_init = Got a" "q_sum a = 4" for a
  proof -
    have "count_keys (mandatory request_schema) d = 4"
      using request.loop_sum[OF a(1)] a(2) by (simp add: request_vars_init_def)
    then have "set (mandatory request_schema) \<subseteq> set (keys_of d)"
      using request.loop_complete[OF d] by (simp add: serial_lengths)
    then have "map_of d ''type'' \<noteq> None" "map_of d ''status'' \<noteq> None"
      by (simp_all add: request_counted keys_of_def map_of_eq_None_iff)
    then show ?thesis using request_loop_values(3,4)[OF d a(1)] by (auto simp: look_def)
  qed
  then show "MakeContentRequestInfo B d \<noteq> Undef"
    using loops_defined(5)[OF B, of d request_vars_init]
    by (cases "read_loop (dispatch (request_actions B)) d request_vars_init")
       (auto simp: MakeContentRequestInfo_def)
qed

section \<open>The lists of a user\<close>

lemma opt_fold_defined: "(\<And>x a. x \<in> set xs \<Longrightarrow> f x a \<noteq> None) \<Longrightarrow> opt_fold f xs a \<noteq> None"
proof (induction xs arbitrary: a)
  case (Cons x xs)
  then obtain b where "f x a = Some b" by fastforce
  then show ?case using Cons by simp
qed simp

lemma open_entry_defined:
  assumes B: "bson_laws B" and "entry_ok v"
  shows "open_entry B v \<noteq> Undef"
proof -
  have "find_after k rec = (f, it) \<Longrightarrow> f \<Longrightarrow> map_of rec k = Some (iter_value it)" for k rec f it
    by (induction rec) (auto simp: iter_value_def split: if_splits)
  then show ?thesis using assms(2)
    by (auto simp: open_entry_def bson_lawsD(1,8)[OF B] iter_init_def holds_doc_iff entry_ok_def is_oid_iff
        split: option.splits prod.splits)
qed

lemma entry_stream_defined:
  assumes B: "bson_laws B" and st: "typed_store L' M (db s)" and v: "entry_ok v"
    and rdr: "\<And>d st u vis. typed_document L' STREAMS d \<Longrightarrow> rdr d st u vis \<noteq> Undef"
  shows "entry_stream B M rdr s v \<noteq> Undef"
  using open_entry_defined[OF B v] rdr[OF typed_find[OF st]]
  by (auto simp: entry_stream_def Let_def split: reading.splits option.splits prod.splits)

lemma entries_ok:
  assumes "bson_laws B" and "user_document doc" and "find_array B doc f = Some ar" and "e \<in> set ar"
  shows "f \<in> set user_lists \<Longrightarrow> entry_ok (snd e)"
    and "f \<in> {''series'', ''requests''} \<Longrightarrow> is_oid (snd e)"
  using assms array_elems_find[OF assms(1,3)] by (auto simp: user_document_def list_all_iff)

lemma user_answer_defined:
  assumes B: "bson_laws B" and st: "typed_store L' M (db s)" and doc: "user_document doc"
  shows "user_answer B L M doc s \<noteq> None"
proof -
  note readers = readers_defined[OF B] and entries = entries_ok[OF B doc]
  note stream = entry_stream_defined[OF B st entries(1)]
  have lists: "''streams'' \<in> set user_lists" "''vods'' \<in> set user_lists" "''catchups'' \<in> set user_lists"
    by (simp_all add: user_lists_def)
  have "add_channel B L M s e acc \<noteq> None"
    if "find_array B doc ''streams'' = Some ar" "e \<in> set ar" for ar e acc
    using stream[OF that lists(1) readers(1)]
    by (auto simp: add_channel_def split: reading.splits prod.splits)
  then have 1: "user_channels B L M doc s \<noteq> None"
    by (simp add: user_channels_def opt_fold_defined del: not_None_eq split: option.split)
  have "add_vod B L M s e acc \<noteq> None" if "find_array B doc ''vods'' = Some ar" "e \<in> set ar" for ar e acc
    using stream[OF that lists(2) readers(2)]
    by (auto simp: add_vod_def split: reading.splits prod.splits)
  then have 2: "user_vods B L M doc s \<noteq> None"
    by (simp add: user_vods_def opt_fold_defined del: not_None_eq split: option.split)
  have "add_catchup B L M s e acc \<noteq> None" if "find_array B doc ''catchups'' = Some ar" "e \<in> set ar" for ar e acc
    using stream[OF that lists(3) readers(3)]
    by (auto simp: add_catchup_def split: reading.splits prod.splits)
  then have 3: "user_catchups B L M doc s \<noteq> None"
    by (simp add: user_catchups_def opt_fold_defined del: not_None_eq split: option.split)
  have "add_serial B L M vods s e acc \<noteq> None"
    if "find_array B doc ''series'' = Some ar" "e \<in> set ar" for vods ar e acc
    using entries(2)[OF that] readers(4)[OF typed_find[OF st]]
    by (auto simp: add_serial_def is_oid_iff bson_lawsD[OF B] split: reading.splits option.splits)
  then have 4: "user_series B L M vods doc s \<noteq> None" for vods
    by (simp add: user_series_def opt_fold_defined del: not_None_eq split: option.split)
  have "add_request B M s e acc \<noteq> None" if "find_array B doc ''requests'' = Some ar" "e \<in> set ar" for ar e acc
    using entries(2)[OF that] readers(5)[OF typed_find[OF st]]
    by (auto simp: add_request_def is_oid_iff bson_lawsD[OF B] split: reading.splits option.splits)
  then have 5: "user_requests B M doc s \<noteq> None"
    by (simp add: user_requests_def opt_fold_defined del: not_None_eq split: option.split)
  show ?thesis using 1 2 3 4 5 by (simp add: user_answer_def del: not_None_eq split: option.split prod.split)
qed

lemma typed_user: "typed_store L M (db s) \<Longrightarrow> find_one M SUBSCRIBERS q s = Some doc \<Longrightarrow> user_document doc"
  by (auto dest: typed_find simp: typed_document_def)

lemma get_channels_defined [defined_rules]:
  assumes B: "bson_laws B" and st: "typed_store L' M (db s)"
  shows "ClientGetChannels B L M auth s \<noteq> None"
  using user_answer_defined[OF B st typed_user[OF st]]
  by (auto simp: ClientGetChannels_def simp del: not_None_eq split: option.splits)

lemma search_list_defined:
  "bson_laws B \<Longrightarrow> (\<And>e. e \<in> set ar \<Longrightarrow> entry_ok (snd e)) \<Longrightarrow> search_list B M target sid ar s \<noteq> Undef"
  by (induction ar) (auto dest: open_entry_defined split: reading.splits)

lemma find_http_defined [defined_rules]:
  assumes B: "bson_laws B" and st: "typed_store L' M (db s)"
  shows "ClientFindHttpDirectoryOrUrlForChannel B L M auth sid cid s \<noteq> None"
proof -
  have "search_user_list B M target f doc sid s \<noteq> Undef"
    if "find_one M SUBSCRIBERS q s = Some doc" "f \<in> set user_lists" for target f doc q
  proof (cases "find_array B doc f")
    case (Some ar)
    from search_list_defined[OF B entries_ok(1)[OF B typed_user[OF st that(1)] Some _ that(2)]]
    show ?thesis by (simp add: search_user_list_def Some)
  qed (simp add: search_user_list_def)
  then show ?thesis
    by (auto simp: ClientFindHttpDirectoryOrUrlForChannel_defs user_lists_def split: option.splits reading.splits)
qed

section \<open>Catchups and content requests\<close>

lemma find_stream_defined:
  assumes B: "bson_laws B" and st: "typed_store L' M (db s)"
  shows "FindStream B L M auth sid s \<noteq> None"
  using readers_defined(1)[OF B typed_find[OF st]]
  by (auto simp: FindStream_def find_user_stream_def Let_def split: option.splits reading.splits)

lemma find_cached_defined:
  assumes B: "bson_laws B" and st: "typed_store L' M (db s)"
  shows "find_cached B L M title start stop s parts \<noteq> Undef"
proof -
  have "cached_part B L M title start stop s chan \<noteq> Undef" for chan
    using readers_defined(3)[OF B typed_find[OF st]]
    by (auto simp: cached_part_def split: option.splits reading.splits)
  then show ?thesis by (induction parts) (auto split: reading.splits)
qed

lemma create_catchup_defined [defined_rules]:
  assumes B: "bson_laws B" and st: "typed_store L' M (db s)" and "fits64 (stop - start)"
  shows "CreateCatchup B L M now auth sid title start stop s \<noteq> None"
  using find_stream_defined[OF B st] find_cached_defined[OF B st] assms(3)
  by (auto simp: CreateCatchup_def CreateOrFindCatchup_def simp del: not_None_eq
      split: option.splits sum.splits reading.splits)

lemma create_request_defined [defined_rules]:
  assumes "\<And>c. collection_open s c"
  shows "CreateRequestContent B L M auth request s \<noteq> None"
  using assms
  by (auto simp: CreateRequestContent_def insert_one_def Let_def split: option.splits prod.splits)

section \<open>Identities\<close>

text \<open>
  The text of an identifier is not empty, and the expiry date of an account does not make valid
  credentials invalid.
\<close>

definition identity_laws :: "bson_lib \<Rightarrow> fastotv_lib \<Rightarrow> bool" where
  "identity_laws B L \<longleftrightarrow>
     (\<forall>x. bl_oid_to_string B x \<noteq> []) \<and>
     (\<forall>a e. fl_auth_valid L a \<longrightarrow> fl_server_auth_valid L (auth_with_exp a e))"

lemma made_valid:
  assumes "identity_laws B L" and "fl_auth_valid L a" and "uid \<noteq> []"
  shows "ServerDBAuthInfo_IsValid L (ServerDBAuthInfo_make uid (auth_with_exp a e))"
proof -
  have "server_auth_info.truncate (ServerDBAuthInfo_make uid u) = u" for u
    by (simp add: ServerDBAuthInfo_make_def server_auth_info.defs)
  then show ?thesis using assms by (simp add: ServerDBAuthInfo_IsValid_def identity_laws_def)
qed

lemma login_identity_valid:
  assumes B: "bson_laws B" and inv: "session_inv s" and I: "identity_laws B L"
    and login: "ClientLogin B L M now uauth s = Some (s', Inr a)"
  shows "ServerDBAuthInfo_IsValid L a"
proof -
  obtain x e where "fl_auth_valid L uauth" "a = ServerDBAuthInfo_make (ConvertToString B x) (auth_with_exp uauth e)"
    using login unfolding ClientLogin_iff[OF B inv] by blast
  moreover have "ConvertToString B x \<noteq> []" using I by (simp add: ConvertToString_def identity_laws_def)
  ultimately show ?thesis using made_valid[OF I] by simp
qed

lemma uid_identity_valid:
  assumes B: "bson_laws B" and inv: "session_inv s" and I: "identity_laws B L" and st: "typed_store L M (db s)"
    and login: "ClientLogin_by_uid B M now uid password dev s = Some (s', Inr a)"
  shows "ServerDBAuthInfo_IsValid L a"
proof -
  obtain doc login exp where *: "uid \<noteq> []" "password \<noteq> []" "dev \<noteq> []"
    "find_one M SUBSCRIBERS (by_id (bl_oid_of_string B uid)) s = Some doc" "map_of doc ''email'' = Some (BUtf8 login)"
    "admitted B M now uid (auth_with_exp \<lparr>li_login = login, li_password = password, ai_device = dev\<rparr> exp) doc s s'"
    "a = ServerDBAuthInfo_make uid (auth_with_exp \<lparr>li_login = login, li_password = password, ai_device = dev\<rparr> exp)"
    using login unfolding ClientLogin_by_uid_iff[OF B inv] Let_def by blast
  have "credentials_valid L doc" using typed_find[OF st *(4)] by (simp add: typed_document_def)
  moreover have "map_of doc ''password'' = Some (BUtf8 password)" using *(6) by (simp add: admitted_def credentials_ok_def)
  ultimately have "fl_auth_valid L \<lparr>li_login = login, li_password = password, ai_device = dev\<rparr>"
    using *(2,3,5) by (simp add: credentials_valid_def)
  then show ?thesis using made_valid[OF I _ *(1)] *(7) by simp
qed

end
