(* ===== verification/Client_Progress.thy ===== *)
theory Client_Progress
  imports Typed_Store Server_Properties Service_Properties
begin

text \<open>
  Progress: on a store as expected every request of a subscriber is processed to its end, with the
  exception of two inputs that the code does not survive; and so is every answer of the http server.
\<close>

section \<open>The inputs that are not survived\<close>

text \<open>
  A response without identifier, whose identifier is printed all the same, and the times of a
  catchup whose difference does not fit 64 bits.
\<close>

definition fatal_input :: "('io, 'db) env \<Rightarrow> ptr \<Rightarrow> ('io, 'db, 'a) sub_handler_scheme \<Rightarrow> bool" where
  "fatal_input E client s =
     (case snd (sv_read_command (env_io E) (io s) client) of
        Inl err \<Rightarrow> False
      | Inr buff \<Rightarrow>
          (case rl_parse (env_rpc E) buff of
             Inr (Some req, resp) \<Rightarrow>
               rl_client_method (env_rpc E) (rq_method req) = Some CLIENT_REQUEST_CATCHUP \<and>
               (case map_option (rl_catchup_info (env_rpc E)) (rq_params req) of
                  Some (Parsed (sid, title, start, stop)) \<Rightarrow> \<not> fits64 (stop - start)
                | _ \<Rightarrow> False)
           | Inr (None, Some resp) \<Rightarrow> rs_id resp = None
           | _ \<Rightarrow> False))"

section \<open>The server of the subscribers\<close>

text \<open>What the handlers rely on: the invariant, the open collections, and the types in the store.\<close>

definition ready :: "('io, 'db) env \<Rightarrow> ('io, 'db, 'a) sub_handler_scheme \<Rightarrow> bool" where
  "ready E s \<longleftrightarrow>
     server_inv s \<and> (\<forall>c. collection_open s c) \<and> typed_store (env_lib E) (env_mongo E) (db s)"

lemma ready_io: "ready E s \<Longrightarrow> ready E (s\<lparr>io := w\<rparr>)"
  using quiet_server_inv[OF quiet_io] by (auto simp: ready_def)

lemma ready_session: "ready E s \<Longrightarrow> session_inv s"
  by (simp add: ready_def server_inv_def books_inv_session)

lemma with_params_defined:
  "(\<And>err. bad err s \<noteq> None) \<Longrightarrow>
   (\<And>params x. rq_params req = Some params \<Longrightarrow> prs params = Parsed x \<Longrightarrow> k x s \<noteq> None) \<Longrightarrow>
   with_params E prs req bad k s \<noteq> None"
  by (simp add: with_params_def del: not_None_eq split: option.split parsed.split)

lemma bad_params_defined [simp]: "bad_params err s \<noteq> None"
  by (simp add: bad_params_def)

lemma logged_in_defined:
  assumes inv: "server_inv s" and p: "p \<in> clients SubscriberClient s"
    and k: "\<And>a. view s p = Some (Some a) \<Longrightarrow> k a s \<noteq> None"
  shows "logged_in E p req k s \<noteq> None"
proof -
  obtain c where c: "heap s p = Some c" using client_live[OF p] by (auto simp: view_def)
  have "drop_client E p t \<noteq> None" if "quiet s t" for t
    using drop_client_ok[OF quiet_server_inv[OF that inv], of p E] p that by (auto simp: clients_def quiet_def)
  then have "drop_client E p (fst (send E p req r s)) \<noteq> None" for r by simp
  then show ?thesis
    using c k by (auto simp: logged_in_def CheckIsLoginClient_def view_def simp del: not_None_eq
        split: option.splits if_splits)
qed

lemma with_login_eq: "view s p = Some (Some a) \<Longrightarrow> with_login p k s = k a s"
  by (auto simp: with_login_def view_def)

lemma register_defined:
  assumes "ServerDBAuthInfo_IsValid L a" and "view s p \<noteq> None"
  shows "RegisterInnerConnectionByHost L p a s \<noteq> None"
  using assms
  by (cases "p = nullptr") (auto simp: RegisterInnerConnectionByHost_def ISubscribersManager_Register_def
      MakeFrontSubscriberInfo_eq view_def Let_def)

lemma login_defined:
  assumes B: "bson_laws (env_bson E)" and I: "identity_laws (env_bson E) (env_lib E)"
    and r: "ready E s" and p: "p \<in> clients SubscriberClient s"
  shows "HandleRequestClientLogin E now p req s \<noteq> None"
  unfolding HandleRequestClientLogin_def
proof (rule with_params_defined)
  fix params uauth
  obtain s1 res where s1: "ClientLogin (env_bson E) (env_lib E) (env_mongo E) now uauth s = Some (s1, res)"
    using login_total(1)[OF B ready_session[OF r]] by blast
  have q: "quiet s s1" by (rule quiet_store[OF ClientLogin_store[OF s1]])
  have "RegisterInnerConnectionByHost (env_lib E) p a s2 \<noteq> None"
    if "res = Inr a" "send E p req x s1 = (s2, e)" for a s2 x e
  proof (rule register_defined)
    show "ServerDBAuthInfo_IsValid (env_lib E) a"
      using login_identity_valid[OF B ready_session[OF r] I] s1 that(1) by blast
    show "view s2 p \<noteq> None" using quiet_after_send[OF that(2) q] client_live[OF p] by (simp add: quiet_def)
  qed
  then show "(case ClientLogin (env_bson E) (env_lib E) (env_mongo E) now uauth s of
       None \<Rightarrow> None
     | Some (s1, Inl err) \<Rightarrow> Some (fst (send E p req (LoginFail err) s1), Some (ErrnoDesc err EINVAL))
     | Some (s1, Inr ser) \<Rightarrow>
         (case send E p req (LoginSuccess ser) s1 of
            (s2, Some errn) \<Rightarrow> Some (s2, Some errn)
          | (s2, None) \<Rightarrow>
              (case RegisterInnerConnectionByHost (env_lib E) p ser s2 of
                 None \<Rightarrow> None | Some (s3, err) \<Rightarrow> Some (s3, None)))) \<noteq> None"
    by (auto simp: s1 simp del: not_None_eq split: sum.splits prod.splits option.splits)
qed simp

lemma watchers_defined: "session_inv s \<Longrightarrow> GetAndUpdateOnlineUserByStreamID sid s \<noteq> None"
  by (simp add: watchers_exact)

text \<open>Each request in turn.\<close>

lemma requests_defined:
  assumes B: "bson_laws (env_bson E)" and I: "identity_laws (env_bson E) (env_lib E)"
    and r: "ready E s" and p: "p \<in> clients SubscriberClient s"
  shows "HandleRequestClientActivate E p req s \<noteq> None"
    and "HandleRequestClientPing E p req s \<noteq> None"
    and "HandleRequestClientGetServerInfo E p req s \<noteq> None"
    and "HandleRequestClientGetChannels E p req s \<noteq> None"
    and "HandleRequestClientGetRuntimeChannelInfo E p req s \<noteq> None"
    and "HandleRequestClientSetFavorite E p req s \<noteq> None"
    and "HandleRequestClientSetRecent E p req s \<noteq> None"
    and "HandleRequestInterruptStreamTime E p req s \<noteq> None"
    and "HandleRequestUndoCatchup E p req s \<noteq> None"
    and "HandleRequestContent E p req s \<noteq> None"
    and "(\<And>params sid title start stop. rq_params req = Some params \<Longrightarrow>
           rl_catchup_info (env_rpc E) params = Parsed (sid, title, start, stop) \<Longrightarrow> fits64 (stop - start)) \<Longrightarrow>
         HandleRequestGenerateCatchup E now p req s \<noteq> None"
proof -
  have st: "typed_store (env_lib E) (env_mongo E) (db s)" and opened: "\<And>c. collection_open s c"
    and inv: "server_inv s" using r by (simp_all add: ready_def)
  note logged = logged_in_defined[OF inv p]
  show "HandleRequestClientActivate E p req s \<noteq> None"
    unfolding HandleRequestClientActivate_def
    by (intro with_params_defined) (simp_all split: sum.split)
  show "HandleRequestClientPing E p req s \<noteq> None"
    unfolding HandleRequestClientPing_def by (intro logged with_params_defined) simp_all
  show "HandleRequestClientGetServerInfo E p req s \<noteq> None"
    unfolding HandleRequestClientGetServerInfo_def by (intro logged) simp
  show "HandleRequestClientGetChannels E p req s \<noteq> None"
    unfolding HandleRequestClientGetChannels_def
    by (intro logged) (auto simp: get_channels_defined[OF B st] simp del: not_None_eq split: option.split sum.split)
  obtain c where c: "heap s p = Some c" using client_live[OF p] by (auto simp: view_def)
  show "HandleRequestClientGetRuntimeChannelInfo E p req s \<noteq> None"
    unfolding HandleRequestClientGetRuntimeChannelInfo_def
    by (intro logged with_params_defined)
       (auto simp: c watchers_defined[OF ready_session[OF r]] Let_def simp del: not_None_eq split: option.split)
  show "HandleRequestClientSetFavorite E p req s \<noteq> None"
    unfolding HandleRequestClientSetFavorite_def
    by (intro logged with_params_defined) (auto simp: with_login_eq Let_def)
  show "HandleRequestClientSetRecent E p req s \<noteq> None"
    unfolding HandleRequestClientSetRecent_def
    by (intro logged with_params_defined) (auto simp: with_login_eq Let_def)
  show "HandleRequestInterruptStreamTime E p req s \<noteq> None"
    unfolding HandleRequestInterruptStreamTime_def
    by (intro logged with_params_defined) (auto simp: with_login_eq Let_def)
  show "HandleRequestUndoCatchup E p req s \<noteq> None"
    unfolding HandleRequestUndoCatchup_def
    by (intro logged with_params_defined) (auto split: prod.split option.split)
  show "HandleRequestContent E p req s \<noteq> None"
    unfolding HandleRequestContent_def
    by (intro logged with_params_defined)
       (auto simp: create_request_defined[OF opened] simp del: not_None_eq split: option.split sum.split)
  show "HandleRequestGenerateCatchup E now p req s \<noteq> None"
    if "\<And>params sid title start stop. rq_params req = Some params \<Longrightarrow>
           rl_catchup_info (env_rpc E) params = Parsed (sid, title, start, stop) \<Longrightarrow> fits64 (stop - start)"
    unfolding HandleRequestGenerateCatchup_def
    by (intro logged with_params_defined)
       (auto simp: create_catchup_defined[OF B st that] Let_def simp del: not_None_eq
         split: option.split sum.split prod.split)
qed

lemma command_defined:
  assumes B: "bson_laws (env_bson E)" and I: "identity_laws (env_bson E) (env_lib E)"
    and r: "ready E s" and p: "p \<in> clients SubscriberClient s"
    and fits: "\<And>params sid title start stop.
        rl_client_method (env_rpc E) (rq_method req) = Some CLIENT_REQUEST_CATCHUP \<Longrightarrow>
        rq_params req = Some params \<Longrightarrow>
        rl_catchup_info (env_rpc E) params = Parsed (sid, title, start, stop) \<Longrightarrow> fits64 (stop - start)"
  shows "HandleRequestCommand E now p req s \<noteq> None"
proof (cases "rl_client_method (env_rpc E) (rq_method req)")
  case (Some m)
  then show ?thesis
    using requests_defined[OF B I r p, of req] requests_defined(11)[OF B I r p, of req now] fits
      login_defined[OF B I r p, of now req]
    by (cases m) (simp_all add: HandleRequestCommand_def del: not_None_eq)
qed (simp add: HandleRequestCommand_def)

lemma response_defined:
  assumes "view s p \<noteq> None" and "rs_id resp \<noteq> None"
  shows "HandleResponceCommand E p resp s \<noteq> None"
  using assms
  by (auto simp: HandleResponceCommand_def HandleResponceServerPing_def HandleResponceServerGetClientInfo_def
      HandleResponceServerTextNotification_def warn_id_def bad_params_def view_def Let_def
      split: prod.split option.split server_method.split parsed.split)

lemma data_defined:
  assumes B: "bson_laws (env_bson E)" and I: "identity_laws (env_bson E) (env_lib E)"
    and r: "ready E s" and p: "p \<in> clients SubscriberClient s" and ok: "\<not> fatal_input E p s"
  shows "DataReceived E now p s \<noteq> None"
proof -
  obtain w res where w: "sv_read_command (env_io E) (io s) p = (w, res)" by fastforce
  have r1: "ready E (s\<lparr>io := w\<rparr>)" and p1: "p \<in> clients SubscriberClient (s\<lparr>io := w\<rparr>)"
    using ready_io[OF r] p by (simp_all add: clients_def)
  show ?thesis
  proof (cases res)
    case (Inl err)
    then show ?thesis
      using w r1 drop_client_ok[OF _ p1, of E] by (auto simp: DataReceived_def ready_def)
  next
    case (Inr buff)
    have "HandleInnerDataReceived E now p buff (s\<lparr>io := w\<rparr>) \<noteq> None"
    proof (cases "rl_parse (env_rpc E) buff")
      case parsed: (Inr rr)
      obtain req resp where rr: "rr = (req, resp)" by (cases rr)
      show ?thesis
      proof (cases req)
        case (Some q)
        have "fits64 (stop - start)"
          if "rl_client_method (env_rpc E) (rq_method q) = Some CLIENT_REQUEST_CATCHUP"
            "rq_params q = Some params" "rl_catchup_info (env_rpc E) params = Parsed (sid, title, start, stop)"
          for params sid title start stop
          using ok that w Inr parsed rr Some by (simp add: fatal_input_def)
        then show ?thesis
          using command_defined[OF B I r1 p1, of q now] parsed rr Some
          by (auto simp: HandleInnerDataReceived_def)
      next
        case None
        then show ?thesis
        proof (cases resp)
          case (Some re)
          have "rs_id re \<noteq> None" using ok w Inr parsed rr None Some by (simp add: fatal_input_def)
          then show ?thesis
            using response_defined[OF client_live[OF p1], of re E] parsed rr None Some
            by (auto simp: HandleInnerDataReceived_def)
        qed (simp add: HandleInnerDataReceived_def parsed rr None)
      qed
    qed (simp add: HandleInnerDataReceived_def)
    then show ?thesis using w Inr by (auto simp: DataReceived_def split: option.splits)
  qed
qed

text \<open>
  The first of the two inputs is fatal indeed: a response without identifier that answers no request
  of the server.
\<close>

theorem response_without_id_fatal:
  assumes "sv_read_command (env_io E) (io s) p = (w, Inr buff)" and "rl_parse (env_rpc E) buff = Inr (None, Some resp)"
    and "rs_id resp = None" and "snd (sv_pop_request (env_io E) w p None) = None"
  shows "DataReceived E now p s = None"
  using assms
  by (auto simp: DataReceived_def HandleInnerDataReceived_def HandleResponceCommand_def warn_id_def split: prod.split)

section \<open>The files of the http server\<close>

lemma file_defined:
  assumes "view s p \<noteq> None"
  shows "send_file H p r k sid d f s \<noteq> None" and "send_redirect H p r k sid u s \<noteq> None"
  using assms
  by (auto simp: send_file_def send_redirect_def http_error_def http_send_def send_open_file_def send_body_def
      watch_def view_def Let_def split: option.split prod.split)

lemma serve_stream_defined:
  assumes "bson_laws (he_bson H)" and "typed_store L (he_mongo H) (db s)" and "view s p \<noteq> None"
  shows "serve_stream H p r k tokens a s \<noteq> None"
  using find_http_defined[OF assms(1,2)] file_defined[OF assms(3)]
  by (auto simp: serve_stream_def http_error_def Let_def simp del: not_None_eq
      split: option.split sum.split http_target.split)

end
