(* ===== verification/Store_Effects.thy ===== *)
theory Store_Effects
  imports Typed_Store Serving Catchup_Store
begin

text \<open>
  The program keeps the types it takes for granted: what it inserts and how it updates leaves a store
  whose documents are as expected.  The store is the set of documents of each collection; the laws
  say what an insertion and the five kinds of updates of the program may add to it.
\<close>

section \<open>The effects of the updates\<close>

text \<open>Nothing but one field may have changed.\<close>

definition fields_but :: "string \<Rightarrow> bdoc \<Rightarrow> bdoc \<Rightarrow> bool" where
  "fields_but f doc doc' \<longleftrightarrow>
     (distinct (keys_of doc) \<longrightarrow> distinct (keys_of doc')) \<and> (\<forall>k. k \<noteq> f \<longrightarrow> map_of doc' k = map_of doc k)"

text \<open>
  The updates of the program with the change each makes to the document it finds: \<open>$push\<close> appends to
  an array, \<open>$pull\<close> removes elements, \<open>$set\<close> with the positional operator sets a field of the first
  element that matches, and \<open>$inc\<close> changes a number.
\<close>

inductive code_update :: "coll \<Rightarrow> bdoc \<Rightarrow> bdoc \<Rightarrow> (bdoc \<Rightarrow> bdoc \<Rightarrow> bool) \<Rightarrow> bool" where
  push: "code_update c (by_id u) (push_update f v)
    (\<lambda>doc doc'. fields_but f doc doc' \<and> array_elems doc' f = array_elems doc f @ [v])"
| pull: "code_update c (by_id u) (pull_update f x)
    (\<lambda>doc doc'. fields_but f doc doc' \<and> array_elems doc' f = filter (\<lambda>e. \<not> has_sid (BOid x) e) (array_elems doc f))"
| mark: "f \<in> set user_lists \<Longrightarrow> code_update c (entry_query u f x) (set_update f g v)
    (\<lambda>doc doc'. fields_but f doc doc' \<and>
       array_elems doc' f = map_first (has_sid (BOid x)) (set_elem g v) (array_elems doc f))"
| device: "code_update c [(''email'', BUtf8 login), (''devices._id'', BOid x)]
    [(''$set'', BDoc [(''devices.$.status'', v)])] (fields_but ''devices'')"
| views: "code_update c (by_id u) [(''$inc'', BDoc [(''view_count'', v)])] (fields_but ''view_count'')"

definition store_effects :: "'db mongo_lib \<Rightarrow> ('db \<Rightarrow> coll \<Rightarrow> bdoc set) \<Rightarrow> bool" where
  "store_effects M docs \<longleftrightarrow>
     (\<forall>d c q doc. mg_find M d c q = Some doc \<longrightarrow> doc \<in> docs d c) \<and>
     (\<forall>d c. docs (snd (mg_new_oid M d)) c \<subseteq> docs d c) \<and>
     (\<forall>d c doc c'. docs (fst (mg_insert M d c doc)) c' \<subseteq> docs d c' \<union> (if c' = c then {doc} else {})) \<and>
     (\<forall>d c q u R c'. code_update c q u R \<longrightarrow>
        docs (fst (mg_update M d c q u)) c' \<subseteq>
          docs d c' \<union> (if c' = c then {doc'. \<exists>doc \<in> docs d c. R doc doc'} else {}))"

definition typed_docs :: "fastotv_lib \<Rightarrow> ('db \<Rightarrow> coll \<Rightarrow> bdoc set) \<Rightarrow> 'db \<Rightarrow> bool" where
  "typed_docs L docs d \<longleftrightarrow> (\<forall>c. \<forall>doc \<in> docs d c. typed_document L c doc)"

lemma store_effectsD:
  assumes "store_effects M docs"
  shows "mg_find M d c q = Some doc \<Longrightarrow> doc \<in> docs d c"
    and "docs (snd (mg_new_oid M d)) c \<subseteq> docs d c"
    and "docs (fst (mg_insert M d c new)) c' \<subseteq> docs d c' \<union> (if c' = c then {new} else {})"
    and "code_update c q u R \<Longrightarrow> docs (fst (mg_update M d c q u)) c' \<subseteq>
           docs d c' \<union> (if c' = c then {doc'. \<exists>doc \<in> docs d c. R doc doc'} else {})"
proof -
  note laws = assms[unfolded store_effects_def]
  show "mg_find M d c q = Some doc \<Longrightarrow> doc \<in> docs d c" using laws[THEN conjunct1] by simp
  show "docs (snd (mg_new_oid M d)) c \<subseteq> docs d c" using laws[THEN conjunct2, THEN conjunct1] by simp
  show "docs (fst (mg_insert M d c new)) c' \<subseteq> docs d c' \<union> (if c' = c then {new} else {})"
    using laws[THEN conjunct2, THEN conjunct2, THEN conjunct1] by simp
  show "code_update c q u R \<Longrightarrow> docs (fst (mg_update M d c q u)) c' \<subseteq>
      docs d c' \<union> (if c' = c then {doc'. \<exists>doc \<in> docs d c. R doc doc'} else {})"
    using laws[THEN conjunct2, THEN conjunct2, THEN conjunct2] by presburger
qed

lemma typed_docsD: "typed_docs L docs d \<Longrightarrow> doc \<in> docs d c \<Longrightarrow> typed_document L c doc"
  by (simp add: typed_docs_def)

lemma typed_docs_store: "store_effects M docs \<Longrightarrow> typed_docs L docs d \<Longrightarrow> typed_store L M d"
  using store_effectsD(1) typed_docsD by (fastforce simp: typed_store_def)

section \<open>Types are kept\<close>

lemma fields_butD: "fields_but f doc doc' \<Longrightarrow> k \<noteq> f \<Longrightarrow> map_of doc' k = map_of doc k"
  by (simp add: fields_but_def)

lemma fields_but_elems: "fields_but f doc doc' \<Longrightarrow> k \<noteq> f \<Longrightarrow> array_elems doc' k = array_elems doc k"
  by (simp add: array_elems_def fields_but_def)

lemma fields_but_credentials:
  "fields_but f doc doc' \<Longrightarrow> f \<notin> {''email'', ''password''} \<Longrightarrow> credentials_valid L doc' = credentials_valid L doc"
proof -
  assume f: "fields_but f doc doc'" "f \<notin> {''email'', ''password''}"
  then have "map_of doc' ''email'' = map_of doc ''email''" "map_of doc' ''password'' = map_of doc ''password''"
    by (auto intro: fields_butD)
  then show ?thesis by (simp add: credentials_valid_def)
qed

lemma oids_under_elems:
  assumes "distinct (keys_of d)"
  shows "oids_under k d \<longleftrightarrow> list_all is_oid (array_elems d k)"
proof -
  have "oids_under k d \<longleftrightarrow> (\<forall>a. (k, BArr a) \<in> set d \<longrightarrow> list_all is_oid (map snd a))"
    unfolding oids_under_def list_all_iff[of _ d] by (auto split: bval.splits)
  also have "\<dots> \<longleftrightarrow> (\<forall>a. map_of d k = Some (BArr a) \<longrightarrow> list_all is_oid (map snd a))"
    using assms by (simp add: keys_of_def)
  also have "\<dots> \<longleftrightarrow> list_all is_oid (array_elems d k)"
    by (simp add: array_elems_def split: option.split bval.split)
  finally show ?thesis .
qed

text \<open>A change of one list of a user, and a change of a stream.\<close>

lemma user_list_typed:
  assumes "typed_document L SUBSCRIBERS doc" and "fields_but f doc doc'" and "f \<notin> {''email'', ''password''}"
    and "f \<in> set user_lists \<Longrightarrow> list_all entry_ok (array_elems doc f) \<Longrightarrow> list_all entry_ok (array_elems doc' f)"
    and "f \<in> {''series'', ''requests''} \<Longrightarrow> list_all is_oid (array_elems doc f) \<Longrightarrow> list_all is_oid (array_elems doc' f)"
  shows "typed_document L SUBSCRIBERS doc'"
proof -
  have "list_all entry_ok (array_elems doc' k)" if "k \<in> set user_lists" for k
    using assms(1,4) that fields_but_elems[OF assms(2), of k]
    by (cases "k = f") (auto simp: typed_document_def user_document_def list_all_iff[of _ user_lists])
  moreover have "list_all is_oid (array_elems doc' k)" if "k \<in> {''series'', ''requests''}" for k
    using assms(1,5) that fields_but_elems[OF assms(2), of k]
    by (cases "k = f") (auto simp: typed_document_def user_document_def)
  ultimately show ?thesis
    using assms(1) fields_but_credentials[OF assms(2,3)]
    by (simp add: typed_document_def user_document_def list_all_iff[of _ user_lists])
qed

lemma stream_typed:
  assumes "typed_document L STREAMS doc" and "fields_but f doc doc'"
    and "f = ''parts'' \<Longrightarrow> list_all is_oid (array_elems doc f) \<Longrightarrow> list_all is_oid (array_elems doc' f)"
  shows "typed_document L STREAMS doc'"
proof -
  have d: "distinct (keys_of doc)" "distinct (keys_of doc')"
    using assms(1,2) by (simp_all add: typed_document_def fields_but_def)
  then show ?thesis
    using assms fields_but_elems[OF assms(2), of "''parts''"]
    by (cases "f = ''parts''") (simp_all add: typed_document_def oids_under_elems)
qed

lemma entry_ok_set: "g \<noteq> ''sid'' \<Longrightarrow> entry_ok e \<Longrightarrow> entry_ok (set_elem g v e)"
  by (auto simp: entry_ok_def set_elem_def update_conv' split: bval.splits)

lemma list_all_map_first: "(\<And>x. P x \<Longrightarrow> P (f x)) \<Longrightarrow> list_all P xs \<Longrightarrow> list_all P (map_first Q f xs)"
  by (induction xs) auto

lemma entry_ok_user_entry [simp]: "entry_ok (BDoc (user_entry x @ r))"
  by (simp add: entry_ok_def user_entry_def is_oid_def)

lemma entry_ok_user_entry' [simp]: "entry_ok (BDoc (user_entry x))"
  using entry_ok_user_entry[of x "[]"] by simp

section \<open>The operations of the manager\<close>

named_theorems typed_rules \<open>operations that keep the types of the store\<close>

lemma update_typed:
  assumes "store_effects M docs" and "code_update c q u R"
    and "\<And>doc doc'. typed_document L c doc \<Longrightarrow> R doc doc' \<Longrightarrow> typed_document L c doc'"
    and "typed_docs L docs (db s)"
  shows "typed_docs L docs (db (fst (update_one M c q u s)))"
proof -
  have "typed_document L c' doc'" if d: "doc' \<in> docs (fst (mg_update M (db s) c q u)) c'" for c' doc'
  proof -
    have "doc' \<in> docs (db s) c' \<or> c' = c \<and> (\<exists>doc \<in> docs (db s) c. R doc doc')"
      using subsetD[OF store_effectsD(4)[OF assms(1,2)] d] by (auto split: if_splits)
    then show ?thesis using assms(3) typed_docsD[OF assms(4)] by blast
  qed
  then have "typed_docs L docs (fst (mg_update M (db s) c q u))" by (simp add: typed_docs_def)
  then show ?thesis by (auto simp: update_one_def split: prod.splits option.splits)
qed

lemma insert_typed:
  assumes "store_effects M docs" and "typed_document L c doc" and "typed_docs L docs (db s)"
  shows "typed_docs L docs (db (fst (insert_one M c doc s)))"
proof -
  have "typed_document L c' doc'" if "doc' \<in> docs (fst (mg_insert M (db s) c doc)) c'" for c' doc'
    using store_effectsD(3)[OF assms(1), of "db s" c doc c'] that assms(2) typed_docsD[OF assms(3)]
    by (auto split: if_splits)
  then have "typed_docs L docs (fst (mg_insert M (db s) c doc))" by (simp add: typed_docs_def)
  then show ?thesis by (auto simp: insert_one_def split: prod.splits option.splits)
qed

lemma new_oid_typed:
  "store_effects M docs \<Longrightarrow> typed_docs L docs d \<Longrightarrow> mg_new_oid M d = (x, d') \<Longrightarrow> typed_docs L docs d'"
  using store_effectsD(2)[of M docs d] unfolding typed_docs_def by fastforce

lemma push_user_typed:
  assumes "store_effects M docs" and "typed_docs L docs (db s)"
    and "f \<in> set user_lists \<and> entry_ok v \<or> f = ''requests'' \<and> is_oid v"
  shows "typed_docs L docs (db (fst (update_one M SUBSCRIBERS (by_id u) (push_update f v) s)))"
  using assms(3)
  by (intro update_typed[OF assms(1) code_update.push _ assms(2)])
     (elim conjE, erule user_list_typed, assumption, auto simp: user_lists_def)


lemma pull_user_typed:
  assumes "store_effects M docs" and "typed_docs L docs (db s)" and "f \<in> set user_lists"
  shows "typed_docs L docs (db (fst (update_one M SUBSCRIBERS (by_id u) (pull_update f x) s)))"
  using assms(3)
  by (intro update_typed[OF assms(1) code_update.pull _ assms(2)])
     (elim conjE, erule user_list_typed, assumption, auto simp: user_lists_def list_all_iff)

lemma mark_user_typed:
  assumes "store_effects M docs" and "typed_docs L docs (db s)" and "f \<in> set user_lists" and "g \<noteq> ''sid''"
  shows "typed_docs L docs (db (fst (update_one M SUBSCRIBERS (entry_query u f x) (set_update f g v) s)))"
  using assms(3)
  by (intro update_typed[OF assms(1) code_update.mark[OF assms(3)] _ assms(2)])
     (elim conjE, erule user_list_typed, assumption,
      auto simp: user_lists_def intro: list_all_map_first entry_ok_set[OF assms(4)])

lemma device_typed:
  assumes "store_effects M docs" and "typed_docs L docs (db s)"
  shows "typed_docs L docs (db (fst (update_one M SUBSCRIBERS
           [(''email'', BUtf8 login), (''devices._id'', BOid x)]
           [(''$set'', BDoc [(''devices.$.status'', v)])] s)))"
  by (intro update_typed[OF assms(1) code_update.device _ assms(2)])
     (erule user_list_typed, assumption, auto simp: user_lists_def)

lemma parts_typed:
  assumes "store_effects M docs" and "typed_docs L docs (db s)"
  shows "typed_docs L docs (db (fst (update_one M STREAMS (by_id u) (push_update f (BOid x)) s)))"
  by (intro update_typed[OF assms(1) code_update.push _ assms(2)])
     (elim conjE, erule stream_typed, assumption, simp add: is_oid_def)

lemma server_typed:
  assumes "store_effects M docs" and "typed_docs L docs (db s)"
  shows "typed_docs L docs (db (fst (update_one M SERVERS (by_id u) (push_update f v) s)))"
  by (intro update_typed[OF assms(1) code_update.push _ assms(2)]) (simp add: typed_document_def)

lemma views_typed:
  assumes "store_effects M docs" and "typed_docs L docs (db s)"
  shows "typed_docs L docs (db (fst (update_one M STREAMS (by_id u) [(''$inc'', BDoc [(''view_count'', v)])] s)))"
  by (intro update_typed[OF assms(1) code_update.views _ assms(2)])
     (erule stream_typed, assumption, simp)


text \<open>Each operation of the manager that changes the store.\<close>

definition held ::
    "fastotv_lib \<Rightarrow> ('db \<Rightarrow> coll \<Rightarrow> bdoc set) \<Rightarrow> ('io, 'db, 'a) manager_scheme \<Rightarrow> ('io, 'db, 'a) manager_scheme \<Rightarrow> bool" where
  "held L docs s s' \<longleftrightarrow> collection_open s' = collection_open s \<and> (typed_docs L docs (db s) \<longrightarrow> typed_docs L docs (db s'))"

lemma held_refl [simp, intro]: "held L docs s s"
  by (simp add: held_def)

lemma held_trans: "held L docs s t \<Longrightarrow> held L docs t u \<Longrightarrow> held L docs s u"
  by (simp add: held_def)

lemma held_same: "collection_open s' = collection_open s \<Longrightarrow> db s' = db s \<Longrightarrow> held L docs s s'"
  by (simp add: held_def)

lemma held_one:
  "(typed_docs L docs (db s) \<Longrightarrow> typed_docs L docs (db (fst (update_one M c q u s)))) \<Longrightarrow> held L docs s (fst (update_one M c q u s))"
  "(typed_docs L docs (db s) \<Longrightarrow> typed_docs L docs (db (fst (insert_one M c doc s)))) \<Longrightarrow> held L docs s (fst (insert_one M c doc s))"
  using update_one_same[of s M c q u] insert_one_same[of s M c doc]
  by (simp_all add: held_def same_sessions_def)

lemma held_pair: "r = (s', e) \<Longrightarrow> held L docs s (fst r) \<Longrightarrow> held L docs s s'"
  by simp

lemma with_user_and_stream_held:
  assumes "\<And>u x. held L' docs s (fst (f u x s))"
  shows "held L' docs s (fst (with_user_and_stream B L auth sid f s))"
  using assms by (simp add: with_user_and_stream_def split: option.splits)

lemma user_operations_held:
  assumes "store_effects M docs"
  shows "held L' docs s (fst (AddUserCatchup B L M auth sid s))"
    and "held L' docs s (fst (RemoveUserCatchup B L M auth sid s))"
    and "held L' docs s (activate_device M login x s)"
proof -
  show "held L' docs s (fst (AddUserCatchup B L M auth sid s))"
    unfolding AddUserCatchup_def AddStreamToUserCatchupsArray_def
    by (intro with_user_and_stream_held held_one(1) push_user_typed[OF assms]) (simp_all add: user_lists_def)
  show "held L' docs s (fst (RemoveUserCatchup B L M auth sid s))"
    unfolding RemoveUserCatchup_def RemoveStreamFromUserCatchupsArray_def
    by (intro with_user_and_stream_held held_one(1) pull_user_typed[OF assms]) (simp_all add: user_lists_def)
  show "held L' docs s (activate_device M login x s)"
    unfolding activate_device_def by (intro held_one(1) device_typed[OF assms])
qed

lemma set_user_field_held:
  assumes "store_effects M docs" and "g \<noteq> ''sid''"
  shows "held L' docs s (fst (set_user_field B M auth channel g v s))"
proof -
  have "held L' docs s (fst (update_one M SUBSCRIBERS (entry_query u (user_list_of st) x)
      (set_update (user_list_of st) g v) s))" for u st x
    by (intro held_one(1) mark_user_typed[OF assms(1) _ user_list_of_mem assms(2)])
  then show ?thesis by (simp add: set_user_field_def Let_def split: option.splits)
qed

lemma marks_held:
  assumes "store_effects M docs"
  shows "held L' docs s (fst (SetFavorite B L M auth channel fav s))"
    and "held L' docs s (fst (SetInterruptTime B L M auth channel t s))"
    and "held L' docs s (fst (SetRecent B L M auth channel t s))"
proof -
  note field = held_pair[OF _ set_user_field_held[OF assms]]
  have views: "held L' docs r (fst (update_one M STREAMS (by_id x) [(''$inc'', BDoc [(''view_count'', v)])] r))"
    for r :: "('b, 'a, 'c) manager_scheme" and x v
    by (intro held_one(1) views_typed[OF assms])
  show "held L' docs s (fst (SetFavorite B L M auth channel fav s))"
    by (auto simp: SetFavorite_def split: prod.splits sum.splits intro: field)
  show "held L' docs s (fst (SetInterruptTime B L M auth channel t s))"
    by (auto simp: SetInterruptTime_def split: prod.splits sum.splits intro: field)
  show "held L' docs s (fst (SetRecent B L M auth channel t s))"
    by (auto simp: SetRecent_def split: prod.splits sum.splits
        intro: field held_trans[OF field views])
qed


text \<open>The documents the program inserts are as expected.\<close>

lemma inserted_typed:
  "typed_document L' STREAMS (fst (catchup_document B L cid now endpoint ch title start stop ourls))"
  "typed_document L' REQUESTS (request_document x r)"
proof -
  let ?d = "fst (catchup_document B L cid now endpoint ch title start stop ourls)"
  have "list_all is_oid (array_elems ?d ''parts'')"
    using catchup_document_fields(9)[of B L cid now endpoint ch title start stop ourls]
    by (simp add: array_elems_def)
  then show "typed_document L' STREAMS ?d"
    using catchup_document_distinct oids_under_elems by (simp add: typed_document_def)
  show "typed_document L' REQUESTS (request_document x r)"
    by (simp add: typed_document_def request_document_def keys_of_def)
qed

lemma new_oid_held:
  "store_effects M docs \<Longrightarrow> mg_new_oid M (db s) = (x, d) \<Longrightarrow> held L docs s (s\<lparr>db := d\<rparr>)"
  using new_oid_typed by (auto simp: held_def)

lemma create_catchup_held:
  assumes M: "store_effects M docs"
  shows "held L' docs s (fst (create_catchup B L M now ch title start stop src s))"
proof -
  obtain bsid server_oid ourls where src: "src = (bsid, server_oid, ourls)" by (cases src)
  obtain x d1 where x: "mg_new_oid M (db s) = (x, d1)" by fastforce
  obtain doc us where doc:
    "catchup_document B L x now (catchup_endpoint s) ch title start stop ourls = (doc, us)" by fastforce
  obtain s2 e2 where s2: "insert_one M STREAMS doc (s\<lparr>db := d1\<rparr>) = (s2, e2)" by fastforce
  obtain s3 e3 where s3: "update_one M STREAMS (by_id bsid) (push_update ''parts'' (BOid x)) s2 = (s3, e3)"
    by fastforce
  obtain s4 e4 where s4: "AddStreamToServer M server_oid x s3 = (s4, e4)" by fastforce
  have "typed_document L' STREAMS doc"
    using inserted_typed(1)[of L' B L x now "catchup_endpoint s" ch title start stop ourls] doc by simp
  then have "held L' docs (s\<lparr>db := d1\<rparr>) s2"
    by (intro held_pair[OF s2] held_one(2) insert_typed[OF M])
  then have "held L' docs s s2" by (rule held_trans[OF new_oid_held[OF M x]])
  moreover have "held L' docs s2 s3" by (intro held_pair[OF s3] held_one(1) parts_typed[OF M])
  moreover have "held L' docs s3 s4"
    using s4 unfolding AddStreamToServer_def
    by (elim held_pair) (intro held_one(1) server_typed[OF M])
  ultimately have "held L' docs s s2" "held L' docs s s3" "held L' docs s s4"
    by (blast intro: held_trans)+
  then show ?thesis
    by (simp add: create_catchup_def src x doc s2 s3 s4 Let_def split: option.splits)
qed

lemma CreateCatchup_held:
  "store_effects M docs \<Longrightarrow> CreateCatchup B L M now auth sid title start stop s = Some (s', r) \<Longrightarrow>
     held L' docs s s'"
  by (auto simp: CreateCatchup_def CreateOrFindCatchup_def
      split: if_splits option.splits sum.splits reading.splits
      intro: held_pair[OF _ create_catchup_held])

lemma CreateRequestContent_held:
  assumes M: "store_effects M docs" and r: "CreateRequestContent B L M auth request s = Some (s', r)"
  shows "held L' docs s s'"
proof -
  obtain x d1 where x: "mg_new_oid M (db s) = (x, d1)" by fastforce
  obtain s2 e2 where s2: "insert_one M REQUESTS (request_document x request) (s\<lparr>db := d1\<rparr>) = (s2, e2)"
    by fastforce
  have "held L' docs (s\<lparr>db := d1\<rparr>) s2"
    by (intro held_pair[OF s2] held_one(2) insert_typed[OF M] inserted_typed(2))
  then have h2: "held L' docs s s2" by (rule held_trans[OF new_oid_held[OF M x]])
  have h3: "held L' docs s s3" if "AddContentRequestToUserArray M u x s2 = (s3, e)" for u s3 e
  proof -
    have "held L' docs s2 s3"
      using that unfolding AddContentRequestToUserArray_def
      by (elim held_pair) (intro held_one(1) push_user_typed[OF M], simp_all add: is_oid_def)
    with h2 show ?thesis by (rule held_trans)
  qed
  show ?thesis using r h2 h3
    by (auto simp: CreateRequestContent_def x s2 Let_def split: if_splits option.splits prod.splits)
qed

lemma login_device_held:
  "store_effects M docs \<Longrightarrow> login_device B M uid uauth ar h s = Some (s', r) \<Longrightarrow> held L' docs s s'"
proof (induction B M uid uauth ar h s rule: login_device.induct)
  case (2 B M uid uauth e ar h s)
  then show ?case using user_operations_held(3)[OF 2(5)]
    by (auto split: option.splits if_splits) blast
qed simp

lemma logins_held:
  assumes "store_effects M docs"
  shows "ClientLogin B L M now uauth s = Some (s', r) \<Longrightarrow> held L' docs s s'"
    and "ClientLogin_by_uid B M now uid password dev s = Some (s', r) \<Longrightarrow> held L' docs s s'"
  by (auto simp: ClientLogin_def ClientLogin_by_uid_def ClientLoginImpl_def finish_login_def Let_def
      split: option.splits if_splits prod.splits dest: login_device_held[OF assms])


section \<open>The small store\<close>

definition sample_docs :: "sample_db \<Rightarrow> coll \<Rightarrow> bdoc set" where
  "sample_docs d c = {doc. (c, doc) \<in> set d}"

lemma fields_but_same: "fields_but f doc doc"
  by (simp add: fields_but_def)

lemma fields_but_array: "fields_but f doc (with_array f g doc)"
  using distinct_update[of doc f] map_of_with_array[of _ f g doc]
  by (simp add: fields_but_def keys_of_def with_array_def)

lemma sample_update_docs:
  "(c', doc') \<in> set (sample_update c q u d) \<Longrightarrow>
     (c', doc') \<in> set d \<or> c' = c \<and> (\<exists>doc. (c, doc) \<in> set d \<and> doc' = sample_apply q u doc)"
  by (induction d) (auto split: if_splits)

lemma sample_apply_effect:
  assumes "code_update c q u R"
  shows "R doc (sample_apply q u doc)"
  using assms
proof (cases rule: code_update.cases)
  case (mark f u' x g v)
  have "sample_apply (entry_query u' f x) (set_update f g v) doc =
      with_array f (map_first (has_sid (BOid x)) (set_elem g v)) doc"
    using mark(4) by (auto simp: sample_apply_def set_update_def entry_query_def user_lists_def)
  then show ?thesis by (simp add: mark(1-3) fields_but_array array_elems_with_array)
qed (simp_all add: sample_apply_def push_update_def pull_update_def by_id_def fields_but_array
       array_elems_with_array fields_but_same)

lemma sample_store_effects: "store_effects sample_mongo sample_docs"
  unfolding store_effects_def
proof (intro conjI allI impI)
  show "doc \<in> sample_docs d c" if "mg_find sample_mongo d c q = Some doc" for d c q doc
  proof -
    have "sample_find d c q = Some doc \<Longrightarrow> (c, doc) \<in> set d" by (induction d) (auto split: if_splits)
    then show ?thesis using that by (simp add: sample_mongo_def sample_docs_def)
  qed
  show "sample_docs (fst (mg_update sample_mongo d c q u)) c' \<subseteq>
      sample_docs d c' \<union> (if c' = c then {doc'. \<exists>doc \<in> sample_docs d c. R doc doc'} else {})"
    if "code_update c q u R" for d c q u R c'
  proof
    fix doc' assume "doc' \<in> sample_docs (fst (mg_update sample_mongo d c q u)) c'"
    then have "(c', doc') \<in> set d \<or> c' = c \<and> (\<exists>doc. (c, doc) \<in> set d \<and> doc' = sample_apply q u doc)"
      by (intro sample_update_docs) (simp add: sample_mongo_def sample_docs_def)
    then show "doc' \<in> sample_docs d c' \<union> (if c' = c then {doc'. \<exists>doc \<in> sample_docs d c. R doc doc'} else {})"
      using sample_apply_effect[OF that] by (auto simp: sample_docs_def)
  qed
qed (auto simp: sample_mongo_def sample_docs_def)

end
