(* ===== verification/Typed_Runs.thy ===== *)
theory Typed_Runs
  imports Client_Progress Store_Effects Announcements
begin

text \<open>
  The process has no undefined behaviour on the side of its clients: whatever they send, the store
  stays as expected in every run, so that the next request of any client is processed to its end,
  with the exception of the fatal inputs.
\<close>

section \<open>The handlers keep the types\<close>

definition types_kept ::
    "fastotv_lib \<Rightarrow> ('db \<Rightarrow> coll \<Rightarrow> bdoc set) \<Rightarrow> (('io, 'db, 'a) sub_handler_scheme \<Rightarrow> ('io, 'db, 'a) handled) \<Rightarrow> bool" where
  "types_kept L docs k \<longleftrightarrow> (\<forall>s s' e. k s = Some (s', e) \<longrightarrow> held L docs s s')"

named_theorems kept_rules \<open>handlers that keep the types of the store\<close>

lemma types_keptD: "types_kept L docs k \<Longrightarrow> k s = Some (s', e) \<Longrightarrow> held L docs s s'"
  by (simp add: types_kept_def)

lemma held_io [simp, intro]: "held L docs s (s\<lparr>io := w\<rparr>)"
  by (simp add: held_def)

lemma held_sent [simp, intro]: "held L docs s (fst (send E p req r s))"
  by (simp add: send_def split: prod.splits)

lemma held_after_send: "send E p req r t = (s', e) \<Longrightarrow> held L docs s t \<Longrightarrow> held L docs s s'"
  using held_trans[OF _ held_sent[of L docs t E p req r]] by simp

lemma held_tell [simp, intro]: "held L docs s (tell n s)"
  by (simp add: tell_def held_def)

lemma session_held:
  "session_drop p s = Some t \<Longrightarrow> held L docs s t"
  "session_login M p a s = Some t \<Longrightarrow> held L docs s t"
  by (auto simp: held_def session_drop_def UnRegisterInnerConnectionByHost_def ISubscribersManager_UnRegister_def
      session_login_def RegisterInnerConnectionByHost_def ISubscribersManager_Register_def
      free_client_def Let_def split: if_splits option.splits)

lemma register_held: "RegisterInnerConnectionByHost M p a s = Some (t, e) \<Longrightarrow> held L docs s t"
  using session_held(2)[of M p a s t] by (simp add: session_login_def)

lemma drop_held:
  "drop_client E p s = Some s' \<Longrightarrow> held L docs s s'"
  "drop_http H p t = Some t' \<Longrightarrow> held L docs t t'"
  using session_held(1)[of p s _ L docs] session_held(1)[of p t _ L docs]
  by (auto simp: drop_client_eq drop_http_eq held_def)

lemma bad_params_kept [kept_rules]: "types_kept L docs (bad_params err)"
  by (auto simp: types_kept_def bad_params_def)

lemma with_params_kept [kept_rules]:
  assumes "\<And>err. types_kept L docs (bad err)" and "\<And>x. types_kept L docs (k x)"
  shows "types_kept L docs (with_params E prs req bad k)"
  using assms
  by (auto simp: with_params_def types_kept_def split: if_splits option.splits parsed.splits)

lemma with_login_kept [kept_rules]: "(\<And>l. types_kept L docs (k l)) \<Longrightarrow> types_kept L docs (with_login p k)"
  by (auto simp: with_login_def types_kept_def split: option.splits)

lemma logged_in_kept [kept_rules]:
  assumes "\<And>a. types_kept L docs (k a)"
  shows "types_kept L docs (logged_in E p req k)"
  using assms held_trans[OF held_sent drop_held(1)]
  by (auto simp: types_kept_def logged_in_def split: option.splits sum.splits)

lemma prod_kept [kept_rules]: "(\<And>a b. types_kept L docs (k a b)) \<Longrightarrow> types_kept L docs (case x of (a, b) \<Rightarrow> k a b)"
  by (cases x) simp

lemma reply_kept [kept_rules]:
  "(\<And>s. held L docs s (f s)) \<Longrightarrow> types_kept L docs (\<lambda>s. Some (send E p req (r s) (f s)))"
  by (auto simp: types_kept_def elim: held_after_send)

lemma mark_kept [kept_rules]:
  "(\<And>s. held L docs s (f s)) \<Longrightarrow> types_kept L docs (\<lambda>s. let s1 = f s in Some (send E p req r s1))"
  unfolding Let_def by (rule reply_kept)

lemma added_catchup_held:
  assumes "AddUserCatchup B L' M auth sid s1 = (s2, e)" and "store_effects M docs" and "held L docs s s1"
  shows "held L docs s s2"
  using held_trans[OF assms(3)] held_pair[OF assms(1) user_operations_held(1)[OF assms(2)]] by blast

lemma requests_kept:
  assumes M: "store_effects (env_mongo E) docs"
  shows "types_kept L docs (HandleRequestClientActivate E p req)"
    and "types_kept L docs (HandleRequestClientLogin E now p req)"
    and "types_kept L docs (HandleRequestClientPing E p req)"
    and "types_kept L docs (HandleRequestClientGetServerInfo E p req)"
    and "types_kept L docs (HandleRequestClientGetChannels E p req)"
    and "types_kept L docs (HandleRequestClientGetRuntimeChannelInfo E p req)"
    and "types_kept L docs (HandleRequestClientSetFavorite E p req)"
    and "types_kept L docs (HandleRequestClientSetRecent E p req)"
    and "types_kept L docs (HandleRequestInterruptStreamTime E p req)"
    and "types_kept L docs (HandleRequestGenerateCatchup E now p req)"
    and "types_kept L docs (HandleRequestUndoCatchup E p req)"
    and "types_kept L docs (HandleRequestContent E p req)"
proof -
  note ops = held_trans[OF _ held_sent]
  show "types_kept L docs (HandleRequestClientActivate E p req)"
    unfolding HandleRequestClientActivate_def
    by (intro kept_rules) (auto simp: types_kept_def split: sum.splits)
  show "types_kept L docs (HandleRequestClientPing E p req)"
    unfolding HandleRequestClientPing_def by (intro kept_rules held_refl)
  show "types_kept L docs (HandleRequestClientGetServerInfo E p req)"
    unfolding HandleRequestClientGetServerInfo_def by (intro kept_rules held_refl)
  show "types_kept L docs (HandleRequestClientGetChannels E p req)"
    unfolding HandleRequestClientGetChannels_def
    by (intro kept_rules) (auto simp: types_kept_def split: option.splits sum.splits elim: held_after_send)
  show "types_kept L docs (HandleRequestClientGetRuntimeChannelInfo E p req)"
    unfolding HandleRequestClientGetRuntimeChannelInfo_def
    by (intro kept_rules) (auto simp: types_kept_def Let_def split: option.splits elim!: held_after_send intro: held_same)
  show "types_kept L docs (HandleRequestClientSetFavorite E p req)"
    unfolding HandleRequestClientSetFavorite_def by (intro kept_rules marks_held[OF M])
  show "types_kept L docs (HandleRequestClientSetRecent E p req)"
    unfolding HandleRequestClientSetRecent_def by (intro kept_rules marks_held[OF M])
  show "types_kept L docs (HandleRequestInterruptStreamTime E p req)"
    unfolding HandleRequestInterruptStreamTime_def by (intro kept_rules marks_held[OF M])
  note undo = held_pair[OF _ user_operations_held(2)[OF M]]
  show "types_kept L docs (HandleRequestUndoCatchup E p req)"
    unfolding HandleRequestUndoCatchup_def
    by (intro kept_rules) (auto simp: types_kept_def split: prod.splits option.splits
        elim!: held_after_send intro: undo ops[OF undo])
  show "types_kept L docs (HandleRequestContent E p req)"
    unfolding HandleRequestContent_def
    by (intro kept_rules) (auto simp: types_kept_def split: option.splits sum.splits
        dest!: CreateRequestContent_held[OF M, where L' = L] elim!: held_after_send
        intro: ops held_trans[OF _ held_tell])
  note add = added_catchup_held[OF _ M]
  show "types_kept L docs (HandleRequestGenerateCatchup E now p req)"
    unfolding HandleRequestGenerateCatchup_def
    by (intro kept_rules)
       (auto simp: types_kept_def Let_def split: option.splits sum.splits prod.splits
         dest!: CreateCatchup_held[OF M, where L' = L] dest: add elim!: held_after_send
         intro: ops held_trans[OF add] held_trans[OF add held_tell])
  show "types_kept L docs (HandleRequestClientLogin E now p req)"
    unfolding HandleRequestClientLogin_def
    by (intro kept_rules)
       (auto simp: types_kept_def split: option.splits sum.splits prod.splits
         dest!: logins_held(1)[OF M, where L' = L] elim!: held_after_send
         intro: ops held_trans[OF held_after_send register_held])
qed

lemma command_kept:
  assumes "store_effects (env_mongo E) docs"
  shows "types_kept L docs (HandleRequestCommand E now p req)"
proof (cases "rl_client_method (env_rpc E) (rq_method req)")
  case None
  then show ?thesis by (simp add: HandleRequestCommand_def types_kept_def)
next
  case (Some m)
  then show ?thesis using requests_kept[OF assms, of L] unfolding types_kept_def
    by (cases m) (simp_all add: HandleRequestCommand_def)
qed

lemma response_held: "HandleResponceCommand E p resp s = Some (s', e) \<Longrightarrow> held L docs s s'"
  by (intro held_same)
     (auto simp: HandleResponceCommand_def HandleResponceServerPing_def HandleResponceServerGetClientInfo_def
       HandleResponceServerTextNotification_def warn_id_def bad_params_def Let_def
       split: prod.splits option.splits server_method.splits parsed.splits)

lemma received_held:
  assumes M: "store_effects (env_mongo E) docs" and d: "DataReceived E now p s = Some s'"
  shows "held L docs s s'"
proof -
  obtain w r where r: "sv_read_command (env_io E) (io s) p = (w, r)" by fastforce
  have "held L docs (s\<lparr>io := w\<rparr>) s'"
  proof (cases r)
    case (Inl err)
    then show ?thesis using d r drop_held(1) by (auto simp: DataReceived_def)
  next
    case (Inr buff)
    then obtain e where "HandleInnerDataReceived E now p buff (s\<lparr>io := w\<rparr>) = Some (s', e)"
      using d r by (auto simp: DataReceived_def split: option.splits)
    then show ?thesis
      using types_keptD[OF command_kept[OF M]] response_held
      by (auto simp: HandleInnerDataReceived_def split: sum.splits option.splits prod.splits)
  qed
  then show ?thesis by (rule held_trans[OF held_io])
qed

lemma timer_held:
  assumes "TimerEmited E ps tid s = Some s'"
  shows "held L docs s s'"
proof -
  have ping: "held L docs s s'" if "ping_client E p s = Some s'" for p and s s' :: "('a, 'b, 'c) sub_handler_scheme"
    using that by (auto simp: ping_client_def held_same split: if_splits option.splits prod.splits
        intro: held_trans[OF held_io drop_held(1)])
  have "held L docs s s'" if "opt_fold (ping_client E) ps s = Some s'" for s s' :: "('a, 'b, 'c) sub_handler_scheme"
    using that
  proof (induction ps arbitrary: s)
    case (Cons p ps)
    then obtain t where "ping_client E p s = Some t" "opt_fold (ping_client E) ps t = Some s'"
      by (auto split: option.splits)
    then show ?case using held_trans[OF ping, of p s t s'] Cons.IH by simp
  qed simp
  then show ?thesis using assms by (auto simp: TimerEmited_def split: if_splits)
qed

lemma serve_held:
  assumes M: "store_effects (env_mongo E) docs" and "serve E s s'"
  shows "held L docs s s'"
  using assms(2)
proof (cases rule: serve.cases)
  case (receives client now)
  then show ?thesis using received_held[OF M] by blast
next
  case (fires ps tid)
  then show ?thesis using timer_held by blast
next
  case (closes client)
  then show ?thesis using drop_held(1) by blast
qed (simp_all add: held_same Accepted_def alloc_client_def PreLooped_def PostLooped_def split: prod.split)

section \<open>The http server\<close>

lemma http_held:
  "http_error H p r k st err s = Some s' \<Longrightarrow> held L docs s s'"
  "serve_stream H p r k tokens a s = Some s' \<Longrightarrow> held L docs s s'"
proof -
  have error: "collection_open s' = collection_open s \<and> db s' = db s"
    if "http_error H p r k st err s = Some s'" for st err and s s' :: "('a, 'b, 'c) service_scheme"
    using that by (auto simp: http_error_def http_send_def split: prod.splits)
  have redirect: "collection_open s' = collection_open s \<and> db s' = db s"
    if "send_redirect H p r k sid u s = Some s'" for sid u and s s' :: "('a, 'b, 'c) service_scheme"
    using that by (auto simp: send_redirect_def http_send_def watch_def split: prod.splits option.splits)
  have opened: "collection_open s' = collection_open s \<and> db s' = db s"
    if "send_file H p r k sid d f s = Some s'" for sid d f and s s' :: "('a, 'b, 'c) service_scheme"
    using that
    by (auto simp: send_file_def send_open_file_def send_body_def close_file_def http_send_def watch_def Let_def
        split: prod.splits option.splits if_splits dest: error)
  show "http_error H p r k st err s = Some s' \<Longrightarrow> held L docs s s'"
    using error by (blast intro: held_same)
  show "serve_stream H p r k tokens a s = Some s' \<Longrightarrow> held L docs s s'"
    using error redirect opened
    by (auto simp: serve_stream_def Let_def split: option.splits sum.splits http_target.splits if_splits
        intro!: held_same)
qed

lemma serve_path_held:
  assumes M: "store_effects (he_mongo H) docs" and s': "serve_path H now p r k tokens s = Some s'"
  shows "held L docs s s'"
  using s' logins_held(2)[OF M] http_held
  by (auto simp: serve_path_def split: option.splits sum.splits prod.splits
      intro: held_trans[OF logins_held(2)[OF M] http_held(1)]
        held_trans[OF logins_held(2)[OF M] held_trans[OF register_held http_held(2)]])

lemma process_received_held:
  assumes M: "store_effects (he_mongo H) docs" and s': "ProcessReceived H now p request s = Some s'"
  shows "held L docs s s'"
proof -
  have url: "held L docs s t" if "serve_url H now p r k s = Some t" for r k t
    using that serve_path_held[OF M] http_held(1)
    by (auto simp: serve_url_def Let_def split: if_splits)
  have dropped: "held L docs s s'" if "drop_http H p (fst (http_send H p a s)) = Some s'" for a
    using drop_held(2)[OF that, of L docs] by (simp add: http_send_def held_def split: prod.splits)
  show ?thesis
  proof (cases "hl_parse (he_http H) request")
    case (Inl e)
    then show ?thesis using s' dropped by (auto simp: ProcessReceived_def split: prod.splits)
  next
    case (Inr r)
    then obtain t where "t = s \<or> serve_url H now p r (keep_alive (he_http H) r) s = Some t"
      "drop_http H p t = Some s' \<or> t = s'"
      using s' by (auto simp: ProcessReceived_def Let_def split: option.splits if_splits)
    then have "held L docs s t" "held L docs t s'" using url drop_held(2)[of H p t s'] by auto
    then show ?thesis by (rule held_trans)
  qed
qed

lemma http_received_held:
  assumes M: "store_effects (he_mongo H) docs" and s': "HttpHandler_DataReceived H now p s = Some s'"
  shows "held L docs s s'"
proof -
  obtain w r where r: "hi_single_read (he_io H) (io s) p 4095 = (w, r)" by fastforce
  have "drop_http H p (s\<lparr>io := w\<rparr>) = Some s' \<or> (\<exists>buff. ProcessReceived H now p buff (s\<lparr>io := w\<rparr>) = Some s')"
    using s' r by (auto simp: HttpHandler_DataReceived_def split: sum.splits if_splits)
  then have "held L docs (s\<lparr>io := w\<rparr>) s'"
    using drop_held(2)[of H p "s\<lparr>io := w\<rparr>" s'] process_received_held[OF M] by auto
  then show ?thesis by (rule held_trans[OF held_io])
qed

lemma service_step_held:
  assumes M: "store_effects (env_mongo E) docs" "store_effects (he_mongo H) docs" and step: "service_step E H C s s'"
  shows "held L docs s s'"
  using step
proof (cases rule: service_step.cases)
  case subscribers
  then show ?thesis by (rule serve_held[OF M(1)])
next
  case (http_accepts client)
  then show ?thesis by (simp add: held_same HttpHandler_Accepted_def alloc_client_def)
next
  case (http_receives client now)
  then show ?thesis using http_received_held[OF M(2)] by blast
next
  case (http_closes client)
  then show ?thesis using drop_held(2) by blast
next
  case (notifies uid dev msg e)
  then show ?thesis
    by (auto simp: SendSubscriberNotification_def held_same split: option.splits prod.splits)
qed

lemma dquiet_held: "dquiet D s s' \<Longrightarrow> held L docs s s'"
  by (simp add: dquiet_def held_same)

lemma process_step_held:
  assumes M: "store_effects (env_mongo E) docs" "store_effects (he_mongo H) docs" and step: "process_step E H D s s'"
  shows "held L docs s s'"
  using step
proof (cases rule: process_step.cases)
  case (serves t)
  then show ?thesis using held_trans[OF service_step_held[OF M] dquiet_held[OF observe_quiet]] by blast
next
  case (daemon_receives ps p)
  then show ?thesis using dquiet_held[OF daemon_data_quiet] by blast
next
  case (daemon_closes p)
  then show ?thesis using dquiet_held[OF drop_daemon_quiet] by simp
next
  case (daemon_timer ps tid)
  then show ?thesis using dquiet_held[OF daemon_timer_quiet] by blast
next
  case (broadcasts req rest ps)
  then show ?thesis using dquiet_held[OF dquiet_trans[OF dquiet_updates(3) broadcast_quiet]] by blast
qed (simp_all add: held_same accept_daemon_def PreLooped_daemon_def PostLooped_daemon_def Let_def split: prod.splits)

section \<open>The http server has no undefined behaviour\<close>

lemma heldD: "held L docs s s' \<Longrightarrow> typed_docs L docs (db s) \<Longrightarrow> typed_docs L docs (db s')"
  by (simp add: held_def)

lemma drop_http_defined: "service_inv s \<Longrightarrow> p \<in> clients HttpClient s \<Longrightarrow> drop_http H p s \<noteq> None"
  using drop_http_ok[of s p H] by auto

lemma serve_path_defined:
  assumes B: "bson_laws (he_bson H)" and I: "identity_laws (he_bson H) (he_lib H)"
    and M: "store_effects (he_mongo H) docs" and inv: "service_inv s"
    and T: "typed_docs (he_lib H) docs (db s)" and p: "p \<in> clients HttpClient s"
  shows "serve_path H now p r k tokens s \<noteq> None"
proof -
  have si: "session_inv s" using inv by (auto simp: service_inv_def intro: books_inv_session)
  note typed = typed_docs_store[OF M]
  obtain c where c: "heap s p = Some c" using client_live[OF p] by (auto simp: view_def)
  have null: "p \<noteq> nullptr" by (rule heap_not_null[OF session_inv_reg[OF si] c])
  have v: "view s p \<noteq> None" using c by (simp add: view_def)
  show ?thesis
  proof (cases "co_login c")
    case (Some a)
    then show ?thesis using c null serve_stream_defined[OF B typed[OF T] v]
      by (simp add: serve_path_def CheckIsLoginClient_def del: not_None_eq)
  next
    case None
    obtain s1 res where s1: "ClientLogin_by_uid (he_bson H) (he_mongo H) now (tokens ! 0) (tokens ! 1) (tokens ! 2) s =
        Some (s1, res)" using login_total(2)[OF B si] by blast
    have T1: "typed_docs (he_lib H) docs (db s1)" by (rule heldD[OF logins_held(2)[OF M s1] T])
    have v1: "view s1 p \<noteq> None" using quiet_store[OF ClientLogin_by_uid_store[OF s1]] v by (simp add: quiet_def)
    show ?thesis
    proof (cases res)
      case (Inl err)
      then show ?thesis using c null None s1
        by (simp add: serve_path_def CheckIsLoginClient_def http_error_def)
    next
      case (Inr a)
      then have "ServerDBAuthInfo_IsValid (he_lib H) a"
        using uid_identity_valid[OF B si I typed[OF T]] s1 by blast
      then obtain s2 e where s2: "RegisterInnerConnectionByHost (he_lib H) p a s1 = Some (s2, e)"
        using register_defined[OF _ v1] by fastforce
      have v2: "view s2 p \<noteq> None"
        using session_login_frame[of "he_lib H" p a s1 s2] s2 v1 kind_live[of s1 p] kind_live[of s2 p]
        by (simp add: session_login_def)
      have "serve_stream H p r k tokens a s2 \<noteq> None"
        by (rule serve_stream_defined[OF B typed[OF heldD[OF register_held[OF s2] T1]] v2])
      then show ?thesis using c null None s1 s2 Inr
        by (simp add: serve_path_def CheckIsLoginClient_def del: not_None_eq)
    qed
  qed
qed

lemma process_received_defined:
  assumes B: "bson_laws (he_bson H)" and I: "identity_laws (he_bson H) (he_lib H)"
    and M: "store_effects (he_mongo H) docs" and inv: "service_inv s"
    and T: "typed_docs (he_lib H) docs (db s)" and p: "p \<in> clients HttpClient s"
  shows "ProcessReceived H now p request s \<noteq> None"
proof (cases "hl_parse (he_http H) request")
  case (Inl e)
  obtain st err where e: "e = (st, err)" by (cases e)
  obtain t e2 where t: "http_send H p (SendError ''1.1'' st extra_headers err False) s = (t, e2)" by fastforce
  have "hquiet s t" using hquiet_after_send[OF t] by simp
  then have "drop_http H p t \<noteq> None"
    using hquiet_service_inv[OF _ inv] p by (intro drop_http_defined) (auto simp: hquiet_def clients_def)
  then show ?thesis using Inl e t by (simp add: ProcessReceived_def)
next
  case (Inr r)
  let ?k = "keep_alive (he_http H) r"
  have "serve_url H now p r ?k s \<noteq> None"
    using serve_path_defined[OF B I M inv T p]
    by (simp add: serve_url_def Let_def http_error_def del: not_None_eq)
  then obtain t where t: "(if hq_method r = HM_GET \<or> hq_method r = HM_HEAD then serve_url H now p r ?k s else Some s) = Some t"
    by fastforce
  then have "service_inv t \<and> kind_of t = kind_of s"
    using serve_url_ok[OF B inv p, of now r ?k t] inv by (auto split: if_splits)
  then have "drop_http H p t \<noteq> None" using p by (intro drop_http_defined) (auto simp: clients_def)
  then show ?thesis using Inr t by (simp add: ProcessReceived_def Let_def)
qed

lemma http_received_defined:
  assumes B: "bson_laws (he_bson H)" and I: "identity_laws (he_bson H) (he_lib H)"
    and M: "store_effects (he_mongo H) docs" and inv: "service_inv s"
    and T: "typed_docs (he_lib H) docs (db s)" and p: "p \<in> clients HttpClient s"
  shows "HttpHandler_DataReceived H now p s \<noteq> None"
proof -
  obtain w r where r: "hi_single_read (he_io H) (io s) p 4095 = (w, r)" by fastforce
  have "service_inv (s\<lparr>io := w\<rparr>)" "p \<in> clients HttpClient (s\<lparr>io := w\<rparr>)"
    using hquiet_service_inv[OF hquiet_io(1) inv] p by (simp_all add: clients_def)
  then show ?thesis
    using drop_http_defined[of "s\<lparr>io := w\<rparr>" p H] process_received_defined[OF B I M, of "s\<lparr>io := w\<rparr>"] T
    by (simp add: HttpHandler_DataReceived_def r del: not_None_eq split: sum.split)
qed

section \<open>Runs of the process\<close>

lemma process_steps_held:
  assumes "store_effects (env_mongo E) docs" and "store_effects (he_mongo H) docs"
    and "(process_step E H D)\<^sup>*\<^sup>* s s'"
  shows "held L docs s s'"
  using assms(3) by (induction rule: rtranclp_induct) (auto intro: held_trans process_step_held[OF assms(1,2)])

lemma ConnectToDatabase_opens:
  assumes "ConnectToDatabase M url name lazy s = (r, None)"
  shows "(\<forall>c. collection_open r c) \<and> db r = db s"
  using assms
  by (auto simp: ConnectToDatabase_def MongoEngine_Connect_def handle_simps Let_def split: if_splits option.splits)

lemma ProcessSlaveWrapper_new_db: "db (ProcessSlaveWrapper_new D R w e store) = store"
  by (simp add: ProcessSlaveWrapper_new_def service.extend_def HttpHandler_new_def sub_handler.extend_def
      SubscribersHandler_new_def SubscribersManager_new_def registry.extend_def manager.extend_def)

lemma process_inv_server: "process_inv D s \<Longrightarrow> server_inv s \<and> service_inv s"
  by (simp add: process_inv_def service_inv_def server_inv_def)

text \<open>A run: a subscriber connects, logs in and asks for a catchup; the network hands over the words in a list.\<close>

definition served_env :: "(string list, sample_db) env" where
  "served_env = sample_env\<lparr>env_io := sample_net\<lparr>sv_read_command := (\<lambda>w p. (tl w, Inr (hd w)))\<rparr>\<rparr>"

definition served_start :: "(string list, sample_db) process" where
  "served_start = fst (ConnectToDatabase full_driver ''url'' ''iptv'' True
     (ProcessSlaveWrapper_new sample_denv sample_rpc [''login'', ''catchup''] (''host'', DirPath ''/root'')
        [(SUBSCRIBERS, sample_user)]))"

definition served_accepted :: "(string list, sample_db) process" where
  "served_accepted = Accepted (SubscribersServer_CreateClient sample_lib (Addr 1) served_start)"

lemma served_login:
  "case DataReceived served_env 50 (Addr 1) served_accepted of
     None \<Rightarrow> False
   | Some u \<Rightarrow>
       (let s = observe sample_denv served_accepted u in
        map_option db_uid (Option.bind (heap s (Addr 1)) co_login) = Some ''1'' \<and>
        map_option co_kind (heap s (Addr 1)) = Some SubscriberClient \<and> io s = [''catchup''])"
  by code_simp

lemma served_env_simps [simp]:
  "env_bson served_env = sample_bson" "env_lib served_env = sample_lib" "env_mongo served_env = sample_mongo"
  by (simp_all add: served_env_def sample_env_def)

lemma sample_identity_laws: "identity_laws sample_bson sample_lib"
  by (simp add: identity_laws_def sample_bson_def sample_lib_def auth_with_exp_def auth_info.defs)

lemma sample_user_typed: "typed_docs sample_lib sample_docs [(SUBSCRIBERS, sample_user)]"
proof -
  have "user_document sample_user"
    by (simp add: user_document_def user_lists_def array_elems_def sample_user_def)
  moreover have "credentials_valid sample_lib sample_user"
    by (simp add: credentials_valid_def sample_user_def sample_lib_def)
  ultimately show ?thesis by (simp add: typed_docs_def sample_docs_def typed_document_def)
qed

lemma served_start_fresh: "heap served_start = Map.empty"
  by (simp add: served_start_def ConnectToDatabase_sel ProcessSlaveWrapper_new_sel)

text \<open>
  C2: No client brings the process down, as long as none is registered again.  In every run that
  begins with a connected database whose documents are as expected, the documents stay as expected
  and the collections open, whatever the clients and the daemons send.  In every state that is reached
  without registering a connection again that is logged in (the program does not prevent it), each
  command or response of a subscriber is processed to its end, with the exception of the fatal inputs
  (a response without identifier, and the times of a catchup whose difference does not fit 64 bits),
  and so is everything that a client of the http server sends, and every timer of the subscribers.
\<close>

theorem clients_are_served:
  assumes laws: "bson_laws (env_bson E)" "identity_laws (env_bson E) (env_lib E)" "store_effects (env_mongo E) docs"
    and same: "he_bson H = env_bson E" "he_lib H = env_lib E" "he_mongo H = env_mongo E"
    and connected: "ConnectToDatabase M url name lazy (ProcessSlaveWrapper_new D R w e store) = (start, None)"
    and typed: "typed_docs (env_lib E) docs store"
    and run: "(process_step E H D)\<^sup>*\<^sup>* start s"
  shows "typed_docs (env_lib E) docs (db s) \<and> (\<forall>c. collection_open s c) \<and>
    ((single_logins (process_step E H D))\<^sup>*\<^sup>* start s \<longrightarrow>
      (\<forall>p \<in> clients SubscriberClient s. \<not> fatal_input E p s \<longrightarrow> (\<exists>s'. DataReceived E now p s = Some s')) \<and>
      (\<forall>p \<in> clients HttpClient s. \<exists>s'. HttpHandler_DataReceived H now p s = Some s') \<and>
      (\<forall>ps. distinct ps \<and> set ps = clients SubscriberClient s \<longrightarrow> (\<exists>s'. TimerEmited E ps tid s = Some s')))"
proof -
  have B: "bson_laws (he_bson H)" and I: "identity_laws (he_bson H) (he_lib H)"
    and M: "store_effects (he_mongo H) docs" using laws same by simp_all
  have start: "\<forall>c. collection_open start c" "typed_docs (env_lib E) docs (db start)"
    using ConnectToDatabase_opens[OF connected] typed by (simp_all add: ProcessSlaveWrapper_new_db)
  have T: "typed_docs (env_lib E) docs (db s)" and opened: "\<forall>c. collection_open s c"
    using process_steps_held[OF laws(3) M run, of "env_lib E"] start by (simp_all add: held_def)
  have "(\<forall>p \<in> clients SubscriberClient s. \<not> fatal_input E p s \<longrightarrow> (\<exists>s'. DataReceived E now p s = Some s')) \<and>
      (\<forall>p \<in> clients HttpClient s. \<exists>s'. HttpHandler_DataReceived H now p s = Some s') \<and>
      (\<forall>ps. distinct ps \<and> set ps = clients SubscriberClient s \<longrightarrow> (\<exists>s'. TimerEmited E ps tid s = Some s'))"
    if once: "(single_logins (process_step E H D))\<^sup>*\<^sup>* start s"
  proof -
    have inv: "server_inv s" "service_inv s"
      using process_inv_server[OF process_reached[OF laws(1) B]] once connected by (metis fst_conv)+
    have "ready E s" using inv opened typed_docs_store[OF laws(3) T] by (simp add: ready_def)
    from data_defined[OF laws(1,2) this]
    have "DataReceived E now p s \<noteq> None" if "p \<in> clients SubscriberClient s" "\<not> fatal_input E p s" for p
      using that by blast
    moreover have "HttpHandler_DataReceived H now p s \<noteq> None" if "p \<in> clients HttpClient s" for p
      using http_received_defined[OF B I M inv(2) _ that] T same by simp
    moreover have "\<exists>s'. TimerEmited E ps tid s = Some s'" if "distinct ps" "set ps = clients SubscriberClient s" for ps
      using timer_ok[OF inv(1), of ps E tid] that by blast
    ultimately show ?thesis by auto
  qed
  then show ?thesis using T opened by blast
qed

theorem clients_are_served_witness:
  "\<exists>s s' a. (single_logins (process_step served_env sample_http_env sample_denv))\<^sup>*\<^sup>* served_start s \<and>
     view s (Addr 1) = Some (Some a) \<and> db_uid a = ''1'' \<and> DataReceived served_env 60 (Addr 1) s = Some s'"
proof -
  let ?step = "process_step served_env sample_http_env sample_denv"
  let ?t = served_accepted
  obtain u where u: "DataReceived served_env 50 (Addr 1) ?t = Some u"
    and l: "map_option db_uid (Option.bind (heap (observe sample_denv ?t u) (Addr 1)) co_login) = Some ''1''"
    and k: "map_option co_kind (heap (observe sample_denv ?t u) (Addr 1)) = Some SubscriberClient"
    and w: "io (observe sample_denv ?t u) = [''catchup'']"
    using served_login by (auto simp: Let_def split: option.splits)
  let ?s = "observe sample_denv ?t u"
  have v: "view ?t (Addr 1) = Some None" "kind_of ?t (Addr 1) = Some SubscriberClient" "events ?t = events served_start"
    "notices ?t = notices served_start"
    by (simp_all add: served_accepted_def view_def kind_of_def Accepted_def alloc_client_def SubscriberInfo_new_def)
  have "service_step served_env sample_http_env (de_client_io sample_denv) served_start ?t"
    unfolding served_accepted_def
    using serve.accepts[of "Addr 1" served_start served_env]
    by (intro service_step.subscribers) (simp add: view_def served_start_fresh)
  from process_step.serves[OF this] have step1: "?step served_start ?t" using v by (simp add: observe_def)
  have "serve served_env ?t u"
    using serve.receives[OF _ u] v by (simp add: clients_def)
  from process_step.serves[OF service_step.subscribers[OF this]] have step2: "?step ?t ?s" .
  let ?once = "single_logins ?step"
  have "online ?t = {}"
  proof -
    have "view ?t = [Addr 1 \<mapsto> None]"
      by (auto simp: served_accepted_def view_def Accepted_def alloc_client_def SubscriberInfo_new_def
          served_start_fresh fun_eq_iff)
    then show ?thesis by (simp add: online_def)
  qed
  then have "?once ?t ?s" using step2 by (simp add: single_logins_def registers_again_def)
  moreover have "?once served_start ?t"
    by (rule single_step[OF step1]) (simp add: served_accepted_def Accepted_def alloc_client_def)
  ultimately have run: "?once\<^sup>*\<^sup>* served_start ?s" using converse_rtranclp_into_rtranclp[of ?once] by blast
  obtain start where c: "ConnectToDatabase full_driver ''url'' ''iptv'' True
     (ProcessSlaveWrapper_new sample_denv sample_rpc [''login'', ''catchup''] (''host'', DirPath ''/root'')
        [(SUBSCRIBERS, sample_user)]) = (start, None)"
    by (simp add: connect_first_missing sample_driver_def)
  then have start: "served_start = start" by (simp add: served_start_def)
  have fine: "\<not> fatal_input served_env (Addr 1) ?s"
    by (simp add: fatal_input_def served_env_def sample_env_def sample_net_def sample_rpc_def w fits64_def)
  have mem: "Addr 1 \<in> clients SubscriberClient ?s" using k by (simp add: clients_def kind_of_def)
  note served = clients_are_served[of served_env sample_docs sample_http_env full_driver "''url''" "''iptv''" True
      sample_denv sample_rpc "[''login'', ''catchup'']" "(''host'', DirPath ''/root'')" "[(SUBSCRIBERS, sample_user)]"
      start ?s 60 7, OF _ _ _ _ _ _ c _ single_logins_run[OF run[unfolded start]]]
  have "\<forall>p \<in> clients SubscriberClient ?s. \<not> fatal_input served_env p ?s \<longrightarrow>
      (\<exists>s'. DataReceived served_env 60 p ?s = Some s')"
    using served run unfolding start
    by (simp add: sample_bson_laws sample_identity_laws sample_store_effects sample_user_typed)
  then obtain s' where "DataReceived served_env 60 (Addr 1) ?s = Some s'" using fine mem by blast
  then show ?thesis using run l
    by (intro exI[of _ ?s] exI[of _ s']) (auto simp: view_def bind_eq_Some_conv)
qed

end
