(* ===== verification/Interleaving.thy ===== *)
theory Interleaving
  imports Serving
begin

text \<open>
  The two servers run in threads of their own over one manager.  A login takes
  \<open>connections_mutex_\<close> twice: the scan for the device (\<open>ClientLoginImpl\<close> of
  \<open>src/mongo/subscribers_manager.cpp\<close>) is one critical section and the entry into \<open>connections_\<close>
  (\<open>RegisterInnerConnectionByHost\<close>) another.  This theory interleaves the sections of both
  threads and shows what is left of the limit of one connection for each device.
\<close>

section \<open>The sections of the two threads\<close>

text \<open>
  A thread is named by the kind of its clients.  What it keeps between its two sections is the
  client that is being logged in and the identity that the login has found
  (\<open>HandleRequestClientLogin\<close> of \<open>src/subscribers/handler.cpp\<close>, \<open>ProcessReceived\<close> of
  \<open>src/http/handler.cpp\<close>).  \<open>SetLogin\<close> runs before the second section opens; the other thread
  reads the login of a client only after it has found the client in \<open>connections_\<close>, so both are
  one step here.  The http server asks \<open>CheckIsLoginClient\<close> before it logs a client in; the server of
  the subscribers logs any of its clients in, also one that is logged in already.
\<close>

type_synonym pending_logins = "client_kind \<Rightarrow> (ptr \<times> server_db_auth) option"

fun presents :: "client_kind \<Rightarrow> credentials \<Rightarrow> bool" where
  "presents SubscriberClient (ByEmail now uauth) = True"
| "presents HttpClient (ByUserId now uid password dev) = True"
| "presents k q = False"

inductive section_step ::
    "bson_lib \<Rightarrow> fastotv_lib \<Rightarrow> 'db mongo_lib
     \<Rightarrow> pending_logins \<times> ('io, 'db, 'a) manager_scheme
     \<Rightarrow> pending_logins \<times> ('io, 'db, 'a) manager_scheme \<Rightarrow> bool" for B L M where
  accepts: "pd k = None \<Longrightarrow> p \<noteq> nullptr \<Longrightarrow> view s p = None \<Longrightarrow> session_open L k p s = Some s' \<Longrightarrow>
     section_step B L M (pd, s) (pd, s')"
| checks: "pd k = None \<Longrightarrow> kind_of s p = Some k \<Longrightarrow> k = HttpClient \<longrightarrow> view s p = Some None \<Longrightarrow> presents k q \<Longrightarrow>
     any_login B L M q s = Some (s', Inr a) \<Longrightarrow>
     section_step B L M (pd, s) (pd(k \<mapsto> (p, a)), s')"
| refuses: "pd k = None \<Longrightarrow> any_login B L M q s = Some (s', Inl err) \<Longrightarrow>
     section_step B L M (pd, s) (pd, s')"
| registers: "pd k = Some (p, a) \<Longrightarrow> session_login L p a s = Some s' \<Longrightarrow>
     section_step B L M (pd, s) (pd(k := None), s')"
| gives_up: "section_step B L M (pd, s) (pd(SubscriberClient := None), s)"
| closes: "pd k = None \<Longrightarrow> kind_of s p = Some k \<Longrightarrow> session_drop p s = Some s' \<Longrightarrow>
     section_step B L M (pd, s) (pd, s')"
| works: "view s' = view s \<Longrightarrow> kind_of s' = kind_of s \<Longrightarrow> connections s' = connections s \<Longrightarrow>
     section_step B L M (pd, s) (pd, s')"

inductive_cases section_stepE: "section_step B L M (pd, s) (pd', s')"

text \<open>The sections that do not register a connection again that is logged in.\<close>

definition single_section ::
    "bson_lib \<Rightarrow> fastotv_lib \<Rightarrow> 'db mongo_lib
     \<Rightarrow> pending_logins \<times> ('io, 'db, 'a) manager_scheme
     \<Rightarrow> pending_logins \<times> ('io, 'db, 'a) manager_scheme \<Rightarrow> bool" where
  "single_section B L M c c' \<longleftrightarrow> section_step B L M c c' \<and> \<not> registers_again (snd c) (snd c')"

section \<open>The limit for each server\<close>

text \<open>A client of a server that is logged in, or is about to be, as \<open>a\<close>.\<close>

definition holds ::
    "pending_logins \<Rightarrow> ('io, 'a) registry_scheme \<Rightarrow> client_kind \<Rightarrow> ptr \<Rightarrow> server_db_auth \<Rightarrow> bool" where
  "holds pd s k p a \<longleftrightarrow>
     kind_of s p = Some k \<and> (view s p = Some (Some a) \<or> pd k = Some (p, a))"

definition same_device :: "server_db_auth \<Rightarrow> server_db_auth \<Rightarrow> bool" where
  "same_device a b \<longleftrightarrow> db_uid a = db_uid b \<and> ai_device a = ai_device b"

definition threads_inv :: "pending_logins \<Rightarrow> ('io, 'a) registry_scheme \<Rightarrow> bool" where
  "threads_inv pd s \<longleftrightarrow>
     session_inv s \<and>
     (\<forall>k p a. pd k = Some (p, a) \<longrightarrow> kind_of s p = Some k) \<and>
     (\<forall>k p q a b. holds pd s k p a \<longrightarrow> holds pd s k q b \<longrightarrow> same_device a b \<longrightarrow> p = q)"

lemma threads_invI:
  assumes "session_inv s"
    and "\<And>k p a. pd k = Some (p, a) \<Longrightarrow> kind_of s p = Some k"
    and "\<And>k p q a b. holds pd s k p a \<Longrightarrow> holds pd s k q b \<Longrightarrow> same_device a b \<Longrightarrow> p = q"
  shows "threads_inv pd s"
  unfolding threads_inv_def using assms by blast

lemma threads_invD:
  assumes "threads_inv pd s"
  shows "session_inv s"
    and "pd k = Some (p, a) \<Longrightarrow> kind_of s p = Some k"
    and "holds pd s k p a \<Longrightarrow> holds pd s k q b \<Longrightarrow> same_device a b \<Longrightarrow> p = q"
  using assms unfolding threads_inv_def by blast+

text \<open>Fewer holders keep the limit.\<close>

lemma threads_inv_less:
  assumes "threads_inv pd s" and "session_inv s'"
    and "\<And>k p a. pd' k = Some (p, a) \<Longrightarrow> kind_of s' p = Some k"
    and "\<And>k p a. holds pd' s' k p a \<Longrightarrow> holds pd s k p a"
  shows "threads_inv pd' s'"
  using assms(2,3) by (rule threads_invI) (use assms(1,4) in \<open>blast dest: threads_invD(3)\<close>)+

lemma free_device_not_held:
  assumes "device_free s (db_uid a) (ai_device a)" and "pd k = None" and "same_device a b"
  shows "\<not> holds pd s k q b"
  using assms by (auto simp: device_free_def holds_def same_device_def online_def identity_of_def)

text \<open>The device that the scan has found free has no holder among the clients of the same server.\<close>

lemma check_keeps_limit:
  assumes inv: "threads_inv pd s" and k: "pd k = None" and p: "kind_of s p = Some k"
    and free: "device_free s (db_uid a) (ai_device a)"
  shows "threads_inv (pd(k \<mapsto> (p, a))) s"
proof (rule threads_invI)
  show "session_inv s" by (rule threads_invD(1)[OF inv])
  show "kind_of s q = Some j" if "(pd(k \<mapsto> (p, a))) j = Some (q, b)" for j q b
    using that p threads_invD(2)[OF inv] by (cases "j = k") auto
next
  fix j q r b c
  assume hold: "holds (pd(k \<mapsto> (p, a))) s j q b" "holds (pd(k \<mapsto> (p, a))) s j r c" "same_device b c"
  have old: "q' = p \<and> b' = a \<or> holds pd s k q' b'" if "holds (pd(k \<mapsto> (p, a))) s k q' b'" for q' b'
    using that by (auto simp: holds_def)
  have none: "\<not> holds pd s k q' b'" if "same_device a b'" for q' b'
    using free_device_not_held free k that by blast
  show "q = r"
  proof (cases "j = k")
    case True
    have sym: "same_device a b" if "same_device b a" using that by (simp add: same_device_def)
    show ?thesis
      using old[of q b] old[of r c] none hold sym threads_invD(3)[OF inv] unfolding True by blast
  next
    case False
    then have "holds pd s j q b" "holds pd s j r c" using hold by (simp_all add: holds_def)
    then show ?thesis using threads_invD(3)[OF inv] hold(3) by blast
  qed
qed

lemma any_login_view:
  assumes "bson_laws B" and "session_inv s" and "any_login B L M q s = Some (s', r)"
  shows "session_inv s' \<and> view s' = view s \<and> kind_of s' = kind_of s"
proof -
  have same: "same_sessions s s'" using gate.total[of B s L M q] assms by auto
  then have "kind_of s' = kind_of s" by (simp add: same_sessions_def kind_of_def fun_eq_iff)
  then show ?thesis using same_sessions_inv[OF same assms(2)] same_sessions_view[OF same] by simp
qed

lemma threads_inv_view:
  assumes "threads_inv pd s" and "view s' = view s" and "kind_of s' = kind_of s" and "session_inv s'"
  shows "threads_inv pd s'"
  unfolding threads_inv_def holds_def assms(2,3)
  using assms(1,4) unfolding threads_inv_def holds_def by blast

lemma section_step_inv:
  assumes B: "bson_laws B"
  shows "section_step B L M c c' \<Longrightarrow> \<not> registers_again (snd c) (snd c') \<Longrightarrow>
    threads_inv (fst c) (snd c) \<Longrightarrow> threads_inv (fst c') (snd c')"
proof (induction rule: section_step.induct)
  case (accepts pd k p s s')
  then have inv: "threads_inv pd s" by simp
  from session_open_ok[OF threads_invD(1)[OF inv] accepts(2,3), of L k] accepts(4)
  have s': "session_inv s'" "view s' = (view s)(p \<mapsto> None)" by auto
  have kinds: "kind_of s' = (kind_of s)(p \<mapsto> k)"
    using accepts(4) by (auto simp: session_open_def alloc_client_def SubscriberInfo_new_def kind_of_def)
  have "kind_of s p = None" using kind_live[of s p] accepts(3) by blast
  then have "threads_inv pd s'"
    using s'(2) kinds threads_invD(2)[OF inv]
    by (intro threads_inv_less[OF inv s'(1)]) (auto simp: holds_def split: if_splits)
  then show ?case by (simp only: fst_conv snd_conv)
next
  case (checks pd k s p q s' a)
  then have inv: "threads_inv pd s" by simp
  from any_login_view[OF B threads_invD(1)[OF inv] checks(5)]
  have s': "session_inv s'" "view s' = view s" "kind_of s' = kind_of s" by auto
  have "device_free s (db_uid a) (ai_device a)"
    using gate.fresh[of B s L M q s' a] B threads_invD(1)[OF inv] checks(5) by blast
  from check_keeps_limit[OF inv checks(1,2) this]
  have "threads_inv (pd(k \<mapsto> (p, a))) s'" by (rule threads_inv_view[OF _ s'(2,3,1)])
  then show ?case by (simp only: fst_conv snd_conv)
next
  case (refuses pd k q s s' err)
  then have inv: "threads_inv pd s" by simp
  from any_login_view[OF B threads_invD(1)[OF inv] refuses(2)]
  show ?case by (auto intro: threads_inv_view[OF inv])
next
  case (registers pd k p a s s')
  then have inv: "threads_inv pd s" by simp
  from threads_invD(2)[OF inv registers(1)] have k: "kind_of s p = Some k" .
  have "p \<notin> online s"
    using login_registers_again[OF registers(2) threads_invD(1)[OF inv]] registers(3) by auto
  then have p: "kind_of s p = Some k" "view s p = Some None"
    using k kind_live[of s p] by (auto simp: online_def)
  have "ServerDBAuthInfo_IsValid L a"
    using registers(2) by (simp add: session_login_def RegisterInnerConnectionByHost_def split: if_splits)
  from session_login_ok[OF threads_invD(1)[OF inv] p(2) this] registers(2)
  have s': "session_inv s'" "view s' = (view s)(p \<mapsto> Some a)" by auto
  have kinds: "kind_of s' = kind_of s" by (rule session_login_frame[OF registers(2)])
  have other: "q \<noteq> p" if "pd j = Some (q, b)" "j \<noteq> k" for j q b
    using threads_invD(2)[OF inv that(1)] p that(2) by auto
  have "threads_inv (pd(k := None)) s'"
    using s'(2) kinds p registers(1) threads_invD(2)[OF inv] other
    by (intro threads_inv_less[OF inv s'(1)]) (auto simp: holds_def split: if_splits)
  then show ?case by (simp only: fst_conv snd_conv)
next
  case (gives_up pd s)
  then have inv: "threads_inv pd s" by simp
  have "threads_inv (pd(SubscriberClient := None)) s"
    using threads_invD(2)[OF inv]
    by (intro threads_inv_less[OF inv threads_invD(1)[OF inv]]) (auto simp: holds_def split: if_splits)
  then show ?case by (simp only: fst_conv snd_conv)
next
  case (closes pd k s p s')
  then have inv: "threads_inv pd s" by simp
  have "view s p \<noteq> None" using kind_live[of s p] closes(2) by simp
  from session_drop_ok[OF threads_invD(1)[OF inv] this] closes(3)
  have s': "session_inv s'" "view s' = (view s)(p := None)" by auto
  have kinds: "kind_of s' = (kind_of s)(p := None)" by (rule session_drop_kinds[OF closes(3)])
  have other: "q \<noteq> p" if "pd j = Some (q, a)" for j q a
    using threads_invD(2)[OF inv that] closes(1,2) that by auto
  have "threads_inv pd s'"
    using s'(2) kinds threads_invD(2)[OF inv] other
    by (intro threads_inv_less[OF inv s'(1)]) (auto simp: holds_def split: if_splits)
  then show ?case by (simp only: fst_conv snd_conv)
next
  case (works s' s pd)
  then have inv: "threads_inv pd s" by simp
  have "session_inv s'" using session_inv_view[of s' s] threads_invD(1)[OF inv] works by blast
  then show ?case using threads_inv_view[OF inv works(1,2)] by simp
qed

lemma section_steps_inv:
  assumes "bson_laws B" and "(single_section B L M)\<^sup>*\<^sup>* c c'" and "threads_inv (fst c) (snd c)"
  shows "threads_inv (fst c') (snd c')"
  using assms(2,3)
proof (induction rule: rtranclp_induct)
  case (step c' c'')
  then show ?case using section_step_inv[OF assms(1), of L M c' c''] by (simp add: single_section_def)
qed simp

lemma server_exclusive:
  assumes inv: "threads_inv pd s"
  shows "inj_on (\<lambda>p. (db_uid (identity_of s p), ai_device (identity_of s p))) (online s \<inter> clients k s)"
proof (rule inj_onI)
  have held: "holds pd s k p (identity_of s p)" if "p \<in> online s \<inter> clients k s" for p
    using that by (auto simp: holds_def online_def identity_of_def clients_def)
  fix p q
  assume p: "p \<in> online s \<inter> clients k s" and q: "q \<in> online s \<inter> clients k s"
    and "(db_uid (identity_of s p), ai_device (identity_of s p)) = (db_uid (identity_of s q), ai_device (identity_of s q))"
  then have "same_device (identity_of s p) (identity_of s q)" by (simp add: same_device_def)
  then show "p = q" by (rule threads_invD(3)[OF inv held[OF p] held[OF q]])
qed

definition on_device :: "('io, 'a) registry_scheme \<Rightarrow> string \<Rightarrow> string \<Rightarrow> ptr set" where
  "on_device s uid dev =
     {p \<in> online s. db_uid (identity_of s p) = uid \<and> ai_device (identity_of s p) = dev}"

lemma at_most_two:
  assumes inv: "threads_inv pd s"
  shows "card (on_device s uid dev) \<le> 2"
proof -
  have fin: "finite (online s)" by (rule finite_online[OF threads_invD(1)[OF inv]])
  have one: "card (on_device s uid dev \<inter> clients k s) \<le> 1" for k
  proof -
    have "finite (on_device s uid dev \<inter> clients k s)"
      by (rule finite_subset[OF _ fin]) (auto simp: on_device_def)
    moreover have "p = q" if "p \<in> on_device s uid dev \<inter> clients k s" "q \<in> on_device s uid dev \<inter> clients k s" for p q
      using inj_onD[OF server_exclusive[OF inv, of k], of p q] that by (auto simp: on_device_def)
    ultimately show ?thesis using card_le_Suc0_iff_eq by (metis One_nat_def)
  qed
  have "p \<in> clients SubscriberClient s \<union> clients HttpClient s" if "p \<in> online s" for p
  proof -
    have "kind_of s p \<noteq> None" using that kind_live[of s p] by (auto simp: online_def)
    then obtain k where "kind_of s p = Some k" by blast
    then show ?thesis by (cases k) (simp_all add: clients_def)
  qed
  then have "on_device s uid dev =
      (on_device s uid dev \<inter> clients SubscriberClient s) \<union> (on_device s uid dev \<inter> clients HttpClient s)"
    by (auto simp: on_device_def)
  then have "card (on_device s uid dev) \<le>
      card (on_device s uid dev \<inter> clients SubscriberClient s) + card (on_device s uid dev \<inter> clients HttpClient s)"
    by (metis card_Un_le)
  then show ?thesis using one[of SubscriberClient] one[of HttpClient] by simp
qed

lemma sections_defined:
  assumes B: "bson_laws B" and inv: "threads_inv pd s"
  shows "\<exists>s' r. any_login B L M q s = Some (s', r)"
    and "view s p \<noteq> None \<Longrightarrow> \<exists>s'. session_drop p s = Some s'"
    and "pd k = Some (p, a) \<Longrightarrow> ServerDBAuthInfo_IsValid L a \<Longrightarrow> \<exists>s'. session_login L p a s = Some s'"
proof -
  have s: "session_inv s" by (rule threads_invD(1)[OF inv])
  show "\<exists>s' r. any_login B L M q s = Some (s', r)" using gate.total[of B s L M q] B s by blast
  show "\<exists>s'. session_drop p s = Some s'" if "view s p \<noteq> None" using session_drop_ok[OF s that] by blast
  show "\<exists>s'. session_login L p a s = Some s'" if "pd k = Some (p, a)" "ServerDBAuthInfo_IsValid L a"
  proof -
    have "view s p \<noteq> None" using threads_invD(2)[OF inv that(1)] kind_live[of s p] by simp
    then obtain c where c: "heap s p = Some c" by (auto simp: view_def)
    show ?thesis
      by (simp add: session_login_def Register_eq[OF that(2) heap_not_null[OF session_inv_reg[OF s] c] c])
  qed
qed

section \<open>Properties\<close>

lemma both_checks:
  assumes "pd SubscriberClient = None" "pd HttpClient = None"
    and "ClientLogin B L M now uauth s = Some (s, Inr a)"
    and "ClientLogin_by_uid B M now' uid password dev s = Some (s, Inr b)"
    and "kind_of s p = Some SubscriberClient" "view s p = Some None"
    and "kind_of s q = Some HttpClient" "view s q = Some None"
  shows "(single_section B L M)\<^sup>*\<^sup>* (pd, s) (pd(SubscriberClient \<mapsto> (p, a), HttpClient \<mapsto> (q, b)), s)"
proof -
  have same: "\<not> registers_again s s" using registers_more[of s s] by blast
  have "section_step B L M (pd, s) (pd(SubscriberClient \<mapsto> (p, a)), s)"
    using assms by (intro section_step.checks[where q = "ByEmail now uauth"]) simp_all
  moreover have "section_step B L M (pd(SubscriberClient \<mapsto> (p, a)), s)
      (pd(SubscriberClient \<mapsto> (p, a), HttpClient \<mapsto> (q, b)), s)"
    using assms by (intro section_step.checks[where q = "ByUserId now' uid password dev"]) simp_all
  ultimately have "single_section B L M (pd, s) (pd(SubscriberClient \<mapsto> (p, a)), s)"
    "single_section B L M (pd(SubscriberClient \<mapsto> (p, a)), s)
      (pd(SubscriberClient \<mapsto> (p, a), HttpClient \<mapsto> (q, b)), s)"
    using same by (simp_all add: single_section_def)
  then show ?thesis by (blast intro: converse_rtranclp_into_rtranclp)
qed

lemma single_sections_run: "(single_section B L M)\<^sup>*\<^sup>* c c' \<Longrightarrow> (section_step B L M)\<^sup>*\<^sup>* c c'"
  by (rule rtranclp_mono[THEN predicate2D]) (auto simp: single_section_def)

text \<open>The store with one user, one client of each server, and what both clients present.\<close>

definition sample_two_servers :: "(string list, sample_db) manager" where
  "sample_two_servers = sample_manager
     \<lparr>heap := (heap sample_manager)(Addr 3 \<mapsto> (sample_object None ''s1'')\<lparr>co_kind := HttpClient\<rparr>)\<rparr>"

lemma sample_two_servers_view:
  "view sample_two_servers = view sample_manager"
  "kind_of sample_two_servers = [Addr 2 \<mapsto> SubscriberClient, Addr 3 \<mapsto> HttpClient]"
  by (auto simp: view_def kind_of_def sample_two_servers_def sample_manager_def SubscribersManager_new_def
      registry.extend_def SubscribersManager_registry_def sample_object_def fun_eq_iff)

lemma sample_two_servers_inv: "threads_inv (\<lambda>_. None) sample_two_servers"
proof (rule threads_invI)
  show "session_inv sample_two_servers"
    using sample_manager_inv(1) session_inv_view[OF sample_two_servers_view(1)]
    by (simp add: sample_two_servers_def)
qed (auto simp: holds_def sample_two_servers_view sample_manager_view split: if_splits)

lemma sample_two_servers_logins:
  "ClientLogin sample_bson sample_lib sample_mongo 50 sample_auth_info sample_two_servers =
     Some (sample_two_servers, Inr sample_identity)"
  "ClientLogin_by_uid sample_bson sample_mongo 50 ''1'' ''hash'' ''2'' sample_two_servers =
     Some (sample_two_servers, Inr sample_identity)"
proof -
  have s: "collection_open sample_two_servers c" "db sample_two_servers = db sample_manager" for c
    by (simp_all add: sample_two_servers_def sample_manager_open)
  then have find: "find_one sample_mongo c q sample_two_servers = find_one sample_mongo c q sample_manager" for c q
    by (simp add: find_one_def)
  have "device_free sample_two_servers ''1'' ''2''"
    by (auto simp: device_free_def online_def sample_two_servers_view sample_manager_view split: if_splits)
  note admitted = sample_admitted_at[OF this]
  note inv = threads_invD(1)[OF sample_two_servers_inv]
  have user: "map_of sample_user ''_id'' = Some (BOid 1)" "map_of sample_user ''exp_date'' = Some (BDate 100)"
    "map_of sample_user ''email'' = Some (BUtf8 ''user@mail'')" "bl_oid_of_string sample_bson ''1'' = 1"
    by (simp_all add: sample_user_def sample_bson_def)
  have "fl_auth_valid sample_lib sample_auth_info" by (simp add: sample_lib_def sample_auth_info_def)
  then show "ClientLogin sample_bson sample_lib sample_mongo 50 sample_auth_info sample_two_servers =
      Some (sample_two_servers, Inr sample_identity)"
    unfolding ClientLogin_iff[OF sample_bson_laws inv]
    using sample_user_found(1) admitted user by (simp add: s find sample_identity_def)
  show "ClientLogin_by_uid sample_bson sample_mongo 50 ''1'' ''hash'' ''2'' sample_two_servers =
      Some (sample_two_servers, Inr sample_identity)"
    unfolding ClientLogin_by_uid_iff[OF sample_bson_laws inv]
    using sample_user_found(2) admitted user
    by (simp add: s find sample_identity_def sample_auth_info_def)
qed



text \<open>
  C38: Across the servers the limit does not hold.  A user's set-top box and http client present the
  same device; when the login of each runs before the other's registration, both pass and both
  connections stay registered with one device.
\<close>

theorem servers_share_device:
  assumes inv: "threads_inv pd s" and idle: "pd SubscriberClient = None" "pd HttpClient = None"
    and p: "kind_of s p = Some SubscriberClient" "view s p = Some None"
    and q: "kind_of s q = Some HttpClient" "view s q = Some None"
    and a: "ClientLogin B L M now uauth s = Some (s, Inr a)" "ServerDBAuthInfo_IsValid L a"
    and b: "ClientLogin_by_uid B M now' uid password dev s = Some (s, Inr b)" "ServerDBAuthInfo_IsValid L b"
    and same: "same_device a b"
  shows "\<exists>s'. (section_step B L M)\<^sup>*\<^sup>* (pd, s) (pd, s') \<and> p \<noteq> q \<and>
           {p, q} \<subseteq> on_device s' (db_uid a) (ai_device a)"
proof -
  let ?step = "section_step B L M"
  let ?pd = "pd(SubscriberClient \<mapsto> (p, a), HttpClient \<mapsto> (q, b))"
  have checked: "?step\<^sup>*\<^sup>* (pd, s) (?pd, s)"
    by (rule single_sections_run[OF both_checks[where uauth = uauth, OF idle a(1) b(1) p q]])
  have pq: "p \<noteq> q" using p q by auto
  from session_login_ok[OF threads_invD(1)[OF inv] p(2) a(2)] obtain s1 where
    s1: "session_login L p a s = Some s1" "session_inv s1" "view s1 = (view s)(p \<mapsto> Some a)" by blast
  have "view s1 q = Some None" using s1(3) q(2) pq by simp
  from session_login_ok[OF s1(2) this b(2)] obtain s2 where
    s2: "session_login L q b s1 = Some s2" "view s2 = (view s1)(q \<mapsto> Some b)" by blast
  have "?step (?pd, s) (?pd(SubscriberClient := None), s1)"
    by (rule section_step.registers[OF _ s1(1)]) simp
  moreover have "?step (?pd(SubscriberClient := None), s1) (?pd(SubscriberClient := None, HttpClient := None), s2)"
    by (rule section_step.registers[OF _ s2(1)]) simp
  moreover have "?pd(SubscriberClient := None, HttpClient := None) = pd"
    using idle by (auto simp: fun_eq_iff)
  ultimately have "?step\<^sup>*\<^sup>* (pd, s) (pd, s2)"
    using checked by (metis (no_types, lifting) rtranclp.rtrancl_into_rtrancl)
  moreover have "{p, q} \<subseteq> on_device s2 (db_uid a) (ai_device a)"
    using s1(3) s2(2) pq same by (auto simp: on_device_def online_def identity_of_def same_device_def)
  ultimately show ?thesis using pq by blast
qed

theorem servers_share_device_witness:
  "\<exists>s'. (section_step sample_bson sample_lib sample_mongo)\<^sup>*\<^sup>* (\<lambda>_. None, sample_two_servers) (\<lambda>_. None, s') \<and>
     {Addr 2, Addr 3} \<subseteq> on_device s' ''1'' ''2''"
  using servers_share_device[OF sample_two_servers_inv _ _ _ _ _ _ sample_two_servers_logins(1) sample_identity_valid
      sample_two_servers_logins(2) sample_identity_valid, of "Addr 2" "Addr 3"]
  by (simp add: sample_two_servers_view sample_manager_view same_device_def sample_identity_def sample_auth_info_def)

end
