(* ===== verification/Section_Runs.thy ===== *)
theory Section_Runs
  imports Interleaving Daemon_Properties
begin

text \<open>
  The events of the process, as its handlers run them, are sequences of the sections of
  \<open>Interleaving\<close>, whatever the clients send: the sections are no fewer steps than the code has, so
  that what holds for all their interleavings holds for the code, whether its events run one after
  the other or the logins of the two servers overlap.
\<close>

section \<open>Sequences of sections\<close>

text \<open>A move between two states in which no login is under way.\<close>

abbreviation no_logins :: pending_logins where "no_logins \<equiv> \<lambda>_. None"

definition moves ::
    "bson_lib \<Rightarrow> fastotv_lib \<Rightarrow> 'db mongo_lib \<Rightarrow> ('io, 'db, 'a) manager_scheme
     \<Rightarrow> ('io, 'db, 'a) manager_scheme \<Rightarrow> bool" where
  "moves B L M s s' \<longleftrightarrow> (section_step B L M)\<^sup>*\<^sup>* (no_logins, s) (no_logins, s')"

named_theorems moves_intros \<open>moves of the sessions\<close>

lemma moves_refl [intro, moves_intros]: "moves B L M s s"
  by (simp add: moves_def)

lemma moves_trans: "moves B L M s t \<Longrightarrow> moves B L M t u \<Longrightarrow> moves B L M s u"
  by (simp add: moves_def)

lemma moves_works:
  "view s' = view s \<Longrightarrow> kind_of s' = kind_of s \<Longrightarrow> connections s' = connections s \<Longrightarrow> moves B L M s s'"
  unfolding moves_def by (rule r_into_rtranclp) (rule section_step.works)

lemma moves_open:
  assumes "p \<noteq> nullptr" and "view s p = None"
  shows "moves B L M s (alloc_client p (SubscriberInfo_new L k) s)"
  unfolding moves_def using assms
  by (intro r_into_rtranclp section_step.accepts[where k = k]) (simp_all add: session_open_def)

lemma moves_drop:
  "kind_of s p = Some k \<Longrightarrow> session_drop p s = Some s' \<Longrightarrow> moves B L M s s'"
  unfolding moves_def by (intro r_into_rtranclp section_step.closes[where k = k]) simp_all

text \<open>
  A login and the registration after it, with work in between that leaves the sessions alone.
\<close>

lemma moves_login:
  assumes p: "kind_of s p = Some k" "k = HttpClient \<longrightarrow> view s p = Some None" and q: "presents k q"
    and login: "any_login B L M q s = Some (u, Inr a)"
    and work: "view t = view u" "kind_of t = kind_of u" "connections t = connections u"
    and enter: "session_login L p a t = Some s'"
  shows "moves B L M s s'"
proof -
  let ?pd = "no_logins(k \<mapsto> (p, a))"
  have "section_step B L M (no_logins, s) (?pd, u)" by (rule section_step.checks[OF _ p q login]) simp
  moreover have "section_step B L M (?pd, u) (?pd, t)" by (rule section_step.works[OF work])
  moreover have "section_step B L M (?pd, t) (?pd(k := None), s')"
    by (rule section_step.registers[OF _ enter]) simp
  moreover have "?pd(k := None) = no_logins" by (simp add: fun_eq_iff)
  ultimately show ?thesis unfolding moves_def
    by (metis (no_types, lifting) rtranclp.rtrancl_into_rtrancl rtranclp.rtrancl_refl)
qed

text \<open>No section makes an object at the null pointer.\<close>

lemma any_login_kinds: "any_login B L M q s = Some (s', r) \<Longrightarrow> kind_of s' = kind_of s"
proof -
  have "kind_of s' = kind_of s" if "store_only s s'"
    using that by (auto simp: store_only_def)
  then show "any_login B L M q s = Some (s', r) \<Longrightarrow> kind_of s' = kind_of s"
    by (cases q) (auto dest: ClientLogin_store ClientLogin_by_uid_store)
qed

lemma section_null:
  "section_step B L M c c' \<Longrightarrow> kind_of (snd c) nullptr = None \<Longrightarrow> kind_of (snd c') nullptr = None"
  by (induction rule: section_step.induct)
    (auto simp: session_open_def kind_alloc dest: any_login_kinds session_login_frame session_drop_kinds)

lemma moves_null:
  assumes "moves B L M s s'" and "kind_of s nullptr = None"
  shows "kind_of s' nullptr = None"
proof -
  have "kind_of (snd c') nullptr = None"
    if "(section_step B L M)\<^sup>*\<^sup>* c c'" "kind_of (snd c) nullptr = None"
    for c c' :: "pending_logins \<times> ('b, 'a, 'c) manager_scheme"
    using that by (induction rule: rtranclp_induct) (auto dest: section_null)
  from this[of "(no_logins, s)" "(no_logins, s')"] show ?thesis using assms by (simp add: moves_def)
qed

section \<open>The subscribers\<close>

lemma quiet_moves: "quiet s s' \<Longrightarrow> moves B L M s s'"
  by (rule moves_works) (simp_all add: quiet_def)

lemma drop_client_moves:
  assumes "p \<in> clients SubscriberClient s" and "drop_client E p s = Some s'"
  shows "moves B L M s s'"
proof -
  obtain t where t: "session_drop p s = Some t"
    and s': "s' = t\<lparr>online_clients := online_clients s - 1, io := sv_close (env_io E) (io s) p\<rparr>"
    using assms(2) by (auto simp: drop_client_eq)
  have "moves B L M s t" by (rule moves_drop[OF _ t]) (use assms(1) in \<open>simp add: clients_def\<close>)
  moreover have "moves B L M t s'" unfolding s' by (rule moves_works) simp_all
  ultimately show ?thesis by (rule moves_trans)
qed

lemma settled_moves:
  assumes "settled E p s s'" and p: "p \<in> clients SubscriberClient s"
  shows "moves B L M s s'"
proof -
  from assms(1) consider "quiet s s'" | t where "quiet s t" "drop_client E p t = Some s'"
    by (auto simp: settled_def)
  then show ?thesis
  proof cases
    case 2
    then have "p \<in> clients SubscriberClient t" using p by (simp add: quiet_def clients_def)
    from moves_trans[OF quiet_moves[OF 2(1)] drop_client_moves[OF this 2(2)]] show ?thesis .
  qed (rule quiet_moves)
qed

lemma login_request_moves:
  assumes h: "HandleRequestClientLogin E now p req s = Some (s', e)"
    and p: "p \<in> clients SubscriberClient s"
  shows "moves (env_bson E) (env_lib E) (env_mongo E) s s'"
proof -
  from login_moves[OF h] consider "quiet s s'"
    | uauth s1 a t where "ClientLogin (env_bson E) (env_lib E) (env_mongo E) now uauth s = Some (s1, Inr a)"
      "quiet s t" "session_login (env_lib E) p a t = Some s'" by blast
  then show ?thesis
  proof cases
    case 2
    have "quiet s s1" by (rule quiet_store[OF ClientLogin_store[OF 2(1)]])
    then show ?thesis using p 2
      by (intro moves_login[where k = SubscriberClient and q = "ByEmail now uauth" and t = t and u = s1])
        (simp_all add: quiet_def clients_def)
  qed (rule quiet_moves)
qed

lemma received_sections:
  assumes d: "DataReceived E now p s = Some s'" and p: "p \<in> clients SubscriberClient s"
  shows "moves (env_bson E) (env_lib E) (env_mongo E) s s'"
proof -
  from received_moves[OF d] consider "settled E p s s'"
    | w req e where "HandleRequestClientLogin E now p req (s\<lparr>io := w\<rparr>) = Some (s', e)"
    by blast
  then show ?thesis
  proof cases
    case 1
    then show ?thesis by (rule settled_moves[OF _ p])
  next
    case 2
    have "moves (env_bson E) (env_lib E) (env_mongo E) s (s\<lparr>io := w\<rparr>)" by (rule quiet_moves) simp
    then show ?thesis
      by (rule moves_trans) (rule login_request_moves[OF 2], use p in \<open>simp add: clients_def\<close>)
  qed
qed

lemma ping_sweep_moves:
  fixes s s' :: "('io, 'db, 'a) service_scheme"
  assumes "opt_fold (ping_client E) ps s = Some s'" and "set ps \<subseteq> clients SubscriberClient s" and "distinct ps"
  shows "moves B L M s s'"
  using assms
proof (induction ps arbitrary: s)
  case (Cons p ps)
  then obtain t where t: "ping_client E p s = Some t" "opt_fold (ping_client E) ps t = Some s'"
    by (auto split: option.splits)
  note settled = ping_client_settled[OF t(1)]
  have p: "p \<in> clients SubscriberClient s" using Cons.prems by simp
  have "kind_of t = kind_of s \<or> kind_of t = (kind_of s)(p := None)"
    using settled_steady[OF settled p] by blast
  then have "moves B L M t s'" using Cons.prems by (intro Cons.IH[OF t(2)]) (auto simp: clients_def)
  with settled_moves[OF settled p] show ?case by (rule moves_trans)
qed (simp add: moves_refl)

lemma serve_moves:
  fixes s s' :: "('io, 'db, 'a) service_scheme"
  assumes step: "serve E s s'"
  shows "moves (env_bson E) (env_lib E) (env_mongo E) s s'"
  using step
proof (cases rule: serve.cases)
  case (accepts client)
  have "moves (env_bson E) (env_lib E) (env_mongo E) s (alloc_client client (SubscriberInfo_new (env_lib E) SubscriberClient) s)"
    by (rule moves_open[OF accepts(2,3)])
  moreover have "moves (env_bson E) (env_lib E) (env_mongo E)
      (alloc_client client (SubscriberInfo_new (env_lib E) SubscriberClient) s) s'"
    unfolding accepts(1) by (rule moves_works) (simp_all add: Accepted_def)
  ultimately show ?thesis by (rule moves_trans)
next
  case (receives client now)
  then show ?thesis by (intro received_sections)
next
  case (fires ps tid)
  then show ?thesis
    by (auto simp: TimerEmited_def intro: ping_sweep_moves split: if_splits)
next
  case (closes client)
  then show ?thesis by (rule drop_client_moves)
qed (use quiet_moves loop_quiet in blast)+

section \<open>The http clients\<close>

lemma hquiet_moves: "hquiet s s' \<Longrightarrow> moves B L M s s'"
  by (rule moves_works) (simp_all add: hquiet_def)

lemma hkeeps_moves: "hkeeps k \<Longrightarrow> k s = Some s' \<Longrightarrow> moves B L M s s'"
  by (rule hquiet_moves) (simp add: hkeepsD)

lemma drop_http_moves:
  assumes "p \<in> clients HttpClient s" and "drop_http H p s = Some s'"
  shows "moves B L M s s'"
proof -
  obtain t where t: "session_drop p s = Some t"
    and s': "s' = t\<lparr>http_clients := http_clients s - 1, io := hi_close (he_io H) (io s) p\<rparr>"
    using assms(2) by (auto simp: drop_http_eq)
  have "moves B L M s t" by (rule moves_drop[OF _ t]) (use assms(1) in \<open>simp add: clients_def\<close>)
  moreover have "moves B L M t s'" unfolding s' by (rule moves_works) simp_all
  ultimately show ?thesis by (rule moves_trans)
qed

lemma serve_path_moves:
  assumes null: "p \<noteq> nullptr" and p: "p \<in> clients HttpClient s"
    and ok: "serve_path H now p r k tokens s = Some s'"
  shows "moves (he_bson H) (he_lib H) (he_mongo H) s s'"
proof -
  obtain c where c: "heap s p = Some c" using client_live[OF p] by (auto simp: view_def)
  show ?thesis
  proof (cases "co_login c")
    case (Some a)
    then have "serve_stream H p r k tokens a s = Some s'"
      using ok c null by (simp add: serve_path_def CheckIsLoginClient_def)
    then show ?thesis by (rule hkeeps_moves[OF serve_stream_keeps])
  next
    case None
    then have v: "view s p = Some None" using c by (simp add: view_def)
    let ?login = "ClientLogin_by_uid (he_bson H) (he_mongo H) now (tokens ! 0) (tokens ! 1) (tokens ! 2) s"
    obtain s1 res where s1: "?login = Some (s1, res)"
      using ok c null None by (cases ?login) (auto simp: serve_path_def CheckIsLoginClient_def)
    have "store_only s s1" by (rule ClientLogin_by_uid_store[OF s1])
    then have same: "view s1 = view s" "kind_of s1 = kind_of s" "connections s1 = connections s"
      by (auto simp: store_only_def)
    show ?thesis
    proof (cases res)
      case (Inl err)
      then have "http_error H p r k HS_NOT_FOUND err s1 = Some s'"
        using ok c null None s1 by (simp add: serve_path_def CheckIsLoginClient_def)
      from moves_trans[OF moves_works[OF same] hkeeps_moves[OF http_error_keeps this]] show ?thesis .
    next
      case (Inr a)
      then obtain s2 where s2: "session_login (he_lib H) p a s1 = Some s2"
        and rest: "serve_stream H p r k tokens a s2 = Some s'"
        using ok c null None s1
        by (auto simp: serve_path_def CheckIsLoginClient_def session_login_def split: option.splits)
      have "moves (he_bson H) (he_lib H) (he_mongo H) s s2" using s1 Inr v p
        by (intro moves_login[OF _ _ _ _ _ _ _ s2, where k = HttpClient and q =
              "ByUserId now (tokens ! 0) (tokens ! 1) (tokens ! 2)"]) (simp_all add: clients_def)
      then show ?thesis using hkeeps_moves[OF serve_stream_keeps rest] by (rule moves_trans)
    qed
  qed
qed

lemma serve_url_moves:
  assumes "p \<noteq> nullptr" and "p \<in> clients HttpClient s" and "serve_url H now p r k s = Some s'"
  shows "moves (he_bson H) (he_lib H) (he_mongo H) s s'"
  using assms(3) serve_path_moves[OF assms(1,2)] hkeeps_moves[OF http_error_keeps]
  by (auto simp: serve_url_def Let_def split: if_splits)

lemma process_received_moves:
  assumes null: "p \<noteq> nullptr" and p: "p \<in> clients HttpClient s"
    and ok: "ProcessReceived H now p request s = Some s'"
  shows "moves (he_bson H) (he_lib H) (he_mongo H) s s'"
proof (cases "hl_parse (he_http H) request")
  case (Inl e)
  obtain st err where e: "e = (st, err)" by (cases e)
  obtain t e2 where t: "http_send H p (SendError ''1.1'' st extra_headers err False) s = (t, e2)" by fastforce
  then have drop: "drop_http H p t = Some s'" using ok Inl e by (simp add: ProcessReceived_def)
  have q: "hquiet s t" using hquiet_after_send[OF t] by simp
  then have "p \<in> clients HttpClient t" using p by (simp add: hquiet_def clients_def)
  from moves_trans[OF hquiet_moves[OF q] drop_http_moves[OF this drop]] show ?thesis .
next
  case (Inr r)
  let ?k = "keep_alive (he_http H) r"
  obtain t where t: "(if hq_method r = HM_GET \<or> hq_method r = HM_HEAD then serve_url H now p r ?k s else Some s) = Some t"
    and s': "(if \<not> ?k then drop_http H p t else Some t) = Some s'"
    using ok Inr by (auto simp: ProcessReceived_def Let_def split: option.splits)
  have url: "moves (he_bson H) (he_lib H) (he_mongo H) s t"
    using t serve_url_moves[OF null p] by (auto split: if_splits)
  have "kind_of t = kind_of s" using t serve_url_steady[of H now p r ?k s t] by (auto split: if_splits)
  then have "p \<in> clients HttpClient t" using p by (simp add: clients_def)
  from moves_trans[OF url drop_http_moves[OF this]] url s' show ?thesis by (auto split: if_splits)
qed

lemma http_received_moves:
  assumes null: "p \<noteq> nullptr" and p: "p \<in> clients HttpClient s"
    and ok: "HttpHandler_DataReceived H now p s = Some s'"
  shows "moves (he_bson H) (he_lib H) (he_mongo H) s s'"
proof -
  obtain w r where r: "hi_single_read (he_io H) (io s) p 4095 = (w, r)" by fastforce
  let ?s = "s\<lparr>io := w\<rparr>"
  have p1: "p \<in> clients HttpClient ?s" using p by (simp add: clients_def)
  have read: "moves (he_bson H) (he_lib H) (he_mongo H) s ?s" by (rule hquiet_moves) simp
  have "drop_http H p ?s = Some s' \<or> (\<exists>buff. ProcessReceived H now p buff ?s = Some s')"
    using ok r by (auto simp: HttpHandler_DataReceived_def split: sum.splits if_splits)
  then have "moves (he_bson H) (he_lib H) (he_mongo H) ?s s'"
    by (elim disjE exE) (rule drop_http_moves[OF p1], assumption, rule process_received_moves[OF null p1])
  with read show ?thesis by (rule moves_trans)
qed

section \<open>The process\<close>

lemma dquiet_moves: "dquiet D s s' \<Longrightarrow> moves B L M s s'"
  by (rule moves_works) (simp_all add: dquiet_def)

lemma service_step_moves:
  assumes same: "he_bson H = env_bson E" "he_lib H = env_lib E" "he_mongo H = env_mongo E"
    and step: "service_step E H C s s'" and null: "kind_of s nullptr = None"
  shows "moves (env_bson E) (env_lib E) (env_mongo E) s s'"
  using step
proof (cases rule: service_step.cases)
  case subscribers
  then show ?thesis by (rule serve_moves)
next
  case (http_accepts client)
  have "moves (env_bson E) (env_lib E) (env_mongo E) s (alloc_client client (SubscriberInfo_new (he_lib H) HttpClient) s)"
    unfolding same by (rule moves_open[OF http_accepts(2,3)])
  moreover have "moves (env_bson E) (env_lib E) (env_mongo E)
      (alloc_client client (SubscriberInfo_new (he_lib H) HttpClient) s) s'"
    unfolding http_accepts(1) by (rule moves_works) (simp_all add: HttpHandler_Accepted_def)
  ultimately show ?thesis by (rule moves_trans)
next
  case (http_receives client now)
  have "client \<noteq> nullptr" using http_receives(1) null by (auto simp: clients_def)
  from http_received_moves[OF this http_receives(1,2)] show ?thesis by (simp add: same)
next
  case (http_closes client)
  then show ?thesis by (rule drop_http_moves)
next
  case (notifies uid dev msg e)
  then show ?thesis using notification_quiet[OF notifies] by (intro hquiet_moves) simp
qed

lemma process_step_moves:
  assumes same: "he_bson H = env_bson E" "he_lib H = env_lib E" "he_mongo H = env_mongo E"
    and step: "process_step E H D s s'" and null: "kind_of s nullptr = None"
  shows "moves (env_bson E) (env_lib E) (env_mongo E) s s'"
  using step
proof (cases rule: process_step_quiet)
  case (serves t)
  have "moves (env_bson E) (env_lib E) (env_mongo E) s t"
    by (rule service_step_moves[OF same serves(1) null])
  moreover have "moves (env_bson E) (env_lib E) (env_mongo E) t s'"
    unfolding serves(2) by (rule dquiet_moves[OF observe_quiet])
  ultimately show ?thesis by (rule moves_trans)
next
  case (accepts p b)
  then show ?thesis by (intro moves_works) (simp_all add: accept_daemon_def)
qed (rule dquiet_moves)

lemma process_steps_moves:
  assumes same: "he_bson H = env_bson E" "he_lib H = env_lib E" "he_mongo H = env_mongo E"
    and run: "(process_step E H D)\<^sup>*\<^sup>* s s'" and null: "kind_of s nullptr = None"
  shows "moves (env_bson E) (env_lib E) (env_mongo E) s s'"
  using run
proof (induction rule: rtranclp_induct)
  case (step t u)
  from moves_trans[OF step(3) process_step_moves[OF same step(2) moves_null[OF step(3) null]]] show ?case .
qed (rule moves_refl)

lemma exclusive_threads_inv:
  assumes "session_inv s" and "exclusive s"
  shows "threads_inv no_logins s"
proof (rule threads_invI)
  fix k p q a b
  assume "holds no_logins s k p a" "holds no_logins s k q b" "same_device a b"
  then have "p \<in> online s" "q \<in> online s" "identity_of s p = a" "identity_of s q = b" "same_device a b"
    by (auto simp: holds_def online_def identity_of_def)
  then show "p = q" using inj_onD[OF assms(2)[unfolded exclusive_def], of p q] by (simp add: same_device_def)
qed (use assms in simp_all)

section \<open>Properties\<close>

text \<open>
  C7: The critical sections cover the program.  Every run of the whole process, events of both
  servers and of the daemons run one after the other by the handlers of the code, is a run of the
  sections, whatever the clients send and however often they log in.  From every state that such a
  run reaches without registering a connection again that is logged in, each interleaving of the
  sections of the two threads that does not do so either keeps the limits of \<open>threads_inv\<close>: the
  registry has exactly the live sessions, a login under way has a live client, and no device of a
  user is held twice at one server.
\<close>

theorem runs_are_sections:
  assumes B: "bson_laws (env_bson E)" and same: "he_bson H = env_bson E" "he_lib H = env_lib E" "he_mongo H = env_mongo E"
    and start: "start = fst (ConnectToDatabase DB url name lazy (ProcessSlaveWrapper_new D R w e store))"
  shows "((process_step E H D)\<^sup>*\<^sup>* start s \<longrightarrow>
      (section_step (env_bson E) (env_lib E) (env_mongo E))\<^sup>*\<^sup>* (\<lambda>_. None, start) (\<lambda>_. None, s)) \<and>
    ((single_logins (process_step E H D))\<^sup>*\<^sup>* start s \<longrightarrow>
      (\<forall>pd t. (single_section (env_bson E) (env_lib E) (env_mongo E))\<^sup>*\<^sup>* (\<lambda>_. None, s) (pd, t) \<longrightarrow>
         threads_inv pd t))"
proof -
  have BH: "bson_laws (he_bson H)" using B same by simp
  have "heap start = Map.empty" by (simp add: start ConnectToDatabase_sel ProcessSlaveWrapper_new_sel)
  then have null: "kind_of start nullptr = None" by (simp add: kind_of_def)
  have "moves (env_bson E) (env_lib E) (env_mongo E) start s" if "(process_step E H D)\<^sup>*\<^sup>* start s"
    by (rule process_steps_moves[OF same that null])
  moreover have "threads_inv pd t"
    if "(single_logins (process_step E H D))\<^sup>*\<^sup>* start s"
      "(single_section (env_bson E) (env_lib E) (env_mongo E))\<^sup>*\<^sup>* (no_logins, s) (pd, t)" for pd t
  proof -
    have "process_inv D s" by (rule process_reached[OF B BH that(1)[unfolded start]])
    then have "threads_inv no_logins s"
      by (intro exclusive_threads_inv) (auto simp: process_inv_def service_inv_def books_inv_def observed_inv_def)
    then show ?thesis using section_steps_inv[OF B that(2)] by simp
  qed
  ultimately show ?thesis by (simp add: moves_def)
qed

theorem runs_are_sections_witness:
  "\<exists>s. (single_logins (process_step sample_env sample_http_env sample_denv))\<^sup>*\<^sup>* sample_process s \<and>
     view s (Addr 7) = Some None \<and> threads_inv (\<lambda>_. None) s \<and>
     (section_step (env_bson sample_env) (env_lib sample_env) (env_mongo sample_env))\<^sup>*\<^sup>*
       (\<lambda>_. None, sample_process) (\<lambda>_. None, s)"
proof -
  let ?step = "process_step sample_env sample_http_env sample_denv"
  let ?t = "Accepted (SubscribersServer_CreateClient (env_lib sample_env) (Addr 7) sample_process)"
  let ?s = "observe sample_denv sample_process ?t"
  have "view sample_process (Addr 7) = None"
    by (simp add: view_def sample_process_def ConnectToDatabase_sel ProcessSlaveWrapper_new_sel)
  then have "serve sample_env sample_process ?t" by (intro serve.accepts) simp_all
  from process_step.serves[OF service_step.subscribers[OF this]] have step: "?step sample_process ?s" .
  have s: "view ?s = view ?t" "connections ?s = connections ?t"
    using observe_quiet[of sample_denv ?t sample_process] by (simp_all add: dquiet_def)
  then have once: "single_logins ?step sample_process ?s"
    by (intro single_step[OF step]) (simp add: Accepted_def alloc_client_def)
  have run: "?step\<^sup>*\<^sup>* sample_process ?s" "(single_logins ?step)\<^sup>*\<^sup>* sample_process ?s"
    using r_into_rtranclp[of ?step, OF step] r_into_rtranclp[of "single_logins ?step", OF once] by blast+
  have "view ?t (Addr 7) = Some None"
    by (simp add: view_def Accepted_def alloc_client_def SubscriberInfo_new_def)
  then show ?thesis
    using runs_are_sections[OF _ _ _ _ sample_process_def, of sample_env sample_http_env ?s] run s(1)
    by (intro exI[of _ ?s]) (simp add: sample_bson_laws)
qed

end
